(* ===== verification/Prelude.thy ===== *)
theory Prelude
  imports Main "HOL-Library.AList" "HOL-Library.Char_ord" "HOL-Library.List_Lexorder"
begin

text \<open>
  What every component of the operator shares: Go's error values and the three ways a
  Go call can end (a value, an error, a panic), the state-passing programs the
  handlers are written in with the rules that compose facts about them, Go's
  byte-string functions of the packages \<open>strings\<close> and \<open>bytes\<close> and the string maps
  that hold labels and annotations.
\<close>

named_theorems prog_defs \<open>the operations of programs, unfolded\<close>
named_theorems keeps_intros \<open>introduction rules of \<open>keeps\<close>\<close>

section \<open>Errors\<close>

text \<open>
  An error is its message and the sentinels \<open>errors.Is\<close> or \<open>errors.As\<close> finds on its
  chain. \<open>fmt.Errorf\<close> with \<open>%w\<close> puts text before the message and keeps the chain.
\<close>

datatype err_kind =
    KNotFound                 \<comment> \<open>\<open>apierrors.IsNotFound\<close>\<close>
  | KConflict                 \<comment> \<open>\<open>apierrors.IsConflict\<close>\<close>
  | KKindUnavailable          \<comment> \<open>no REST mapping for the kind, or the kind is not registered\<close>
  | KEmptyTriggerTemplate     \<comment> \<open>\<open>tektoncd.ErrEmptyTriggerTemplateResources\<close>\<close>
  | KLastTagNotFound          \<comment> \<open>\<open>autodeploy.ErrLasTagNotFound\<close>\<close>
  | KImageStreamNotFound      \<comment> \<open>\<open>codebaseimagestream.ErrCodebaseImageStreamNotFound\<close>\<close>
  | KBranchReconcile          \<comment> \<open>\<open>util.CodebaseBranchReconcileError\<close>\<close>
  | KJobFailed                \<comment> \<open>\<open>service.ErrJobFailed\<close>\<close>
  | KReferenceNotFound        \<comment> \<open>\<open>git.ErrReferenceNotFound\<close>\<close>
  | KApiNotSupported          \<comment> \<open>\<open>gitprovider.ErrApiNotSupported\<close>\<close>
  | KWebHookNotFound          \<comment> \<open>\<open>gitprovider.ErrWebHookNotFound\<close>\<close>
  | KJiraNotFound             \<comment> \<open>\<open>jira.ErrNotFound\<close>\<close>
  | KForbidden "(string \<times> string) list"
      \<comment> \<open>an \<open>apierrors.StatusError\<close> with the reason Forbidden, with its causes: field, message\<close>
  | KEmptyRemoteRepository    \<comment> \<open>\<open>transport.ErrEmptyRemoteRepository\<close>\<close>
  | KRepositoryNotFound       \<comment> \<open>\<open>transport.ErrRepositoryNotFound\<close>\<close>
  | KAlreadyUpToDate          \<comment> \<open>\<open>git.NoErrAlreadyUpToDate\<close>\<close>
  | KRemoteNotFound           \<comment> \<open>\<open>git.ErrRemoteNotFound\<close>\<close>
  | KRefNotFound              \<comment> \<open>\<open>plumbing.ErrReferenceNotFound\<close>\<close>
  | KHostKeyRevoked           \<comment> \<open>\<open>knownhosts.RevokedError\<close>\<close>
  | KHostKeyMismatch          \<comment> \<open>\<open>knownhosts.KeyError\<close> that wanted other keys\<close>
  | KHostKeyUnknown           \<comment> \<open>\<open>knownhosts.KeyError\<close> that knew no key\<close>

datatype gerr = GErr (err_msg: string) (err_kinds: "err_kind list")

definition errors_is :: "gerr \<Rightarrow> err_kind \<Rightarrow> bool" where
  "errors_is e k \<longleftrightarrow> k \<in> set (err_kinds e)"

definition errorf :: "string \<Rightarrow> gerr" where
  "errorf msg = GErr msg []"

definition wrap_err :: "string \<Rightarrow> gerr \<Rightarrow> gerr" where
  "wrap_err pre e = GErr (pre @ '': '' @ err_msg e) (err_kinds e)"

text \<open>\<open>errors.Join\<close> of the errors that are not nil: one message a line.\<close>

definition join_errs :: "gerr list \<Rightarrow> gerr option" where
  "join_errs es = (if es = [] then None
     else Some (GErr (concat (map (\<lambda>e. err_msg e @ [CHR 0x0A]) (butlast es)) @ err_msg (last es))
                  (concat (map err_kinds es))))"

lemma err_msg_wrap [simp]: "err_msg (wrap_err pre e) = pre @ '': '' @ err_msg e"
  by (simp add: wrap_err_def)

lemma errors_is_wrap [simp]: "errors_is (wrap_err pre e) k = errors_is e k"
  by (simp add: errors_is_def wrap_err_def)

lemma errors_is_GErr [simp]: "errors_is (GErr m ks) k \<longleftrightarrow> k \<in> set ks"
  by (simp add: errors_is_def)

lemma errors_is_errorf [simp]: "\<not> errors_is (errorf m) k"
  by (simp add: errors_is_def errorf_def)

section \<open>Programs\<close>

text \<open>
  A Go call that can fail ends with a value, with a non-nil error, or with a panic. A
  program passes a state along: what it changed before it failed stays changed, as with
  the pointers of the source.
\<close>

datatype 'a outcome = Ok 'a | Fail gerr | Panic string

type_synonym ('s, 'a) prog = "'s \<Rightarrow> 'a outcome \<times> 's"

definition ret :: "'a \<Rightarrow> ('s, 'a) prog" where
  "ret x s = (Ok x, s)"

definition throw :: "gerr \<Rightarrow> ('s, 'a) prog" where
  "throw e s = (Fail e, s)"

definition panic :: "string \<Rightarrow> ('s, 'a) prog" where
  "panic m s = (Panic m, s)"

text \<open>\<open>bindp m f\<close>: run \<open>m\<close>; \<open>if err != nil \<open>{\<close> return err \<open>}\<close>\<close>; go on with \<open>f\<close>.\<close>

definition bindp :: "('s, 'a) prog \<Rightarrow> ('a \<Rightarrow> ('s, 'b) prog) \<Rightarrow> ('s, 'b) prog" where
  "bindp m f s =
     (case m s of
        (Ok x, t) \<Rightarrow> f x t
      | (Fail e, t) \<Rightarrow> (Fail e, t)
      | (Panic p, t) \<Rightarrow> (Panic p, t))"

text \<open>\<open>catchp m h\<close>: run \<open>m\<close>; \<open>if err != nil \<open>{\<close> h(err) \<open>}\<close>\<close>. A panic is not caught.\<close>

definition catchp :: "('s, 'a) prog \<Rightarrow> (gerr \<Rightarrow> ('s, 'a) prog) \<Rightarrow> ('s, 'a) prog" where
  "catchp m h s =
     (case m s of
        (Ok x, t) \<Rightarrow> (Ok x, t)
      | (Fail e, t) \<Rightarrow> h e t
      | (Panic p, t) \<Rightarrow> (Panic p, t))"

text \<open>\<open>attempt m\<close>: the error as a value, for callers that inspect or ignore it.\<close>

definition attempt :: "('s, 'a) prog \<Rightarrow> ('s, gerr + 'a) prog" where
  "attempt m = catchp (bindp m (\<lambda>x. ret (Inr x))) (\<lambda>e. ret (Inl e))"

definition wrapping :: "string \<Rightarrow> ('s, 'a) prog \<Rightarrow> ('s, 'a) prog" where
  "wrapping pre m = catchp m (\<lambda>e. throw (wrap_err pre e))"

definition gets :: "('s \<Rightarrow> 'a) \<Rightarrow> ('s, 'a) prog" where
  "gets f s = (Ok (f s), s)"

definition modify :: "('s \<Rightarrow> 's) \<Rightarrow> ('s, unit) prog" where
  "modify f s = (Ok (), f s)"

text \<open>A \<open>for\<close> loop over a slice whose body may return early with an error.\<close>

fun for_each :: "'a list \<Rightarrow> ('a \<Rightarrow> ('s, unit) prog) \<Rightarrow> ('s, unit) prog" where
  "for_each [] f = ret ()"
| "for_each (x # xs) f = bindp (f x) (\<lambda>_. for_each xs f)"

text \<open>The same loop with an accumulator.\<close>

fun fold_each :: "'a list \<Rightarrow> ('a \<Rightarrow> 'b \<Rightarrow> ('s, 'b) prog) \<Rightarrow> 'b \<Rightarrow> ('s, 'b) prog" where
  "fold_each [] f b = ret b"
| "fold_each (x # xs) f b = bindp (f x b) (\<lambda>b'. fold_each xs f b')"

lemma ret_run [simp, prog_defs]: "ret x s = (Ok x, s)"
  by (simp add: ret_def)

lemma throw_run [simp, prog_defs]: "throw e s = (Fail e, s)"
  by (simp add: throw_def)

lemma panic_run [simp, prog_defs]: "panic m s = (Panic m, s)"
  by (simp add: panic_def)

lemma gets_run [simp, prog_defs]: "gets f s = (Ok (f s), s)"
  by (simp add: gets_def)

lemma modify_run [simp, prog_defs]: "modify f s = (Ok (), f s)"
  by (simp add: modify_def)

lemma bindp_run [prog_defs]:
  "bindp m f s = (case fst (m s) of Ok x \<Rightarrow> f x (snd (m s))
     | Fail e \<Rightarrow> (Fail e, snd (m s)) | Panic p \<Rightarrow> (Panic p, snd (m s)))"
  by (cases "m s") (auto simp: bindp_def split: outcome.split)

lemma catchp_run [prog_defs]:
  "catchp m h s = (case fst (m s) of Ok x \<Rightarrow> (Ok x, snd (m s))
     | Fail e \<Rightarrow> h e (snd (m s)) | Panic p \<Rightarrow> (Panic p, snd (m s)))"
  by (cases "m s") (auto simp: catchp_def split: outcome.split)

lemma bindp_ret [simp]: "bindp (ret x) f = f x"
  by (rule ext) (simp add: bindp_def)

lemma bindp_gets [simp]: "bindp (gets g) f s = f (g s) s"
  by (simp add: bindp_def)

lemma bindp_modify [simp]: "bindp (modify g) f s = f () (g s)"
  by (simp add: bindp_def)

lemma bindp_throw [simp]: "bindp (throw e) f = throw e"
  by (rule ext) (simp add: bindp_def)

lemma bindp_panic [simp]: "bindp (panic m) f = panic m"
  by (rule ext) (simp add: bindp_def)

lemma bindp_assoc: "bindp (bindp m f) g = bindp m (\<lambda>x. bindp (f x) g)"
  by (rule ext) (auto simp: bindp_def split: prod.split outcome.split)

lemma wrapping_run:
  "wrapping pre m s = (case fst (m s) of Ok x \<Rightarrow> (Ok x, snd (m s))
     | Fail e \<Rightarrow> (Fail (wrap_err pre e), snd (m s)) | Panic p \<Rightarrow> (Panic p, snd (m s)))"
  by (simp add: wrapping_def catchp_run split: outcome.split)

lemma attempt_run:
  "attempt m s = (case fst (m s) of Ok x \<Rightarrow> (Ok (Inr x), snd (m s))
     | Fail e \<Rightarrow> (Ok (Inl e), snd (m s)) | Panic p \<Rightarrow> (Panic p, snd (m s)))"
  by (simp add: attempt_def catchp_run bindp_run split: outcome.split)

lemma bindp_attempt_run:
  "bindp (attempt m) f s = (case fst (m s) of Ok x \<Rightarrow> f (Inr x) (snd (m s))
     | Fail e \<Rightarrow> f (Inl e) (snd (m s)) | Panic p \<Rightarrow> (Panic p, snd (m s)))"
  by (cases "fst (m s)") (simp_all add: bindp_run attempt_run)

lemma wrapping_Ok_iff: "fst (wrapping pre m s) = Ok x \<longleftrightarrow> fst (m s) = Ok x"
  by (simp add: wrapping_run split: outcome.split)

lemma wrapping_state [simp]: "snd (wrapping pre m s) = snd (m s)"
  by (simp add: wrapping_run split: outcome.split)

lemmas prog_runs = bindp_run catchp_run wrapping_run attempt_run

subsection \<open>What a program keeps\<close>

text \<open>
  \<open>keeps P m\<close>: whatever way \<open>m\<close> ends, \<open>P\<close> holds after it if it held before it.
  \<open>triple P m Q\<close> says more: \<open>Q\<close> relates the outcome and the state \<open>m\<close> ends in.
\<close>

definition keeps :: "('s \<Rightarrow> bool) \<Rightarrow> ('s, 'a) prog \<Rightarrow> bool" where
  "keeps P m \<longleftrightarrow> (\<forall>s. P s \<longrightarrow> P (snd (m s)))"

definition triple :: "('s \<Rightarrow> bool) \<Rightarrow> ('s, 'a) prog \<Rightarrow> ('a outcome \<Rightarrow> 's \<Rightarrow> bool) \<Rightarrow> bool" where
  "triple P m Q \<longleftrightarrow> (\<forall>s. P s \<longrightarrow> Q (fst (m s)) (snd (m s)))"

lemma keepsD: "keeps P m \<Longrightarrow> P s \<Longrightarrow> P (snd (m s))"
  by (simp add: keeps_def)

lemma keepsI: "(\<And>s. P s \<Longrightarrow> P (snd (m s))) \<Longrightarrow> keeps P m"
  by (simp add: keeps_def)

lemma tripleD: "triple P m Q \<Longrightarrow> P s \<Longrightarrow> Q (fst (m s)) (snd (m s))"
  by (simp add: triple_def)

lemma tripleI: "(\<And>s. P s \<Longrightarrow> Q (fst (m s)) (snd (m s))) \<Longrightarrow> triple P m Q"
  by (simp add: triple_def)

lemma keeps_ret [keeps_intros]: "keeps P (ret x)"
  by (simp add: keeps_def)

lemma keeps_throw [keeps_intros]: "keeps P (throw e)"
  by (simp add: keeps_def)

lemma keeps_panic [keeps_intros]: "keeps P (panic p)"
  by (simp add: keeps_def)

lemma keeps_gets [keeps_intros]: "keeps P (gets f)"
  by (simp add: keeps_def)

lemma keeps_modify: "(\<And>s. P s \<Longrightarrow> P (f s)) \<Longrightarrow> keeps P (modify f)"
  by (simp add: keeps_def)

lemma keeps_bindp [keeps_intros]:
  "keeps P m \<Longrightarrow> (\<And>x. keeps P (f x)) \<Longrightarrow> keeps P (bindp m f)"
  by (auto simp: keeps_def bindp_run split: outcome.split)

lemma keeps_catchp [keeps_intros]:
  "keeps P m \<Longrightarrow> (\<And>e. keeps P (h e)) \<Longrightarrow> keeps P (catchp m h)"
  by (auto simp: keeps_def catchp_run split: outcome.split)

lemma keeps_wrapping [keeps_intros]: "keeps P m \<Longrightarrow> keeps P (wrapping pre m)"
  by (simp add: wrapping_def keeps_catchp keeps_throw)

lemma keeps_attempt [keeps_intros]: "keeps P m \<Longrightarrow> keeps P (attempt m)"
  by (simp add: attempt_def keeps_catchp keeps_bindp keeps_ret)

lemma keeps_if [keeps_intros]:
  "(b \<Longrightarrow> keeps P m) \<Longrightarrow> (\<not> b \<Longrightarrow> keeps P n) \<Longrightarrow> keeps P (if b then m else n)"
  by simp

lemma keeps_case_option [keeps_intros]:
  "(x = None \<Longrightarrow> keeps P m) \<Longrightarrow> (\<And>y. x = Some y \<Longrightarrow> keeps P (f y)) \<Longrightarrow>
   keeps P (case x of None \<Rightarrow> m | Some y \<Rightarrow> f y)"
  by (cases x) auto

lemma keeps_case_sum [keeps_intros]:
  "(\<And>e. x = Inl e \<Longrightarrow> keeps P (m e)) \<Longrightarrow> (\<And>y. x = Inr y \<Longrightarrow> keeps P (f y)) \<Longrightarrow>
   keeps P (case x of Inl e \<Rightarrow> m e | Inr y \<Rightarrow> f y)"
  by (cases x) auto

lemma keeps_case_prod [keeps_intros]:
  "(\<And>a b. x = (a, b) \<Longrightarrow> keeps P (f a b)) \<Longrightarrow> keeps P (case x of (a, b) \<Rightarrow> f a b)"
  by (cases x) auto

lemma keeps_case_list [keeps_intros]:
  "(x = [] \<Longrightarrow> keeps P m) \<Longrightarrow> (\<And>y ys. x = y # ys \<Longrightarrow> keeps P (f y ys)) \<Longrightarrow>
   keeps P (case x of [] \<Rightarrow> m | y # ys \<Rightarrow> f y ys)"
  by (cases x) auto

lemma keeps_for_each [keeps_intros]:
  "(\<And>x. x \<in> set xs \<Longrightarrow> keeps P (f x)) \<Longrightarrow> keeps P (for_each xs f)"
  by (induction xs) (auto intro: keeps_intros)

lemma keeps_fold_each [keeps_intros]:
  "(\<And>x b. x \<in> set xs \<Longrightarrow> keeps P (f x b)) \<Longrightarrow> keeps P (fold_each xs f b)"
  by (induction xs arbitrary: b) (auto intro: keeps_intros)

text \<open>A rule for what a loop with an accumulator establishes.\<close>

lemma fold_each_invariant:
  assumes "fst (fold_each xs f b s) = Ok r" and "I b"
    and "\<And>x b s b'. x \<in> set xs \<Longrightarrow> I b \<Longrightarrow> fst (f x b s) = Ok b' \<Longrightarrow> I b'"
  shows "I r"
  using assms
proof (induction xs arbitrary: b s)
  case Nil
  then show ?case by simp
next
  case (Cons x xs)
  from Cons.prems(1) obtain b' where b': "fst (f x b s) = Ok b'"
    and rest: "fst (fold_each xs f b' (snd (f x b s))) = Ok r"
    by (auto simp: bindp_run split: outcome.splits)
  have "I b'" using Cons.prems(3) [OF _ Cons.prems(2) b'] by simp
  with rest show ?case by (rule Cons.IH) (use Cons.prems(3) in auto)
qed

lemma triple_bindp:
  assumes "triple P m R"
    and "\<And>x. triple (R (Ok x)) (f x) Q"
    and "\<And>e s. R (Fail e) s \<Longrightarrow> Q (Fail e) s"
    and "\<And>p s. R (Panic p) s \<Longrightarrow> Q (Panic p) s"
  shows "triple P (bindp m f) Q"
  using assms by (fastforce simp: triple_def bindp_run split: outcome.split)

text \<open>What holds when a program ends with the value \<open>y\<close>.\<close>

definition on_Ok :: "('s \<Rightarrow> bool) \<Rightarrow> ('s, 'a) prog \<Rightarrow> ('a \<Rightarrow> 's \<Rightarrow> bool) \<Rightarrow> bool" where
  "on_Ok P m Q \<longleftrightarrow> triple P m (\<lambda>r s. \<forall>y. r = Ok y \<longrightarrow> Q y s)"

lemma on_OkD: "on_Ok P m Q \<Longrightarrow> P s \<Longrightarrow> fst (m s) = Ok y \<Longrightarrow> Q y (snd (m s))"
  by (simp add: on_Ok_def triple_def)

lemma on_OkI: "(\<And>s y. P s \<Longrightarrow> fst (m s) = Ok y \<Longrightarrow> Q y (snd (m s))) \<Longrightarrow> on_Ok P m Q"
  by (simp add: on_Ok_def triple_def)

lemma on_Ok_bindp:
  "on_Ok P m R \<Longrightarrow> (\<And>x. on_Ok (R x) (f x) Q) \<Longrightarrow> on_Ok P (bindp m f) Q"
  by (fastforce simp: on_Ok_def triple_def bindp_run split: outcome.splits)

lemma on_Ok_after:
  "keeps P m \<Longrightarrow> (\<And>x. on_Ok P (f x) Q) \<Longrightarrow> on_Ok P (bindp m f) Q"
  by (rule on_Ok_bindp [where R = "\<lambda>_. P"]) (auto simp: on_Ok_def triple_def keeps_def)

lemma on_Ok_if:
  "(b \<Longrightarrow> on_Ok P m Q) \<Longrightarrow> (\<not> b \<Longrightarrow> on_Ok P n Q) \<Longrightarrow> on_Ok P (if b then m else n) Q"
  by simp

lemma on_Ok_pre: "on_Ok P m Q \<Longrightarrow> (\<And>s. P' s \<Longrightarrow> P s) \<Longrightarrow> on_Ok P' m Q"
  by (simp add: on_Ok_def triple_def)

lemma on_Ok_ret: "(\<And>s. P s \<Longrightarrow> Q x s) \<Longrightarrow> on_Ok P (ret x) Q"
  by (rule on_OkI) simp

lemma on_Ok_wrapping [simp]: "on_Ok P (wrapping pre m) Q = on_Ok P m Q"
  by (simp add: on_Ok_def triple_def wrapping_Ok_iff)

lemma triple_weaken:
  "triple P m Q \<Longrightarrow> (\<And>s. P' s \<Longrightarrow> P s) \<Longrightarrow> (\<And>r s. Q r s \<Longrightarrow> Q' r s) \<Longrightarrow> triple P' m Q'"
  by (simp add: triple_def)

section \<open>Byte strings\<close>

text \<open>
  A Go string is a byte string, as \<open>string\<close> is here. The case functions map the ASCII
  letters only, which is all they meet in Kubernetes names, git paths and settings.
\<close>

definition has_prefix :: "string \<Rightarrow> string \<Rightarrow> bool" where
  "has_prefix p s \<longleftrightarrow> take (length p) s = p"

definition has_suffix :: "string \<Rightarrow> string \<Rightarrow> bool" where
  "has_suffix p s \<longleftrightarrow> has_prefix (rev p) (rev s)"

definition trim_prefix :: "string \<Rightarrow> string \<Rightarrow> string" where
  "trim_prefix p s = (if has_prefix p s then drop (length p) s else s)"

definition trim_suffix :: "string \<Rightarrow> string \<Rightarrow> string" where
  "trim_suffix p s = (if has_suffix p s then take (length s - length p) s else s)"

fun str_contains :: "string \<Rightarrow> string \<Rightarrow> bool" where
  "str_contains p [] \<longleftrightarrow> p = []"
| "str_contains p (c # cs) \<longleftrightarrow> has_prefix p (c # cs) \<or> str_contains p cs"

text \<open>\<open>ReplaceAll\<close> with a non-empty pattern: leftmost, non-overlapping.\<close>

function replace_all :: "string \<Rightarrow> string \<Rightarrow> string \<Rightarrow> string" where
  "replace_all old new [] = []"
| "replace_all old new (c # cs) =
     (if old \<noteq> [] \<and> has_prefix old (c # cs)
      then new @ replace_all old new (drop (length old - 1) cs)
      else c # replace_all old new cs)"
  by pat_completeness auto
termination
  by (relation "measure (\<lambda>(old, new, s). length s)") auto

text \<open>\<open>Count\<close> with a non-empty pattern: non-overlapping occurrences.\<close>

function str_count :: "string \<Rightarrow> string \<Rightarrow> nat" where
  "str_count p [] = 0"
| "str_count p (c # cs) =
     (if p \<noteq> [] \<and> has_prefix p (c # cs)
      then Suc (str_count p (drop (length p - 1) cs))
      else str_count p cs)"
  by pat_completeness auto
termination
  by (relation "measure (\<lambda>(p, s). length s)") auto

text \<open>\<open>Split\<close> with a separator of one byte; never empty.\<close>

fun split_on :: "char \<Rightarrow> string \<Rightarrow> string list" where
  "split_on c [] = [[]]"
| "split_on c (x # xs) =
     (if x = c then [] # split_on c xs
      else (case split_on c xs of [] \<Rightarrow> [[x]] | w # ws \<Rightarrow> (x # w) # ws))"

fun str_join :: "string \<Rightarrow> string list \<Rightarrow> string" where
  "str_join sep [] = []"
| "str_join sep [x] = x"
| "str_join sep (x # y # ys) = x @ sep @ str_join sep (y # ys)"

definition lower_char :: "char \<Rightarrow> char" where
  "lower_char c = (let n = (of_char c :: nat) in if 65 \<le> n \<and> n \<le> 90 then char_of (n + 32) else c)"

definition to_lower :: "string \<Rightarrow> string" where
  "to_lower s = map lower_char s"

text \<open>
  \<open>strings.EqualFold\<close> folds letters outside ASCII too. Two of them fold into ASCII, the long
  \<open>s\<close> (U+017F) and the Kelvin sign (U+212A), so this is the function when one of its
  arguments is ASCII, as in all its uses: constants of the source, hexadecimal hashes, and
  logins of GitHub.
\<close>

fun fold_case :: "string \<Rightarrow> string" where
  "fold_case [] = []"
| "fold_case (c # cs) =
     (if c = CHR 0xC5 \<and> take 1 cs = [CHR 0xBF] then CHR ''s'' # fold_case (drop 1 cs)
      else if c = CHR 0xE2 \<and> take 2 cs = [CHR 0x84, CHR 0xAA] then CHR ''k'' # fold_case (drop 2 cs)
      else lower_char c # fold_case cs)"

definition equal_fold :: "string \<Rightarrow> string \<Rightarrow> bool" where
  "equal_fold s t \<longleftrightarrow> fold_case s = fold_case t"

definition digit_char :: "nat \<Rightarrow> char" where
  "digit_char n = char_of (48 + n mod 10)"

fun nat_digits :: "nat \<Rightarrow> string" where
  "nat_digits n = (if n < 10 then [digit_char n] else nat_digits (n div 10) @ [digit_char n])"

declare nat_digits.simps [simp del]

definition itoa :: "int \<Rightarrow> string" where
  "itoa i = (if i < 0 then CHR ''-'' # nat_digits (nat (- i)) else nat_digits (nat i))"

text \<open>\<open>%q\<close> of a string of printable ASCII bytes.\<close>

definition quoted :: "string \<Rightarrow> string" where
  "quoted s = CHR 0x22 #
     concat (map (\<lambda>c. if c = CHR 0x22 \<or> c = CHR 0x5C then [CHR 0x5C, c] else [c]) s) @ [CHR 0x22]"

definition in_quotes :: "string \<Rightarrow> string" where
  "in_quotes s = CHR 0x27 # s @ [CHR 0x27]"

lemma has_prefix_Nil [simp]: "has_prefix [] s"
  by (simp add: has_prefix_def)

lemma has_prefix_append [simp]: "has_prefix p (p @ s)"
  by (simp add: has_prefix_def)

lemma has_prefix_iff: "has_prefix p s \<longleftrightarrow> (\<exists>t. s = p @ t)"
  by (metis append_eq_conv_conj append_take_drop_id has_prefix_def)

lemma has_suffix_iff: "has_suffix p s \<longleftrightarrow> (\<exists>t. s = t @ p)"
  unfolding has_suffix_def has_prefix_iff by (metis rev_append rev_rev_ident)

lemma has_suffix_append [simp]: "has_suffix p (s @ p)"
  by (auto simp: has_suffix_iff)

lemma has_suffix_length: "has_suffix p s \<Longrightarrow> length p \<le> length s"
  by (auto simp: has_suffix_iff)

lemma trim_suffix_append [simp]: "trim_suffix p (s @ p) = s"
  by (simp add: trim_suffix_def)

lemma trim_suffix_id: "\<not> has_suffix p s \<Longrightarrow> trim_suffix p s = s"
  by (simp add: trim_suffix_def)

lemma trim_prefix_append [simp]: "trim_prefix p (p @ s) = s"
  by (simp add: trim_prefix_def)

lemma split_on_nonempty [simp]: "split_on c s \<noteq> []"
  by (cases s) (auto split: list.split)

lemma split_on_absent: "c \<notin> set s \<Longrightarrow> split_on c s = [s]"
  by (induction s) auto

lemma split_on_append:
  "c \<notin> set s \<Longrightarrow> split_on c (s @ c # t) = s # split_on c t"
  by (induction s) auto

lemma str_join_split_on: "str_join [c] (split_on c s) = s"
proof (induction s)
  case Nil
  show ?case by simp
next
  case (Cons x xs)
  obtain w ws where "split_on c xs = w # ws" by (cases "split_on c xs") auto
  with Cons show ?case by (cases ws) auto
qed

lemma lower_char_idem [simp]: "lower_char (lower_char c) = lower_char c"
  by (auto simp: lower_char_def Let_def)

lemma to_lower_idem [simp]: "to_lower (to_lower s) = to_lower s"
  by (simp add: to_lower_def)

lemma to_lower_append: "to_lower (s @ t) = to_lower s @ to_lower t"
  by (simp add: to_lower_def)

lemma nat_digits_nonempty [simp]: "nat_digits n \<noteq> []"
  by (subst nat_digits.simps) simp

section \<open>Machine integers\<close>

text \<open>Two's complement wrap-around at 64 bits, for \<open>int64\<close> arithmetic.\<close>

definition i64 :: "int \<Rightarrow> int" where
  "i64 x = (x + 2 ^ 63) mod 2 ^ 64 - 2 ^ 63"

lemma i64_id: "- (2 ^ 63) \<le> x \<Longrightarrow> x < 2 ^ 63 \<Longrightarrow> i64 x = x"
  by (simp add: i64_def)

lemma i64_range: "- (2 ^ 63) \<le> i64 x \<and> i64 x < 2 ^ 63"
  by (simp add: i64_def)

section \<open>JSON values\<close>

text \<open>What \<open>encoding/json\<close> decodes into an \<open>interface\<close>; a number is kept as its text.\<close>

datatype json =
    JNull
  | JBool bool
  | JNum string
  | JStr string
  | JArr "json list"
  | JObj "(string \<times> json) list"

section \<open>String maps\<close>

text \<open>
  \<open>map[string]string\<close> as an association list in the order a \<open>range\<close> loop happens to
  take; a lookup of an absent key in Go gives the empty string.
\<close>

type_synonym smap = "(string \<times> string) list"

definition smap_get :: "smap \<Rightarrow> string \<Rightarrow> string" where
  "smap_get m k = (case map_of m k of None \<Rightarrow> [] | Some v \<Rightarrow> v)"

definition smap_put :: "string \<Rightarrow> string \<Rightarrow> smap \<Rightarrow> smap" where
  "smap_put k v m = AList.update k v m"

definition smap_del :: "string \<Rightarrow> smap \<Rightarrow> smap" where
  "smap_del k m = AList.delete k m"

text \<open>Two maps are deeply equal when they hold the same keys with the same values.\<close>

definition smap_eq :: "smap \<Rightarrow> smap \<Rightarrow> bool" where
  "smap_eq m n \<longleftrightarrow> (\<forall>k \<in> set (map fst m) \<union> set (map fst n). map_of m k = map_of n k)"

lemma map_of_smap_put [simp]: "map_of (smap_put k v m) = (map_of m)(k \<mapsto> v)"
  by (simp add: smap_put_def update_conv')

lemma map_of_smap_del [simp]: "map_of (smap_del k m) = (map_of m)(k := None)"
  by (simp add: smap_del_def delete_conv')

lemma smap_get_put [simp]: "smap_get (smap_put k v m) k' = (if k' = k then v else smap_get m k')"
  by (simp add: smap_get_def)

lemma smap_get_del [simp]: "smap_get (smap_del k m) k' = (if k' = k then [] else smap_get m k')"
  by (simp add: smap_get_def)

lemma smap_get_Nil [simp]: "smap_get [] k = []"
  by (simp add: smap_get_def)

lemma smap_eq_iff: "smap_eq m n \<longleftrightarrow> map_of m = map_of n"
proof
  assume eq: "smap_eq m n"
  show "map_of m = map_of n"
  proof (rule ext)
    fix k
    show "map_of m k = map_of n k"
    proof (cases "k \<in> set (map fst m) \<union> set (map fst n)")
      case True
      with eq show ?thesis by (simp only: smap_eq_def) 
    next
      case False
      then have "map_of m k = None" and "map_of n k = None"
        by (auto simp: map_of_eq_None_iff)
      then show ?thesis by simp
    qed
  qed
qed (simp add: smap_eq_def)

end
