(* ===== verification/Api_Types.thy ===== *)
theory Api_Types
  imports Prelude
begin

text \<open>
  The resources of \<open>api/v1\<close> as records, with the methods their types have, and of the
  resources of other projects (CD pipelines, stages, pipeline runs, trigger templates,
  secrets, config maps) the fields this operator reads or writes. A nullable pointer is
  an \<open>option\<close>, a time is the number of nanoseconds since Go's zero time, so that
  \<open>0\<close> is the zero \<open>time.Time\<close>, and the constants of the source are abbreviations.
\<close>

section \<open>Object metadata\<close>

record owner_ref =
  or_kind :: string
  or_name :: string
  or_controller :: bool

text \<open>\<open>m_labels\<close> tells a nil label map from an empty one, which the source asks about.\<close>

record objmeta =
  m_name :: string
  m_ns :: string
  m_labels :: "smap option"
  m_annotations :: smap
  m_created :: int
  m_deletion :: "int option"
  m_finalizers :: "string list"
  m_generation :: int
  m_owners :: "owner_ref list"

definition labels_of :: "objmeta \<Rightarrow> smap" where
  "labels_of m = (case m_labels m of None \<Rightarrow> [] | Some l \<Rightarrow> l)"

text \<open>\<open>(*Time).IsZero\<close>: a nil pointer and the zero time.\<close>

definition is_zero_time :: "int option \<Rightarrow> bool" where
  "is_zero_time t \<longleftrightarrow> t = None \<or> t = Some 0"

definition new_meta :: "string \<Rightarrow> string \<Rightarrow> objmeta" where
  "new_meta name ns = \<lparr>m_name = name, m_ns = ns, m_labels = None, m_annotations = [],
     m_created = 0, m_deletion = None, m_finalizers = [], m_generation = 0, m_owners = []\<rparr>"

section \<open>Labels and annotations\<close>

abbreviation CdPipelineLabel :: string where "CdPipelineLabel \<equiv> ''app.edp.epam.com/cdpipeline''"
abbreviation CdStageLabel :: string where "CdStageLabel \<equiv> ''app.edp.epam.com/cdstage''"
abbreviation CdStageDeployLabel :: string where
  "CdStageDeployLabel \<equiv> ''app.edp.epam.com/cdstagedeploy''"
abbreviation CodebaseBranchLabel :: string where
  "CodebaseBranchLabel \<equiv> ''app.edp.epam.com/codebasebranch''"
abbreviation CodebaseLabel :: string where "CodebaseLabel \<equiv> ''app.edp.epam.com/codebase''"
abbreviation BranchHashLabel :: string where "BranchHashLabel \<equiv> ''app.edp.epam.com/branch-hash''"
abbreviation GitUrlPathHashLabel :: string where
  "GitUrlPathHashLabel \<equiv> ''app.edp.epam.com/gitUrlPathHash''"
abbreviation GitServerLabel :: string where "GitServerLabel \<equiv> ''app.edp.epam.com/gitServer''"
abbreviation StaleLabel :: string where "StaleLabel \<equiv> ''app.edp.epam.com/stale''"
abbreviation BranchCleanupStrategyAnnotation :: string where
  "BranchCleanupStrategyAnnotation \<equiv> ''app.edp.epam.com/branch-cleanup-strategy''"
abbreviation BranchCleanupStrategyAuto :: string where "BranchCleanupStrategyAuto \<equiv> ''auto''"
abbreviation GitLabCITemplateAnnotation :: string where
  "GitLabCITemplateAnnotation \<equiv> ''app.edp.epam.com/gitlab-ci-template''"

section \<open>CDStageDeploy\<close>

abbreviation CDStageDeployStatusFailed :: string where "CDStageDeployStatusFailed \<equiv> ''failed''"
abbreviation CDStageDeployStatusRunning :: string where "CDStageDeployStatusRunning \<equiv> ''running''"
abbreviation CDStageDeployStatusPending :: string where "CDStageDeployStatusPending \<equiv> ''pending''"
abbreviation CDStageDeployStatusInQueue :: string where "CDStageDeployStatusInQueue \<equiv> ''in-queue''"
abbreviation CDStageDeployStatusCompleted :: string where
  "CDStageDeployStatusCompleted \<equiv> ''completed''"

record codebase_tag =
  ctag_codebase :: string
  ctag_tag :: string
  ctag_digest :: string

record cd_stage_deploy_spec =
  sd_pipeline :: string
  sd_stage :: string
  sd_tag :: codebase_tag
  sd_tags :: "codebase_tag list"
  sd_triggerType :: string

record cd_stage_deploy_status =
  sdt_status :: string
  sdt_message :: string

record cd_stage_deploy =
  sd_meta :: objmeta
  sd_generateName :: string
  sd_spec :: cd_stage_deploy_spec
  sd_status :: cd_stage_deploy_status

abbreviation status_of :: "cd_stage_deploy \<Rightarrow> string" where
  "status_of d \<equiv> sdt_status (sd_status d)"

definition set_deploy_status :: "string \<Rightarrow> cd_stage_deploy \<Rightarrow> cd_stage_deploy" where
  "set_deploy_status x d = d\<lparr>sd_status := (sd_status d)\<lparr>sdt_status := x\<rparr>\<rparr>"

definition SetFailedStatus :: "gerr \<Rightarrow> cd_stage_deploy \<Rightarrow> cd_stage_deploy" where
  "SetFailedStatus e d =
     d\<lparr>sd_status := (sd_status d)\<lparr>sdt_status := CDStageDeployStatusFailed, sdt_message := err_msg e\<rparr>\<rparr>"

definition GetStageCRName :: "cd_stage_deploy \<Rightarrow> string" where
  "GetStageCRName d = sd_pipeline (sd_spec d) @ ''-'' @ sd_stage (sd_spec d)"

definition IsPending :: "cd_stage_deploy \<Rightarrow> bool" where
  "IsPending d \<longleftrightarrow> status_of d = CDStageDeployStatusPending"

definition IsInQueue :: "cd_stage_deploy \<Rightarrow> bool" where
  "IsInQueue d \<longleftrightarrow> status_of d = CDStageDeployStatusInQueue"

definition IsFailed :: "cd_stage_deploy \<Rightarrow> bool" where
  "IsFailed d \<longleftrightarrow> status_of d = CDStageDeployStatusFailed"

definition IsCompleted :: "cd_stage_deploy \<Rightarrow> bool" where
  "IsCompleted d \<longleftrightarrow> status_of d = CDStageDeployStatusCompleted"

definition IsRunning :: "cd_stage_deploy \<Rightarrow> bool" where
  "IsRunning d \<longleftrightarrow> status_of d = CDStageDeployStatusRunning"

lemmas deploy_status_defs =
  IsPending_def IsInQueue_def IsFailed_def IsCompleted_def IsRunning_def

lemma set_deploy_status_sel [simp]:
  "status_of (set_deploy_status x d) = x"
  "sd_meta (set_deploy_status x d) = sd_meta d"
  "sd_spec (set_deploy_status x d) = sd_spec d"
  "GetStageCRName (set_deploy_status x d) = GetStageCRName d"
  by (simp_all add: set_deploy_status_def GetStageCRName_def)

lemma SetFailedStatus_sel [simp]:
  "status_of (SetFailedStatus e d) = CDStageDeployStatusFailed"
  "sd_meta (SetFailedStatus e d) = sd_meta d"
  "sd_spec (SetFailedStatus e d) = sd_spec d"
  by (simp_all add: SetFailedStatus_def)

section \<open>CodebaseImageStream\<close>

record image_tag =
  t_name :: string
  t_created :: string
  t_digest :: string

record image_stream_spec =
  is_codebase :: string
  is_imageName :: string
  is_tags :: "image_tag list"

record image_stream =
  is_meta :: objmeta
  is_spec :: image_stream_spec

section \<open>CodebaseBranch\<close>

abbreviation CodebaseBranchGitStatusBranchCreated :: string where
  "CodebaseBranchGitStatusBranchCreated \<equiv> ''branch-created''"
abbreviation ConditionStale :: string where "ConditionStale \<equiv> ''Stale''"
abbreviation ReasonBranchNotFoundInGit :: string where
  "ReasonBranchNotFoundInGit \<equiv> ''BranchNotFoundInGit''"
abbreviation ReasonBranchFoundInGit :: string where
  "ReasonBranchFoundInGit \<equiv> ''BranchFoundInGit''"

record condition =
  cond_type :: string
  cond_status :: string
  cond_reason :: string
  cond_message :: string
  cond_generation :: int
  cond_transition :: int

record branch_spec =
  bs_codebaseName :: string
  bs_branchName :: string
  bs_fromCommit :: string
  bs_version :: "string option"
  bs_release :: bool
  bs_pipelines :: "smap option"

record branch_status =
  bt_lastTimeUpdated :: int
  bt_versionHistory :: "string list"
  bt_lastSuccessfulBuild :: "string option"
  bt_build :: "string option"
  bt_status :: string
  bt_username :: string
  bt_action :: string
  bt_result :: string
  bt_detailedMessage :: string
  bt_value :: string
  bt_failureCount :: int
  bt_git :: string
  bt_conditions :: "condition list"

record branch =
  b_meta :: objmeta
  b_spec :: branch_spec
  b_status :: branch_status

section \<open>Codebase\<close>

abbreviation VersioningTypDefault :: string where "VersioningTypDefault \<equiv> ''default''"
abbreviation VersioningTypeEDP :: string where "VersioningTypeEDP \<equiv> ''edp''"
abbreviation VersioningTypeSemver :: string where "VersioningTypeSemver \<equiv> ''semver''"
abbreviation StrategyCreate :: string where "StrategyCreate \<equiv> ''create''"
abbreviation StrategyClone :: string where "StrategyClone \<equiv> ''clone''"
abbreviation StrategyImport :: string where "StrategyImport \<equiv> ''import''"

abbreviation StatusFailed :: string where "StatusFailed \<equiv> ''failed''"
abbreviation StatusFinished :: string where "StatusFinished \<equiv> ''created''"
abbreviation StatusInit :: string where "StatusInit \<equiv> ''initialized''"
abbreviation StatusInProgress :: string where "StatusInProgress \<equiv> ''in progress''"
abbreviation ProjectPushedStatus :: string where "ProjectPushedStatus \<equiv> ''pushed''"
abbreviation ProjectGitLabCIPushedStatus :: string where
  "ProjectGitLabCIPushedStatus \<equiv> ''gitlab_ci_pushed''"
abbreviation ProjectTemplatesPushedStatus :: string where
  "ProjectTemplatesPushedStatus \<equiv> ''templates_pushed''"
abbreviation ProjectPushInProgressStatus :: string where
  "ProjectPushInProgressStatus \<equiv> ''push_in_progress''"
abbreviation CITekton :: string where "CITekton \<equiv> ''tekton''"
abbreviation CIGitLab :: string where "CIGitLab \<equiv> ''gitlab''"
abbreviation Application :: string where "Application \<equiv> ''application''"
abbreviation ForegroundDeletionFinalizerName :: string where
  "ForegroundDeletionFinalizerName \<equiv> ''foregroundDeletion''"

abbreviation RepositoryProvisioning :: string where
  "RepositoryProvisioning \<equiv> ''repository_provisioning''"
abbreviation SetupDeploymentTemplates :: string where
  "SetupDeploymentTemplates \<equiv> ''setup_deployment_templates''"
abbreviation AcceptCodebaseBranchRegistration :: string where
  "AcceptCodebaseBranchRegistration \<equiv> ''accept_codebase_branch_registration''"
abbreviation CleanData :: string where "CleanData \<equiv> ''clean_data''"
abbreviation ActionPutWebHook :: string where "ActionPutWebHook \<equiv> ''put_web_hook''"
abbreviation ActionPutGitWebRepoUrl :: string where
  "ActionPutGitWebRepoUrl \<equiv> ''put_git_web_repo_url''"
abbreviation PutGitBranch :: string where "PutGitBranch \<equiv> ''put_git_branch''"
abbreviation ActionPutCodebaseImageStream :: string where
  "ActionPutCodebaseImageStream \<equiv> ''put_codebase_image_stream''"
abbreviation CheckCommitHashExists :: string where
  "CheckCommitHashExists \<equiv> ''check_commit_hash_exists''"
abbreviation CIConfiguration :: string where "CIConfiguration \<equiv> ''ci_configuration''"
abbreviation ResultSuccess :: string where "ResultSuccess \<equiv> ''success''"
abbreviation ResultError :: string where "ResultError \<equiv> ''error''"

record clone_credentials =
  cc_secretName :: string
  cc_clearSecretAfterUse :: bool

record codebase_spec =
  cs_lang :: string
  cs_description :: "string option"
  cs_framework :: string
  cs_buildTool :: string
  cs_strategy :: string
  cs_repository :: "string option"  \<comment> \<open>\<open>Repository.Url\<close> behind a nullable pointer\<close>
  cs_testReportFramework :: "string option"
  cs_type :: string
  cs_gitServer :: string
  cs_gitUrlPath :: string
  cs_deploymentScript :: string
  cs_versioningType :: string
  cs_startFrom :: "string option"
  cs_jiraServer :: "string option"
  cs_commitMessagePattern :: "string option"
  cs_ticketNamePattern :: "string option"
  cs_ciTool :: string
  cs_defaultBranch :: string
  cs_jiraIssueMetadataPayload :: "string option"
  cs_emptyProject :: bool
  cs_branchToCopy :: string
  cs_disablePutDeployTemplates :: bool
  cs_private :: bool
  cs_cloneCredentials :: "clone_credentials option"

record codebase_status =
  ct_available :: bool
  ct_lastTimeUpdated :: int
  ct_status :: string
  ct_username :: string
  ct_action :: string
  ct_result :: string
  ct_detailedMessage :: string
  ct_value :: string
  ct_failureCount :: int
  ct_git :: string
  ct_webHookID :: int
  ct_webHookRef :: string
  ct_gitWebUrl :: string

record codebase =
  c_meta :: objmeta
  c_spec :: codebase_spec
  c_status :: codebase_status

definition GetProjectID :: "codebase_spec \<Rightarrow> string" where
  "GetProjectID sp = trim_prefix ''/'' (cs_gitUrlPath sp)"

definition IsVersionTypeSemver :: "codebase_spec \<Rightarrow> bool" where
  "IsVersionTypeSemver sp \<longleftrightarrow>
     cs_versioningType sp = VersioningTypeSemver \<or> cs_versioningType sp = VersioningTypeEDP"

definition GetCloneRepositoryCredentialSecret :: "codebase \<Rightarrow> string" where
  "GetCloneRepositoryCredentialSecret c =
     (let fallback = ''repository-codebase-'' @ m_name (c_meta c) @ ''-temp''
      in case cs_cloneCredentials (c_spec c) of
           None \<Rightarrow> fallback
         | Some cc \<Rightarrow> if cc_secretName cc \<noteq> [] then cc_secretName cc else fallback)"

definition GetWebHookRef :: "codebase_status \<Rightarrow> string" where
  "GetWebHookRef st =
     (if ct_webHookRef st = [] \<and> ct_webHookID st \<noteq> 0 then itoa (ct_webHookID st)
      else ct_webHookRef st)"

section \<open>GitServer, JiraServer\<close>

abbreviation GitProviderGerrit :: string where "GitProviderGerrit \<equiv> ''gerrit''"
abbreviation GitProviderGithub :: string where "GitProviderGithub \<equiv> ''github''"
abbreviation GitProviderGitlab :: string where "GitProviderGitlab \<equiv> ''gitlab''"
abbreviation GitProviderBitbucket :: string where "GitProviderBitbucket \<equiv> ''bitbucket''"

record git_server_spec =
  gs_gitHost :: string
  gs_gitUser :: string
  gs_httpsPort :: int
  gs_sshPort :: int
  gs_nameSshKeySecret :: string
  gs_gitProvider :: string
  gs_skipWebhookSSLVerification :: bool
  gs_webhookUrl :: string
  gs_tektonDisabled :: bool

record git_server_status =
  gst_error :: string
  gst_connected :: bool
  gst_status :: string

record git_server =
  gs_meta :: objmeta
  gs_spec :: git_server_spec
  gs_status :: git_server_status

definition gs_SetFailed :: "string \<Rightarrow> git_server_status \<Rightarrow> git_server_status" where
  "gs_SetFailed e st = st\<lparr>gst_error := e, gst_status := ''failed''\<rparr>"

definition gs_SetSuccess :: "git_server_status \<Rightarrow> git_server_status" where
  "gs_SetSuccess st = st\<lparr>gst_error := [], gst_status := ''ok''\<rparr>"

definition gs_IsSuccess :: "git_server_status \<Rightarrow> bool" where
  "gs_IsSuccess st \<longleftrightarrow> gst_status st = ''ok''"

record jira_server =
  js_meta :: objmeta
  js_apiUrl :: string
  js_credentialName :: string
  jst_available :: bool
  jst_lastTimeUpdated :: int
  jst_status :: string
  jst_detailedMessage :: string

section \<open>JiraIssueMetadata\<close>

text \<open>
  \<open>ErrorStrings\<close> is never stored: it lives as long as the object in hand. A nil slice
  and an empty one are the same to every reader but the last handler of the chain, and
  no code makes an empty one that is not nil.
\<close>

record jira_issue_metadata =
  jm_meta :: objmeta
  jm_codebaseName :: string
  jm_payload :: string
  jm_commits :: "string list"
  jm_tickets :: "string list"
  jmt_lastTimeUpdated :: int
  jmt_status :: string
  jmt_detailedMessage :: string
  jmt_failureCount :: int
  jmt_errorStrings :: "string list"

section \<open>Resources of other projects, as far as the operator reads them\<close>

record secret =
  s_meta :: objmeta
  s_data :: smap

record config_map =
  cm_meta :: objmeta
  cm_data :: smap

record quick_link =
  ql_meta :: objmeta
  ql_url :: string

record pipeline_run =
  pr_meta :: objmeta
  pr_completionTime :: "int option"

record trigger_template =
  tt_meta :: objmeta
  tt_resourceTemplates :: "string list"

record cd_pipeline =
  p_meta :: objmeta
  p_specName :: string
  p_applications :: "string list"
  p_applicationsToPromote :: "string list"
  p_inputDockerStreams :: "string list"

record quality_gate =
  qg_autotestName :: "string option"
  qg_branchName :: "string option"

record cd_stage =
  st_meta :: objmeta
  st_specName :: string
  st_cdPipeline :: string
  st_clusterName :: string
  st_triggerTemplate :: string
  st_triggerType :: string
  st_qualityGates :: "quality_gate list"

text \<open>
  What makes an event listener reachable: the hosts of an \<open>Ingress\<close>'s rules, the
  hostnames of an \<open>HTTPRoute\<close>, the hosts of the status of an OpenShift \<open>Route\<close>.
  \<open>ex_rule\<close> is the rest of the specification the operator writes.
\<close>

datatype exposure_rule =
    IngressRule string string string int            \<comment> \<open>path, path type, service, port\<close>
  | HTTPRouteRule string string string string string int
      \<comment> \<open>gateway, its namespace, path type, path, service, port\<close>
  | RouteRule string string string string string int string string
      \<comment> \<open>host, insecure policy, termination, kind, service, weight, target port, wildcard policy\<close>

record exposure =
  ex_meta :: objmeta
  ex_hosts :: "string list"
  ex_rule :: exposure_rule

text \<open>A Tekton event listener: its metadata and the rest of the unstructured object.\<close>

record event_listener =
  el_meta :: objmeta
  el_object :: json

text \<open>
  \<open>unstructured.Unstructured\<close>: the labels of its metadata (\<open>None\<close> when there are
  none, for which \<open>GetLabels\<close> returns a nil map), the string fields of its \<open>spec\<close>
  (\<open>None\<close> when that is not an object), and the JSON text it was read from.
\<close>

record unstructured =
  u_ns :: string
  u_labels :: "smap option"
  u_spec :: "smap option"
  u_raw :: string

end
