(* ===== verification/Kube.thy ===== *)
theory Kube
  imports Api_Types
begin

text \<open>
  The world the operator acts on: the Kubernetes API through the controller-runtime
  client, git, Gerrit and the git providers' APIs, the file system, the clock. None of
  these is code of this repository, so each is a parameter: an oracle that answers from
  the history of everything the operator has done so far. Since an oracle may answer
  anything after any history, a theorem for all environments covers every failure and
  every change other actors make between two calls of the operator.

  The history is a list of events, the newest last. A state of a program is the object
  the handlers work on and mutate in place, and the history.
\<close>

section \<open>Events\<close>

datatype kobj =
    ObjCodebase codebase
  | ObjBranch branch
  | ObjStageDeploy cd_stage_deploy
  | ObjImageStream image_stream
  | ObjGitServer git_server
  | ObjJiraServer jira_server
  | ObjSecret secret
  | ObjConfigMap config_map
  | ObjQuickLink quick_link
  | ObjPipelineRun pipeline_run
  | ObjTriggerTemplate trigger_template
  | ObjCDPipeline cd_pipeline
  | ObjStage cd_stage
  | ObjUnstructured unstructured
  | ObjIngress exposure
  | ObjHTTPRoute exposure
  | ObjRoute exposure
  | ObjJiraIssueMetadata jira_issue_metadata
  | ObjEventListener event_listener

datatype verb = VCreate | VUpdate | VStatusUpdate | VPatch | VStatusPatch | VDelete

record selector =
  sel_labels :: smap
  sel_fields :: smap
  sel_limit :: "nat option"

definition by_labels :: "smap \<Rightarrow> selector" where
  "by_labels l = \<lparr>sel_labels = l, sel_fields = [], sel_limit = None\<rparr>"

text \<open>\<open>git.Config\<close>, the credentials a git client is made with.\<close>

record git_config =
  gc_sshKey :: string
  gc_sshUser :: string
  gc_sshPort :: int
  gc_gitProvider :: string
  gc_token :: string
  gc_username :: string

datatype git_call =
    GitClone string string
  | GitCommit string string bool            \<comment> \<open>directory, message, allow empty\<close>
  | GitPush string "string list"            \<comment> \<open>directory, refspecs\<close>
  | GitCheckout string string bool
  | GitCurrentBranch string
  | GitListBranches string
  | GitResolve string string                \<comment> \<open>repository URL, reference\<close>
  | GitCreateBranch string string string    \<comment> \<open>repository URL, branch, from\<close>
  | GitRemoveBranch string string
  | GitCreateChild string string string     \<comment> \<open>directory, parent, new\<close>
  | GitInit string
  | GitAddRemote string string
  | GitCheckoutRemote string string

datatype project_call =
    ProjExists string                       \<comment> \<open>project id\<close>
  | ProjCreate string bool                  \<comment> \<open>project id, private\<close>
  | ProjSetDefaultBranch string string      \<comment> \<open>project id, branch\<close>
  | GerritExists string
  | GerritCreate string
  | GerritSetHead string string             \<comment> \<open>project, branch\<close>
  | HookGet string string                   \<comment> \<open>project id, webhook reference\<close>
  | HookCreateIfNotExists string string string bool \<comment> \<open>project, secret, URL, skip TLS\<close>
  | HookDelete string string

datatype fs_call =
    FsMkdir string
  | FsRemoveAll string
  | FsWrite string string
  | FsCreate string
  | FsRender string string smap            \<comment> \<open>template file, destination, values\<close>

datatype jira_call =
    JiraGetSelf
  | JiraGetIssue string
  | JiraCreateVersion string int            \<comment> \<open>name, project\<close>
  | JiraGetProject string
  | JiraCreateComponent string string int   \<comment> \<open>name, project key, project\<close>
  | JiraUpdateIssue string json
  | JiraRequest string string json          \<comment> \<open>method, path, body\<close>

text \<open>A request made with \<open>resty\<close>.\<close>

datatype http_auth = NoAuth | BasicAuth string string | BearerToken string

record http_request =
  hq_method :: string
  hq_base :: string
  hq_path :: string                         \<comment> \<open>with a parameter's name in braces\<close>
  hq_params :: smap
  hq_query :: smap
  hq_auth :: http_auth
  hq_headers :: smap
  hq_body :: "json option"
  hq_retries :: nat                         \<comment> \<open>\<open>SetRetryCount\<close>, when the answer is an error\<close>

text \<open>
  An answer: the status code and line, the body, and the JSON value that the client takes
  the result from, which it does when the answer is a success with JSON content.
\<close>

record http_response =
  hr_code :: int
  hr_status :: string
  hr_body :: string
  hr_result :: "json option"

text \<open>
  The calls of the generated Bitbucket client: workspace and repository first. An answer
  holds what the client decoded: the hook, the hooks and the repositories' full names,
  each field a nullable pointer.
\<close>

datatype bitbucket_call =
    BbPostHook string string json
  | BbGetHook string string string
  | BbGetHooks string string
  | BbDeleteHook string string string
  | BbPostRepository string string json
  | BbGetRepositories string string         \<comment> \<open>workspace, raw query\<close>

type_synonym bitbucket_hook = "string option \<times> string option" \<comment> \<open>\<open>Uuid\<close>, \<open>Url\<close>\<close>

record bitbucket_response =
  br_code :: int
  br_status :: string
  br_body :: string
  br_hook :: "bitbucket_hook option"
  br_hooks :: "bitbucket_hook list option"
  br_repositories :: "string option list option"

text \<open>
  \<open>ssh.ClientConfig\<close>: the user, the key of the one authentication method, the
  known-hosts database whose callback checks the server's key, and the host key
  algorithms.
\<close>

record ssh_config =
  sc_user :: string
  sc_key :: string
  sc_knownHosts :: string
  sc_algorithms :: "string list"

datatype ssh_call =
    SshDial string                          \<comment> \<open>host and port\<close>
  | SshSession string
  | SshOutput string string                 \<comment> \<open>host and port, command\<close>

text \<open>The calls of go-git, with \<open>transport.AuthMethod\<close>, which may be nil.\<close>

datatype git_auth = GitNoAuth | GitPublicKeys string string | GitBasicAuth string string

datatype gogit_call =
    GoPlainClone string string git_auth     \<comment> \<open>URL, destination\<close>
  | GoPlainOpen string
  | GoPlainInit string
  | GoWorktree string
  | GoFetch string string git_auth "string list" bool
      \<comment> \<open>directory, remote's name, authentication, refspecs, force\<close>
  | GoAddAll string
  | GoStatus string
  | GoCommit string string string string int bool
      \<comment> \<open>directory, message, name, e-mail, time, allow empty\<close>
  | GoPush string string git_auth "string list"
  | GoReference string string
  | GoRemoveReference string string
  | GoCheckout string string bool bool      \<comment> \<open>directory, branch, force, create\<close>
  | GoHead string
  | GoRemoteUrls string string
  | GoDeleteRemote string string
  | GoCreateRemote string string string     \<comment> \<open>directory, name, URL\<close>
  | GoMemoryRemote string                   \<comment> \<open>a remote of a repository in memory\<close>
  | GoList string git_auth
  | GoNewClient string
  | GoUploadPackSession string git_auth
  | GoReceivePackSession string git_auth
  | GoAdvertised string bool                \<comment> \<open>URL, for receive-pack\<close>
  | GoReceivePack string string "(string \<times> string \<times> string) list" string
      \<comment> \<open>URL, capabilities, commands (name, old, new), packfile\<close>

text \<open>\<open>packp.AdvRefs\<close>, what a remote repository advertises.\<close>

record adv_refs =
  ar_head :: "string option"
  ar_references :: smap
  ar_peeled :: smap
  ar_capabilities :: string

datatype event =
    EvGet string string string              \<comment> \<open>kind, namespace, name\<close>
  | EvList string string selector
  | EvWrite verb kobj "gerr option"
  | EvGit git_config git_call "gerr option"
  | EvGerrit git_server string project_call "gerr option" \<comment> \<open>server, key, call\<close>
  | EvProvider git_server string project_call "gerr option" \<comment> \<open>server, token, call\<close>
  | EvFs fs_call "gerr option"
  | EvRecord kobj string string string      \<comment> \<open>object, type, reason, message\<close>
  | EvJira string jira_call "gerr option"   \<comment> \<open>URL of the server, call\<close>
  | EvHttp http_request "gerr option"
  | EvBitbucket string string bitbucket_call "gerr option" \<comment> \<open>URL, authorization, call\<close>
  | EvSsh ssh_config ssh_call "gerr option"
  | EvGoGit gogit_call "gerr option"

type_synonym history = "event list"

section \<open>The environment\<close>

text \<open>
  The client for one kind. A write answers with the object as the server stored it,
  which the client decodes into the caller's object.
\<close>

record 'o kapi =
  k_get :: "history \<Rightarrow> string \<Rightarrow> string \<Rightarrow> gerr + 'o"
  k_list :: "history \<Rightarrow> string \<Rightarrow> selector \<Rightarrow> gerr + 'o list"
  k_write :: "history \<Rightarrow> verb \<Rightarrow> 'o \<Rightarrow> 'o \<Rightarrow> gerr + 'o" \<comment> \<open>verb, patch base, object\<close>

datatype file_stat = StatOk | StatNotExist | StatErr gerr

text \<open>Functions of third-party packages the operator calls, which have no effect.\<close>

record lib =
  l_addFinalizer :: "string \<Rightarrow> string list \<Rightarrow> bool \<times> string list"
  l_removeFinalizer :: "string \<Rightarrow> string list \<Rightarrow> string list"
  l_setControllerReference :: "kobj \<Rightarrow> objmeta \<Rightarrow> gerr + objmeta"
  l_setStatusCondition :: "int \<Rightarrow> condition \<Rightarrow> condition list \<Rightarrow> bool \<times> condition list" \<comment> \<open>now\<close>
  l_isStatusConditionTrue :: "condition list \<Rightarrow> string \<Rightarrow> bool"
  l_xxhash :: "string \<Rightarrow> nat"
  l_isAutoDeployTriggerType :: "cd_stage \<Rightarrow> bool"
  l_triggerTypeAutoStable :: string
  l_unmarshalUnstructured :: "string \<Rightarrow> gerr + unstructured"
  l_expBackoff :: "int \<Rightarrow> int \<Rightarrow> int"
  l_retrySteps :: nat                       \<comment> \<open>\<open>retry.DefaultRetry.Steps\<close>\<close>
  l_generatedResourcePrefix :: string       \<comment> \<open>\<open>eventlistener.GeneratedResourcePrefix\<close>\<close>
  l_nestedString :: "json \<Rightarrow> string list \<Rightarrow> gerr + string" \<comment> \<open>\<open>unstructured.NestedString\<close>\<close>
  l_setNestedField :: "json \<Rightarrow> string \<Rightarrow> string list \<Rightarrow> gerr + json" \<comment> \<open>of a string\<close>
  l_isSuccess :: "int \<Rightarrow> bool"             \<comment> \<open>of a status code\<close>
  l_isError :: "int \<Rightarrow> bool"
  l_decodeError :: "json \<Rightarrow> gerr"           \<comment> \<open>what \<open>encoding/json\<close> says of a value of another type\<close>
  l_parsePrivateKey :: "string \<Rightarrow> gerr option"
  l_hostKeyAlgorithms :: "string \<Rightarrow> string \<Rightarrow> string list" \<comment> \<open>database, host and port\<close>
  l_branchRef :: "string \<Rightarrow> string"        \<comment> \<open>\<open>plumbing.NewBranchReferenceName\<close>\<close>
  l_tagRef :: "string \<Rightarrow> string"           \<comment> \<open>\<open>plumbing.NewTagReferenceName\<close>\<close>
  l_newHash :: "string \<Rightarrow> string"          \<comment> \<open>\<open>plumbing.NewHash\<close>, as \<open>Hash.String\<close> prints it\<close>
  l_endpoint :: "string \<Rightarrow> gerr + string \<times> int" \<comment> \<open>\<open>transport.NewEndpoint\<close>: host, port\<close>

text \<open>What go-git answers; \<open>gg_report\<close> is the report of a push, which may be nil.\<close>

record gogit =
  gg_do :: "history \<Rightarrow> gogit_call \<Rightarrow> gerr option"
  gg_bool :: "history \<Rightarrow> gogit_call \<Rightarrow> gerr + bool"
  gg_string :: "history \<Rightarrow> gogit_call \<Rightarrow> gerr + string"
  gg_strings :: "history \<Rightarrow> gogit_call \<Rightarrow> gerr + string list"
  gg_refs :: "history \<Rightarrow> gogit_call \<Rightarrow> gerr + (bool \<times> string) list" \<comment> \<open>is a branch, short name\<close>
  gg_advertised :: "history \<Rightarrow> gogit_call \<Rightarrow> gerr + adv_refs"
  gg_report :: "history \<Rightarrow> gogit_call \<Rightarrow> gerr + gerr option"

record env =
  api_codebase :: "codebase kapi"
  api_branch :: "branch kapi"
  api_stage_deploy :: "cd_stage_deploy kapi"
  api_image_stream :: "image_stream kapi"
  api_git_server :: "git_server kapi"
  api_jira_server :: "jira_server kapi"
  api_secret :: "secret kapi"
  api_config_map :: "config_map kapi"
  api_quick_link :: "quick_link kapi"
  api_pipeline_run :: "pipeline_run kapi"
  api_trigger_template :: "trigger_template kapi"
  api_cd_pipeline :: "cd_pipeline kapi"
  api_stage :: "cd_stage kapi"
  api_unstructured :: "unstructured kapi"
  api_ingress :: "exposure kapi"
  api_http_route :: "exposure kapi"
  api_route :: "exposure kapi"
  api_jira_issue_metadata :: "jira_issue_metadata kapi"
  api_event_listener :: "event_listener kapi"
  git_do :: "history \<Rightarrow> git_config \<Rightarrow> git_call \<Rightarrow> gerr option"
  git_str :: "history \<Rightarrow> git_config \<Rightarrow> git_call \<Rightarrow> gerr + string"
  git_list :: "history \<Rightarrow> git_config \<Rightarrow> git_call \<Rightarrow> gerr + string list"
  gerrit_do :: "history \<Rightarrow> git_server \<Rightarrow> string \<Rightarrow> project_call \<Rightarrow> gerr option"
  gerrit_bool :: "history \<Rightarrow> git_server \<Rightarrow> string \<Rightarrow> project_call \<Rightarrow> gerr + bool"
  provider_do :: "history \<Rightarrow> git_server \<Rightarrow> string \<Rightarrow> project_call \<Rightarrow> gerr option"
  provider_bool :: "history \<Rightarrow> git_server \<Rightarrow> string \<Rightarrow> project_call \<Rightarrow> gerr + bool"
  provider_str :: "history \<Rightarrow> git_server \<Rightarrow> string \<Rightarrow> project_call \<Rightarrow> gerr + string"
  provider_new :: "git_server \<Rightarrow> string \<Rightarrow> gerr option"
  fs_do :: "history \<Rightarrow> fs_call \<Rightarrow> gerr option"
  fs_stat :: "history \<Rightarrow> string \<Rightarrow> file_stat"
  fs_read :: "history \<Rightarrow> string \<Rightarrow> gerr + string"
  fs_readdir :: "history \<Rightarrow> string \<Rightarrow> gerr + (string \<times> bool) list" \<comment> \<open>name, is a directory\<close>
  fs_parseTemplate :: "history \<Rightarrow> string \<Rightarrow> gerr option"
  os_env :: "string \<Rightarrow> string option"
  rand_read :: "history \<Rightarrow> nat \<Rightarrow> gerr + string"
  new_uuid :: "history \<Rightarrow> string"
  http_do :: "history \<Rightarrow> http_request \<Rightarrow> gerr + http_response"
  bitbucket_do :: "history \<Rightarrow> string \<Rightarrow> string \<Rightarrow> bitbucket_call \<Rightarrow> gerr + bitbucket_response"
  known_hosts :: "history \<Rightarrow> gerr + string"
  ssh_do :: "history \<Rightarrow> ssh_config \<Rightarrow> ssh_call \<Rightarrow> gerr option"
  ssh_output :: "history \<Rightarrow> ssh_config \<Rightarrow> ssh_call \<Rightarrow> gerr + string"
  gogit_of :: gogit
  clock :: "history \<Rightarrow> int"
  lib_of :: lib

section \<open>The kinds\<close>

record 'o resource =
  r_kind :: string
  r_inj :: "'o \<Rightarrow> kobj"
  r_api :: "env \<Rightarrow> 'o kapi"

definition Codebases :: "codebase resource" where
  "Codebases = \<lparr>r_kind = ''Codebase'', r_inj = ObjCodebase, r_api = api_codebase\<rparr>"
definition Branches :: "branch resource" where
  "Branches = \<lparr>r_kind = ''CodebaseBranch'', r_inj = ObjBranch, r_api = api_branch\<rparr>"
definition StageDeploys :: "cd_stage_deploy resource" where
  "StageDeploys =
     \<lparr>r_kind = ''CDStageDeploy'', r_inj = ObjStageDeploy, r_api = api_stage_deploy\<rparr>"
definition ImageStreams :: "image_stream resource" where
  "ImageStreams =
     \<lparr>r_kind = ''CodebaseImageStream'', r_inj = ObjImageStream, r_api = api_image_stream\<rparr>"
definition GitServers :: "git_server resource" where
  "GitServers = \<lparr>r_kind = ''GitServer'', r_inj = ObjGitServer, r_api = api_git_server\<rparr>"
definition JiraServers :: "jira_server resource" where
  "JiraServers = \<lparr>r_kind = ''JiraServer'', r_inj = ObjJiraServer, r_api = api_jira_server\<rparr>"
definition Secrets :: "secret resource" where
  "Secrets = \<lparr>r_kind = ''Secret'', r_inj = ObjSecret, r_api = api_secret\<rparr>"
definition ConfigMaps :: "config_map resource" where
  "ConfigMaps = \<lparr>r_kind = ''ConfigMap'', r_inj = ObjConfigMap, r_api = api_config_map\<rparr>"
definition QuickLinks :: "quick_link resource" where
  "QuickLinks = \<lparr>r_kind = ''QuickLink'', r_inj = ObjQuickLink, r_api = api_quick_link\<rparr>"
definition PipelineRuns :: "pipeline_run resource" where
  "PipelineRuns = \<lparr>r_kind = ''PipelineRun'', r_inj = ObjPipelineRun, r_api = api_pipeline_run\<rparr>"
definition TriggerTemplates :: "trigger_template resource" where
  "TriggerTemplates =
     \<lparr>r_kind = ''TriggerTemplate'', r_inj = ObjTriggerTemplate, r_api = api_trigger_template\<rparr>"
definition CDPipelines :: "cd_pipeline resource" where
  "CDPipelines = \<lparr>r_kind = ''CDPipeline'', r_inj = ObjCDPipeline, r_api = api_cd_pipeline\<rparr>"
definition Stages :: "cd_stage resource" where
  "Stages = \<lparr>r_kind = ''Stage'', r_inj = ObjStage, r_api = api_stage\<rparr>"
definition Unstructureds :: "unstructured resource" where
  "Unstructureds =
     \<lparr>r_kind = ''Unstructured'', r_inj = ObjUnstructured, r_api = api_unstructured\<rparr>"

definition Ingresses :: "exposure resource" where
  "Ingresses = \<lparr>r_kind = ''Ingress'', r_inj = ObjIngress, r_api = api_ingress\<rparr>"
definition HTTPRoutes :: "exposure resource" where
  "HTTPRoutes = \<lparr>r_kind = ''HTTPRoute'', r_inj = ObjHTTPRoute, r_api = api_http_route\<rparr>"
definition Routes :: "exposure resource" where
  "Routes = \<lparr>r_kind = ''Route'', r_inj = ObjRoute, r_api = api_route\<rparr>"
definition JiraIssueMetadatas :: "jira_issue_metadata resource" where
  "JiraIssueMetadatas = \<lparr>r_kind = ''JiraIssueMetadata'', r_inj = ObjJiraIssueMetadata,
     r_api = api_jira_issue_metadata\<rparr>"
definition EventListeners :: "event_listener resource" where
  "EventListeners =
     \<lparr>r_kind = ''EventListener'', r_inj = ObjEventListener, r_api = api_event_listener\<rparr>"

lemmas resource_defs =
  Codebases_def Branches_def StageDeploys_def ImageStreams_def GitServers_def JiraServers_def
  Secrets_def ConfigMaps_def QuickLinks_def PipelineRuns_def TriggerTemplates_def
  CDPipelines_def Stages_def Unstructureds_def Ingresses_def HTTPRoutes_def Routes_def
  JiraIssueMetadatas_def EventListeners_def

section \<open>States and calls\<close>

record 'o st =
  obj :: 'o
  log :: history

text \<open>One external call: ask the oracle, then append the event.\<close>

definition ask :: "(history \<Rightarrow> gerr + 'r) \<Rightarrow> (gerr option \<Rightarrow> event) \<Rightarrow> ('o st, 'r) prog" where
  "ask orc ev s =
     (case orc (log s) of
        Inl e \<Rightarrow> (Fail e, s\<lparr>log := log s @ [ev (Some e)]\<rparr>)
      | Inr r \<Rightarrow> (Ok r, s\<lparr>log := log s @ [ev None]\<rparr>))"

definition asku :: "(history \<Rightarrow> gerr option) \<Rightarrow> (gerr option \<Rightarrow> event) \<Rightarrow> ('o st, unit) prog" where
  "asku orc ev = ask (\<lambda>h. case orc h of None \<Rightarrow> Inr () | Some e \<Rightarrow> Inl e) ev"

definition kget :: "'r resource \<Rightarrow> env \<Rightarrow> string \<Rightarrow> string \<Rightarrow> ('o st, 'r) prog" where
  "kget R E ns name =
     ask (\<lambda>h. k_get (r_api R E) h ns name) (\<lambda>_. EvGet (r_kind R) ns name)"

definition klist :: "'r resource \<Rightarrow> env \<Rightarrow> string \<Rightarrow> selector \<Rightarrow> ('o st, 'r list) prog" where
  "klist R E ns sel = ask (\<lambda>h. k_list (r_api R E) h ns sel) (\<lambda>_. EvList (r_kind R) ns sel)"

definition kwrite :: "verb \<Rightarrow> 'r resource \<Rightarrow> env \<Rightarrow> 'r \<Rightarrow> 'r \<Rightarrow> ('o st, 'r) prog" where
  "kwrite v R E base x =
     ask (\<lambda>h. k_write (r_api R E) h v base x) (\<lambda>e. EvWrite v (r_inj R x) e)"

abbreviation kcreate :: "'r resource \<Rightarrow> env \<Rightarrow> 'r \<Rightarrow> ('o st, 'r) prog" where
  "kcreate R E x \<equiv> kwrite VCreate R E x x"

abbreviation kdelete :: "'r resource \<Rightarrow> env \<Rightarrow> 'r \<Rightarrow> ('o st, 'r) prog" where
  "kdelete R E x \<equiv> kwrite VDelete R E x x"

text \<open>
  A write of the object in hand: on success the answer replaces it. \<open>save_from\<close> is a
  patch, computed against the copy taken before the changes.
\<close>

definition save_from :: "verb \<Rightarrow> 'o resource \<Rightarrow> env \<Rightarrow> 'o \<Rightarrow> ('o st, unit) prog" where
  "save_from v R E base =
     bindp (gets obj) (\<lambda>o1.
     bindp (kwrite v R E base o1) (\<lambda>o2.
     modify (\<lambda>s. s\<lparr>obj := o2\<rparr>)))"

definition save :: "verb \<Rightarrow> 'o resource \<Rightarrow> env \<Rightarrow> ('o st, unit) prog" where
  "save v R E = bindp (gets obj) (\<lambda>o1. save_from v R E o1)"

definition set_obj :: "('o \<Rightarrow> 'o) \<Rightarrow> ('o st, unit) prog" where
  "set_obj f = modify (\<lambda>s. s\<lparr>obj := f (obj s)\<rparr>)"

definition now :: "env \<Rightarrow> ('o st, int) prog" where
  "now E = gets (\<lambda>s. clock E (log s))"

definition record_event :: "kobj \<Rightarrow> string \<Rightarrow> string \<Rightarrow> string \<Rightarrow> ('o st, unit) prog" where
  "record_event x ty reason msg = modify (\<lambda>s. s\<lparr>log := log s @ [EvRecord x ty reason msg]\<rparr>)"

definition git :: "env \<Rightarrow> git_config \<Rightarrow> git_call \<Rightarrow> ('o st, unit) prog" where
  "git E cfg c = asku (\<lambda>h. git_do E h cfg c) (\<lambda>e. EvGit cfg c e)"

definition git_string :: "env \<Rightarrow> git_config \<Rightarrow> git_call \<Rightarrow> ('o st, string) prog" where
  "git_string E cfg c = ask (\<lambda>h. git_str E h cfg c) (\<lambda>e. EvGit cfg c e)"

definition git_strings :: "env \<Rightarrow> git_config \<Rightarrow> git_call \<Rightarrow> ('o st, string list) prog" where
  "git_strings E cfg c = ask (\<lambda>h. git_list E h cfg c) (\<lambda>e. EvGit cfg c e)"

definition gerrit :: "env \<Rightarrow> git_server \<Rightarrow> string \<Rightarrow> project_call \<Rightarrow> ('o st, unit) prog" where
  "gerrit E gs key c = asku (\<lambda>h. gerrit_do E h gs key c) (\<lambda>e. EvGerrit gs key c e)"

definition gerrit_ask :: "env \<Rightarrow> git_server \<Rightarrow> string \<Rightarrow> project_call \<Rightarrow> ('o st, bool) prog" where
  "gerrit_ask E gs key c = ask (\<lambda>h. gerrit_bool E h gs key c) (\<lambda>e. EvGerrit gs key c e)"

definition provider :: "env \<Rightarrow> git_server \<Rightarrow> string \<Rightarrow> project_call \<Rightarrow> ('o st, unit) prog" where
  "provider E gs tok c = asku (\<lambda>h. provider_do E h gs tok c) (\<lambda>e. EvProvider gs tok c e)"

definition provider_ask :: "env \<Rightarrow> git_server \<Rightarrow> string \<Rightarrow> project_call \<Rightarrow> ('o st, bool) prog" where
  "provider_ask E gs tok c = ask (\<lambda>h. provider_bool E h gs tok c) (\<lambda>e. EvProvider gs tok c e)"

definition provider_string ::
  "env \<Rightarrow> git_server \<Rightarrow> string \<Rightarrow> project_call \<Rightarrow> ('o st, string) prog" where
  "provider_string E gs tok c = ask (\<lambda>h. provider_str E h gs tok c) (\<lambda>e. EvProvider gs tok c e)"

definition fs :: "env \<Rightarrow> fs_call \<Rightarrow> ('o st, unit) prog" where
  "fs E c = asku (\<lambda>h. fs_do E h c) (\<lambda>e. EvFs c e)"

definition http :: "env \<Rightarrow> http_request \<Rightarrow> ('o st, http_response) prog" where
  "http E q = ask (\<lambda>h. http_do E h q) (\<lambda>e. EvHttp q e)"

definition bitbucket ::
  "env \<Rightarrow> string \<Rightarrow> string \<Rightarrow> bitbucket_call \<Rightarrow> ('o st, bitbucket_response) prog" where
  "bitbucket E url au c = ask (\<lambda>h. bitbucket_do E h url au c) (\<lambda>e. EvBitbucket url au c e)"

definition ssh :: "env \<Rightarrow> ssh_config \<Rightarrow> ssh_call \<Rightarrow> ('o st, unit) prog" where
  "ssh E cfg c = asku (\<lambda>h. ssh_do E h cfg c) (\<lambda>e. EvSsh cfg c e)"

definition ssh_string :: "env \<Rightarrow> ssh_config \<Rightarrow> ssh_call \<Rightarrow> ('o st, string) prog" where
  "ssh_string E cfg c = ask (\<lambda>h. ssh_output E h cfg c) (\<lambda>e. EvSsh cfg c e)"

text \<open>A call of go-git and which of its answers is asked for.\<close>

definition gogit_ask ::
  "env \<Rightarrow> (gogit \<Rightarrow> history \<Rightarrow> gogit_call \<Rightarrow> gerr + 'r) \<Rightarrow> gogit_call \<Rightarrow> ('o st, 'r) prog" where
  "gogit_ask E f c = ask (\<lambda>h. f (gogit_of E) h c) (\<lambda>e. EvGoGit c e)"

definition gogit_act :: "env \<Rightarrow> gogit_call \<Rightarrow> ('o st, unit) prog" where
  "gogit_act E c = asku (\<lambda>h. gg_do (gogit_of E) h c) (\<lambda>e. EvGoGit c e)"

text \<open>A value of Go's type \<open>error\<close> that is not nil ends the call.\<close>

definition lift :: "gerr + 'a \<Rightarrow> ('s, 'a) prog" where
  "lift x = (case x of Inl e \<Rightarrow> throw e | Inr y \<Rightarrow> ret y)"

lemmas call_defs = kget_def klist_def kwrite_def git_def git_string_def git_strings_def
  gerrit_def gerrit_ask_def provider_def provider_ask_def provider_string_def fs_def
  http_def bitbucket_def ssh_def ssh_string_def gogit_ask_def gogit_act_def

text \<open>\<open>reconcile.Result\<close>: when the object is to be reconciled again, in nanoseconds.\<close>

record reconcile_result =
  rr_requeue :: bool
  rr_requeueAfter :: int

definition no_requeue :: reconcile_result where
  "no_requeue = \<lparr>rr_requeue = False, rr_requeueAfter = 0\<rparr>"

definition requeue_after :: "int \<Rightarrow> reconcile_result" where
  "requeue_after d = \<lparr>rr_requeue = False, rr_requeueAfter = d\<rparr>"

abbreviation second :: int where "second \<equiv> 1000000000"

text \<open>An error that is only logged.\<close>

definition ignoring :: "('s, unit) prog \<Rightarrow> ('s, unit) prog" where
  "ignoring m = catchp m (\<lambda>_. ret ())"

lemma ignoring_run:
  "ignoring m s = (case fst (m s) of Ok x \<Rightarrow> (Ok (), snd (m s))
     | Fail e \<Rightarrow> (Ok (), snd (m s)) | Panic p \<Rightarrow> (Panic p, snd (m s)))"
  by (simp add: ignoring_def catchp_run split: outcome.split)

lemma keeps_ignoring [keeps_intros]: "keeps P m \<Longrightarrow> keeps P (ignoring m)"
  by (simp add: ignoring_def keeps_catchp keeps_ret)

section \<open>How calls compose\<close>

lemma ask_run:
  "ask orc ev s = (case orc (log s) of
     Inl e \<Rightarrow> (Fail e, s\<lparr>log := log s @ [ev (Some e)]\<rparr>)
   | Inr r \<Rightarrow> (Ok r, s\<lparr>log := log s @ [ev None]\<rparr>))"
  by (simp add: ask_def)

lemma asku_run:
  "asku orc ev s = ((case orc (log s) of None \<Rightarrow> Ok () | Some e \<Rightarrow> Fail e),
     s\<lparr>log := log s @ [ev (orc (log s))]\<rparr>)"
  by (simp add: asku_def ask_def split: option.split)

lemma set_obj_run [simp]: "set_obj f s = (Ok (), s\<lparr>obj := f (obj s)\<rparr>)"
  by (simp add: set_obj_def)

lemma now_run [simp]: "now E s = (Ok (clock E (log s)), s)"
  by (simp add: now_def)

lemma bindp_set_obj [simp]: "bindp (set_obj f) g s = g () (s\<lparr>obj := f (obj s)\<rparr>)"
  by (simp add: set_obj_def)

lemma bindp_now [simp]: "bindp (now E) g s = g (clock E (log s)) s"
  by (simp add: now_def)

lemma record_event_run [simp]:
  "record_event x ty r m s = (Ok (), s\<lparr>log := log s @ [EvRecord x ty r m]\<rparr>)"
  by (simp add: record_event_def)

lemma save_run:
  "save v R E s =
     (case k_write (r_api R E) (log s) v (obj s) (obj s) of
        Inl e \<Rightarrow> (Fail e, s\<lparr>log := log s @ [EvWrite v (r_inj R (obj s)) (Some e)]\<rparr>)
      | Inr o2 \<Rightarrow> (Ok (), s\<lparr>obj := o2, log := log s @ [EvWrite v (r_inj R (obj s)) None]\<rparr>))"
  by (simp add: save_def save_from_def kwrite_def bindp_run ask_run split: sum.split)

lemma save_from_run:
  "save_from v R E b s =
     (case k_write (r_api R E) (log s) v b (obj s) of
        Inl e \<Rightarrow> (Fail e, s\<lparr>log := log s @ [EvWrite v (r_inj R (obj s)) (Some e)]\<rparr>)
      | Inr o2 \<Rightarrow> (Ok (), s\<lparr>obj := o2, log := log s @ [EvWrite v (r_inj R (obj s)) None]\<rparr>))"
  by (simp add: save_from_def kwrite_def bindp_run ask_run split: sum.split)

lemma klist_run:
  "klist R E ns sel s = (case k_list (r_api R E) (log s) ns sel of
     Inl e \<Rightarrow> (Fail e, s\<lparr>log := log s @ [EvList (r_kind R) ns sel]\<rparr>)
   | Inr x \<Rightarrow> (Ok x, s\<lparr>log := log s @ [EvList (r_kind R) ns sel]\<rparr>))"
  by (simp add: klist_def ask_run)

lemma kget_run:
  "kget R E ns n s = (case k_get (r_api R E) (log s) ns n of
     Inl e \<Rightarrow> (Fail e, s\<lparr>log := log s @ [EvGet (r_kind R) ns n]\<rparr>)
   | Inr x \<Rightarrow> (Ok x, s\<lparr>log := log s @ [EvGet (r_kind R) ns n]\<rparr>))"
  by (simp add: kget_def ask_run)

lemma ignoring_save: "ignoring (save v R E) t = (Ok (), snd (save v R E t))"
  by (simp add: ignoring_run save_run split: sum.split)

subsection \<open>Facts about the history\<close>

text \<open>
  The history only grows. \<open>appends A m\<close>: every event \<open>m\<close> adds satisfies \<open>A\<close>; a
  program composed of such parts adds only such events.
\<close>

definition appends :: "(event \<Rightarrow> bool) \<Rightarrow> ('o st, 'a) prog \<Rightarrow> bool" where
  "appends A m \<longleftrightarrow> (\<forall>s. \<exists>es. log (snd (m s)) = log s @ es \<and> list_all A es)"

named_theorems appends_intros \<open>introduction rules of \<open>appends\<close>\<close>

lemma appendsI: "(\<And>s. \<exists>es. log (snd (m s)) = log s @ es \<and> list_all A es) \<Longrightarrow> appends A m"
  by (simp add: appends_def)

lemma appendsD: "appends A m \<Longrightarrow> \<exists>es. log (snd (m s)) = log s @ es \<and> list_all A es"
  by (simp add: appends_def)

lemma appends_mono: "appends A m \<Longrightarrow> (\<And>e. A e \<Longrightarrow> B e) \<Longrightarrow> appends B m"
  unfolding appends_def by (metis list.pred_mono_strong)

lemma appends_const: "(\<And>s. log (snd (m s)) = log s) \<Longrightarrow> appends A m"
  by (simp add: appends_def)

lemma appends_ret [appends_intros]: "appends A (ret x)"
  and appends_throw [appends_intros]: "appends A (throw e)"
  and appends_panic [appends_intros]: "appends A (panic p)"
  and appends_gets [appends_intros]: "appends A (gets f)"
  and appends_now [appends_intros]: "appends A (now E)"
  and appends_set_obj [appends_intros]: "appends A (set_obj g)"
  by (rule appends_const, simp)+

lemma appends_lift [appends_intros]: "appends A (lift x)"
  by (rule appends_const) (simp add: lift_def split: sum.split)

lemma appends_bindp_result:
  assumes "appends A m" and "\<And>t x. fst (m t) = Ok x \<Longrightarrow> appends A (f x)"
  shows "appends A (bindp m f)"
proof (rule appendsI)
  fix s
  obtain es where es: "log (snd (m s)) = log s @ es" "list_all A es"
    using appendsD [OF assms(1)] by blast
  show "\<exists>es. log (snd (bindp m f s)) = log s @ es \<and> list_all A es"
  proof (cases "fst (m s)")
    case (Ok x)
    obtain fs where "log (snd (f x (snd (m s)))) = log (snd (m s)) @ fs" "list_all A fs"
      using appendsD [OF assms(2) [OF Ok]] by blast
    with es Ok show ?thesis by (intro exI [of _ "es @ fs"]) (simp add: bindp_run)
  qed (use es in \<open>simp_all add: bindp_run\<close>)
qed

lemma appends_bindp [appends_intros]:
  "appends A m \<Longrightarrow> (\<And>x. appends A (f x)) \<Longrightarrow> appends A (bindp m f)"
  by (rule appends_bindp_result)

lemma appends_catchp [appends_intros]:
  assumes "appends A m" and "\<And>e. appends A (h e)"
  shows "appends A (catchp m h)"
proof (rule appendsI)
  fix s
  obtain es where es: "log (snd (m s)) = log s @ es" "list_all A es"
    using appendsD [OF assms(1)] by blast
  show "\<exists>es. log (snd (catchp m h s)) = log s @ es \<and> list_all A es"
  proof (cases "fst (m s)")
    case (Fail e)
    obtain fs where "log (snd (h e (snd (m s)))) = log (snd (m s)) @ fs" "list_all A fs"
      using appendsD [OF assms(2)] by blast
    with es Fail show ?thesis by (intro exI [of _ "es @ fs"]) (simp add: catchp_run)
  qed (use es in \<open>simp_all add: catchp_run\<close>)
qed

lemma appends_wrapping [appends_intros]: "appends A m \<Longrightarrow> appends A (wrapping pre m)"
  unfolding wrapping_def by (intro appends_intros)

lemma appends_attempt [appends_intros]: "appends A m \<Longrightarrow> appends A (attempt m)"
  unfolding attempt_def by (intro appends_intros)

lemma appends_ignoring [appends_intros]: "appends A m \<Longrightarrow> appends A (ignoring m)"
  unfolding ignoring_def by (intro appends_intros)

lemma appends_if [appends_intros]:
  "(b \<Longrightarrow> appends A m) \<Longrightarrow> (\<not> b \<Longrightarrow> appends A n) \<Longrightarrow> appends A (if b then m else n)"
  by simp

lemma appends_case_option [appends_intros]:
  "(x = None \<Longrightarrow> appends A m) \<Longrightarrow> (\<And>y. x = Some y \<Longrightarrow> appends A (f y)) \<Longrightarrow>
   appends A (case x of None \<Rightarrow> m | Some y \<Rightarrow> f y)"
  by (cases x) auto

lemma appends_case_sum [appends_intros]:
  "(\<And>e. x = Inl e \<Longrightarrow> appends A (m e)) \<Longrightarrow> (\<And>y. x = Inr y \<Longrightarrow> appends A (f y)) \<Longrightarrow>
   appends A (case x of Inl e \<Rightarrow> m e | Inr y \<Rightarrow> f y)"
  by (cases x) auto

lemma appends_case_prod [appends_intros]:
  "(\<And>a b. x = (a, b) \<Longrightarrow> appends A (f a b)) \<Longrightarrow> appends A (case x of (a, b) \<Rightarrow> f a b)"
  by (cases x) auto

lemma appends_case_list [appends_intros]:
  "(x = [] \<Longrightarrow> appends A m) \<Longrightarrow> (\<And>y ys. x = y # ys \<Longrightarrow> appends A (f y ys)) \<Longrightarrow>
   appends A (case x of [] \<Rightarrow> m | y # ys \<Rightarrow> f y ys)"
  by (cases x) auto

lemma appends_for_each [appends_intros]:
  "(\<And>x. x \<in> set xs \<Longrightarrow> appends A (f x)) \<Longrightarrow> appends A (for_each xs f)"
  by (induction xs) (auto intro: appends_intros)

lemma appends_fold_each [appends_intros]:
  "(\<And>x b. x \<in> set xs \<Longrightarrow> appends A (f x b)) \<Longrightarrow> appends A (fold_each xs f b)"
  by (induction xs arbitrary: b) (auto intro: appends_intros)

lemma appends_ask: "(\<And>e. A (ev e)) \<Longrightarrow> appends A (ask orc ev)"
  by (rule appendsI) (auto simp: ask_run split: sum.split)

lemma appends_asku: "(\<And>e. A (ev e)) \<Longrightarrow> appends A (asku orc ev)"
  unfolding asku_def by (rule appends_ask)

lemma appends_kget [appends_intros]: "A (EvGet (r_kind R) ns n) \<Longrightarrow> appends A (kget R E ns n)"
  unfolding kget_def by (rule appends_ask)

lemma appends_klist [appends_intros]: "A (EvList (r_kind R) ns sel) \<Longrightarrow> appends A (klist R E ns sel)"
  unfolding klist_def by (rule appends_ask)

lemma appends_kwrite [appends_intros]:
  "(\<And>e. A (EvWrite v (r_inj R x) e)) \<Longrightarrow> appends A (kwrite v R E b x)"
  unfolding kwrite_def by (rule appends_ask)

lemma appends_save_from [appends_intros]:
  "(\<And>x e. A (EvWrite v (r_inj R x) e)) \<Longrightarrow> appends A (save_from v R E b)"
  by (rule appendsI) (auto simp: save_from_run split: sum.split)

lemma appends_save [appends_intros]:
  "(\<And>x e. A (EvWrite v (r_inj R x) e)) \<Longrightarrow> appends A (save v R E)"
  by (rule appendsI) (auto simp: save_run split: sum.split)

lemma appends_record [appends_intros]: "A (EvRecord x ty r m) \<Longrightarrow> appends A (record_event x ty r m)"
  by (rule appendsI) simp

lemma appends_git [appends_intros]: "(\<And>e. A (EvGit cfg c e)) \<Longrightarrow> appends A (git E cfg c)"
  unfolding git_def by (rule appends_asku)

lemma appends_git_string [appends_intros]:
  "(\<And>e. A (EvGit cfg c e)) \<Longrightarrow> appends A (git_string E cfg c)"
  unfolding git_string_def by (rule appends_ask)

lemma appends_git_strings [appends_intros]:
  "(\<And>e. A (EvGit cfg c e)) \<Longrightarrow> appends A (git_strings E cfg c)"
  unfolding git_strings_def by (rule appends_ask)

lemma appends_gerrit [appends_intros]:
  "(\<And>e. A (EvGerrit gs key c e)) \<Longrightarrow> appends A (gerrit E gs key c)"
  unfolding gerrit_def by (rule appends_asku)

lemma appends_gerrit_ask [appends_intros]:
  "(\<And>e. A (EvGerrit gs key c e)) \<Longrightarrow> appends A (gerrit_ask E gs key c)"
  unfolding gerrit_ask_def by (rule appends_ask)

lemma appends_provider [appends_intros]:
  "(\<And>e. A (EvProvider gs tok c e)) \<Longrightarrow> appends A (provider E gs tok c)"
  unfolding provider_def by (rule appends_asku)

lemma appends_provider_ask [appends_intros]:
  "(\<And>e. A (EvProvider gs tok c e)) \<Longrightarrow> appends A (provider_ask E gs tok c)"
  unfolding provider_ask_def by (rule appends_ask)

lemma appends_provider_string [appends_intros]:
  "(\<And>e. A (EvProvider gs tok c e)) \<Longrightarrow> appends A (provider_string E gs tok c)"
  unfolding provider_string_def by (rule appends_ask)

lemma appends_fs [appends_intros]: "(\<And>e. A (EvFs c e)) \<Longrightarrow> appends A (fs E c)"
  unfolding fs_def by (rule appends_asku)

lemma appends_http [appends_intros]: "(\<And>e. A (EvHttp q e)) \<Longrightarrow> appends A (http E q)"
  unfolding http_def by (rule appends_ask)

lemma appends_bitbucket [appends_intros]:
  "(\<And>e. A (EvBitbucket url au bc e)) \<Longrightarrow> appends A (bitbucket E url au bc)"
  unfolding bitbucket_def by (rule appends_ask)

lemma appends_ssh [appends_intros]: "(\<And>e. A (EvSsh cfg sc e)) \<Longrightarrow> appends A (ssh E cfg sc)"
  unfolding ssh_def by (rule appends_asku)

lemma appends_ssh_string [appends_intros]:
  "(\<And>e. A (EvSsh cfg sc e)) \<Longrightarrow> appends A (ssh_string E cfg sc)"
  unfolding ssh_string_def by (rule appends_ask)

lemma appends_gogit_act [appends_intros]:
  "(\<And>e. A (EvGoGit gc e)) \<Longrightarrow> appends A (gogit_act E gc)"
  unfolding gogit_act_def by (rule appends_asku)

lemma appends_gogit_ask [appends_intros]:
  "(\<And>e. A (EvGoGit gc e)) \<Longrightarrow> appends A (gogit_ask E f gc)"
  unfolding gogit_ask_def by (rule appends_ask)

subsection \<open>What a call leaves of the object in hand\<close>

lemma keeps_obj_ask [keeps_intros]: "keeps (\<lambda>s. obj s = x) (ask orc ev)"
  by (rule keepsI) (simp add: ask_run split: sum.split)

lemma keeps_obj_klist [keeps_intros]: "keeps (\<lambda>s. obj s = x) (klist R E ns sel)"
  and keeps_obj_kget [keeps_intros]: "keeps (\<lambda>s. obj s = x) (kget R E ns n)"
  and keeps_obj_kwrite [keeps_intros]: "keeps (\<lambda>s. obj s = x) (kwrite v R E b y)"
  by (simp_all add: call_defs keeps_obj_ask)

lemma keeps_obj_asku [keeps_intros]: "keeps (\<lambda>s. obj s = x) (asku orc ev)"
  by (simp add: asku_def keeps_obj_ask)

lemma keeps_obj_calls [keeps_intros]:
  "keeps (\<lambda>s. obj s = x) (git E cfg gc)"
  "keeps (\<lambda>s. obj s = x) (git_string E cfg gc)"
  "keeps (\<lambda>s. obj s = x) (git_strings E cfg gc)"
  "keeps (\<lambda>s. obj s = x) (gerrit E gs tok pc)"
  "keeps (\<lambda>s. obj s = x) (gerrit_ask E gs tok pc)"
  "keeps (\<lambda>s. obj s = x) (provider E gs tok pc)"
  "keeps (\<lambda>s. obj s = x) (provider_ask E gs tok pc)"
  "keeps (\<lambda>s. obj s = x) (provider_string E gs tok pc)"
  "keeps (\<lambda>s. obj s = x) (fs E fc)"
  "keeps (\<lambda>s. obj s = x) (http E hq)"
  "keeps (\<lambda>s. obj s = x) (bitbucket E url au bc)"
  "keeps (\<lambda>s. obj s = x) (ssh E scfg sc)"
  "keeps (\<lambda>s. obj s = x) (ssh_string E scfg sc)"
  "keeps (\<lambda>s. obj s = x) (gogit_act E ggc)"
  "keeps (\<lambda>s. obj s = x) (gogit_ask E ggf ggc)"
  "keeps (\<lambda>s. obj s = x) (now E)"
  "keeps (\<lambda>s. obj s = x) (record_event y ty r msg)"
  by (simp_all add: call_defs keeps_obj_ask keeps_obj_asku) (simp_all add: keeps_def)

lemma keeps_lift [keeps_intros]: "keeps P (lift y)"
  by (cases y) (simp_all add: lift_def keeps_ret keeps_throw)

lemma keeps_objD: "(\<And>x. keeps (\<lambda>s. obj s = x) m) \<Longrightarrow> obj (snd (m s)) = obj s"
  using keepsD [of "\<lambda>t. obj t = obj s" m s] by simp

subsection \<open>Events that change nothing\<close>

definition is_read :: "event \<Rightarrow> bool" where
  "is_read ev \<longleftrightarrow> (case ev of EvGet _ _ _ \<Rightarrow> True | EvList _ _ _ \<Rightarrow> True | _ \<Rightarrow> False)"

lemma is_read_simps [simp]:
  "is_read (EvGet k ns n)" "is_read (EvList k ns sel)" "\<not> is_read (EvWrite v x e)"
  "\<not> is_read (EvGit cfg c e)" "\<not> is_read (EvRecord x ty r m)" "\<not> is_read (EvFs f e)"
  "\<not> is_read (EvGerrit gs tok pc e)" "\<not> is_read (EvProvider gs tok pc e)"
  "\<not> is_read (EvJira u jc e)" "\<not> is_read (EvHttp hq e)" "\<not> is_read (EvSsh scfg sc e)"
  "\<not> is_read (EvBitbucket url au bc e)" "\<not> is_read (EvGoGit ggc e)"
  by (simp_all add: is_read_def)

text \<open>The events a run added to the history.\<close>

definition added :: "'o st \<Rightarrow> 'o st \<Rightarrow> event list" where
  "added s t = drop (length (log s)) (log t)"

lemma added_append [simp]: "log t = log s @ es \<Longrightarrow> added s t = es"
  by (simp add: added_def)

lemma appends_added: "appends A m \<Longrightarrow> list_all A (added s (snd (m s)))"
  using appendsD [of A m s] by auto

subsection \<open>Programs that only read\<close>

text \<open>A reader asks the cluster and leaves it, and the object in hand, as they are.\<close>

definition reader :: "('o st, 'a) prog \<Rightarrow> bool" where
  "reader m \<longleftrightarrow> appends is_read m \<and> (\<forall>x. keeps (\<lambda>s. obj s = x) m)"

named_theorems reader_intros \<open>introduction rules of \<open>reader\<close>\<close>

lemma readerI: "appends is_read m \<Longrightarrow> (\<And>x. keeps (\<lambda>s. obj s = x) m) \<Longrightarrow> reader m"
  by (simp add: reader_def)

lemma reader_obj: "reader m \<Longrightarrow> obj (snd (m s)) = obj s"
  by (simp add: reader_def keeps_objD)

lemma reader_log:
  assumes "reader m"
  obtains es where "log (snd (m s)) = log s @ es" and "list_all is_read es"
  using appendsD [of is_read m s] assms by (auto simp: reader_def)

lemma reader_leaf:
  assumes "reader m"
  obtains es where "snd (m s) = s\<lparr>log := log s @ es\<rparr>" and "list_all is_read es"
  using reader_obj [OF assms, of s] reader_log [OF assms, of s]
  by (metis (full_types) st.surjective st.update_convs(2) old.unit.exhaust)

lemma reader_appends: "reader m \<Longrightarrow> (\<And>e. is_read e \<Longrightarrow> A e) \<Longrightarrow> appends A m"
  unfolding reader_def by (blast intro: appends_mono)

lemma reader_keeps: "reader m \<Longrightarrow> keeps (\<lambda>s. obj s = x) m"
  by (simp add: reader_def)

lemma reader_leaves [reader_intros]:
  "reader (ret x)" "reader (throw e)" "reader (panic p)" "reader (gets f)" "reader (now E)"
  "reader (lift y)" "reader (kget R E ns n)" "reader (klist R E ns sel)"
  by (auto intro!: readerI appends_intros keeps_intros)

lemma reader_bindp [reader_intros]:
  "reader m \<Longrightarrow> (\<And>x. reader (f x)) \<Longrightarrow> reader (bindp m f)"
  unfolding reader_def by (auto intro!: appends_intros keeps_intros)

lemma reader_catchp [reader_intros]:
  "reader m \<Longrightarrow> (\<And>e. reader (h e)) \<Longrightarrow> reader (catchp m h)"
  unfolding reader_def by (auto intro!: appends_intros keeps_intros)

lemma reader_wrapping [reader_intros]: "reader m \<Longrightarrow> reader (wrapping pre m)"
  and reader_attempt [reader_intros]: "reader m \<Longrightarrow> reader (attempt m)"
  unfolding reader_def by (auto intro!: appends_intros keeps_intros)

lemma reader_ignoring [reader_intros]: "reader m \<Longrightarrow> reader (ignoring m)"
  unfolding reader_def by (auto intro!: appends_intros keeps_intros)

lemma reader_if [reader_intros]:
  "(b \<Longrightarrow> reader m) \<Longrightarrow> (\<not> b \<Longrightarrow> reader n) \<Longrightarrow> reader (if b then m else n)"
  by simp

lemma reader_case_option [reader_intros]:
  "(x = None \<Longrightarrow> reader m) \<Longrightarrow> (\<And>y. x = Some y \<Longrightarrow> reader (f y)) \<Longrightarrow>
   reader (case x of None \<Rightarrow> m | Some y \<Rightarrow> f y)"
  by (cases x) auto

lemma reader_case_sum [reader_intros]:
  "(\<And>e. x = Inl e \<Longrightarrow> reader (m e)) \<Longrightarrow> (\<And>y. x = Inr y \<Longrightarrow> reader (f y)) \<Longrightarrow>
   reader (case x of Inl e \<Rightarrow> m e | Inr y \<Rightarrow> f y)"
  by (cases x) auto

lemma reader_case_prod [reader_intros]:
  "(\<And>a b. x = (a, b) \<Longrightarrow> reader (f a b)) \<Longrightarrow> reader (case x of (a, b) \<Rightarrow> f a b)"
  by (cases x) auto

lemma reader_case_list [reader_intros]:
  "(x = [] \<Longrightarrow> reader m) \<Longrightarrow> (\<And>y ys. x = y # ys \<Longrightarrow> reader (f y ys)) \<Longrightarrow>
   reader (case x of [] \<Rightarrow> m | y # ys \<Rightarrow> f y ys)"
  by (cases x) auto

lemma reader_for_each [reader_intros]:
  "(\<And>x. x \<in> set xs \<Longrightarrow> reader (f x)) \<Longrightarrow> reader (for_each xs f)"
  unfolding reader_def by (auto intro!: appends_intros keeps_intros)

lemma reader_fold_each [reader_intros]:
  "(\<And>x b. x \<in> set xs \<Longrightarrow> reader (f x b)) \<Longrightarrow> reader (fold_each xs f b)"
  unfolding reader_def by (auto intro!: appends_intros keeps_intros)

subsection \<open>Programs that return\<close>

text \<open>A value or an error is the end of the run, never a panic.\<close>

definition returns :: "('s, 'a) prog \<Rightarrow> bool" where
  "returns m \<longleftrightarrow> (\<forall>s p. fst (m s) \<noteq> Panic p)"

named_theorems returns_intros \<open>introduction rules of \<open>returns\<close>\<close>

lemma returns_basic [returns_intros]:
  "returns (ret x)" "returns (throw e)" "returns (kget R E ns n)" "returns (klist R E ns sel)" "returns (http E q)"
  by (simp_all add: returns_def kget_run klist_run http_def ask_run split: sum.split)

lemma returns_bindp [returns_intros]: "returns m \<Longrightarrow> (\<And>x. returns (f x)) \<Longrightarrow> returns (bindp m f)"
  and returns_wrapping [returns_intros]: "returns k \<Longrightarrow> returns (wrapping pre k)"
  and returns_attempt [returns_intros]: "returns j \<Longrightarrow> returns (attempt j)"
  by (simp_all add: returns_def bindp_run wrapping_run attempt_run split: outcome.split)

lemma returns_catchp [returns_intros]: "returns m \<Longrightarrow> (\<And>e. returns (h e)) \<Longrightarrow> returns (catchp m h)"
  by (simp add: returns_def catchp_run split: outcome.split)

lemma returns_cases [returns_intros]:
  "(b \<Longrightarrow> returns m) \<Longrightarrow> (\<not> b \<Longrightarrow> returns n) \<Longrightarrow> returns (if b then m else n)"
  "(\<And>e. returns (g e)) \<Longrightarrow> (\<And>y. returns (f y)) \<Longrightarrow> returns (case z of Inl e \<Rightarrow> g e | Inr y \<Rightarrow> f y)"
  "(\<And>a c. returns (h a c)) \<Longrightarrow> returns (case w of (a, c) \<Rightarrow> h a c)"
  "returns m \<Longrightarrow> (\<And>y. returns (f' y)) \<Longrightarrow> returns (case u of None \<Rightarrow> m | Some y \<Rightarrow> f' y)"
  "returns m \<Longrightarrow> (\<And>y ys. returns (k y ys)) \<Longrightarrow> returns (case l of [] \<Rightarrow> m | y # ys \<Rightarrow> k y ys)"
  by (cases z; cases w; cases u; cases l; simp)+

subsection \<open>Which of two programs added an event\<close>

text \<open>Events of a kind only the first of two programs adds are in its part of the history.\<close>

lemma added_bindp:
  assumes "appends B m" and "\<And>x. appends A (f x)"
    and "ev \<in> set (added s (snd (bindp m f s)))" and "\<not> A ev"
  shows "ev \<in> set (added s (snd (m s)))"
proof -
  obtain es where es: "log (snd (m s)) = log s @ es" using appendsD [OF assms(1)] by blast
  show ?thesis
  proof (cases "fst (m s)")
    case (Ok x)
    obtain xs where "log (snd (f x (snd (m s)))) = log (snd (m s)) @ xs" "list_all A xs"
      using appendsD [OF assms(2)] by blast
    with Ok es assms show ?thesis by (auto simp: bindp_run added_def list_all_iff)
  qed (use es assms in \<open>auto simp: bindp_run\<close>)
qed

text \<open>And events the first cannot add are from the second, which was reached.\<close>

lemma added_bindp_later:
  assumes "appends A m" and "ev \<in> set (added s (snd (bindp m f s)))" and "\<not> A ev"
    and "\<And>x. appends (\<lambda>_. True) (f x)"
  shows "\<exists>x t. fst (m s) = Ok x \<and> ev \<in> set (added t (snd (f x t)))"
proof -
  obtain es where es: "log (snd (m s)) = log s @ es" "list_all A es" using appendsD [OF assms(1)] by blast
  show ?thesis
  proof (cases "fst (m s)")
    case (Ok x)
    obtain xs where "log (snd (f x (snd (m s)))) = log (snd (m s)) @ xs"
      using appendsD [OF assms(4)] by blast
    with Ok es assms(2,3) show ?thesis by (auto simp: bindp_run added_def list_all_iff intro!: exI [of _ "snd (m s)"])
  qed (use es assms(2,3) in \<open>auto simp: bindp_run list_all_iff\<close>)
qed

end
