(* ===== verification/Image_Stream.thy ===== *)
theory Image_Stream
  imports Kube
begin

text \<open>
  \<open>pkg/codebaseimagestream\<close>: the latest tag of an image stream, with the part of
  \<open>time.Parse(time.RFC3339, _)\<close> it rests on, and the lookup of a branch's image stream.
\<close>

section \<open>RFC 3339 times\<close>

text \<open>
  \<open>time.Parse\<close> reads \<open>2006-01-02T15:04:05Z07:00\<close> field by field. All fields but the hour
  have a fixed width; a fraction of a second is accepted although the layout has none.
  \<open>None\<close> is a parse error.
\<close>

definition is_digit :: "char \<Rightarrow> bool" where
  "is_digit c \<longleftrightarrow> 48 \<le> (of_char c :: nat) \<and> (of_char c :: nat) \<le> 57"

definition digit_val :: "char \<Rightarrow> int" where
  "digit_val c = int (of_char c :: nat) - 48"

fun digits_val :: "string \<Rightarrow> int \<Rightarrow> int" where
  "digits_val [] acc = acc"
| "digits_val (c # cs) acc = digits_val cs (10 * acc + digit_val c)"

text \<open>\<open>getnum\<close>: two digits, or one where the field is not fixed.\<close>

fun getnum :: "bool \<Rightarrow> string \<Rightarrow> (int \<times> string) option" where
  "getnum fixed [] = None"
| "getnum fixed [c] = (if is_digit c \<and> \<not> fixed then Some (digit_val c, []) else None)"
| "getnum fixed (c # d # s) =
     (if \<not> is_digit c then None
      else if \<not> is_digit d then (if fixed then None else Some (digit_val c, d # s))
      else Some (10 * digit_val c + digit_val d, s))"

definition get_year :: "string \<Rightarrow> (int \<times> string) option" where
  "get_year s =
     (if 4 \<le> length s \<and> list_all is_digit (take 4 s)
      then Some (digits_val (take 4 s) 0, drop 4 s) else None)"

definition skip_char :: "char \<Rightarrow> string \<Rightarrow> string option" where
  "skip_char c s = (case s of [] \<Rightarrow> None | d # t \<Rightarrow> if d = c then Some t else None)"

text \<open>A field in a range, after the byte that separates it from the one before.\<close>

definition get_field :: "char \<Rightarrow> bool \<Rightarrow> int \<Rightarrow> int \<Rightarrow> string \<Rightarrow> (int \<times> string) option" where
  "get_field sep fixed lo hi s =
     Option.bind (skip_char sep s) (\<lambda>t.
     Option.bind (getnum fixed t) (\<lambda>(n, u).
     if lo \<le> n \<and> n \<le> hi then Some (n, u) else None))"

text \<open>\<open>parseNanoseconds\<close>: at most nine digits count, fewer are scaled up.\<close>

definition get_fraction :: "string \<Rightarrow> int \<times> string" where
  "get_fraction s =
     (case s of
        p # d # t \<Rightarrow>
          if (p = CHR ''.'' \<or> p = CHR '','') \<and> is_digit d
          then let ds = takeWhile is_digit (d # t); used = take 9 ds
               in (digits_val used 0 * 10 ^ (9 - length used), dropWhile is_digit (d # t))
          else (0, s)
      | _ \<Rightarrow> (0, s))"

text \<open>The zone in seconds east of UTC; an offset up to 24:60 is accepted.\<close>

definition get_zone :: "string \<Rightarrow> (int \<times> string) option" where
  "get_zone s =
     (case s of
        [] \<Rightarrow> None
      | c # t \<Rightarrow>
          if c = CHR ''Z'' then Some (0, t)
          else if length s < 6 \<or> s ! 3 \<noteq> CHR '':'' then None
          else Option.bind (getnum True (take 2 t)) (\<lambda>(hr, _).
               Option.bind (getnum True (take 2 (drop 3 t))) (\<lambda>(mm, _).
               if 24 < hr \<or> 60 < mm then None
               else if c = CHR ''+'' then Some ((hr * 60 + mm) * 60, drop 6 s)
               else if c = CHR ''-'' then Some (- ((hr * 60 + mm) * 60), drop 6 s)
               else None)))"

definition is_leap :: "int \<Rightarrow> bool" where
  "is_leap y \<longleftrightarrow> y mod 4 = 0 \<and> (y mod 100 \<noteq> 0 \<or> y mod 400 = 0)"

definition days_in :: "int \<Rightarrow> int \<Rightarrow> int" where
  "days_in y m =
     (if m = 2 then (if is_leap y then 29 else 28)
      else if m \<in> {4, 6, 9, 11} then 30 else 31)"

definition days_before_month :: "int \<Rightarrow> int \<Rightarrow> int" where
  "days_before_month y m = sum_list (map (days_in y) [1..m - 1])"

text \<open>Days from 1 January of year 1, the zero time of Go.\<close>

definition days_since_epoch :: "int \<Rightarrow> int \<Rightarrow> int \<Rightarrow> int" where
  "days_since_epoch y m d =
     (let p = y - 1 in 365 * p + p div 4 - p div 100 + p div 400 + days_before_month y m + d - 1)"

definition parse_rfc3339 :: "string \<Rightarrow> int option" where
  "parse_rfc3339 s =
     Option.bind (get_year s) (\<lambda>(year, s).
     Option.bind (get_field (CHR ''-'') True 1 12 s) (\<lambda>(month, s).
     Option.bind (get_field (CHR ''-'') True 0 99 s) (\<lambda>(day, s).
     Option.bind (get_field (CHR ''T'') False 0 23 s) (\<lambda>(hour, s).
     Option.bind (get_field (CHR '':'') True 0 59 s) (\<lambda>(minute, s).
     Option.bind (get_field (CHR '':'') True 0 59 s) (\<lambda>(sec, s).
     let (nanos, s) = get_fraction s in
     Option.bind (get_zone s) (\<lambda>(zone, s).
     if s \<noteq> [] \<or> day < 1 \<or> days_in year month < day then None
     else Some ((days_since_epoch year month day * 86400 + hour * 3600 + minute * 60 + sec - zone)
                  * 1000000000 + nanos))))))))"

text \<open>The time \<open>Parse\<close> returns next to an error is the zero time.\<close>

definition created_at :: "image_tag \<Rightarrow> int" where
  "created_at t = (case parse_rfc3339 (t_created t) of None \<Rightarrow> 0 | Some n \<Rightarrow> n)"

section \<open>The latest tag\<close>

definition no_tag :: image_tag where
  "no_tag = \<lparr>t_name = [], t_created = [], t_digest = []\<rparr>"

fun last_tag_loop :: "image_tag list \<Rightarrow> image_tag \<Rightarrow> int \<Rightarrow> image_tag" where
  "last_tag_loop [] latestTag latestTagTime = latestTag"
| "last_tag_loop (t # ts) latestTag latestTagTime =
     (if latestTagTime < created_at t then last_tag_loop ts t (created_at t)
      else last_tag_loop ts latestTag latestTagTime)"

definition GetLastTag :: "image_tag list \<Rightarrow> gerr + image_tag" where
  "GetLastTag tags =
     (let latestTag = last_tag_loop tags no_tag 0
      in if t_name latestTag = [] then Inl (errorf ''latest tag is not found'') else Inr latestTag)"

text \<open>\<open>newest tags t\<close>: \<open>t\<close> is the first tag of the list with the latest time, a valid one.\<close>

definition newest :: "image_tag list \<Rightarrow> image_tag \<Rightarrow> bool" where
  "newest tags t \<longleftrightarrow> 0 < created_at t \<and>
     (\<exists>before after. tags = before @ t # after \<and>
        list_all (\<lambda>u. created_at u < created_at t) before \<and>
        list_all (\<lambda>u. created_at u \<le> created_at t) after)"

lemma last_tag_loop_first:
  assumes "list_all (\<lambda>u. created_at u < created_at t) before"
    and "list_all (\<lambda>u. created_at u \<le> created_at t) after" and "n < created_at t"
  shows "last_tag_loop (before @ t # after) l n = t"
proof -
  have after: "last_tag_loop after l m = l" if "list_all (\<lambda>u. created_at u \<le> m) after" for l m
    using that by (induction after) auto
  from assms(1,3) show ?thesis
    by (induction before arbitrary: l n) (use after assms(2) in auto)
qed

lemma last_tag_loop_cases:
  "(last_tag_loop tags l n = l \<and> list_all (\<lambda>u. created_at u \<le> n) tags) \<or>
   (\<exists>before t after. tags = before @ t # after \<and> last_tag_loop tags l n = t \<and> n < created_at t \<and>
      list_all (\<lambda>u. created_at u < created_at t) before \<and>
      list_all (\<lambda>u. created_at u \<le> created_at t) after)"
proof (induction tags arbitrary: l n)
  case Nil
  show ?case by simp
next
  case (Cons u us)
  show ?case
  proof (cases "n < created_at u")
    case True
    from Cons.IH [of u "created_at u"] show ?thesis
    proof (elim disjE exE conjE)
      assume "last_tag_loop us u (created_at u) = u" "list_all (\<lambda>v. created_at v \<le> created_at u) us"
      with True show ?thesis by (intro disjI2 exI [of _ "[]"]) auto
    next
      fix before t after
      assume "us = before @ t # after" "last_tag_loop us u (created_at u) = t"
        "created_at u < created_at t" "list_all (\<lambda>v. created_at v < created_at t) before"
        "list_all (\<lambda>v. created_at v \<le> created_at t) after"
      with True show ?thesis by (intro disjI2 exI [of _ "u # before"]) auto
    qed
  next
    case False
    from Cons.IH [of l n] show ?thesis
    proof (elim disjE exE conjE)
      fix before t after
      assume "us = before @ t # after" "last_tag_loop us l n = t" "n < created_at t"
        "list_all (\<lambda>v. created_at v < created_at t) before"
        "list_all (\<lambda>v. created_at v \<le> created_at t) after"
      with False show ?thesis by (intro disjI2 exI [of _ "u # before"]) auto
    qed (use False in auto)
  qed
qed

lemma newest_unique: "newest tags t \<Longrightarrow> last_tag_loop tags no_tag 0 = t"
  by (auto simp: newest_def intro: last_tag_loop_first)

lemma GetLastTag_newest: "GetLastTag tags = Inr t \<longleftrightarrow> newest tags t \<and> t_name t \<noteq> []"
proof
  assume ok: "GetLastTag tags = Inr t"
  then have t: "last_tag_loop tags no_tag 0 = t" "t_name t \<noteq> []"
    by (auto simp: GetLastTag_def Let_def split: if_splits)
  then have "t \<noteq> no_tag" by (auto simp: no_tag_def)
  with t last_tag_loop_cases [of tags no_tag 0] show "newest tags t \<and> t_name t \<noteq> []"
    by (auto simp: newest_def)
next
  assume "newest tags t \<and> t_name t \<noteq> []"
  with newest_unique [of tags t] show "GetLastTag tags = Inr t"
    by (auto simp: GetLastTag_def Let_def)
qed

lemma GetLastTag_cases: "GetLastTag tags = Inl (errorf ''latest tag is not found'') \<or> (\<exists>t. GetLastTag tags = Inr t)"
  by (simp add: GetLastTag_def Let_def)

section \<open>The image stream of a branch\<close>

definition GetCodebaseImageStreamByCodebaseBaseBranchName ::
  "env \<Rightarrow> string \<Rightarrow> string \<Rightarrow> ('o st, image_stream) prog" where
  "GetCodebaseImageStreamByCodebaseBaseBranchName E codebaseBranchName namespace =
     bindp (wrapping ''failed to get CodebaseImageStream by label''
       (klist ImageStreams E namespace (by_labels [(CodebaseBranchLabel, codebaseBranchName)])))
       (\<lambda>items.
     case items of
       [] \<Rightarrow> throw (wrap_err (''failed to get CodebaseImageStream for CodebaseBranch '' @ codebaseBranchName)
               (GErr ''CodebaseImageStream not found'' [KImageStreamNotFound]))
     | [s] \<Rightarrow> ret s
     | _ # _ # _ \<Rightarrow> throw (errorf (''multiple CodebaseImageStream found for CodebaseBranch '' @
               codebaseBranchName)))"

lemma appends_GetCodebaseImageStream [appends_intros]:
  assumes "\<And>ns sel. A (EvList ''CodebaseImageStream'' ns sel)"
  shows "appends A (GetCodebaseImageStreamByCodebaseBaseBranchName E b ns)"
  unfolding GetCodebaseImageStreamByCodebaseBaseBranchName_def
  by (intro appends_intros) (auto simp: ImageStreams_def assms)

text \<open>
  The last tag is exactly the newest one: the first of the list among those with the
  latest well-formed creation time after the zero time, provided it has a name. Otherwise
  there is none, and the answer is the error.
\<close>

theorem last_tag_is_the_newest:
  "GetLastTag tags =
     (if \<exists>t. newest tags t \<and> t_name t \<noteq> []
      then Inr (THE t. newest tags t)
      else Inl (errorf ''latest tag is not found''))"
proof (cases "\<exists>t. newest tags t \<and> t_name t \<noteq> []")
  case True
  then obtain t where t: "newest tags t" "t_name t \<noteq> []" by blast
  then have "(THE t. newest tags t) = t" using newest_unique by (metis the_equality)
  with t GetLastTag_newest [of tags t] show ?thesis by auto
next
  case False
  with GetLastTag_newest [of tags] GetLastTag_cases [of tags] show ?thesis by auto
qed

end
