(* ===== verification/Example_Env.thy ===== *)
theory Example_Env
  imports Kube
begin

text \<open>
  A concrete environment for the witnesses: nothing exists, every write is stored as it
  is, every external call succeeds. A witness changes the answers it needs.
\<close>

definition not_found :: gerr where
  "not_found = GErr ''not found'' [KNotFound]"

definition empty_api :: "'o kapi" where
  "empty_api = \<lparr>k_get = \<lambda>h ns n. Inl not_found, k_list = \<lambda>h ns sel. Inr [],
     k_write = \<lambda>h v b x. Inr x\<rparr>"

definition set_condition :: "int \<Rightarrow> condition \<Rightarrow> condition list \<Rightarrow> bool \<times> condition list" where
  "set_condition t c cs =
     (case find (\<lambda>d. cond_type d = cond_type c) cs of
        None \<Rightarrow> (True, cs @ [c\<lparr>cond_transition := t\<rparr>])
      | Some d \<Rightarrow>
          let d' = c\<lparr>cond_transition := (if cond_status d = cond_status c then cond_transition d else t)\<rparr>
          in (d' \<noteq> d, map (\<lambda>x. if cond_type x = cond_type c then d' else x) cs))"

text \<open>Fields of nested objects, as \<open>unstructured\<close> documents them.\<close>

fun json_get :: "json \<Rightarrow> string list \<Rightarrow> json option" where
  "json_get v [] = Some v"
| "json_get (JObj ms) (k # ks) = (case map_of ms k of None \<Rightarrow> None | Some w \<Rightarrow> json_get w ks)"
| "json_get v (k # ks) = None"

fun json_set :: "json \<Rightarrow> json \<Rightarrow> string list \<Rightarrow> gerr + json" where
  "json_set ob v [] = Inr v"
| "json_set (JObj ms) v (k # ks) =
     (case json_set (case map_of ms k of None \<Rightarrow> JObj [] | Some w \<Rightarrow> w) v ks of
        Inl e \<Rightarrow> Inl e | Inr w \<Rightarrow> Inr (JObj (AList.update k w ms)))"
| "json_set ob v (k # ks) = Inl (errorf ''value cannot be set'')"

definition json_string_at :: "json \<Rightarrow> string list \<Rightarrow> gerr + string" where
  "json_string_at ob ks =
     (case json_get ob ks of None \<Rightarrow> Inr [] | Some (JStr s) \<Rightarrow> Inr s
      | Some _ \<Rightarrow> Inl (errorf ''accessor error''))"

text \<open>A full hash in lower case, the zero hash for anything else.\<close>

definition hash_of :: "string \<Rightarrow> string" where
  "hash_of s =
     (if length s = 40 \<and> list_all (\<lambda>c. c \<in> set ''0123456789abcdef'') (to_lower s) then to_lower s
      else replicate 40 CHR ''0'')"

definition null_lib :: lib where
  "null_lib = \<lparr>
     l_addFinalizer = \<lambda>f fs. if f \<in> set fs then (False, fs) else (True, fs @ [f]),
     l_removeFinalizer = \<lambda>f fs. filter (\<lambda>g. g \<noteq> f) fs,
     l_setControllerReference = \<lambda>o1 m. Inr m,
     l_setStatusCondition = set_condition,
     l_isStatusConditionTrue = \<lambda>cs ty. \<exists>c \<in> set cs. cond_type c = ty \<and> cond_status c = ''True'',
     l_xxhash = length,
     l_isAutoDeployTriggerType = \<lambda>sg. has_prefix ''Auto'' (st_triggerType sg),
     l_triggerTypeAutoStable = ''Auto-stable'',
     l_unmarshalUnstructured =
       \<lambda>raw. Inr \<lparr>u_ns = [], u_labels = Some [], u_spec = Some [], u_raw = raw\<rparr>,
     l_expBackoff = \<lambda>a b. a, l_retrySteps = 5,
     l_generatedResourcePrefix = ''el'',
     l_nestedString = json_string_at, l_setNestedField = \<lambda>ob s ks. json_set ob (JStr s) ks,
     l_isSuccess = \<lambda>c. 200 \<le> c \<and> c < 300, l_isError = \<lambda>c. 400 \<le> c,
     l_decodeError = \<lambda>v. errorf ''json: cannot unmarshal'',
     l_parsePrivateKey = \<lambda>k. None,
     l_hostKeyAlgorithms = \<lambda>db hp. [], l_branchRef = \<lambda>b. ''refs/heads/'' @ b, l_tagRef = \<lambda>b. ''refs/tags/'' @ b,
     l_newHash = hash_of, l_endpoint = \<lambda>url. Inr (url, 22)\<rparr>"

definition null_gogit :: gogit where
  "null_gogit = \<lparr>gg_do = \<lambda>h c. None, gg_bool = \<lambda>h c. Inr False, gg_string = \<lambda>h c. Inr ''main'',
     gg_strings = \<lambda>h c. Inr [], gg_refs = \<lambda>h c. Inr [],
     gg_advertised = \<lambda>h c. Inr \<lparr>ar_head = None, ar_references = [], ar_peeled = [],
       ar_capabilities = []\<rparr>,
     gg_report = \<lambda>h c. Inr None\<rparr>"

definition null_env :: env where
  "null_env = \<lparr>
     api_codebase = empty_api, api_branch = empty_api, api_stage_deploy = empty_api,
     api_image_stream = empty_api, api_git_server = empty_api, api_jira_server = empty_api,
     api_secret = empty_api, api_config_map = empty_api, api_quick_link = empty_api,
     api_pipeline_run = empty_api, api_trigger_template = empty_api,
     api_cd_pipeline = empty_api, api_stage = empty_api, api_unstructured = empty_api,
     api_ingress = empty_api, api_http_route = empty_api, api_route = empty_api,
     api_jira_issue_metadata = empty_api, api_event_listener = empty_api,
     git_do = \<lambda>h c g. None, git_str = \<lambda>h c g. Inr ''main'', git_list = \<lambda>h c g. Inr [],
     gerrit_do = \<lambda>h g t c. None, gerrit_bool = \<lambda>h g t c. Inr True,
     provider_do = \<lambda>h g t c. None, provider_bool = \<lambda>h g t c. Inr True,
     provider_str = \<lambda>h g t c. Inr ''1'', provider_new = \<lambda>g t. None,
     fs_do = \<lambda>h c. None, fs_stat = \<lambda>h p. StatNotExist, fs_read = \<lambda>h p. Inr [],
     fs_readdir = \<lambda>h p. Inr [], fs_parseTemplate = \<lambda>h p. None, os_env = \<lambda>n. None, rand_read = \<lambda>h n. Inr (replicate n CHR ''s''),
     new_uuid = \<lambda>h. ''uuid'',
     http_do = \<lambda>h q. Inr \<lparr>hr_code = 200, hr_status = ''200 OK'', hr_body = [],
       hr_result = None\<rparr>,
     bitbucket_do = \<lambda>h u a c. Inl not_found, known_hosts = \<lambda>h. Inr [],
     ssh_do = \<lambda>h c x. None, ssh_output = \<lambda>h c x. Inr [], gogit_of = null_gogit,
     clock = \<lambda>h. 1, lib_of = null_lib\<rparr>"

text \<open>A kind that holds the given objects, whatever is asked for.\<close>

definition one_api :: "'o \<Rightarrow> 'o kapi" where
  "one_api x = \<lparr>k_get = \<lambda>h ns n. Inr x, k_list = \<lambda>h ns sel. Inr [x], k_write = \<lambda>h v b y. Inr y\<rparr>"

lemmas example_defs = not_found_def empty_api_def null_lib_def null_gogit_def null_env_def one_api_def

text \<open>A Codebase, a CD pipeline and a branch for the examples.\<close>

definition demo_spec :: "string \<Rightarrow> codebase_spec" where
  "demo_spec path = \<lparr>cs_lang = ''go'', cs_description = None, cs_framework = ''gin'',
     cs_buildTool = ''go'', cs_strategy = ''import'', cs_repository = None,
     cs_testReportFramework = None, cs_type = ''application'', cs_gitServer = ''github'',
     cs_gitUrlPath = path, cs_deploymentScript = [], cs_versioningType = ''default'',
     cs_startFrom = None, cs_jiraServer = None, cs_commitMessagePattern = None,
     cs_ticketNamePattern = None, cs_ciTool = ''tekton'', cs_defaultBranch = ''main'',
     cs_jiraIssueMetadataPayload = None, cs_emptyProject = False, cs_branchToCopy = [],
     cs_disablePutDeployTemplates = False, cs_private = False, cs_cloneCredentials = None\<rparr>"

definition demo_codebase :: "string \<Rightarrow> string \<Rightarrow> codebase" where
  "demo_codebase name path = \<lparr>c_meta = new_meta name ''ns'', c_spec = demo_spec path,
     c_status = \<lparr>ct_available = False, ct_lastTimeUpdated = 0, ct_status = [],
       ct_username = [], ct_action = [], ct_result = [], ct_detailedMessage = [],
       ct_value = [], ct_failureCount = 0, ct_git = [], ct_webHookID = 0,
       ct_webHookRef = [], ct_gitWebUrl = []\<rparr>\<rparr>"

definition demo_pipeline :: cd_pipeline where
  "demo_pipeline = \<lparr>p_meta = new_meta ''pipe'' ''ns'', p_specName = ''pipe'',
     p_applications = [''other''], p_applicationsToPromote = [],
     p_inputDockerStreams = [''app-main'']\<rparr>"

definition demo_branch :: "string \<Rightarrow> string \<Rightarrow> branch" where
  "demo_branch name cb = \<lparr>b_meta = new_meta name ''ns'',
     b_spec = \<lparr>bs_codebaseName = cb, bs_branchName = ''main'', bs_fromCommit = [],
       bs_version = None, bs_release = False, bs_pipelines = None\<rparr>,
     b_status = \<lparr>bt_lastTimeUpdated = 0, bt_versionHistory = [], bt_lastSuccessfulBuild = None,
       bt_build = None, bt_status = [], bt_username = [], bt_action = [], bt_result = [],
       bt_detailedMessage = [], bt_value = [], bt_failureCount = 0, bt_git = [],
       bt_conditions = []\<rparr>\<rparr>"

lemmas demo_defs = demo_codebase_def demo_spec_def demo_pipeline_def demo_branch_def new_meta_def

end
