(* ===== verification/Autodeploy.thy ===== *)
theory Autodeploy
  imports Image_Stream Example_Env
begin

text \<open>
  \<open>pkg/autodeploy\<close>: which image tag every application of a pipeline is deployed with, and
  the JSON text the payload is handed over in.
\<close>

section \<open>The payload and its JSON\<close>

record app_payload =
  ap_imageTag :: string
  ap_imageDigest :: string

type_synonym payload = "(string \<times> app_payload) list"

definition hex_digit :: "nat \<Rightarrow> char" where
  "hex_digit n = (if n < 10 then char_of (48 + n) else char_of (87 + n))"

text \<open>
  \<open>encoding/json\<close> of one byte of a string: quotes and backslashes, control bytes, and the
  bytes it escapes for HTML. Other bytes stand for themselves.
\<close>

definition json_char :: "char \<Rightarrow> string" where
  "json_char c =
     (let n = (of_char c :: nat) in
      if c = CHR 0x22 then [CHR 0x5C, CHR 0x22]
      else if c = CHR 0x5C then [CHR 0x5C, CHR 0x5C]
      else if n = 8 then [CHR 0x5C, CHR ''b'']
      else if n = 12 then [CHR 0x5C, CHR ''f'']
      else if n = 10 then [CHR 0x5C, CHR ''n'']
      else if n = 13 then [CHR 0x5C, CHR ''r'']
      else if n = 9 then [CHR 0x5C, CHR ''t'']
      else if n < 32 \<or> n = 60 \<or> n = 62 \<or> n = 38
      then CHR 0x5C # ''u00'' @ [hex_digit (n div 16), hex_digit (n mod 16)]
      else [c])"

definition json_string :: "string \<Rightarrow> string" where
  "json_string s = CHR 0x22 # concat (map json_char s) @ [CHR 0x22]"

definition json_app_payload :: "app_payload \<Rightarrow> string" where
  "json_app_payload p =
     ''{'' @ json_string ''imageTag'' @ '':'' @ json_string (ap_imageTag p) @
     (if ap_imageDigest p = [] then []
      else '','' @ json_string ''imageDigest'' @ '':'' @ json_string (ap_imageDigest p)) @ ''}''"

text \<open>\<open>json.Marshal\<close> of a map writes its keys in byte order.\<close>

definition marshal_payload :: "payload \<Rightarrow> string" where
  "marshal_payload m =
     ''{'' @ str_join '',''
       (map (\<lambda>(k, p). json_string k @ '':'' @ json_app_payload p) (sort_key fst m)) @ ''}''"

section \<open>The strategies\<close>

abbreviation app_annotation :: "string \<Rightarrow> string" where
  "app_annotation app \<equiv> ''app.edp.epam.com/'' @ app"

definition tag_payload :: "image_tag \<Rightarrow> app_payload" where
  "tag_payload t = \<lparr>ap_imageTag = t_name t, ap_imageDigest = t_digest t\<rparr>"

definition getLatestTag :: "image_stream \<Rightarrow> ('s, string \<times> image_tag) prog" where
  "getLatestTag imageStream =
     (case GetLastTag (is_tags (is_spec imageStream)) of
        Inl _ \<Rightarrow> throw (GErr ''last tag not found'' [KLastTagNotFound])
      | Inr t \<Rightarrow> ret (is_codebase (is_spec imageStream), t))"

definition findDigestByTagName :: "image_stream \<Rightarrow> string \<Rightarrow> string" where
  "findDigestByTagName cbis tagName =
     (case find (\<lambda>t. t_name t = tagName) (is_tags (is_spec cbis)) of
        None \<Rightarrow> [] | Some t \<Rightarrow> t_digest t)"

definition stream_tag ::
  "env \<Rightarrow> cd_pipeline \<Rightarrow> string \<Rightarrow> ('o st, image_stream \<times> string \<times> image_tag) prog" where
  "stream_tag E pipeline stream =
     bindp (wrapping (''failed to get codebase image stream for stream '' @ stream)
       (GetCodebaseImageStreamByCodebaseBaseBranchName E stream (m_ns (p_meta pipeline))))
       (\<lambda>imageStream.
     bindp (getLatestTag imageStream) (\<lambda>(codebase, tag). ret (imageStream, codebase, tag)))"

definition all_latest_payload :: "env \<Rightarrow> cd_pipeline \<Rightarrow> ('o st, payload) prog" where
  "all_latest_payload E pipeline =
     fold_each (p_inputDockerStreams pipeline)
       (\<lambda>stream appPayload.
          bindp (stream_tag E pipeline stream) (\<lambda>(_, codebase, tag).
          ret (AList.update codebase (tag_payload tag) appPayload)))
       []"

definition GetAppPayloadForAllLatestStrategy :: "env \<Rightarrow> cd_pipeline \<Rightarrow> ('o st, string) prog" where
  "GetAppPayloadForAllLatestStrategy E pipeline =
     bindp (all_latest_payload E pipeline) (\<lambda>appPayload. ret (marshal_payload appPayload))"

text \<open>Stable applications: the tag of the Stage's annotation, with no digest yet.\<close>

definition stable_apps :: "cd_pipeline \<Rightarrow> cd_stage \<Rightarrow> payload" where
  "stable_apps pipeline stage =
     fold (\<lambda>app m.
       case map_of (m_annotations (st_meta stage)) (app_annotation app) of
         None \<Rightarrow> m
       | Some t \<Rightarrow> AList.update app \<lparr>ap_imageTag = t, ap_imageDigest = []\<rparr> m)
       (p_applications pipeline) []"

definition current_app :: "codebase_tag \<Rightarrow> app_payload" where
  "current_app current =
     \<lparr>ap_imageTag = ctag_tag current, ap_imageDigest = ctag_digest current\<rparr>"

text \<open>The step for one input stream: a new application, or the digest of a known one.\<close>

definition fill_app :: "image_stream \<Rightarrow> string \<Rightarrow> image_tag \<Rightarrow> payload \<Rightarrow> payload" where
  "fill_app imageStream codebase tag m =
     (case map_of m codebase of
        None \<Rightarrow> AList.update codebase (tag_payload tag) m
      | Some existing \<Rightarrow>
          if ap_imageDigest existing = []
          then AList.update codebase
                 (existing\<lparr>ap_imageDigest := findDigestByTagName imageStream (ap_imageTag existing)\<rparr>) m
          else m)"

definition current_with_stable_payload ::
  "env \<Rightarrow> codebase_tag \<Rightarrow> cd_pipeline \<Rightarrow> cd_stage \<Rightarrow> ('o st, payload) prog" where
  "current_with_stable_payload E current pipeline stage =
     fold_each (p_inputDockerStreams pipeline)
       (\<lambda>stream appPayload.
          bindp (stream_tag E pipeline stream) (\<lambda>(imageStream, codebase, tag).
          ret (fill_app imageStream codebase tag appPayload)))
       (AList.update (ctag_codebase current) (current_app current) (stable_apps pipeline stage))"

definition GetAppPayloadForCurrentWithStableStrategy ::
  "env \<Rightarrow> codebase_tag \<Rightarrow> cd_pipeline \<Rightarrow> cd_stage \<Rightarrow> ('o st, string) prog" where
  "GetAppPayloadForCurrentWithStableStrategy E current pipeline stage =
     bindp (current_with_stable_payload E current pipeline stage)
       (\<lambda>appPayload. ret (marshal_payload appPayload))"

text \<open>The interface \<open>autodeploy.Manager\<close> and its implementation \<open>StrategyManager\<close>.\<close>

record 'o autodeploy_manager =
  am_all_latest :: "cd_pipeline \<Rightarrow> ('o st, string) prog"
  am_current_with_stable :: "codebase_tag \<Rightarrow> cd_pipeline \<Rightarrow> cd_stage \<Rightarrow> ('o st, string) prog"

definition NewStrategyManager :: "env \<Rightarrow> 'o autodeploy_manager" where
  "NewStrategyManager E =
     \<lparr>am_all_latest = GetAppPayloadForAllLatestStrategy E,
      am_current_with_stable = GetAppPayloadForCurrentWithStableStrategy E\<rparr>"

text \<open>What the callers of the interface rely on: it only reads.\<close>

locale autodeploy_reads =
  fixes all_latest :: "cd_pipeline \<Rightarrow> ('o st, string) prog"
    and current_with_stable :: "codebase_tag \<Rightarrow> cd_pipeline \<Rightarrow> cd_stage \<Rightarrow> ('o st, string) prog"
  assumes all_latest_reads: "reader (all_latest p)"
    and current_reads: "reader (current_with_stable c p sg)"
begin

lemma payload_reads:
  "reader (wrapping m (if b then current_with_stable c p sg else all_latest p))"
  using all_latest_reads current_reads by (intro reader_intros) auto

end

lemma reader_stream_tag [reader_intros]: "reader (stream_tag E p st)"
  unfolding stream_tag_def getLatestTag_def GetCodebaseImageStreamByCodebaseBaseBranchName_def
  by (intro reader_intros)

interpretation strategy_manager: autodeploy_reads
  "am_all_latest (NewStrategyManager E)" "am_current_with_stable (NewStrategyManager E)" for E
  by unfold_locales
    (simp_all add: NewStrategyManager_def GetAppPayloadForAllLatestStrategy_def all_latest_payload_def
       GetAppPayloadForCurrentWithStableStrategy_def current_with_stable_payload_def reader_intros)

section \<open>What the strategies choose\<close>

lemma stream_tag_Ok:
  assumes "fst (stream_tag E p st s) = Ok (cis, c, t)"
  shows "c = is_codebase (is_spec cis) \<and> newest (is_tags (is_spec cis)) t \<and> t_name t \<noteq> []"
  using assms
  by (auto simp: stream_tag_def getLatestTag_def bindp_run GetLastTag_newest
        split: outcome.splits sum.splits)

lemma stable_apps_lookup:
  "map_of (stable_apps pipeline stage) app =
     (if app \<in> set (p_applications pipeline)
      then map_option (\<lambda>t. \<lparr>ap_imageTag = t, ap_imageDigest = []\<rparr>)
             (map_of (m_annotations (st_meta stage)) (app_annotation app))
      else None)"
proof -
  have "map_of (fold (\<lambda>app m.
       case map_of an (app_annotation app) of
         None \<Rightarrow> m
       | Some t \<Rightarrow> AList.update app \<lparr>ap_imageTag = t, ap_imageDigest = []\<rparr> m) apps m) app =
     (if app \<in> set apps \<and> map_of an (app_annotation app) \<noteq> None
      then map_option (\<lambda>t. \<lparr>ap_imageTag = t, ap_imageDigest = []\<rparr>) (map_of an (app_annotation app))
      else map_of m app)" for an apps and m :: payload
    by (induction apps arbitrary: m) (auto simp: update_conv' split: option.splits)
  then show ?thesis by (simp add: stable_apps_def)
qed

text \<open>Filling in a stream never changes the tag of an application already chosen.\<close>

lemma fill_app_tag:
  "map_option ap_imageTag (map_of m app) = Some x \<Longrightarrow>
   map_option ap_imageTag (map_of (fill_app cis c t m) app) = Some x"
  by (auto simp: fill_app_def update_conv' split: option.splits)

lemma fill_app_digest:
  "map_of m app = Some a \<Longrightarrow> ap_imageDigest a \<noteq> [] \<Longrightarrow> map_of (fill_app cis c t m) app = Some a"
  by (auto simp: fill_app_def update_conv' split: option.splits)

lemma current_with_stable_invariant:
  assumes "fst (current_with_stable_payload E current pipeline stage s) = Ok m"
    and "I (AList.update (ctag_codebase current) (current_app current) (stable_apps pipeline stage))"
    and "\<And>cis c t m. I m \<Longrightarrow> I (fill_app cis c t m)"
  shows "I m"
  using assms(1) unfolding current_with_stable_payload_def
proof (rule fold_each_invariant [where I = I])
  fix x b s b'
  assume "I b"
    and "fst (bindp (stream_tag E pipeline x)
           (\<lambda>(imageStream, codebase, tag). ret (fill_app imageStream codebase tag b)) s) = Ok b'"
  with assms(3) show "I b'" by (auto simp: bindp_run split: outcome.splits prod.splits)
qed (rule assms(2))

text \<open>
  The deploy that triggered the run gets its own tag, and every other application with a
  stable tag keeps that tag, whatever newer tags its image stream holds.
\<close>

lemma current_with_stable_tag:
  assumes "fst (current_with_stable_payload E current pipeline stage s) = Ok m"
  shows "map_option ap_imageTag (map_of m (ctag_codebase current)) = Some (ctag_tag current)"
    and "app \<noteq> ctag_codebase current \<Longrightarrow> app \<in> set (p_applications pipeline) \<Longrightarrow>
      map_of (m_annotations (st_meta stage)) (app_annotation app) = Some t \<Longrightarrow>
      map_option ap_imageTag (map_of m app) = Some t"
    and "ctag_digest current \<noteq> [] \<Longrightarrow>
      map_of m (ctag_codebase current) = Some (current_app current)"
proof -
  show "map_option ap_imageTag (map_of m (ctag_codebase current)) = Some (ctag_tag current)"
    using assms by (rule current_with_stable_invariant)
      (simp_all add: update_conv' current_app_def fill_app_tag)
next
  assume "app \<noteq> ctag_codebase current" "app \<in> set (p_applications pipeline)"
    "map_of (m_annotations (st_meta stage)) (app_annotation app) = Some t"
  then have start: "map_option ap_imageTag (map_of (AList.update (ctag_codebase current)
       (current_app current) (stable_apps pipeline stage)) app) = Some t"
    by (simp add: update_conv' stable_apps_lookup)
  show "map_option ap_imageTag (map_of m app) = Some t"
    by (rule current_with_stable_invariant [OF assms]) (use start fill_app_tag in auto)
next
  assume dig: "ctag_digest current \<noteq> []"
  show "map_of m (ctag_codebase current) = Some (current_app current)"
    using assms by (rule current_with_stable_invariant)
      (use dig in \<open>simp_all add: update_conv' current_app_def fill_app_digest\<close>)
qed

definition newest_of :: "string \<Rightarrow> app_payload \<Rightarrow> bool" where
  "newest_of app a \<longleftrightarrow>
    (\<exists>(cis :: image_stream) t. is_codebase (is_spec cis) = app \<and> newest (is_tags (is_spec cis)) t \<and>
       t_name t \<noteq> [] \<and> a = tag_payload t)"

lemma all_latest_newest:
  assumes "fst (all_latest_payload E pipeline s) = Ok m"
  shows "\<forall>app a. map_of m app = Some a \<longrightarrow> newest_of app a"
  using assms unfolding all_latest_payload_def
proof (rule fold_each_invariant)
  fix x :: string and b s b'
  assume inv: "\<forall>app a. map_of b app = Some a \<longrightarrow> newest_of app a"
    and ok: "fst (bindp (stream_tag E pipeline x)
           (\<lambda>(_, codebase, tag). ret (AList.update codebase (tag_payload tag) b)) s) = Ok b'"
  from ok obtain cis c t where tag: "fst (stream_tag E pipeline x s) = Ok (cis, c, t)"
    and b': "b' = AList.update c (tag_payload t) b"
    by (auto simp: bindp_run split: outcome.splits prod.splits)
  have "newest_of c (tag_payload t)"
    using stream_tag_Ok [OF tag] by (auto simp: newest_of_def)
  with inv b' show "\<forall>app a. map_of b' app = Some a \<longrightarrow> newest_of app a"
    by (simp add: update_conv')
qed simp

section \<open>Properties\<close>

text \<open>
  C15: the payload of the current-with-stable strategy keeps what was promoted. The
  application whose new tag triggered the deploy gets that tag, and every other
  application of the pipeline with a stable tag on the Stage gets that tag, whatever newer
  tags its image stream holds.
\<close>

theorem current_with_stable_keeps_tags:
  assumes "fst (GetAppPayloadForCurrentWithStableStrategy E current pipeline stage s) = Ok js"
  shows "\<exists>m. js = marshal_payload m \<and>
    map_option ap_imageTag (map_of m (ctag_codebase current)) = Some (ctag_tag current) \<and>
    (\<forall>app \<in> set (p_applications pipeline) - {ctag_codebase current}. \<forall>t.
       map_of (m_annotations (st_meta stage)) (app_annotation app) = Some t \<longrightarrow>
       map_option ap_imageTag (map_of m app) = Some t)"
proof -
  from assms obtain m where m: "fst (current_with_stable_payload E current pipeline stage s) = Ok m"
    and js: "js = marshal_payload m"
    by (auto simp: GetAppPayloadForCurrentWithStableStrategy_def bindp_run split: outcome.splits)
  show ?thesis
    using current_with_stable_tag(1,2) [OF m] js by auto
qed

text \<open>
  The payload of the all-latest strategy names, for each application, the newest
  tag of an image stream of that application.
\<close>

theorem all_latest_takes_newest_tags:
  assumes "fst (GetAppPayloadForAllLatestStrategy E pipeline s) = Ok js"
  shows "\<exists>m. js = marshal_payload m \<and> (\<forall>app a. map_of m app = Some a \<longrightarrow> newest_of app a)"
proof -
  from assms obtain m where m: "fst (all_latest_payload E pipeline s) = Ok m"
    and js: "js = marshal_payload m"
    by (auto simp: GetAppPayloadForAllLatestStrategy_def bindp_run split: outcome.splits)
  show ?thesis using all_latest_newest [OF m] js by auto
qed

definition stream0 :: image_stream where
  "stream0 = \<lparr>is_meta = new_meta ''app-main'' ''ns'',
     is_spec = \<lparr>is_codebase = ''app'', is_imageName = ''reg/app'',
       is_tags = [\<lparr>t_name = ''1.0'', t_created = ''2024-01-01T00:00:00Z'', t_digest = ''sha256:1''\<rparr>,
         \<lparr>t_name = ''1.1'', t_created = ''2024-01-02T00:00:00Z'', t_digest = ''sha256:2''\<rparr>]\<rparr>\<rparr>"

definition pipeline1 :: cd_pipeline where
  "pipeline1 = \<lparr>p_meta = new_meta ''p'' ''ns'', p_specName = ''p'', p_applications = [''app'', ''web''],
     p_applicationsToPromote = [], p_inputDockerStreams = [''app-main'']\<rparr>"

definition stage1 :: cd_stage where
  "stage1 = \<lparr>st_meta = (new_meta ''p-dev'' ''ns'')\<lparr>m_annotations := [(app_annotation ''app'', ''1.0'')]\<rparr>,
     st_specName = ''dev'', st_cdPipeline = ''p'', st_clusterName = ''c'', st_triggerTemplate = ''tt'',
     st_triggerType = ''Auto-stable'', st_qualityGates = []\<rparr>"

definition stream_env :: env where
  "stream_env = null_env\<lparr>api_image_stream := one_api stream0\<rparr>"

lemma current_with_stable_keeps_tags_witness:
  "\<exists>m. fst (GetAppPayloadForCurrentWithStableStrategy stream_env
       \<lparr>ctag_codebase = ''web'', ctag_tag = ''2.0'', ctag_digest = ''sha256:9''\<rparr> pipeline1 stage1
       \<lparr>obj = (), log = []\<rparr>) = Ok (marshal_payload m) \<and>
     map_option ap_imageTag (map_of m ''app'') = Some ''1.0''"
proof -
  have "fst (GetAppPayloadForCurrentWithStableStrategy stream_env
       \<lparr>ctag_codebase = ''web'', ctag_tag = ''2.0'', ctag_digest = ''sha256:9''\<rparr> pipeline1 stage1
       \<lparr>obj = (), log = []\<rparr>) =
     Ok (marshal_payload [(''app'', \<lparr>ap_imageTag = ''1.0'', ap_imageDigest = ''sha256:1''\<rparr>),
       (''web'', \<lparr>ap_imageTag = ''2.0'', ap_imageDigest = ''sha256:9''\<rparr>)])"
    by code_simp
  from current_with_stable_keeps_tags [OF this] this show ?thesis
    by (fastforce simp: pipeline1_def stage1_def)
qed

lemma all_latest_takes_newest_tags_witness:
  "\<exists>m. fst (GetAppPayloadForAllLatestStrategy stream_env pipeline1 \<lparr>obj = (), log = []\<rparr>) =
     Ok (marshal_payload m) \<and> (\<forall>app a. map_of m app = Some a \<longrightarrow> newest_of app a)"
proof -
  have "fst (GetAppPayloadForAllLatestStrategy stream_env pipeline1 \<lparr>obj = (), log = []\<rparr>) =
     Ok (marshal_payload [(''app'', \<lparr>ap_imageTag = ''1.1'', ap_imageDigest = ''sha256:2''\<rparr>)])"
    by code_simp
  from all_latest_takes_newest_tags [OF this] this show ?thesis by auto
qed

end
