(* ===== verification/Go_Std.thy ===== *)
theory Go_Std
  imports Prelude
begin

text \<open>
  Parts of Go's standard library the operator's parsers rest on: \<open>encoding/json\<close> decoding
  into an \<open>interface\<close>, \<open>strconv.Atoi\<close> and \<open>time.ParseDuration\<close>. Strings are sequences of
  bytes; a text that is decoded is valid UTF-8, as everything the API server stores is, and
  nested less than the ten thousand levels at which \<open>encoding/json\<close> gives up.
\<close>

section \<open>JSON\<close>

definition is_ws :: "char \<Rightarrow> bool" where
  "is_ws c \<longleftrightarrow> c \<in> {CHR '' '', CHR 0x09, CHR 0x0A, CHR 0x0D}"

definition skip_ws :: "string \<Rightarrow> string" where
  "skip_ws s = dropWhile is_ws s"

definition is_dig :: "char \<Rightarrow> bool" where
  "is_dig c \<longleftrightarrow> 48 \<le> (of_char c :: nat) \<and> (of_char c :: nat) \<le> 57"

definition hex_value :: "char \<Rightarrow> nat option" where
  "hex_value c =
     (let n = (of_char c :: nat)
      in if 48 \<le> n \<and> n \<le> 57 then Some (n - 48)
         else if 97 \<le> n \<and> n \<le> 102 then Some (n - 87)
         else if 65 \<le> n \<and> n \<le> 70 then Some (n - 55)
         else None)"

fun hex4 :: "string \<Rightarrow> nat option" where
  "hex4 (a # b # c # d # s) =
     (case (hex_value a, hex_value b, hex_value c, hex_value d) of
        (Some w, Some x, Some y, Some z) \<Rightarrow> Some (((w * 16 + x) * 16 + y) * 16 + z)
      | _ \<Rightarrow> None)"
| "hex4 s = None"

text \<open>The UTF-8 encoding of a code point.\<close>

definition utf8 :: "nat \<Rightarrow> string" where
  "utf8 n =
     map char_of
       (if n < 0x80 then [n]
        else if n < 0x800 then [0xC0 + n div 64, 0x80 + n mod 64]
        else if n < 0x10000 then [0xE0 + n div 4096, 0x80 + n div 64 mod 64, 0x80 + n mod 64]
        else [0xF0 + n div 262144, 0x80 + n div 4096 mod 64, 0x80 + n div 64 mod 64, 0x80 + n mod 64])"

definition escaped :: "char \<Rightarrow> char option" where
  "escaped c =
     (if c \<in> {CHR 0x22, CHR 0x5C, CHR ''/''} then Some c
      else if c = CHR ''b'' then Some (CHR 0x08)
      else if c = CHR ''f'' then Some (CHR 0x0C)
      else if c = CHR ''n'' then Some (CHR 0x0A)
      else if c = CHR ''r'' then Some (CHR 0x0D)
      else if c = CHR ''t'' then Some (CHR 0x09)
      else None)"

text \<open>
  The digits of a unicode escape and the code point: a surrogate pair is one code point,
  and half of one is the replacement character. The number is how much text it takes.
\<close>

definition unicode_escape :: "string \<Rightarrow> (string \<times> nat) option" where
  "unicode_escape s =
     (case hex4 s of
        None \<Rightarrow> None
      | Some hi \<Rightarrow>
          if hi < 0xD800 \<or> 0xE000 \<le> hi then Some (utf8 hi, 4)
          else if hi < 0xDC00 \<and> take 2 (drop 4 s) = [CHR 0x5C, CHR ''u''] then
            (case hex4 (drop 6 s) of
               Some lo \<Rightarrow>
                 if 0xDC00 \<le> lo \<and> lo < 0xE000
                 then Some (utf8 ((hi - 0xD800) * 1024 + (lo - 0xDC00) + 0x10000), 10)
                 else Some (utf8 0xFFFD, 4)
             | None \<Rightarrow> Some (utf8 0xFFFD, 4))
          else Some (utf8 0xFFFD, 4))"

text \<open>The text of a string after its opening quote, and what follows the closing one.\<close>

function json_string_end :: "string \<Rightarrow> (string \<times> string) option" where
  "json_string_end [] = None"
| "json_string_end (c # cs) =
     (if c = CHR 0x22 then Some ([], cs)
      else if c = CHR 0x5C then
        (case cs of
           [] \<Rightarrow> None
         | e # r \<Rightarrow>
             if e = CHR ''u'' then
               (case unicode_escape r of
                  None \<Rightarrow> None
                | Some (u, n) \<Rightarrow> map_option (\<lambda>(w, t). (u @ w, t)) (json_string_end (drop n r)))
             else
               (case escaped e of
                  None \<Rightarrow> None
                | Some x \<Rightarrow> map_option (\<lambda>(w, t). (x # w, t)) (json_string_end r)))
      else if (of_char c :: nat) < 32 then None
      else map_option (\<lambda>(w, t). (c # w, t)) (json_string_end cs))"
  by pat_completeness auto
termination
  by (relation "measure length") auto

definition digits_end :: "string \<Rightarrow> (string \<times> string) option" where
  "digits_end s = (if takeWhile is_dig s = [] then None else Some (takeWhile is_dig s, dropWhile is_dig s))"

text \<open>A number: its sign, its integer, fraction and exponent digits, and the rest.\<close>

definition json_int :: "string \<Rightarrow> (string \<times> string) option" where
  "json_int s =
     (case s of
        [] \<Rightarrow> None
      | c # r \<Rightarrow> if c = CHR ''0'' then Some ([c], r) else digits_end s)"

definition json_frac :: "string \<Rightarrow> (string \<times> string) option" where
  "json_frac s =
     (case s of
        c # r \<Rightarrow> if c = CHR ''.'' then map_option (\<lambda>(d, t). (c # d, t)) (digits_end r) else Some ([], s)
      | [] \<Rightarrow> Some ([], s))"

definition json_exp :: "string \<Rightarrow> (string \<times> string) option" where
  "json_exp s =
     (case s of
        c # r \<Rightarrow>
          if c = CHR ''e'' \<or> c = CHR ''E'' then
            (case r of
               d # t \<Rightarrow>
                 if d = CHR ''+'' \<or> d = CHR ''-''
                 then map_option (\<lambda>(w, u). (c # d # w, u)) (digits_end t)
                 else map_option (\<lambda>(w, u). (c # w, u)) (digits_end r)
             | [] \<Rightarrow> None)
          else Some ([], s)
      | [] \<Rightarrow> Some ([], s))"

definition json_number :: "string \<Rightarrow> (string \<times> string) option" where
  "json_number s =
     (let (sign, s1) = (case s of c # r \<Rightarrow> if c = CHR ''-'' then ([c], r) else ([], s) | [] \<Rightarrow> ([], s)) in
      Option.bind (json_int s1) (\<lambda>(i, s2).
      Option.bind (json_frac s2) (\<lambda>(f, s3).
      Option.bind (json_exp s3) (\<lambda>(e, s4).
      Some (sign @ i @ f @ e, s4)))))"

definition json_literal :: "string \<Rightarrow> (json \<times> string) option" where
  "json_literal s =
     (if has_prefix ''true'' s then Some (JBool True, drop 4 s)
      else if has_prefix ''false'' s then Some (JBool False, drop 5 s)
      else if has_prefix ''null'' s then Some (JNull, drop 4 s)
      else map_option (\<lambda>(n, t). (JNum n, t)) (json_number s))"

text \<open>
  A value and the text after it. Two calls take at least one character, so fuel of more
  than twice the length of the text is enough.
\<close>

fun json_value :: "nat \<Rightarrow> string \<Rightarrow> (json \<times> string) option"
  and json_elems :: "nat \<Rightarrow> string \<Rightarrow> (json list \<times> string) option"
  and json_members :: "nat \<Rightarrow> string \<Rightarrow> ((string \<times> json) list \<times> string) option" where
  "json_value 0 s = None"
| "json_value (Suc n) s =
     (case skip_ws s of
        [] \<Rightarrow> None
      | c # r \<Rightarrow>
          if c = CHR ''{'' then
            (case skip_ws r of
               d # t \<Rightarrow>
                 if d = CHR ''}'' then Some (JObj [], t)
                 else map_option (\<lambda>(ms, u). (JObj ms, u)) (json_members n r)
             | [] \<Rightarrow> None)
          else if c = CHR ''['' then
            (case skip_ws r of
               d # t \<Rightarrow>
                 if d = CHR '']'' then Some (JArr [], t)
                 else map_option (\<lambda>(vs, u). (JArr vs, u)) (json_elems n r)
             | [] \<Rightarrow> None)
          else if c = CHR 0x22 then map_option (\<lambda>(w, t). (JStr w, t)) (json_string_end r)
          else json_literal (c # r))"
| "json_elems 0 s = None"
| "json_elems (Suc n) s =
     (case json_value n s of
        None \<Rightarrow> None
      | Some (v, r) \<Rightarrow>
          (case skip_ws r of
             d # t \<Rightarrow>
               if d = CHR '','' then map_option (\<lambda>(vs, u). (v # vs, u)) (json_elems n t)
               else if d = CHR '']'' then Some ([v], t)
               else None
           | [] \<Rightarrow> None))"
| "json_members 0 s = None"
| "json_members (Suc n) s =
     (case skip_ws s of
        [] \<Rightarrow> None
      | q # r \<Rightarrow>
          if q \<noteq> CHR 0x22 then None
          else
            (case json_string_end r of
               None \<Rightarrow> None
             | Some (k, r1) \<Rightarrow>
                 (case skip_ws r1 of
                    [] \<Rightarrow> None
                  | c # r2 \<Rightarrow>
                      if c \<noteq> CHR '':'' then None
                      else
                        (case json_value n r2 of
                           None \<Rightarrow> None
                         | Some (v, r3) \<Rightarrow>
                             (case skip_ws r3 of
                                d # t \<Rightarrow>
                                  if d = CHR '','' then
                                    map_option (\<lambda>(ms, u). ((k, v) # ms, u)) (json_members n t)
                                  else if d = CHR ''}'' then Some ([(k, v)], t)
                                  else None
                              | [] \<Rightarrow> None)))))"

definition json_parse :: "string \<Rightarrow> json option" where
  "json_parse s =
     (case json_value (Suc (2 * length s)) s of
        Some (v, r) \<Rightarrow> if skip_ws r = [] then Some v else None
      | None \<Rightarrow> None)"

subsection \<open>The fuel is enough\<close>

lemma skip_ws_length: "length (skip_ws s) \<le> length s"
  by (simp add: skip_ws_def length_dropWhile_le)

lemma skip_ws_Cons: "skip_ws s = c # r \<Longrightarrow> length r < length s"
  using skip_ws_length [of s] by simp

lemma json_string_end_length: "json_string_end s = Some (w, t) \<Longrightarrow> length t < length s"
proof (induction s arbitrary: w t rule: json_string_end.induct)
  case (2 c cs)
  then show ?case
    by (auto split: if_splits list.splits option.splits) (fastforce+)
qed simp

lemma json_number_length: "json_number s = Some (w, t) \<Longrightarrow> length t < length s"
proof -
  have digits: "length t < length s" if "digits_end s = Some (w, t)" for s w t
  proof -
    from that have "takeWhile is_dig s \<noteq> []" "t = dropWhile is_dig s"
      by (auto simp: digits_end_def split: if_splits)
    moreover have "length s = length (takeWhile is_dig s) + length (dropWhile is_dig s)"
      by (metis length_append takeWhile_dropWhile_id)
    ultimately show ?thesis by simp
  qed
  have int: "length t < length s" if "json_int s = Some (w, t)" for s w t
    using that by (cases s) (auto simp: json_int_def split: if_splits dest!: digits)
  have frac: "length t \<le> length s" if "json_frac s = Some (w, t)" for s w t
    using that by (auto simp: json_frac_def split: list.splits if_splits dest!: digits)
  have exp: "length t \<le> length s" if "json_exp s = Some (w, t)" for s w t
    using that by (auto simp: json_exp_def split: list.splits if_splits dest!: digits)
  show "json_number s = Some (w, t) \<Longrightarrow> length t < length s"
    by (auto simp: json_number_def bind_eq_Some_conv dest!: int frac exp split: list.splits if_splits)
qed

lemma json_literal_length:
  assumes "json_literal s = Some (v, t)"
  shows "length t < length s"
proof -
  have "has_prefix p s \<Longrightarrow> length p \<le> length s" for p
    by (metis has_prefix_iff length_append le_add1)
  then show ?thesis
    using assms by (force simp: json_literal_def split: if_splits dest: json_number_length)
qed

lemma json_length_all:
  "(\<forall>s v r. json_value n s = Some (v, r) \<longrightarrow> length r < length s) \<and>
   (\<forall>s vs r. json_elems n s = Some (vs, r) \<longrightarrow> length r < length s) \<and>
   (\<forall>s ms r. json_members n s = Some (ms, r) \<longrightarrow> length r < length s)"
proof (induction n)
  case (Suc n)
  then have val: "json_value n s = Some (v, r) \<Longrightarrow> length r < length s"
    and elems: "json_elems n s = Some (vs, r) \<Longrightarrow> length r < length s"
    and members: "json_members n s = Some (ms, r) \<Longrightarrow> length r < length s" for s v r vs ms
    by blast+
  have "length r < length s" if "json_value (Suc n) s = Some (v, r)" for s v r
    using that
    by (auto split: list.splits if_splits
        dest!: skip_ws_Cons elems members json_string_end_length json_literal_length)
  moreover have "length r < length s" if "json_elems (Suc n) s = Some (vs, r)" for s vs r
    using that
    by (auto split: list.splits if_splits option.splits dest!: skip_ws_Cons elems val)
  moreover have "length r < length s" if "json_members (Suc n) s = Some (ms, r)" for s ms r
    using that
    by (auto split: list.splits if_splits option.splits
        dest!: skip_ws_Cons members val json_string_end_length)
  ultimately show ?case by blast
qed simp

lemmas json_value_length = json_length_all [THEN conjunct1, rule_format]

text \<open>Any two amounts of fuel that are enough give the same answer.\<close>

lemma json_fuel:
  "(\<forall>m s. 2 * length s < n \<longrightarrow> 2 * length s < m \<longrightarrow> json_value m s = json_value n s) \<and>
   (\<forall>m s. 2 * length s + 1 < n \<longrightarrow> 2 * length s + 1 < m \<longrightarrow> json_elems m s = json_elems n s) \<and>
   (\<forall>m s. 2 * length s + 1 < n \<longrightarrow> 2 * length s + 1 < m \<longrightarrow> json_members m s = json_members n s)"
proof (induction n)
  case (Suc n)
  then have val: "2 * length s < n \<Longrightarrow> 2 * length s < m \<Longrightarrow> json_value m s = json_value n s"
    and elems: "2 * length s + 1 < n \<Longrightarrow> 2 * length s + 1 < m \<Longrightarrow> json_elems m s = json_elems n s"
    and members: "2 * length s + 1 < n \<Longrightarrow> 2 * length s + 1 < m \<Longrightarrow> json_members m s = json_members n s"
    for m s by blast+
  have "json_value m s = json_value (Suc n) s" if "2 * length s < Suc n" "2 * length s < m" for m s
  proof (cases m)
    case m: (Suc k)
    show ?thesis
    proof (cases "skip_ws s")
      case (Cons c r)
      with skip_ws_Cons [OF Cons] that m have "2 * length r + 1 < n" "2 * length r + 1 < k" by auto
      with elems [of r k] members [of r k] show ?thesis
        by (simp add: m Cons split: list.split)
    qed (simp add: m)
  qed (use that in simp)
  moreover have "json_elems m s = json_elems (Suc n) s"
    if "2 * length s + 1 < Suc n" "2 * length s + 1 < m" for m s
  proof (cases m)
    case m: (Suc k)
    from val [of s k] that m have v: "json_value k s = json_value n s" by simp
    have "json_elems k t = json_elems n t" if "json_value n s = Some (x, r)" "skip_ws r = d # t" for x r d t
      using json_value_length [OF that(1)] skip_ws_Cons [OF that(2)] \<open>2 * length s + 1 < Suc n\<close>
        \<open>2 * length s + 1 < m\<close> m by (intro elems) auto
    then show ?thesis by (auto simp: m v split: option.split list.split)
  qed (use that in simp)
  moreover have "json_members m s = json_members (Suc n) s"
    if "2 * length s + 1 < Suc n" "2 * length s + 1 < m" for m s
  proof (cases m)
    case m: (Suc k)
    have "json_value k r2 = json_value n r2 \<and>
        (\<forall>v r3 d t. json_value n r2 = Some (v, r3) \<longrightarrow> skip_ws r3 = d # t \<longrightarrow>
           json_members k t = json_members n t)"
      if "skip_ws s = q # r" "json_string_end r = Some (key, r1)" "skip_ws r1 = c # r2" for q r key r1 c r2
    proof -
      have "length r2 < length s"
        using skip_ws_Cons [OF that(1)] json_string_end_length [OF that(2)] skip_ws_Cons [OF that(3)] by simp
      then have "2 * length r2 < n" "2 * length r2 < k"
        using \<open>2 * length s + 1 < Suc n\<close> \<open>2 * length s + 1 < m\<close> m by auto
      moreover have "2 * length t + 1 < n \<and> 2 * length t + 1 < k"
        if "json_value n r2 = Some (v, r3)" "skip_ws r3 = d # t" for v r3 d t
        using json_value_length [OF that(1)] skip_ws_Cons [OF that(2)] calculation by simp
      ultimately show ?thesis using val members by blast
    qed
    then show ?thesis by (auto simp: m split: option.split list.split)
  qed (use that in simp)
  ultimately show ?case by blast
qed simp

lemma json_parse_fuel:
  "2 * length s < n \<Longrightarrow>
   json_parse s = (case json_value n s of
     Some (v, r) \<Rightarrow> if skip_ws r = [] then Some v else None | None \<Rightarrow> None)"
  unfolding json_parse_def using json_fuel [of "Suc (2 * length s)"] by simp

section \<open>Decoding into a map\<close>

fun digits_int :: "string \<Rightarrow> int \<Rightarrow> int" where
  "digits_int [] acc = acc"
| "digits_int (c # cs) acc = digits_int cs (10 * acc + ((of_char c :: int) - 48))"

text \<open>A number that a \<open>float64\<close> holds after rounding; Go refuses the others.\<close>

definition float_fits :: "string \<Rightarrow> bool" where
  "float_fits s =
     (let s1 = (case s of c # r \<Rightarrow> if c = CHR ''-'' then r else s | [] \<Rightarrow> s) in
      case json_int s1 of
        None \<Rightarrow> True
      | Some (i, s2) \<Rightarrow>
      (case json_frac s2 of
        None \<Rightarrow> True
      | Some (f, s3) \<Rightarrow>
          let e = (case s3 of [] \<Rightarrow> [] | _ # t \<Rightarrow> t);
              ex = (case e of
                      [] \<Rightarrow> 0
                    | c # t \<Rightarrow> if c = CHR ''-'' then - digits_int t 0
                               else if c = CHR ''+'' then (digits_int t 0)
                               else (digits_int e 0));
              m = digits_int (i @ drop 1 f) 0;
              k = ex - int (length (drop 1 f));
              bound = 2 ^ 1024 - 2 ^ 970
          in if 0 \<le> k then m * 10 ^ nat k < bound else m < bound * 10 ^ nat (- k)))"

primrec floats_fit :: "json \<Rightarrow> bool" where
  "floats_fit JNull = True"
| "floats_fit (JBool b) = True"
| "floats_fit (JNum n) = float_fits n"
| "floats_fit (JStr s) = True"
| "floats_fit (JArr vs) = list_all id (map floats_fit vs)"
| "floats_fit (JObj ms) = list_all id (map snd (map (map_prod id floats_fit) ms))"

text \<open>A key that appears twice keeps its last value.\<close>

definition json_map :: "(string \<times> json) list \<Rightarrow> (string \<times> json) list" where
  "json_map ms = fold (\<lambda>(k, v) m. AList.update k v m) ms []"

text \<open>
  \<open>util.GetFieldsMap\<close>. The text of a decoding error is Go's: \<open>describe\<close>. The word \<open>null\<close>
  decodes into a nil map.
\<close>

definition GetFieldsMap ::
  "(string \<Rightarrow> string) \<Rightarrow> string \<Rightarrow> string list \<Rightarrow> gerr + (string \<times> json) list" where
  "GetFieldsMap describe payload keysToDelete =
     (let failed = Inl (wrap_err ''failed to unmarshal json payload'' (errorf (describe payload))) in
      case json_parse payload of
        Some JNull \<Rightarrow> Inr []
      | Some (JObj ms) \<Rightarrow>
          if floats_fit (JObj ms)
          then Inr (filter (\<lambda>(k, _). k \<notin> set keysToDelete) (json_map ms))
          else failed
      | _ \<Rightarrow> failed)"

definition CheckElementInArray :: "string list \<Rightarrow> string \<Rightarrow> bool" where
  "CheckElementInArray array element = list_ex (\<lambda>c. c = element) array"

section \<open>Integers and durations\<close>

definition Atoi :: "string \<Rightarrow> gerr + int" where
  "Atoi s =
     (let (neg, ds) = (case s of
            c # r \<Rightarrow> if c = CHR ''-'' then (True, r) else if c = CHR ''+'' then (False, r) else (False, s)
          | [] \<Rightarrow> (False, s));
          fail = (\<lambda>why. Inl (errorf (''strconv.Atoi: parsing '' @ quoted s @ '': '' @ why)));
          n = (digits_int ds 0)
      in if ds = [] \<or> \<not> list_all is_dig ds then fail ''invalid syntax''
         else if neg \<and> 2 ^ 63 < n \<or> \<not> neg \<and> 2 ^ 63 \<le> n then fail ''value out of range''
         else Inr (if neg then - n else n))"

definition duration_unit :: "string \<Rightarrow> int option" where
  "duration_unit u =
     map_of [(''ns'', 1), (''us'', 1000), ([CHR 0xC2, CHR 0xB5, CHR ''s''], 1000),
       ([CHR 0xCE, CHR 0xBC, CHR ''s''], 1000), (''ms'', 1000000), (''s'', 1000000000),
       (''m'', 60000000000), (''h'', 3600000000000)] u"

text \<open>
  The numbers with units of a duration, added up in nanoseconds. A fraction is taken
  exactly, where Go goes through a \<open>float64\<close>.
\<close>

function duration_sum :: "string \<Rightarrow> int \<Rightarrow> string + int" where
  "duration_sum s acc =
     (if s = [] then Inr acc
      else
        let ds = takeWhile is_dig s; s1 = dropWhile is_dig s;
            dot = (case s1 of c # _ \<Rightarrow> c = CHR ''.'' | [] \<Rightarrow> False);
            fs = (if dot then takeWhile is_dig (drop 1 s1) else []);
            s2 = (if dot then dropWhile is_dig (drop 1 s1) else s1);
            u = takeWhile (\<lambda>c. c \<noteq> CHR ''.'' \<and> \<not> is_dig c) s2;
            s3 = dropWhile (\<lambda>c. c \<noteq> CHR ''.'' \<and> \<not> is_dig c) s2
        in if ds = [] \<and> fs = [] then Inl ''invalid duration''
           else if 2 ^ 63 < digits_int ds 0 then Inl ''invalid duration''
           else if u = [] then Inl ''missing unit in duration''
           else
             (case duration_unit u of
                None \<Rightarrow> Inl (''unknown unit '' @ quoted u @ '' in duration'')
              | Some unit \<Rightarrow>
                  if 2 ^ 63 div unit < digits_int ds 0 then Inl ''invalid duration''
                  else
                    let v = digits_int ds 0 * unit + digits_int fs 0 * unit div 10 ^ length fs
                    in if 2 ^ 63 < v \<or> 2 ^ 63 < acc + v then Inl ''invalid duration''
                       else duration_sum s3 (acc + v)))"
  by pat_completeness auto
termination
proof (relation "measure (\<lambda>(s, _). length s)", goal_cases)
  case (2 s acc ds s1 dot fs s2 u s3 unit v)
  have "length (dropWhile p xs) < length xs" if "takeWhile p xs \<noteq> []" for p and xs :: string
    using that by (cases xs) (auto simp: length_dropWhile_le le_imp_less_Suc split: if_splits)
  moreover have "length s2 \<le> length s"
    using length_dropWhile_le [of is_dig s] length_dropWhile_le [of is_dig "drop 1 s1"] 2
    by (auto split: if_splits)
  ultimately show ?case using 2 by fastforce
qed simp

declare duration_sum.simps [simp del]

definition ParseDuration :: "string \<Rightarrow> gerr + int" where
  "ParseDuration orig =
     (let (neg, s) = (case orig of
            c # r \<Rightarrow> if c = CHR ''-'' then (True, r) else if c = CHR ''+'' then (False, r) else (False, orig)
          | [] \<Rightarrow> (False, orig));
          fail = (\<lambda>why. Inl (errorf (''time: '' @ why @ '' '' @ quoted orig)))
      in if s = ''0'' then Inr 0
         else if s = [] then fail ''invalid duration''
         else
           (case duration_sum s 0 of
              Inl why \<Rightarrow> fail why
            | Inr d \<Rightarrow>
                if neg then Inr (- d)
                else if 2 ^ 63 - 1 < d then fail ''invalid duration''
                else Inr d))"

end
