(* ===== verification/Tekton.thy ===== *)
theory Tekton
  imports Autodeploy Go_Std
begin

text \<open>
  \<open>pkg/tektoncd\<close>: reading the resource of a TriggerTemplate, filling in its parameters and
  creating the pipeline run. The parser of unstructured JSON is a third-party function,
  \<open>l_unmarshalUnstructured\<close> of the environment.
\<close>

section \<open>The manager\<close>

definition ErrEmptyTriggerTemplateResources :: gerr where
  "ErrEmptyTriggerTemplateResources =
     GErr ''trigger template resources is empty'' [KEmptyTriggerTemplate]"

definition GetRawResourceFromTriggerTemplate ::
  "env \<Rightarrow> string \<Rightarrow> string \<Rightarrow> ('o st, string) prog" where
  "GetRawResourceFromTriggerTemplate E triggerTemplateName ns =
     bindp (wrapping ''failed to get TriggerTemplate'' (kget TriggerTemplates E ns triggerTemplateName))
       (\<lambda>template.
     case tt_resourceTemplates template of
       [] \<Rightarrow> throw ErrEmptyTriggerTemplateResources
     | raw # _ \<Rightarrow> ret raw)"

definition quote_payload :: "string \<Rightarrow> string" where
  "quote_payload appPayload = replace_all [CHR 0x22] [CHR 0x5C, CHR 0x22] appPayload"

text \<open>The four substitutions, in the order of the source.\<close>

definition fill_template :: "string \<Rightarrow> string \<Rightarrow> string \<Rightarrow> string \<Rightarrow> string \<Rightarrow> string" where
  "fill_template rawPipeRun appPayload stage pipeline clusterSecret =
     replace_all ''$(tt.params.KUBECONFIG_SECRET_NAME)'' clusterSecret
       (replace_all ''$(tt.params.CDPIPELINE)'' pipeline
         (replace_all ''$(tt.params.CDSTAGE)'' stage
           (replace_all ''$(tt.params.APPLICATIONS_PAYLOAD)'' (quote_payload appPayload)
             rawPipeRun)))"

text \<open>
  \<open>GetLabels\<close> gives a nil map for a resource that has none; the assignment to it panics.
\<close>

definition makeUnstructuredPipelineRun ::
  "env \<Rightarrow> string \<Rightarrow> string \<Rightarrow> string \<Rightarrow> string \<Rightarrow> string \<Rightarrow> string \<Rightarrow> string \<Rightarrow>
   ('s, unstructured) prog" where
  "makeUnstructuredPipelineRun E ns cdStageDeployName rawPipeRun appPayload stage pipeline
     clusterSecret =
     bindp (wrapping ''couldn't unmarshal json from the TriggerTemplate''
       (lift (l_unmarshalUnstructured (lib_of E)
         (fill_template rawPipeRun appPayload stage pipeline clusterSecret)))) (\<lambda>data.
     case u_labels data of
       None \<Rightarrow> panic ''assignment to entry in nil map''
     | Some labels \<Rightarrow>
         ret (data\<lparr>u_ns := ns,
                u_labels := Some (smap_put CdStageDeployLabel cdStageDeployName labels)\<rparr>))"

definition CreatePipelineRun ::
  "env \<Rightarrow> string \<Rightarrow> string \<Rightarrow> string \<Rightarrow> string \<Rightarrow> string \<Rightarrow> string \<Rightarrow> string \<Rightarrow>
   ('o st, unit) prog" where
  "CreatePipelineRun E ns cdStageDeployName rawPipeRun appPayload stage pipeline clusterSecret =
     bindp (makeUnstructuredPipelineRun E ns cdStageDeployName rawPipeRun appPayload stage
              pipeline clusterSecret) (\<lambda>data.
     bindp (wrapping ''failed to create resource'' (kcreate Unstructureds E data)) (\<lambda>_.
     ret ()))"

definition CreatePendingPipelineRun ::
  "env \<Rightarrow> string \<Rightarrow> string \<Rightarrow> string \<Rightarrow> string \<Rightarrow> string \<Rightarrow> string \<Rightarrow> string \<Rightarrow>
   ('o st, unit) prog" where
  "CreatePendingPipelineRun E ns cdStageDeployName rawPipeRun appPayload stage pipeline
     clusterSecret =
     bindp (makeUnstructuredPipelineRun E ns cdStageDeployName rawPipeRun appPayload stage
              pipeline clusterSecret) (\<lambda>data.
     case u_spec data of
       None \<Rightarrow> throw (errorf ''invalid PipelineRun spec'')
     | Some spec \<Rightarrow>
         bindp (wrapping ''failed to create resource'' (kcreate Unstructureds E
           (data\<lparr>u_spec := Some (smap_put ''status'' ''PipelineRunPending'' spec)\<rparr>))) (\<lambda>_.
         ret ()))"

text \<open>The interface \<open>TriggerTemplateManager\<close> and \<open>TektonTriggerTemplateManager\<close>.\<close>

record 'o trigger_template_manager =
  tm_get_raw :: "string \<Rightarrow> string \<Rightarrow> ('o st, string) prog"
  tm_create :: "string \<Rightarrow> string \<Rightarrow> string \<Rightarrow> string \<Rightarrow> string \<Rightarrow> string \<Rightarrow> string \<Rightarrow> ('o st, unit) prog"
  tm_create_pending ::
    "string \<Rightarrow> string \<Rightarrow> string \<Rightarrow> string \<Rightarrow> string \<Rightarrow> string \<Rightarrow> string \<Rightarrow> ('o st, unit) prog"

definition NewTektonTriggerTemplateManager :: "env \<Rightarrow> 'o trigger_template_manager" where
  "NewTektonTriggerTemplateManager E =
     \<lparr>tm_get_raw = GetRawResourceFromTriggerTemplate E,
      tm_create = CreatePipelineRun E,
      tm_create_pending = CreatePendingPipelineRun E\<rparr>"

section \<open>The payload inside the template\<close>

text \<open>
  The payload stands inside a string of the template's JSON, so what reaches the pipeline
  run is what a JSON parser reads between the quotes. The characters of the names, tags and
  digests of applications that neither JSON nor the placeholders treat in a special way:
  printable ASCII without the quote, the backslash, the three characters \<open>encoding/json\<close>
  escapes for HTML, and the dollar sign.
\<close>

definition plain_char :: "char \<Rightarrow> bool" where
  "plain_char c \<longleftrightarrow> 32 \<le> (of_char c :: nat) \<and> (of_char c :: nat) < 127 \<and>
     c \<notin> {CHR 0x22, CHR 0x5C, CHR ''<'', CHR ''>'', CHR ''&'', CHR ''$''}"

definition plain_payload :: "payload \<Rightarrow> bool" where
  "plain_payload m \<longleftrightarrow>
     (\<forall>(k, p) \<in> set m. list_all plain_char (k @ ap_imageTag p @ ap_imageDigest p))"

text \<open>The JSON value of a payload.\<close>

definition app_json :: "app_payload \<Rightarrow> json" where
  "app_json p = JObj ((''imageTag'', JStr (ap_imageTag p)) #
     (if ap_imageDigest p = [] then [] else [(''imageDigest'', JStr (ap_imageDigest p))]))"

definition payload_json :: "payload \<Rightarrow> json" where
  "payload_json m = JObj (map (\<lambda>(k, p). (k, app_json p)) (sort_key fst m))"

lemma quote_payload_simps [simp]:
  "quote_payload [] = []"
  "quote_payload (c # cs) =
     (if c = CHR 0x22 then CHR 0x5C # CHR 0x22 # quote_payload cs else c # quote_payload cs)"
  by (simp_all add: quote_payload_def has_prefix_def)

lemma quote_payload_set: "set (quote_payload p) \<subseteq> insert CHR 0x5C (set p)"
  by (induction p) auto

lemma replace_all_idle: "d \<notin> set s \<Longrightarrow> replace_all (d # ds) new s = s"
  by (induction s) (auto simp: has_prefix_def)

text \<open>A character that is not in the pattern separates the replacements.\<close>

lemma has_prefix_before:
  assumes "q \<notin> set old"
  shows "has_prefix old (xs @ q # ys) \<longleftrightarrow> has_prefix old xs"
proof
  assume "has_prefix old (xs @ q # ys)"
  then have old: "take (length old) (xs @ q # ys) = old" by (simp add: has_prefix_def)
  have "length old \<le> length xs"
  proof (rule ccontr)
    assume "\<not> length old \<le> length xs"
    then have "q \<in> set (take (length old) (xs @ q # ys))"
      by (cases "length old - length xs") simp_all
    with old assms show False by simp
  qed
  with old show "has_prefix old xs" by (simp add: has_prefix_def)
next
  assume "has_prefix old xs"
  then have "take (length old) xs = old" by (simp add: has_prefix_def)
  then have "length old \<le> length xs" by (metis length_take min.cobounded1 min.absorb_iff1)
  with \<open>take (length old) xs = old\<close> show "has_prefix old (xs @ q # ys)" by (simp add: has_prefix_def)
qed

lemma replace_all_before:
  assumes "q \<notin> set old"
  shows "replace_all old new (xs @ q # ys) = replace_all old new xs @ q # replace_all old new ys"
proof (induction xs rule: length_induct)
  case (1 xs)
  show ?case
  proof (cases xs)
    case Nil
    with has_prefix_before [OF assms, of "[]" ys] show ?thesis by (cases old) (auto simp: has_prefix_def)
  next
    case (Cons c cs)
    have "length old - 1 \<le> length cs" if "has_prefix old (c # cs)"
    proof -
      from that have "take (length old) (c # cs) = old" by (simp add: has_prefix_def)
      then have "length old \<le> length (c # cs)" by (metis length_take min.cobounded1)
      then show ?thesis by simp
    qed
    then have "has_prefix old (c # cs) \<Longrightarrow> drop (length old - 1) (cs @ q # ys) = drop (length old - 1) cs @ q # ys"
      by simp
    with 1 Cons has_prefix_before [OF assms, of "c # cs" ys] show ?thesis by auto
  qed
qed

lemma fill_template_before:
  "fill_template (pre @ CHR 0x22 # post) P st pl cs =
     fill_template pre P st pl cs @ CHR 0x22 # fill_template post P st pl cs"
  by (simp add: fill_template_def replace_all_before)

lemma fill_template_payload:
  assumes "CHR ''$'' \<notin> set P"
  shows "fill_template ''$(tt.params.APPLICATIONS_PAYLOAD)'' P st pl cs = quote_payload P"
proof -
  have "CHR ''$'' \<notin> set (quote_payload P)" using assms quote_payload_set [of P] by auto
  moreover have "replace_all ''$(tt.params.APPLICATIONS_PAYLOAD)'' new ''$(tt.params.APPLICATIONS_PAYLOAD)'' = new"
    for new by (simp add: has_prefix_def)
  ultimately show ?thesis by (simp add: fill_template_def replace_all_idle)
qed

lemma json_string_end_quoted:
  "list_all (\<lambda>c. c \<noteq> CHR 0x5C \<and> 32 \<le> (of_char c :: nat)) p \<Longrightarrow>
   json_string_end (quote_payload p @ CHR 0x22 # r) = Some (p, r)"
  by (induction p) (auto simp: escaped_def)

lemma json_string_plain:
  "list_all plain_char s \<Longrightarrow> json_string s = CHR 0x22 # s @ [CHR 0x22]"
proof -
  have eq: "c = char_of n" if "of_char c = (n :: nat)" for c :: char and n
    using that by (metis char_of_char)
  have chars: "char_of (60 :: nat) = CHR ''<''" "char_of (62 :: nat) = CHR ''>''" "char_of (38 :: nat) = CHR ''&''"
    by code_simp+
  have "json_char c = [c]" if "plain_char c" for c
    using that eq [of c 60] eq [of c 62] eq [of c 38]
    by (auto simp: plain_char_def json_char_def Let_def chars)
  then have "list_all plain_char s \<Longrightarrow> concat (map json_char s) = s"
    by (induction s) auto
  then show "list_all plain_char s \<Longrightarrow> ?thesis" by (simp add: json_string_def)
qed

lemma json_string_end_plain:
  "list_all plain_char s \<Longrightarrow> json_string_end (s @ CHR 0x22 # r) = Some (s, r)"
  by (induction s) (auto simp: plain_char_def)


lemma json_string_lit:
  "json_string ''imageTag'' = CHR 0x22 # ''imageTag'' @ [CHR 0x22]"
  "json_string ''imageDigest'' = CHR 0x22 # ''imageDigest'' @ [CHR 0x22]"
  by (simp_all add: json_string_plain plain_char_def)

lemma skip_no_ws: "\<not> is_ws c \<Longrightarrow> skip_ws (c # s) = c # s"
  by (simp add: skip_ws_def)

lemmas payload_text = json_string_lit skip_no_ws is_ws_def json_string_end_plain json_string_plain

lemma json_app_payload_value:
  assumes "list_all plain_char (ap_imageTag p @ ap_imageDigest p)"
  shows "json_value (Suc (Suc (Suc (Suc n)))) (json_app_payload p @ r) = Some (app_json p, r)"
proof -
  have tag: "json_string_end (''imageTag'' @ CHR 0x22 # t) = Some (''imageTag'', t)"
    "json_string_end (''imageDigest'' @ CHR 0x22 # t) = Some (''imageDigest'', t)" for t
    by (rule json_string_end_plain, simp add: plain_char_def)+
  show ?thesis
    using assms tag [simplified]
    by (simp add: json_app_payload_def app_json_def payload_text)
qed

lemma json_members_value:
  assumes "\<forall>(k, p) \<in> set (x # xs). list_all plain_char (k @ ap_imageTag p @ ap_imageDigest p)"
  shows "json_members (Suc (Suc (Suc (Suc (Suc (n + length xs))))))
      (str_join '','' (map (\<lambda>(k, p). json_string k @ '':'' @ json_app_payload p) (x # xs)) @ CHR ''}'' # r) =
    Some (map (\<lambda>(k, p). (k, app_json p)) (x # xs), r)"
  using assms
proof (induction xs arbitrary: x n)
  case Nil
  then show ?case
    by (cases x) (simp add: payload_text json_app_payload_value del: json_value.simps)
next
  case (Cons y ys)
  show ?case
    using Cons.prems Cons.IH [of y n]
    by (cases x) (simp add: payload_text json_app_payload_value del: json_value.simps)
qed

lemma marshal_payload_parse:
  assumes "plain_payload m"
  shows "json_parse (marshal_payload m) = Some (payload_json m)"
proof -
  let ?f = "\<lambda>(k, p). json_string k @ '':'' @ json_app_payload p"
  let ?xs = "sort_key fst m"
  let ?n = "2 * length (marshal_payload m) + 10 + length ?xs"
  have plain: "\<forall>(k, p) \<in> set ?xs. list_all plain_char (k @ ap_imageTag p @ ap_imageDigest p)"
    using assms by (simp add: plain_payload_def)
  have "json_value ?n (marshal_payload m) = Some (payload_json m, [])"
  proof (cases ?xs)
    case Nil
    then show ?thesis
      by (simp add: marshal_payload_def payload_json_def skip_no_ws is_ws_def eval_nat_numeral)
  next
    case (Cons x xs)
    define B where "B = str_join '','' (map ?f (x # xs))"
    have "\<exists>t. B = CHR 0x22 # t"
      unfolding B_def by (cases x; cases xs) (simp_all add: json_string_def)
    then obtain t where t: "B = CHR 0x22 # t" by blast
    have m: "marshal_payload m = ''{'' @ B @ ''}''" by (simp add: marshal_payload_def B_def Cons)
    have "json_members (Suc (Suc (Suc (Suc (Suc (n + length xs)))))) (B @ ''}'') =
        Some (map (\<lambda>(k, p). (k, app_json p)) (x # xs), [])" for n
      unfolding B_def by (rule json_members_value) (use plain Cons in simp)
    then have "json_value (Suc (Suc (Suc (Suc (Suc (Suc (n + length xs))))))) (marshal_payload m) =
        Some (payload_json m, [])" for n
      by (simp add: m payload_json_def Cons t skip_no_ws is_ws_def del: json_members.simps)
    moreover have "?n = Suc (Suc (Suc (Suc (Suc (Suc ((2 * length (marshal_payload m) + 5) + length xs))))))"
      by (simp add: Cons)
    ultimately show ?thesis by metis
  qed
  then show ?thesis by (simp add: json_parse_fuel [of "marshal_payload m" ?n] skip_ws_def)
qed

lemma marshal_payload_chars:
  assumes "plain_payload m" and "c \<in> set (marshal_payload m)"
  shows "c \<noteq> CHR 0x5C \<and> c \<noteq> CHR ''$'' \<and> 32 \<le> (of_char c :: nat)"
proof -
  let ?ok = "\<lambda>c. c \<noteq> CHR 0x5C \<and> c \<noteq> CHR ''$'' \<and> 32 \<le> (of_char c :: nat)"
  have plain: "list_all ?ok s" if "list_all plain_char s" for s
    using that by (rule list.pred_mono_strong) (simp add: plain_char_def)
  have entry: "list_all ?ok (json_string k @ '':'' @ json_app_payload p)" if "(k, p) \<in> set m" for k p
  proof -
    from assms(1) that have "list_all plain_char (k @ ap_imageTag p @ ap_imageDigest p)"
      by (auto simp: plain_payload_def)
    then show ?thesis using plain by (simp add: json_app_payload_def json_string_lit json_string_plain)
  qed
  have join: "list_all ?ok (str_join '','' xs)" if "\<forall>x \<in> set xs. list_all ?ok x" for xs
    using that by (induction "'',''" xs rule: str_join.induct) auto
  have "list_all ?ok (marshal_payload m)"
    unfolding marshal_payload_def by (simp del: list.map, rule join) (use entry in auto)
  with assms(2) show ?thesis by (auto simp: list_all_iff)
qed

section \<open>The contract of the interface\<close>

text \<open>The resource created for a deploy: in its namespace, with its label.\<close>

definition run_for :: "string \<Rightarrow> string \<Rightarrow> unstructured \<Rightarrow> bool" where
  "run_for ns name u \<longleftrightarrow>
     u_ns u = ns \<and> (\<exists>l. u_labels u = Some l \<and> map_of l CdStageDeployLabel = Some name)"

locale run_creator =
  fixes get_raw :: "string \<Rightarrow> string \<Rightarrow> ('o st, string) prog"
    and create_run :: "string \<Rightarrow> string \<Rightarrow> string \<Rightarrow> string \<Rightarrow> string \<Rightarrow> string \<Rightarrow> string \<Rightarrow> ('o st, unit) prog"
  assumes get_raw_reads: "reader (get_raw n ns)"
    and create_obj: "keeps (\<lambda>s. obj s = x) (create_run ns name raw ap sg pl cs)"
    and create_Ok: "fst (create_run ns name raw ap sg pl cs s) = Ok () \<Longrightarrow>
      \<exists>u. run_for ns name u \<and>
        log (snd (create_run ns name raw ap sg pl cs s)) =
        log s @ [EvWrite VCreate (ObjUnstructured u) None]"
    and create_not_Ok: "fst (create_run ns name raw ap sg pl cs s) \<noteq> Ok () \<Longrightarrow>
      log (snd (create_run ns name raw ap sg pl cs s)) = log s \<or>
      (\<exists>u e. run_for ns name u \<and> log (snd (create_run ns name raw ap sg pl cs s)) =
        log s @ [EvWrite VCreate (ObjUnstructured u) (Some e)])"
begin

text \<open>At most one resource is created, and only of this deploy.\<close>

lemma create_adds:
  "\<exists>es. log (snd (create_run ns name raw ap sg pl cs s)) = log s @ es \<and> length es \<le> 1 \<and>
    (\<forall>ev \<in> set es. \<exists>u e. ev = EvWrite VCreate (ObjUnstructured u) e \<and> run_for ns name u)"
proof (cases "fst (create_run ns name raw ap sg pl cs s) = Ok ()")
  case True
  from create_Ok [OF this] show ?thesis by auto
next
  case False
  from create_not_Ok [OF this] show ?thesis by auto
qed

end

lemma makeUnstructured_Ok:
  "fst (makeUnstructuredPipelineRun E ns name raw ap sg pl cs s) = Ok u \<Longrightarrow> run_for ns name u"
  by (auto simp: makeUnstructuredPipelineRun_def prog_runs lift_def run_for_def
        split: sum.splits option.splits outcome.splits)

lemma makeUnstructured_state [simp]:
  "snd (makeUnstructuredPipelineRun E ns name raw ap sg pl cs s) = s"
  by (auto simp: makeUnstructuredPipelineRun_def prog_runs lift_def
        split: sum.splits option.splits outcome.splits)

lemma create_resource_run:
  "bindp (wrapping m (kcreate Unstructureds E u)) (\<lambda>_. ret ()) s =
     (case k_write (api_unstructured E) (log s) VCreate u u of
        Inl e \<Rightarrow> (Fail (wrap_err m e),
          s\<lparr>log := log s @ [EvWrite VCreate (ObjUnstructured u) (Some e)]\<rparr>)
      | Inr _ \<Rightarrow> (Ok (), s\<lparr>log := log s @ [EvWrite VCreate (ObjUnstructured u) None]\<rparr>))"
  by (simp add: prog_runs kwrite_def ask_run Unstructureds_def split: sum.split)

lemma CreatePipelineRun_run:
  "CreatePipelineRun E ns name raw ap sg pl cs s =
     (case fst (makeUnstructuredPipelineRun E ns name raw ap sg pl cs s) of
        Ok u \<Rightarrow> bindp (wrapping ''failed to create resource'' (kcreate Unstructureds E u)) (\<lambda>_. ret ()) s
      | Fail e \<Rightarrow> (Fail e, s) | Panic p \<Rightarrow> (Panic p, s))"
  unfolding CreatePipelineRun_def
  by (subst bindp_run) (simp split: outcome.split)

lemma CreatePendingPipelineRun_run:
  "CreatePendingPipelineRun E ns name raw ap sg pl cs s =
     (case fst (makeUnstructuredPipelineRun E ns name raw ap sg pl cs s) of
        Ok u \<Rightarrow> (case u_spec u of
            None \<Rightarrow> (Fail (errorf ''invalid PipelineRun spec''), s)
          | Some spec \<Rightarrow> bindp (wrapping ''failed to create resource'' (kcreate Unstructureds E
              (u\<lparr>u_spec := Some (smap_put ''status'' ''PipelineRunPending'' spec)\<rparr>))) (\<lambda>_. ret ()) s)
      | Fail e \<Rightarrow> (Fail e, s) | Panic p \<Rightarrow> (Panic p, s))"
  unfolding CreatePendingPipelineRun_def
  by (subst bindp_run) (simp split: outcome.split option.split)

lemma run_for_spec [simp]: "run_for ns name (u\<lparr>u_spec := x\<rparr>) = run_for ns name u"
  by (simp add: run_for_def)

lemma get_raw_resource_contract: "reader (GetRawResourceFromTriggerTemplate E n ns)"
  unfolding GetRawResourceFromTriggerTemplate_def by (intro reader_intros)

text \<open>How an attempt to create the resource ends: before the call, or with it.\<close>

definition creates ::
  "string \<Rightarrow> string \<Rightarrow> 'o st \<Rightarrow> unit outcome \<times> 'o st \<Rightarrow> bool" where
  "creates ns name s r \<longleftrightarrow>
     (fst r \<noteq> Ok () \<and> snd r = s) \<or>
     (\<exists>u. run_for ns name u \<and>
       r = (Ok (), s\<lparr>log := log s @ [EvWrite VCreate (ObjUnstructured u) None]\<rparr>)) \<or>
     (\<exists>u e e'. run_for ns name u \<and>
       r = (Fail e', s\<lparr>log := log s @ [EvWrite VCreate (ObjUnstructured u) (Some e)]\<rparr>))"

lemma creates_intros:
  "creates ns name s (Fail e, s)" "creates ns name s (Panic p, s)"
  by (simp_all add: creates_def)

lemma create_resource_creates:
  "run_for ns name u \<Longrightarrow>
   creates ns name s (bindp (wrapping m (kcreate Unstructureds E u)) (\<lambda>_. ret ()) s)"
  unfolding create_resource_run creates_def by (cases "k_write (api_unstructured E) (log s) VCreate u u") auto

lemma CreatePipelineRun_creates:
  "creates ns name s (CreatePipelineRun E ns name raw ap sg pl cs s)"
  using makeUnstructured_Ok [of E ns name raw ap sg pl cs s]
  unfolding CreatePipelineRun_run
  by (simp add: creates_intros create_resource_creates split: outcome.split)

lemma CreatePendingPipelineRun_creates:
  "creates ns name s (CreatePendingPipelineRun E ns name raw ap sg pl cs s)"
  using makeUnstructured_Ok [of E ns name raw ap sg pl cs s]
  unfolding CreatePendingPipelineRun_run
  by (simp add: creates_intros create_resource_creates split: outcome.split option.split)

lemma creates_contract:
  assumes "creates ns name s r"
  shows "fst r = Ok () \<Longrightarrow> \<exists>u. run_for ns name u \<and>
      log (snd r) = log s @ [EvWrite VCreate (ObjUnstructured u) None]"
    and "fst r \<noteq> Ok () \<Longrightarrow> log (snd r) = log s \<or> (\<exists>u. run_for ns name u \<and>
      (\<exists>e. log (snd r) = log s @ [EvWrite VCreate (ObjUnstructured u) (Some e)]))"
  using assms unfolding creates_def by auto

lemma creates_obj: "creates ns name s r \<Longrightarrow> obj (snd r) = obj s"
  by (auto simp: creates_def)

lemma creates_keeps:
  assumes "\<And>s. creates ns name s (m s)"
  shows "keeps (\<lambda>s. obj s = x) m"
  by (rule keepsI) (simp add: creates_obj [OF assms])

interpretation tekton_run: run_creator
  "tm_get_raw (NewTektonTriggerTemplateManager E)" "tm_create (NewTektonTriggerTemplateManager E)"
  for E
  by unfold_locales
    (simp_all add: NewTektonTriggerTemplateManager_def get_raw_resource_contract
      creates_contract [OF CreatePipelineRun_creates]
      creates_keeps [of _ _ "CreatePipelineRun E _ _ _ _ _ _ _", OF CreatePipelineRun_creates])

interpretation tekton_pending_run: run_creator
  "tm_get_raw (NewTektonTriggerTemplateManager E)"
  "tm_create_pending (NewTektonTriggerTemplateManager E)" for E
  by unfold_locales
    (simp_all add: NewTektonTriggerTemplateManager_def get_raw_resource_contract
      creates_contract [OF CreatePendingPipelineRun_creates]
      creates_keeps [of _ _ "CreatePendingPipelineRun E _ _ _ _ _ _ _", OF CreatePendingPipelineRun_creates])

section \<open>Properties\<close>

text \<open>
  C16: where the template of the pipeline run has the placeholder of the payload as a string
  of its own, the filled template has there a string which JSON reads back as the payload's
  text, whatever the other three parameters are, and the template around it is filled on its
  own; and that text is JSON for the applications with their tags and digests, in the order
  of the names. This is so for applications whose names, tags and digests consist of
  characters neither JSON nor the placeholders treat in a special way.
\<close>

theorem payload_survives_template:
  assumes "plain_payload m"
  shows "(\<exists>text. fill_template (pre @ CHR 0x22 # ''$(tt.params.APPLICATIONS_PAYLOAD)'' @ CHR 0x22 # post)
        (marshal_payload m) st pl cs =
      fill_template pre (marshal_payload m) st pl cs @ CHR 0x22 # text @
      CHR 0x22 # fill_template post (marshal_payload m) st pl cs \<and>
    (\<forall>r. json_string_end (text @ CHR 0x22 # r) = Some (marshal_payload m, r))) \<and>
   json_parse (marshal_payload m) = Some (payload_json m)"
proof -
  let ?P = "marshal_payload m"
  note chars = marshal_payload_chars [OF assms]
  have "fill_template ''$(tt.params.APPLICATIONS_PAYLOAD)'' ?P st pl cs = quote_payload ?P"
    using chars by (intro fill_template_payload) blast
  moreover have "json_string_end (quote_payload ?P @ CHR 0x22 # r) = Some (?P, r)" for r
    using chars by (intro json_string_end_quoted) (auto simp: list_all_iff)
  ultimately show ?thesis
    using marshal_payload_parse [OF assms] fill_template_before [of pre]
      fill_template_before [of "''$(tt.params.APPLICATIONS_PAYLOAD)''" post]
    by (intro conjI exI [of _ "quote_payload ?P"]) simp_all
qed

definition demo_payload :: payload where
  "demo_payload = [(''web'', \<lparr>ap_imageTag = ''1.0'', ap_imageDigest = ''sha256:7f''\<rparr>),
     (''app'', \<lparr>ap_imageTag = ''2.1-rc'', ap_imageDigest = []\<rparr>)]"

lemma payload_survives_template_witness:
  "json_parse (marshal_payload demo_payload) =
     Some (JObj [(''app'', JObj [(''imageTag'', JStr ''2.1-rc'')]),
       (''web'', JObj [(''imageTag'', JStr ''1.0''), (''imageDigest'', JStr ''sha256:7f'')])]) \<and>
   (\<exists>text. fill_template (''{'' @ CHR 0x22 # ''$(tt.params.APPLICATIONS_PAYLOAD)'' @ CHR 0x22 # ''}'')
       (marshal_payload demo_payload) ''dev'' ''pipe'' ''cfg'' = ''{'' @ CHR 0x22 # text @ CHR 0x22 # ''}'' \<and>
     json_string_end (text @ CHR 0x22 # ''}'') = Some (marshal_payload demo_payload, ''}''))"
proof -
  have "plain_payload demo_payload" by code_simp
  note this [THEN payload_survives_template, of "''{''" "''}''" "''dev''" "''pipe''" "''cfg''"]
  moreover have "fill_template ''{'' (marshal_payload demo_payload) ''dev'' ''pipe'' ''cfg'' = ''{''"
    "fill_template ''}'' (marshal_payload demo_payload) ''dev'' ''pipe'' ''cfg'' = ''}''"
    by (simp_all add: fill_template_def has_prefix_def)
  moreover have "payload_json demo_payload = JObj [(''app'', JObj [(''imageTag'', JStr ''2.1-rc'')]),
       (''web'', JObj [(''imageTag'', JStr ''1.0''), (''imageDigest'', JStr ''sha256:7f'')])]"
    by code_simp
  ultimately show ?thesis by auto
qed

end
