(* ===== verification/Stage_Deploy.thy ===== *)
theory Stage_Deploy
  imports Tekton Example_Env
begin

text \<open>
  \<open>controllers/cdstagedeploy\<close>: the queue of stage deploys. The three handlers of the chain
  work on the deploy in hand; the controller fetches it, runs the chain and stores the
  status.
\<close>

section \<open>Resolving the status\<close>

fun allCdStageDeploysInQue :: "cd_stage_deploy list \<Rightarrow> bool" where
  "allCdStageDeploysInQue [] \<longleftrightarrow> True"
| "allCdStageDeploysInQue (d # ds) \<longleftrightarrow>
     (if status_of d \<noteq> CDStageDeployStatusInQueue then False else allCdStageDeploysInQue ds)"

fun allPipelineRunsCompleted :: "pipeline_run list \<Rightarrow> bool" where
  "allPipelineRunsCompleted [] \<longleftrightarrow> True"
| "allPipelineRunsCompleted (r # rs) \<longleftrightarrow>
     (if pr_completionTime r = None then False else allPipelineRunsCompleted rs)"

text \<open>The loop of \<open>isFirsCdStageDeployInQue\<close> with its variable \<open>firstDeploy\<close>.\<close>

fun first_deploy :: "cd_stage_deploy list \<Rightarrow> cd_stage_deploy option \<Rightarrow> cd_stage_deploy option" where
  "first_deploy [] firstDeploy = firstDeploy"
| "first_deploy (d # ds) firstDeploy =
     (case firstDeploy of
        None \<Rightarrow> first_deploy ds (Some d)
      | Some f \<Rightarrow>
          if m_created (sd_meta d) < m_created (sd_meta f) then first_deploy ds (Some d)
          else first_deploy ds (Some f))"

definition isFirsCdStageDeployInQue :: "cd_stage_deploy list \<Rightarrow> string \<Rightarrow> bool" where
  "isFirsCdStageDeployInQue deploys currentCDStageDeployName =
     (if deploys = [] then False
      else (case first_deploy deploys None of
          None \<Rightarrow> False
        | Some f \<Rightarrow> m_name (sd_meta f) = currentCDStageDeployName))"

abbreviation maxPipelineRuns :: nat where "maxPipelineRuns \<equiv> 500"

definition stage_labels :: "string \<Rightarrow> string \<Rightarrow> smap" where
  "stage_labels pipeline stage = [(CdPipelineLabel, pipeline), (CdStageLabel, stage)]"

definition getRunningPipelines :: "env \<Rightarrow> cd_stage_deploy \<Rightarrow> ('o st, pipeline_run list) prog" where
  "getRunningPipelines E d =
     wrapping ''failed to list PipelineRuns''
       (klist PipelineRuns E (m_ns (sd_meta d))
         ((by_labels (stage_labels (sd_pipeline (sd_spec d)) (GetStageCRName d)))
            \<lparr>sel_limit := Some maxPipelineRuns\<rparr>))"

definition shouldStartCDStageDeploy ::
  "env \<Rightarrow> string \<Rightarrow> string \<Rightarrow> string \<Rightarrow> string \<Rightarrow> pipeline_run list \<Rightarrow> ('o st, bool) prog" where
  "shouldStartCDStageDeploy E currentCDStageDeployName stage pipeline namespace pipelines =
     (if \<not> allPipelineRunsCompleted pipelines then ret False
      else
        bindp (wrapping ''failed to list CDStageDeploys''
          (klist StageDeploys E namespace (by_labels (stage_labels pipeline stage)))) (\<lambda>deploys.
        if \<not> allCdStageDeploysInQue deploys then ret False
        else if \<not> isFirsCdStageDeployInQue deploys currentCDStageDeployName then ret False
        else ret True))"

definition ResolveStatus_ServeRequest :: "env \<Rightarrow> (cd_stage_deploy st, unit) prog" where
  "ResolveStatus_ServeRequest E =
     bindp (gets obj) (\<lambda>stageDeploy.
     if IsFailed stageDeploy then ret ()
     else
       bindp (wrapping ''failed to get running pipelines'' (getRunningPipelines E stageDeploy))
         (\<lambda>runs.
       if IsPending stageDeploy then
         (if allPipelineRunsCompleted runs then ret ()
          else set_obj (set_deploy_status CDStageDeployStatusInQueue))
       else if IsInQueue stageDeploy then
         bindp (wrapping ''failed to check running CDStageDeploys''
           (shouldStartCDStageDeploy E (m_name (sd_meta stageDeploy)) (GetStageCRName stageDeploy)
             (sd_pipeline (sd_spec stageDeploy)) (m_ns (sd_meta stageDeploy)) runs))
           (\<lambda>shouldStart.
         if shouldStart then set_obj (set_deploy_status CDStageDeployStatusPending) else ret ())
       else if IsRunning stageDeploy then
         (if allPipelineRunsCompleted runs
          then set_obj (set_deploy_status CDStageDeployStatusCompleted) else ret ())
       else ret ()))"

section \<open>Creating the pipeline run\<close>

definition skipPipelineRunCreation :: "cd_stage_deploy \<Rightarrow> bool" where
  "skipPipelineRunCreation d = (if IsPending d \<or> IsFailed d then False else True)"

text \<open>
  The four results of the source, as the Stage that was read so far (nil before) with
  the error or the values.
\<close>

definition getResourcesForPipelineRun ::
  "env \<Rightarrow> 'o trigger_template_manager \<Rightarrow> cd_stage_deploy \<Rightarrow>
   ('o st, cd_stage option \<times> (gerr + cd_pipeline \<times> cd_stage \<times> string)) prog" where
  "getResourcesForPipelineRun E TM d =
     bindp (attempt (wrapping ''failed to get CDPipeline''
       (kget CDPipelines E (m_ns (sd_meta d)) (sd_pipeline (sd_spec d))))) (\<lambda>p.
     case p of Inl e \<Rightarrow> ret (None, Inl e) | Inr pipeline \<Rightarrow>
     bindp (attempt (wrapping ''failed to get Stage''
       (kget Stages E (m_ns (sd_meta d)) (GetStageCRName d)))) (\<lambda>g.
     case g of Inl e \<Rightarrow> ret (None, Inl e) | Inr stage \<Rightarrow>
     bindp (attempt (wrapping ''failed to get raw resource from TriggerTemplate''
       (tm_get_raw TM (st_triggerTemplate stage) (m_ns (sd_meta d))))) (\<lambda>r.
     case r of Inl e \<Rightarrow> ret (Some stage, Inl e)
     | Inr raw \<Rightarrow> ret (Some stage, Inr (pipeline, stage, raw)))))"

definition getAppPayload ::
  "env \<Rightarrow> 'o autodeploy_manager \<Rightarrow> cd_stage_deploy \<Rightarrow> cd_pipeline \<Rightarrow> cd_stage \<Rightarrow>
   ('o st, string) prog" where
  "getAppPayload E AM d pipeline stage =
     wrapping ''failed to get application payload''
       (if sd_triggerType (sd_spec d) = l_triggerTypeAutoStable (lib_of E)
        then am_current_with_stable AM (sd_tag (sd_spec d)) pipeline stage
        else am_all_latest AM pipeline)"

text \<open>The log line of the empty template reads a field of the Stage.\<close>

definition ProcessTriggerTemplate_ServeRequest ::
  "env \<Rightarrow> cd_stage_deploy trigger_template_manager \<Rightarrow> cd_stage_deploy autodeploy_manager \<Rightarrow>
   (cd_stage_deploy st, unit) prog" where
  "ProcessTriggerTemplate_ServeRequest E TM AM =
     bindp (gets obj) (\<lambda>stageDeploy.
     if skipPipelineRunCreation stageDeploy then ret ()
     else
       bindp (getResourcesForPipelineRun E TM stageDeploy) (\<lambda>(readStage, res).
       case res of
         Inl e \<Rightarrow>
           if errors_is e KEmptyTriggerTemplate
           then (case readStage of
               None \<Rightarrow> panic ''nil pointer dereference''
             | Some _ \<Rightarrow> set_obj (set_deploy_status CDStageDeployStatusCompleted))
           else throw e
       | Inr (pipeline, stage, rawResource) \<Rightarrow>
           bindp (attempt (getAppPayload E AM stageDeploy pipeline stage)) (\<lambda>ap.
           case ap of
             Inl e \<Rightarrow>
               if errors_is e KLastTagNotFound
               then set_obj (set_deploy_status CDStageDeployStatusCompleted)
               else throw (wrap_err ''failed to get application payload'' e)
           | Inr appPayload \<Rightarrow>
               bindp (wrapping ''failed to create PipelineRun''
                 (tm_create TM (m_ns (sd_meta stageDeploy)) (m_name (sd_meta stageDeploy))
                   rawResource appPayload (st_specName stage) (p_specName pipeline)
                   (st_clusterName stage))) (\<lambda>_.
               set_obj (set_deploy_status CDStageDeployStatusRunning)))))"

section \<open>Deleting a completed deploy\<close>

definition DeleteCDStageDeploy_ServeRequest :: "env \<Rightarrow> (cd_stage_deploy st, unit) prog" where
  "DeleteCDStageDeploy_ServeRequest E =
     bindp (gets obj) (\<lambda>stageDeploy.
     if \<not> IsCompleted stageDeploy then ret ()
     else
       bindp (attempt (kdelete StageDeploys E stageDeploy)) (\<lambda>r.
       case r of
         Inl e \<Rightarrow>
           if errors_is e KNotFound then ret ()
           else throw (wrap_err ''failed to delete CDStageDeploy'' e)
       | Inr _ \<Rightarrow> ret ()))"

section \<open>The chain and the controller\<close>

definition chain_ServeRequest :: "(cd_stage_deploy st, unit) prog list \<Rightarrow> (cd_stage_deploy st, unit) prog" where
  "chain_ServeRequest handlers = for_each handlers (\<lambda>h. wrapping ''failed to serve handler'' h)"

definition CreateChain :: "env \<Rightarrow> (cd_stage_deploy st, unit) prog" where
  "CreateChain E =
     chain_ServeRequest
       [ResolveStatus_ServeRequest E,
        ProcessTriggerTemplate_ServeRequest E (NewTektonTriggerTemplateManager E) (NewStrategyManager E),
        DeleteCDStageDeploy_ServeRequest E]"

abbreviation requestTimeout :: int where "requestTimeout \<equiv> 30 * second"

definition StageDeploy_Reconcile ::
  "env \<Rightarrow> string \<Rightarrow> string \<Rightarrow> (cd_stage_deploy st, reconcile_result) prog" where
  "StageDeploy_Reconcile E ns name =
     bindp (attempt (kget StageDeploys E ns name)) (\<lambda>r.
     case r of
       Inl e \<Rightarrow>
         if errors_is e KNotFound then ret no_requeue
         else throw (wrap_err (''failed to fetch CDStageDeploy resource '' @ quoted (ns @ ''/'' @ name)) e)
     | Inr stageDeploy \<Rightarrow>
         bindp (set_obj (\<lambda>_. stageDeploy)) (\<lambda>_.
         if m_deletion (sd_meta stageDeploy) \<noteq> None then ret no_requeue
         else
           let oldStatus = status_of stageDeploy in
           bindp (attempt (CreateChain E)) (\<lambda>c.
           case c of
             Inl err \<Rightarrow>
               bindp (set_obj (SetFailedStatus err)) (\<lambda>_.
               bindp (ignoring (save VStatusUpdate StageDeploys E)) (\<lambda>_.
               throw (wrap_err ''failed to process default chainFactory'' err)))
           | Inr _ \<Rightarrow>
               bindp (gets obj) (\<lambda>d.
               bindp (if status_of d \<noteq> oldStatus \<and> status_of d \<noteq> CDStageDeployStatusCompleted
                      then ignoring (save VStatusUpdate StageDeploys E) else ret ()) (\<lambda>_.
               ret (requeue_after requestTimeout))))))"

section \<open>The queue\<close>

lemma allPipelineRunsCompleted_iff:
  "allPipelineRunsCompleted runs \<longleftrightarrow> (\<forall>r \<in> set runs. pr_completionTime r \<noteq> None)"
  by (induction runs) auto

lemma allCdStageDeploysInQue_iff: "allCdStageDeploysInQue ds \<longleftrightarrow> (\<forall>d \<in> set ds. IsInQueue d)"
  by (induction ds) (auto simp: IsInQueue_def)

text \<open>The oldest deploy, and the first of the list among equally old ones.\<close>

definition head_of_queue :: "cd_stage_deploy list \<Rightarrow> cd_stage_deploy \<Rightarrow> bool" where
  "head_of_queue ds f \<longleftrightarrow>
     (\<exists>xs ys. ds = xs @ f # ys \<and>
        (\<forall>x \<in> set xs. m_created (sd_meta f) < m_created (sd_meta x)) \<and>
        (\<forall>y \<in> set ys. m_created (sd_meta f) \<le> m_created (sd_meta y)))"

lemma head_of_queue_newer:
  assumes "m_created (sd_meta d) < m_created (sd_meta f)" and "head_of_queue (d # ds) g"
  shows "head_of_queue (f # d # ds) g"
proof -
  from assms(2) obtain xs ys where g: "d # ds = xs @ g # ys"
    "\<forall>x \<in> set xs. m_created (sd_meta g) < m_created (sd_meta x)"
    "\<forall>y \<in> set ys. m_created (sd_meta g) \<le> m_created (sd_meta y)"
    unfolding head_of_queue_def by blast
  then have "m_created (sd_meta g) \<le> m_created (sd_meta d)" by (cases xs) auto
  with g assms(1) show ?thesis unfolding head_of_queue_def
    by (intro exI [of _ "f # xs"] exI [of _ ys]) simp
qed

lemma head_of_queue_older:
  assumes "\<not> m_created (sd_meta d) < m_created (sd_meta f)" and "head_of_queue (f # ds) g"
  shows "head_of_queue (f # d # ds) g"
proof -
  from assms(2) obtain xs ys where g: "f # ds = xs @ g # ys"
    "\<forall>x \<in> set xs. m_created (sd_meta g) < m_created (sd_meta x)"
    "\<forall>y \<in> set ys. m_created (sd_meta g) \<le> m_created (sd_meta y)"
    unfolding head_of_queue_def by blast
  show ?thesis
  proof (cases xs)
    case Nil
    with g assms(1) show ?thesis unfolding head_of_queue_def
      by (intro exI [of _ "[]"] exI [of _ "d # ys"]) simp
  next
    case (Cons x xs')
    with g assms(1) show ?thesis unfolding head_of_queue_def
      by (intro exI [of _ "f # d # xs'"] exI [of _ ys]) auto
  qed
qed

lemma first_deploy_Some: "\<exists>g. first_deploy ds (Some f) = Some g \<and> head_of_queue (f # ds) g"
proof (induction ds arbitrary: f)
  case Nil
  show ?case by (auto simp: head_of_queue_def intro: exI [of _ "[]"])
next
  case (Cons d ds)
  show ?case
    using Cons.IH [of d] Cons.IH [of f] head_of_queue_newer [of d f ds]
      head_of_queue_older [of d f ds]
    by (cases "m_created (sd_meta d) < m_created (sd_meta f)") auto
qed

lemma head_of_queue_unique:
  assumes "head_of_queue ds f" and "head_of_queue ds g" shows "f = g"
proof -
  from assms(1) obtain xs ys where f: "ds = xs @ f # ys"
    "\<forall>x \<in> set xs. m_created (sd_meta f) < m_created (sd_meta x)"
    "\<forall>y \<in> set ys. m_created (sd_meta f) \<le> m_created (sd_meta y)"
    unfolding head_of_queue_def by blast
  from assms(2) obtain us vs where g: "ds = us @ g # vs"
    "\<forall>x \<in> set us. m_created (sd_meta g) < m_created (sd_meta x)"
    "\<forall>y \<in> set vs. m_created (sd_meta g) \<le> m_created (sd_meta y)"
    unfolding head_of_queue_def by blast
  from f(1) g(1) have "xs @ f # ys = us @ g # vs" by simp
  then obtain w where "xs @ w = us \<and> f # ys = w @ g # vs \<or> xs = us @ w \<and> w @ f # ys = g # vs"
    unfolding append_eq_append_conv2 by auto
  then show ?thesis
  proof (elim disjE conjE)
    assume "xs @ w = us" and ys: "f # ys = w @ g # vs"
    with f(3) g(2) show ?thesis by (cases w) (auto simp: not_less [symmetric])
  next
    assume xs: "xs = us @ w" and vs: "w @ f # ys = g # vs"
    show ?thesis
    proof (cases w)
      case Nil
      with vs show ?thesis by simp
    next
      case (Cons z w')
      with xs vs have "g \<in> set xs" and "f \<in> set vs" by auto
      with f(2) g(3) show ?thesis by (meson not_less)
    qed
  qed
qed

lemma isFirs_iff:
  "isFirsCdStageDeployInQue ds name \<longleftrightarrow> (\<exists>f. head_of_queue ds f \<and> m_name (sd_meta f) = name)"
proof (cases ds)
  case Nil
  then show ?thesis by (simp add: isFirsCdStageDeployInQue_def head_of_queue_def)
next
  case (Cons d ds')
  from first_deploy_Some [of ds' d] obtain g where
    first: "first_deploy ds' (Some d) = Some g" and head: "head_of_queue ds g" using Cons by blast
  have "head_of_queue ds f \<longleftrightarrow> f = g" for f
    using head head_of_queue_unique by metis
  with Cons first show ?thesis by (simp add: isFirsCdStageDeployInQue_def)
qed

section \<open>What the handlers do\<close>

text \<open>
  The abstract state machine of a deploy: the status before and after one successful run
  of the chain.
\<close>

inductive deploy_step :: "string \<Rightarrow> string \<Rightarrow> bool" where
  start: "x \<in> {CDStageDeployStatusFailed, CDStageDeployStatusPending, CDStageDeployStatusInQueue} \<Longrightarrow>
     deploy_step x CDStageDeployStatusRunning"
| skip: "x \<in> {CDStageDeployStatusFailed, CDStageDeployStatusPending, CDStageDeployStatusInQueue} \<Longrightarrow>
     deploy_step x CDStageDeployStatusCompleted"
| enqueue: "deploy_step CDStageDeployStatusPending CDStageDeployStatusInQueue"
| wait: "deploy_step CDStageDeployStatusInQueue CDStageDeployStatusInQueue"
| run: "deploy_step CDStageDeployStatusRunning CDStageDeployStatusRunning"
| finish: "deploy_step CDStageDeployStatusRunning CDStageDeployStatusCompleted"
| other: "x \<notin> {CDStageDeployStatusFailed, CDStageDeployStatusPending, CDStageDeployStatusInQueue,
       CDStageDeployStatusRunning} \<Longrightarrow> deploy_step x x"

inductive_cases deploy_stepE: "deploy_step x y"
inductive_simps deploy_step_from_running: "deploy_step CDStageDeployStatusRunning y"
inductive_simps deploy_step_from_queue: "deploy_step CDStageDeployStatusInQueue y"

text \<open>
  When the first handler lets a deploy through to the second: it failed before, or no
  listed run of its stage is still going and it is pending, or it is at the head of a queue
  in which nothing is being processed.
\<close>

definition runs_selector :: "cd_stage_deploy \<Rightarrow> selector" where
  "runs_selector d = (by_labels (stage_labels (sd_pipeline (sd_spec d)) (GetStageCRName d)))
     \<lparr>sel_limit := Some maxPipelineRuns\<rparr>"

definition may_start :: "env \<Rightarrow> history \<Rightarrow> cd_stage_deploy \<Rightarrow> bool" where
  "may_start E h d \<longleftrightarrow>
     IsFailed d \<or>
     (\<exists>runs. k_list (api_pipeline_run E) h (m_ns (sd_meta d)) (runs_selector d) = Inr runs \<and>
        (\<forall>r \<in> set runs. pr_completionTime r \<noteq> None) \<and>
        (IsPending d \<or>
         IsInQueue d \<and>
         (\<exists>ds f. k_list (api_stage_deploy E)
              (h @ [EvList ''PipelineRun'' (m_ns (sd_meta d)) (runs_selector d)])
              (m_ns (sd_meta d)) (by_labels (stage_labels (sd_pipeline (sd_spec d)) (GetStageCRName d)))
              = Inr ds \<and>
            (\<forall>x \<in> set ds. IsInQueue x) \<and> head_of_queue ds f \<and>
            m_name (sd_meta f) = m_name (sd_meta d))))"

lemma set_deploy_status_status [simp]: "set_deploy_status (status_of d) d = d"
  by (simp add: set_deploy_status_def)

lemma getRunningPipelines_run:
  "getRunningPipelines E d s =
     (case k_list (api_pipeline_run E) (log s) (m_ns (sd_meta d)) (runs_selector d) of
        Inl e \<Rightarrow> (Fail (wrap_err ''failed to list PipelineRuns'' e),
          s\<lparr>log := log s @ [EvList ''PipelineRun'' (m_ns (sd_meta d)) (runs_selector d)]\<rparr>)
      | Inr runs \<Rightarrow>
          (Ok runs, s\<lparr>log := log s @ [EvList ''PipelineRun'' (m_ns (sd_meta d)) (runs_selector d)]\<rparr>))"
  by (simp add: getRunningPipelines_def wrapping_run klist_run PipelineRuns_def runs_selector_def
      split: sum.split)

lemma shouldStart_run:
  "shouldStartCDStageDeploy E name stage pipeline ns runs s =
     (if \<not> allPipelineRunsCompleted runs then (Ok False, s)
      else (case k_list (api_stage_deploy E) (log s) ns (by_labels (stage_labels pipeline stage)) of
          Inl e \<Rightarrow> (Fail (wrap_err ''failed to list CDStageDeploys'' e),
            s\<lparr>log := log s @ [EvList ''CDStageDeploy'' ns (by_labels (stage_labels pipeline stage))]\<rparr>)
        | Inr ds \<Rightarrow> (Ok (allCdStageDeploysInQue ds \<and> isFirsCdStageDeployInQue ds name),
            s\<lparr>log := log s @ [EvList ''CDStageDeploy'' ns (by_labels (stage_labels pipeline stage))]\<rparr>)))"
  by (simp add: shouldStartCDStageDeploy_def prog_runs klist_run StageDeploys_def split: sum.split)

lemma Resolve_reads: "appends is_read (ResolveStatus_ServeRequest E)"
  unfolding ResolveStatus_ServeRequest_def getRunningPipelines_def shouldStartCDStageDeploy_def
  by (intro appends_intros) simp_all

text \<open>The state after the listing of the pipeline runs.\<close>

abbreviation listed_runs :: "cd_stage_deploy st \<Rightarrow> cd_stage_deploy st" where
  "listed_runs s \<equiv> s\<lparr>log := log s @ [EvList ''PipelineRun'' (m_ns (sd_meta (obj s)))
     (runs_selector (obj s))]\<rparr>"

lemma status_exclusive:
  "IsPending d \<Longrightarrow> \<not> IsFailed d" "IsInQueue d \<Longrightarrow> \<not> IsFailed d" "IsRunning d \<Longrightarrow> \<not> IsFailed d"
  "IsInQueue d \<Longrightarrow> \<not> IsPending d" "IsRunning d \<Longrightarrow> \<not> IsPending d" "IsRunning d \<Longrightarrow> \<not> IsInQueue d"
  by (simp_all add: deploy_status_defs)

lemma Resolve_failed: "IsFailed (obj s) \<Longrightarrow> ResolveStatus_ServeRequest E s = (Ok (), s)"
  by (simp add: ResolveStatus_ServeRequest_def)

lemma Resolve_listed:
  assumes "\<not> IsFailed (obj s)"
  shows "ResolveStatus_ServeRequest E s =
    (case k_list (api_pipeline_run E) (log s) (m_ns (sd_meta (obj s))) (runs_selector (obj s)) of
       Inl e \<Rightarrow> (Fail (wrap_err ''failed to get running pipelines''
           (wrap_err ''failed to list PipelineRuns'' e)), listed_runs s)
     | Inr runs \<Rightarrow>
         if IsPending (obj s) then
           (if allPipelineRunsCompleted runs then (Ok (), listed_runs s)
            else (Ok (), (listed_runs s)\<lparr>obj := set_deploy_status CDStageDeployStatusInQueue (obj s)\<rparr>))
         else if IsInQueue (obj s) then
           bindp (wrapping ''failed to check running CDStageDeploys''
             (shouldStartCDStageDeploy E (m_name (sd_meta (obj s))) (GetStageCRName (obj s))
               (sd_pipeline (sd_spec (obj s))) (m_ns (sd_meta (obj s))) runs))
             (\<lambda>shouldStart. if shouldStart
               then set_obj (set_deploy_status CDStageDeployStatusPending) else ret ()) (listed_runs s)
         else if IsRunning (obj s) \<and> allPipelineRunsCompleted runs then
           (Ok (), (listed_runs s)\<lparr>obj := set_deploy_status CDStageDeployStatusCompleted (obj s)\<rparr>)
         else (Ok (), listed_runs s))"
  unfolding ResolveStatus_ServeRequest_def bindp_gets if_not_P [OF assms]
  by (subst bindp_run) (simp add: wrapping_run getRunningPipelines_run split: sum.split)

text \<open>A waiting deploy, once the pipeline runs are listed.\<close>

abbreviation listed_deploys :: "cd_stage_deploy st \<Rightarrow> cd_stage_deploy st" where
  "listed_deploys s \<equiv> s\<lparr>log := log s @
     [EvList ''PipelineRun'' (m_ns (sd_meta (obj s))) (runs_selector (obj s)),
      EvList ''CDStageDeploy'' (m_ns (sd_meta (obj s)))
        (by_labels (stage_labels (sd_pipeline (sd_spec (obj s))) (GetStageCRName (obj s))))]\<rparr>"

lemma Resolve_queued:
  assumes "IsInQueue (obj s)"
    and "k_list (api_pipeline_run E) (log s) (m_ns (sd_meta (obj s))) (runs_selector (obj s)) = Inr runs"
  shows "ResolveStatus_ServeRequest E s =
    (if \<not> allPipelineRunsCompleted runs then (Ok (), listed_runs s)
     else
       case k_list (api_stage_deploy E) (log (listed_runs s)) (m_ns (sd_meta (obj s)))
              (by_labels (stage_labels (sd_pipeline (sd_spec (obj s))) (GetStageCRName (obj s)))) of
         Inl e \<Rightarrow> (Fail (wrap_err ''failed to check running CDStageDeploys''
             (wrap_err ''failed to list CDStageDeploys'' e)), listed_deploys s)
       | Inr ds \<Rightarrow>
           if allCdStageDeploysInQue ds \<and> isFirsCdStageDeployInQue ds (m_name (sd_meta (obj s)))
           then (Ok (), (listed_deploys s)\<lparr>obj := set_deploy_status CDStageDeployStatusPending (obj s)\<rparr>)
           else (Ok (), listed_deploys s))"
proof -
  note queued = status_exclusive(2) [OF assms(1)] status_exclusive(4) [OF assms(1)] assms(1)
  show ?thesis
    unfolding Resolve_listed [OF queued(1)] assms(2) sum.case if_not_P [OF queued(2)] if_P [OF queued(3)]
    by (subst bindp_run) (simp add: wrapping_run shouldStart_run split: sum.split)
qed

lemma Resolve_started:
  assumes "fst (ResolveStatus_ServeRequest E s) = Ok ()"
    and "obj (snd (ResolveStatus_ServeRequest E s)) = d'" and "IsPending d' \<or> IsFailed d'"
  shows "may_start E (log s) (obj s)"
proof (cases "IsFailed (obj s)")
  case False
  with assms obtain runs where runs: "k_list (api_pipeline_run E) (log s) (m_ns (sd_meta (obj s)))
      (runs_selector (obj s)) = Inr runs"
    by (auto simp: Resolve_listed split: sum.splits)
  consider "IsPending (obj s)" | "IsInQueue (obj s)" | "\<not> IsPending (obj s)" "\<not> IsInQueue (obj s)"
    by blast
  then show ?thesis
  proof cases
    case 1
    with assms runs False show ?thesis
      by (auto simp: Resolve_listed may_start_def allPipelineRunsCompleted_iff deploy_status_defs
          split: if_splits)
  next
    case 2
    note run = assms(1,2) [unfolded Resolve_queued [OF 2 runs]]
    from 2 assms(3) have "d' \<noteq> obj s" using status_exclusive by blast
    with run obtain ds where ds: "allPipelineRunsCompleted runs"
      "k_list (api_stage_deploy E)
         (log s @ [EvList ''PipelineRun'' (m_ns (sd_meta (obj s))) (runs_selector (obj s))])
         (m_ns (sd_meta (obj s)))
         (by_labels (stage_labels (sd_pipeline (sd_spec (obj s))) (GetStageCRName (obj s)))) = Inr ds"
      "allCdStageDeploysInQue ds" "isFirsCdStageDeployInQue ds (m_name (sd_meta (obj s)))"
      by (auto split: if_splits sum.splits)
    with 2 runs show ?thesis
      unfolding may_start_def isFirs_iff allPipelineRunsCompleted_iff allCdStageDeploysInQue_iff
      by blast
  next
    case 3
    with assms runs False show ?thesis
      by (auto simp: Resolve_listed deploy_status_defs split: if_splits)
  qed
qed (simp add: may_start_def)

lemma Resolve_obj:
  assumes "fst (ResolveStatus_ServeRequest E s) = Ok ()"
  shows "\<exists>x. obj (snd (ResolveStatus_ServeRequest E s)) = set_deploy_status x (obj s) \<and>
    (IsRunning (obj s) \<longrightarrow> x = CDStageDeployStatusRunning \<or> x = CDStageDeployStatusCompleted) \<and>
    (IsPending (obj s) \<or> IsInQueue (obj s) \<longrightarrow>
       x = CDStageDeployStatusPending \<or> x = CDStageDeployStatusInQueue) \<and>
    (\<not> IsRunning (obj s) \<and> \<not> IsPending (obj s) \<and> \<not> IsInQueue (obj s) \<longrightarrow> x = status_of (obj s))"
proof (cases "IsFailed (obj s)")
  case True
  with Resolve_failed [OF True] status_exclusive show ?thesis
    by (intro exI [of _ "status_of (obj s)"]) auto
next
  case False
  with assms obtain runs where runs: "k_list (api_pipeline_run E) (log s) (m_ns (sd_meta (obj s)))
      (runs_selector (obj s)) = Inr runs"
    by (auto simp: Resolve_listed split: sum.splits)
  note run = Resolve_listed [OF False, of E, unfolded runs sum.case]
  let ?d = "obj (snd (ResolveStatus_ServeRequest E s))"
  consider "IsPending (obj s)" | "IsInQueue (obj s)" | "IsRunning (obj s)"
    | "\<not> IsRunning (obj s)" "\<not> IsPending (obj s)" "\<not> IsInQueue (obj s)" by blast
  then show ?thesis
  proof cases
    case 1
    then have "?d = obj s \<or> ?d = set_deploy_status CDStageDeployStatusInQueue (obj s)"
      by (simp add: run)
    with 1 show ?thesis using status_exclusive [of "obj s"]
      by (metis IsPending_def set_deploy_status_status)
  next
    case 2
    then have "?d = obj s \<or> ?d = set_deploy_status CDStageDeployStatusPending (obj s)"
      unfolding Resolve_queued [OF 2 runs] by (simp split: sum.split)
    with 2 show ?thesis using status_exclusive [of "obj s"]
      by (metis IsInQueue_def set_deploy_status_status)
  next
    case 3
    then have "?d = obj s \<or> ?d = set_deploy_status CDStageDeployStatusCompleted (obj s)"
      using status_exclusive(5,6) [OF 3] by (simp add: run)
    with 3 show ?thesis using status_exclusive [of "obj s"]
      by (metis IsRunning_def set_deploy_status_status)
  next
    case 4
    then have "?d = obj s" by (simp add: run)
    with 4 show ?thesis by (metis set_deploy_status_status)
  qed
qed

lemma getResources_reads:
  "(\<And>n ns. reader (tm_get_raw TM n ns)) \<Longrightarrow> reader (getResourcesForPipelineRun E TM d)"
  unfolding getResourcesForPipelineRun_def by (intro reader_intros)

text \<open>The creations of pipeline runs among the events.\<close>

definition run_create :: "event \<Rightarrow> bool" where
  "run_create ev \<longleftrightarrow>
     (case ev of EvWrite v (ObjUnstructured u) e \<Rightarrow> v = VCreate | _ \<Rightarrow> False)"

text \<open>
  What the second handler does, for every implementation of the two interfaces: it reads,
  then makes at most one attempt to create a run for the deploy.
\<close>

definition process_ends ::
  "cd_stage_deploy st \<Rightarrow> unit outcome \<times> cd_stage_deploy st \<Rightarrow> bool" where
  "process_ends s r \<longleftrightarrow>
     (\<exists>rd. list_all is_read rd \<and>
        ((fst r \<noteq> Ok () \<and> snd r = s\<lparr>log := log s @ rd\<rparr>) \<or>
         (fst r = Ok () \<and> snd r = s\<lparr>log := log s @ rd,
            obj := set_deploy_status CDStageDeployStatusCompleted (obj s)\<rparr>) \<or>
         (\<exists>u e. run_for (m_ns (sd_meta (obj s))) (m_name (sd_meta (obj s))) u \<and>
            ((fst r \<noteq> Ok () \<and>
              snd r = s\<lparr>log := log s @ rd @ [EvWrite VCreate (ObjUnstructured u) (Some e)]\<rparr>) \<or>
             (fst r = Ok () \<and>
              snd r = s\<lparr>log := log s @ rd @ [EvWrite VCreate (ObjUnstructured u) None],
                obj := set_deploy_status CDStageDeployStatusRunning (obj s)\<rparr>)))))"

locale deploy_managers = run_creator get_raw create_run + autodeploy_reads all_latest current
  for get_raw :: "string \<Rightarrow> string \<Rightarrow> (cd_stage_deploy st, string) prog"
    and create_run :: "string \<Rightarrow> string \<Rightarrow> string \<Rightarrow> string \<Rightarrow> string \<Rightarrow> string \<Rightarrow> string \<Rightarrow>
      (cd_stage_deploy st, unit) prog"
    and all_latest :: "cd_pipeline \<Rightarrow> (cd_stage_deploy st, string) prog"
    and current :: "codebase_tag \<Rightarrow> cd_pipeline \<Rightarrow> cd_stage \<Rightarrow> (cd_stage_deploy st, string) prog"
begin

lemma create_leaf:
  assumes "create_run ns name raw ap sg pl cs s = (r, t)"
  obtains (before) "r \<noteq> Ok ()" "t = s"
    | (failed) u e where "r \<noteq> Ok ()" "run_for ns name u"
        "t = s\<lparr>log := log s @ [EvWrite VCreate (ObjUnstructured u) (Some e)]\<rparr>"
    | (created) u where "r = Ok ()" "run_for ns name u"
        "t = s\<lparr>log := log s @ [EvWrite VCreate (ObjUnstructured u) None]\<rparr>"
proof -
  have "obj t = obj s"
    using keeps_objD [of "create_run ns name raw ap sg pl cs" s, OF create_obj] assms by simp
  then have t: "t = s\<lparr>log := l\<rparr>" if "log t = l" for l
    using that by (simp add: st.equality)
  show thesis
  proof (cases "r = Ok ()")
    case True
    with create_Ok [of ns name raw ap sg pl cs s] assms t that(3) show ?thesis by auto
  next
    case False
    with create_not_Ok [of ns name raw ap sg pl cs s] assms
    consider "log t = log s" | u e where "run_for ns name u"
      "log t = log s @ [EvWrite VCreate (ObjUnstructured u) (Some e)]" by auto
    then show ?thesis using t False that(1,2) by cases auto
  qed
qed

lemma creation_ends:
  assumes c: "create_run (m_ns (sd_meta (obj s))) (m_name (sd_meta (obj s))) raw ap sg pl cs
      (s\<lparr>log := log s @ rd\<rparr>) = (r3, s3)"
    and rd: "list_all is_read rd"
  shows "process_ends s (case r3 of
      Ok _ \<Rightarrow> (Ok (), s3\<lparr>obj := set_deploy_status CDStageDeployStatusRunning (obj s3)\<rparr>)
    | Fail e \<Rightarrow> (Fail (wrap_err ''failed to create PipelineRun'' e), s3) | Panic m \<Rightarrow> (Panic m, s3))"
  using c
proof (cases rule: create_leaf)
  case before
  with rd show ?thesis unfolding process_ends_def
    by (intro exI [of _ rd]) (simp split: outcome.split)
next
  case (failed u e)
  with rd show ?thesis unfolding process_ends_def
    by (intro exI [of _ rd]) (auto split: outcome.split)
next
  case (created u)
  with rd show ?thesis unfolding process_ends_def by (intro exI [of _ rd]) auto
qed

text \<open>The resources are read: what is left is the payload and the creation.\<close>

lemma payload_contract:
  assumes TM: "tm_create TM = create_run"
    and AM: "am_all_latest AM = all_latest" "am_current_with_stable AM = current"
    and go: "\<not> skipPipelineRunCreation (obj s)"
    and g: "getResourcesForPipelineRun E TM (obj s) s = (Ok (readStage, Inr (p, sg, raw)), s\<lparr>log := log s @ es1\<rparr>)"
    and es1: "list_all is_read es1"
  shows "process_ends s (ProcessTriggerTemplate_ServeRequest E TM AM s)"
proof -
  let ?s1 = "s\<lparr>log := log s @ es1\<rparr>"
  have pay: "reader (attempt (getAppPayload E AM (obj s) p sg))"
    unfolding getAppPayload_def AM by (intro reader_attempt payload_reads)
  obtain r2 s2 where a: "attempt (getAppPayload E AM (obj s) p sg) ?s1 = (r2, s2)" by force
  from reader_leaf [OF pay, of ?s1] a obtain es2 where s2: "s2 = s\<lparr>log := log s @ es1 @ es2\<rparr>"
    and es2: "list_all is_read es2" by auto
  have rd: "list_all is_read (es1 @ es2)" using es1 es2 by simp
  note run = ProcessTriggerTemplate_ServeRequest_def bindp_gets if_not_P [OF go] bindp_run g a
  show ?thesis
  proof (cases r2)
    case Ok2: (Ok z)
    show ?thesis
    proof (cases z)
      case (Inl e)
      have "ProcessTriggerTemplate_ServeRequest E TM AM s =
          (if errors_is e KLastTagNotFound
           then (Ok (), s2\<lparr>obj := set_deploy_status CDStageDeployStatusCompleted (obj s2)\<rparr>)
           else (Fail (wrap_err ''failed to get application payload'' e), s2))"
        by (simp add: run Ok2 Inl)
      with rd show ?thesis unfolding process_ends_def s2 by (intro exI [of _ "es1 @ es2"]) simp
    next
      case (Inr ap)
      obtain r3 s3 where c: "create_run (m_ns (sd_meta (obj s))) (m_name (sd_meta (obj s))) raw ap
          (st_specName sg) (p_specName p) (st_clusterName sg) s2 = (r3, s3)" by force
      from creation_ends [OF c [unfolded s2] rd] show ?thesis
        by (simp add: run Ok2 Inr TM c wrapping_run split: outcome.splits)
    qed
  next
    case (Fail e)
    have "ProcessTriggerTemplate_ServeRequest E TM AM s = (Fail e, s2)" by (simp add: run Fail)
    with rd show ?thesis unfolding process_ends_def s2 by (intro exI [of _ "es1 @ es2"]) simp
  next
    case (Panic m)
    have "ProcessTriggerTemplate_ServeRequest E TM AM s = (Panic m, s2)" by (simp add: run Panic)
    with rd show ?thesis unfolding process_ends_def s2 by (intro exI [of _ "es1 @ es2"]) simp
  qed
qed

lemma process_contract:
  assumes TM: "tm_get_raw TM = get_raw" "tm_create TM = create_run"
    and AM: "am_all_latest AM = all_latest" "am_current_with_stable AM = current"
    and go: "\<not> skipPipelineRunCreation (obj s)"
  shows "process_ends s (ProcessTriggerTemplate_ServeRequest E TM AM s)"
proof -
  have res: "reader (getResourcesForPipelineRun E TM (obj s))"
    by (rule getResources_reads) (simp add: TM get_raw_reads)
  obtain r1 s1 where g: "getResourcesForPipelineRun E TM (obj s) s = (r1, s1)" by force
  from reader_leaf [OF res, of s] g obtain es1 where s1: "s1 = s\<lparr>log := log s @ es1\<rparr>"
    and es1: "list_all is_read es1" by auto
  note run = ProcessTriggerTemplate_ServeRequest_def bindp_gets if_not_P [OF go] bindp_run g
  show ?thesis
  proof (cases r1)
    case (Ok x)
    obtain readStage res where x: "x = (readStage, res)" by force
    show ?thesis
    proof (cases res)
      case (Inl e)
      show ?thesis
        by (cases readStage) (use es1 in \<open>auto simp: run Ok x Inl s1 process_ends_def\<close>)
    next
      case (Inr y)
      obtain p sg raw where "y = (p, sg, raw)" by (cases y) auto
      with g Ok x Inr s1 show ?thesis by (intro payload_contract [OF TM(2) AM go _ es1]) simp
    qed
  qed (use es1 in \<open>auto simp: run s1 process_ends_def\<close>)
qed

end

interpretation deploy_stack: deploy_managers
  "tm_get_raw (NewTektonTriggerTemplateManager E)" "tm_create (NewTektonTriggerTemplateManager E)"
  "am_all_latest (NewStrategyManager E)" "am_current_with_stable (NewStrategyManager E)" for E
  by unfold_locales

section \<open>What one reconciliation does\<close>

text \<open>
  The events of one run of the chain: reads, then perhaps an attempt to create the run,
  then perhaps the deletion of the completed deploy.
\<close>

definition completed_of :: "cd_stage_deploy \<Rightarrow> cd_stage_deploy" where
  "completed_of d = set_deploy_status CDStageDeployStatusCompleted d"

definition creation_of :: "env \<Rightarrow> history \<Rightarrow> cd_stage_deploy \<Rightarrow> gerr option \<Rightarrow> event list \<Rightarrow> bool" where
  "creation_of E h d e evs \<longleftrightarrow>
     may_start E h d \<and>
     (\<exists>u. evs = [EvWrite VCreate (ObjUnstructured u) e] \<and>
        run_for (m_ns (sd_meta d)) (m_name (sd_meta d)) u)"

definition deletion_of :: "cd_stage_deploy \<Rightarrow> gerr option \<Rightarrow> event list \<Rightarrow> bool" where
  "deletion_of d e evs \<longleftrightarrow> evs = [EvWrite VDelete (ObjStageDeploy (completed_of d)) e]"

inductive chain_ends ::
  "env \<Rightarrow> cd_stage_deploy st \<Rightarrow> unit outcome \<Rightarrow> cd_stage_deploy st \<Rightarrow> bool" for E s where
  kept: "r \<noteq> Ok () \<or> deploy_step (status_of (obj s)) x \<and>
     x \<noteq> CDStageDeployStatusCompleted \<and> (x = CDStageDeployStatusRunning \<longrightarrow> IsRunning (obj s)) \<Longrightarrow>
   list_all is_read rd \<Longrightarrow>
   chain_ends E s r (s\<lparr>log := log s @ rd, obj := set_deploy_status x (obj s)\<rparr>)"
| create_failed: "r \<noteq> Ok () \<Longrightarrow> list_all is_read rd \<Longrightarrow> creation_of E (log s) (obj s) (Some e) cr \<Longrightarrow>
   chain_ends E s r (s\<lparr>log := log s @ rd @ cr, obj := set_deploy_status x (obj s)\<rparr>)"
| created: "deploy_step (status_of (obj s)) CDStageDeployStatusRunning \<Longrightarrow>
   list_all is_read rd \<Longrightarrow> creation_of E (log s) (obj s) None cr \<Longrightarrow>
   chain_ends E s (Ok ()) (s\<lparr>log := log s @ rd @ cr,
     obj := set_deploy_status CDStageDeployStatusRunning (obj s)\<rparr>)"
| deleted: "deploy_step (status_of (obj s)) CDStageDeployStatusCompleted \<Longrightarrow>
   list_all is_read rd \<Longrightarrow> deletion_of (obj s) e dl \<Longrightarrow>
   (r = Ok () \<longleftrightarrow> (case e of None \<Rightarrow> True | Some x \<Rightarrow> errors_is x KNotFound)) \<Longrightarrow>
   chain_ends E s r (s\<lparr>log := log s @ rd @ dl, obj := completed_of (obj s)\<rparr>)"

inductive_cases chain_endsE: "chain_ends E s r t"

lemma Process_skip:
  "skipPipelineRunCreation (obj s) \<Longrightarrow> ProcessTriggerTemplate_ServeRequest E TM AM s = (Ok (), s)"
  by (simp add: ProcessTriggerTemplate_ServeRequest_def)

lemma Delete_keep: "\<not> IsCompleted (obj s) \<Longrightarrow> DeleteCDStageDeploy_ServeRequest E s = (Ok (), s)"
  by (simp add: DeleteCDStageDeploy_ServeRequest_def)

lemma Delete_completed:
  assumes "IsCompleted (obj s)"
  obtains e where
    "snd (DeleteCDStageDeploy_ServeRequest E s) =
       s\<lparr>log := log s @ [EvWrite VDelete (ObjStageDeploy (obj s)) e]\<rparr>"
    "fst (DeleteCDStageDeploy_ServeRequest E s) = Ok () \<longleftrightarrow>
       (case e of None \<Rightarrow> True | Some x \<Rightarrow> errors_is x KNotFound)"
  using assms
  by (cases "k_write (api_stage_deploy E) (log s) VDelete (obj s) (obj s)")
     (auto simp: DeleteCDStageDeploy_ServeRequest_def prog_runs kwrite_def ask_run StageDeploys_def)

text \<open>The chain, handler by handler.\<close>

lemma CreateChain_run:
  "CreateChain E s =
    (let (r1, s1) = ResolveStatus_ServeRequest E s in
     if r1 \<noteq> Ok () then (fst (wrapping ''failed to serve handler'' (\<lambda>_. (r1, s1)) s), s1)
     else
       let (r2, s2) = ProcessTriggerTemplate_ServeRequest E (NewTektonTriggerTemplateManager E)
         (NewStrategyManager E) s1 in
       if r2 \<noteq> Ok () then (fst (wrapping ''failed to serve handler'' (\<lambda>_. (r2, s2)) s), s2)
       else wrapping ''failed to serve handler'' (DeleteCDStageDeploy_ServeRequest E) s2)"
  unfolding CreateChain_def chain_ServeRequest_def
  by (auto simp: prog_runs split_beta Let_def split: outcome.split)

lemma Resolve_not_Ok:
  assumes "fst (ResolveStatus_ServeRequest E s) \<noteq> Ok ()"
  shows "obj (snd (ResolveStatus_ServeRequest E s)) = obj s"
proof (cases "IsFailed (obj s)")
  case False
  show ?thesis
  proof (cases "k_list (api_pipeline_run E) (log s) (m_ns (sd_meta (obj s))) (runs_selector (obj s))")
    case (Inl e)
    then show ?thesis by (simp add: Resolve_listed [OF False])
  next
    case runs: (Inr runs)
    show ?thesis
    proof (cases "IsInQueue (obj s)")
      case True
      show ?thesis using assms unfolding Resolve_queued [OF True runs] by (simp split: sum.splits if_splits)
    next
      case waits: False
      show ?thesis using assms unfolding Resolve_listed [OF False] runs sum.case if_not_P [OF waits]
        by (simp split: if_splits)
    qed
  qed
qed (simp add: Resolve_failed)

lemma Resolve_state:
  obtains x rd where "snd (ResolveStatus_ServeRequest E s) =
      s\<lparr>log := log s @ rd, obj := set_deploy_status x (obj s)\<rparr>" and "list_all is_read rd"
proof -
  obtain rd where rd: "log (snd (ResolveStatus_ServeRequest E s)) = log s @ rd" "list_all is_read rd"
    using appendsD [OF Resolve_reads, of E s] by blast
  moreover obtain x where "obj (snd (ResolveStatus_ServeRequest E s)) = set_deploy_status x (obj s)"
    using Resolve_obj [of E s] Resolve_not_Ok [of E s] set_deploy_status_status [of "obj s"] by metis
  ultimately show thesis
    by (intro that [of x rd]) (simp_all add: st.equality)
qed

lemma set_deploy_status_twice [simp]:
  "set_deploy_status x (set_deploy_status y d) = set_deploy_status x d"
  by (simp add: set_deploy_status_def)

lemma is_status_set [simp]:
  "IsCompleted (set_deploy_status x d) \<longleftrightarrow> x = CDStageDeployStatusCompleted"
  "IsPending (set_deploy_status x d) \<longleftrightarrow> x = CDStageDeployStatusPending"
  "IsFailed (set_deploy_status x d) \<longleftrightarrow> x = CDStageDeployStatusFailed"
  by (simp_all add: deploy_status_defs)

text \<open>From the status after the first handler to the step of the whole chain.\<close>

lemma resolved_step:
  assumes "fst (ResolveStatus_ServeRequest E s) = Ok ()"
    and "obj (snd (ResolveStatus_ServeRequest E s)) = set_deploy_status x (obj s)"
  shows "x = CDStageDeployStatusPending \<or> x = CDStageDeployStatusFailed \<Longrightarrow>
      may_start E (log s) (obj s) \<and>
      deploy_step (status_of (obj s)) CDStageDeployStatusRunning \<and>
      deploy_step (status_of (obj s)) CDStageDeployStatusCompleted"
    and "x \<noteq> CDStageDeployStatusPending \<Longrightarrow> x \<noteq> CDStageDeployStatusFailed \<Longrightarrow>
      deploy_step (status_of (obj s)) x \<and> (x = CDStageDeployStatusRunning \<longrightarrow> IsRunning (obj s))"
proof -
  have inj: "set_deploy_status y d = set_deploy_status z d \<Longrightarrow> y = z" for y z d
    by (metis set_deploy_status_sel(1))
  from Resolve_obj [OF assms(1)] assms(2) inj
  have x: "IsRunning (obj s) \<Longrightarrow> x = CDStageDeployStatusRunning \<or> x = CDStageDeployStatusCompleted"
    "IsPending (obj s) \<or> IsInQueue (obj s) \<Longrightarrow>
       x = CDStageDeployStatusPending \<or> x = CDStageDeployStatusInQueue"
    "\<not> IsRunning (obj s) \<and> \<not> IsPending (obj s) \<and> \<not> IsInQueue (obj s) \<Longrightarrow> x = status_of (obj s)"
    by metis+
  show "may_start E (log s) (obj s) \<and>
      deploy_step (status_of (obj s)) CDStageDeployStatusRunning \<and>
      deploy_step (status_of (obj s)) CDStageDeployStatusCompleted"
    if "x = CDStageDeployStatusPending \<or> x = CDStageDeployStatusFailed"
  proof -
    from that have "may_start E (log s) (obj s)"
      by (intro Resolve_started [OF assms]) auto
    then show ?thesis
      by (auto simp: may_start_def deploy_status_defs intro: deploy_step.intros)
  qed
  show "deploy_step (status_of (obj s)) x \<and> (x = CDStageDeployStatusRunning \<longrightarrow> IsRunning (obj s))"
    if "x \<noteq> CDStageDeployStatusPending" "x \<noteq> CDStageDeployStatusFailed"
  proof -
    consider "IsRunning (obj s)" | "IsPending (obj s) \<or> IsInQueue (obj s)"
      | "\<not> IsRunning (obj s)" "\<not> IsPending (obj s)" "\<not> IsInQueue (obj s)" by blast
    then show ?thesis
    proof cases
      case 1
      with x(1) show ?thesis by (auto simp: IsRunning_def intro: deploy_step.intros)
    next
      case 2
      with x(2) that have "x = CDStageDeployStatusInQueue" by simp
      with 2 show ?thesis by (auto simp: deploy_status_defs intro: deploy_step.intros)
    next
      case 3
      with x(3) that have "x = status_of (obj s)" by simp
      with 3 that show ?thesis by (auto simp: deploy_status_defs intro: deploy_step.other)
    qed
  qed
qed

text \<open>The last handler, after the others left the deploy at status \<open>x\<close>.\<close>

lemma DeleteCDStageDeploy_ends:
  assumes s1: "s1 = s\<lparr>log := log s @ rd, obj := set_deploy_status x (obj s)\<rparr>"
    and rd: "list_all is_read rd" and step: "deploy_step (status_of (obj s)) x"
    and run: "x = CDStageDeployStatusRunning \<longrightarrow> IsRunning (obj s)"
    and m: "m = wrapping pre (DeleteCDStageDeploy_ServeRequest E) s1"
  shows "chain_ends E s (fst m) (snd m)"
proof (cases "IsCompleted (obj s1)")
  case False
  with s1 have x: "x \<noteq> CDStageDeployStatusCompleted" by simp
  have "m = (Ok (), s1)" by (simp add: m wrapping_run Delete_keep [OF False])
  with x s1 rd step run show ?thesis by (auto intro!: chain_ends.kept)
next
  case True
  then obtain e where D: "snd (DeleteCDStageDeploy_ServeRequest E s1) =
       s1\<lparr>log := log s1 @ [EvWrite VDelete (ObjStageDeploy (obj s1)) e]\<rparr>"
    "fst (DeleteCDStageDeploy_ServeRequest E s1) = Ok () \<longleftrightarrow>
       (case e of None \<Rightarrow> True | Some x \<Rightarrow> errors_is x KNotFound)"
    by (rule Delete_completed)
  from True s1 have x: "x = CDStageDeployStatusCompleted" by simp
  have snd: "snd m = s\<lparr>log := log s @ rd @
      [EvWrite VDelete (ObjStageDeploy (completed_of (obj s))) e], obj := completed_of (obj s)\<rparr>"
    unfolding m wrapping_state D(1) by (simp add: s1 x completed_of_def)
  show ?thesis unfolding snd
    by (rule chain_ends.deleted) (use step x rd D in \<open>auto simp: m wrapping_Ok_iff deletion_of_def\<close>)
qed

lemma process_chain_ends:
  assumes s1: "s1 = s\<lparr>log := log s @ rd, obj := set_deploy_status x (obj s)\<rparr>"
    and rd: "list_all is_read rd"
    and go: "may_start E (log s) (obj s)"
      "deploy_step (status_of (obj s)) CDStageDeployStatusRunning"
      "deploy_step (status_of (obj s)) CDStageDeployStatusCompleted"
    and ends: "process_ends s1 (r2, s2)"
    and bad: "r2 \<noteq> Ok () \<Longrightarrow> fst m \<noteq> Ok () \<and> snd m = s2"
    and good: "r2 = Ok () \<Longrightarrow> m = wrapping pre (DeleteCDStageDeploy_ServeRequest E) s2"
  shows "chain_ends E s (fst m) (snd m)"
proof -
  from ends s1 obtain rd2 where rd2: "list_all is_read rd2"
    and cases: "(r2 \<noteq> Ok () \<and> s2 = s1\<lparr>log := log s1 @ rd2\<rparr>) \<or>
     (r2 = Ok () \<and> s2 = s1\<lparr>log := log s1 @ rd2, obj := completed_of (obj s)\<rparr>) \<or>
     (\<exists>u e. run_for (m_ns (sd_meta (obj s))) (m_name (sd_meta (obj s))) u \<and>
        ((r2 \<noteq> Ok () \<and>
          s2 = s1\<lparr>log := log s1 @ rd2 @ [EvWrite VCreate (ObjUnstructured u) (Some e)]\<rparr>) \<or>
         (r2 = Ok () \<and>
          s2 = s1\<lparr>log := log s1 @ rd2 @ [EvWrite VCreate (ObjUnstructured u) None],
            obj := set_deploy_status CDStageDeployStatusRunning (obj s)\<rparr>)))"
    by (auto simp: process_ends_def completed_of_def)
  have reads: "list_all is_read (rd @ rd2)" using rd rd2 by simp
  from cases show ?thesis
  proof (elim disjE conjE exE)
    assume "r2 \<noteq> Ok ()" and s2: "s2 = s1\<lparr>log := log s1 @ rd2\<rparr>"
    then have m: "fst m \<noteq> Ok ()" "snd m = s\<lparr>log := log s @ rd @ rd2, obj := set_deploy_status x (obj s)\<rparr>"
      using bad by (simp_all add: s1 s2)
    show ?thesis unfolding m(2) by (rule chain_ends.kept) (use m reads in auto)
  next
    assume "r2 = Ok ()" and s2: "s2 = s1\<lparr>log := log s1 @ rd2, obj := completed_of (obj s)\<rparr>"
    show ?thesis
      by (rule DeleteCDStageDeploy_ends [OF _ reads go(3) _ good [OF \<open>r2 = Ok ()\<close>]])
         (simp_all add: s1 s2 completed_of_def)
  next
    fix u e
    assume "r2 \<noteq> Ok ()" and u: "run_for (m_ns (sd_meta (obj s))) (m_name (sd_meta (obj s))) u"
      and s2: "s2 = s1\<lparr>log := log s1 @ rd2 @ [EvWrite VCreate (ObjUnstructured u) (Some e)]\<rparr>"
    then have m: "fst m \<noteq> Ok ()" "snd m = s\<lparr>log := log s @ (rd @ rd2) @
        [EvWrite VCreate (ObjUnstructured u) (Some e)], obj := set_deploy_status x (obj s)\<rparr>"
      using bad by (simp_all add: s1 s2)
    show ?thesis unfolding m(2)
      by (rule chain_ends.create_failed [OF m(1) reads]) (use go(1) u in \<open>simp add: creation_of_def\<close>)
  next
    fix u
    assume "r2 = Ok ()" and u: "run_for (m_ns (sd_meta (obj s))) (m_name (sd_meta (obj s))) u"
      and s2: "s2 = s1\<lparr>log := log s1 @ rd2 @ [EvWrite VCreate (ObjUnstructured u) None],
            obj := set_deploy_status CDStageDeployStatusRunning (obj s)\<rparr>"
    then have m: "m = (Ok (), s\<lparr>log := log s @ (rd @ rd2) @ [EvWrite VCreate (ObjUnstructured u) None],
        obj := set_deploy_status CDStageDeployStatusRunning (obj s)\<rparr>)"
      using good by (simp add: s1 s2 wrapping_run Delete_keep)
    show ?thesis unfolding m fst_conv snd_conv
      by (rule chain_ends.created [OF go(2) reads]) (use go(1) u in \<open>simp add: creation_of_def\<close>)
  qed
qed

lemma CreateChain_ends: "chain_ends E s (fst (CreateChain E s)) (snd (CreateChain E s))"
proof -
  obtain r1 s1 where R: "ResolveStatus_ServeRequest E s = (r1, s1)" by force
  from Resolve_state [of E s] R obtain x rd where s1:
    "s1 = s\<lparr>log := log s @ rd, obj := set_deploy_status x (obj s)\<rparr>" and rd: "list_all is_read rd"
    by auto
  show ?thesis
  proof (cases "r1 = Ok ()")
    case False
    have "snd (CreateChain E s) = s1" "fst (CreateChain E s) \<noteq> Ok ()"
      using False by (simp_all add: CreateChain_run R wrapping_Ok_iff)
    with s1 rd show ?thesis by (auto intro: chain_ends.kept)
  next
    case True
    have step: "fst (ResolveStatus_ServeRequest E s) = Ok ()"
      "obj (snd (ResolveStatus_ServeRequest E s)) = set_deploy_status x (obj s)"
      using R True s1 by simp_all
    obtain r2 s2 where P: "ProcessTriggerTemplate_ServeRequest E (NewTektonTriggerTemplateManager E)
        (NewStrategyManager E) s1 = (r2, s2)" by force
    show ?thesis
    proof (cases "skipPipelineRunCreation (obj s1)")
      case skip: True
      then have x: "x \<noteq> CDStageDeployStatusPending" "x \<noteq> CDStageDeployStatusFailed"
        by (auto simp: skipPipelineRunCreation_def s1)
      from resolved_step(2) [OF step x] show ?thesis
        by (intro DeleteCDStageDeploy_ends [OF s1 rd])
           (use True Process_skip [OF skip] in \<open>auto simp: CreateChain_run R\<close>)
    next
      case False
      then have "x = CDStageDeployStatusPending \<or> x = CDStageDeployStatusFailed"
        by (auto simp: skipPipelineRunCreation_def s1 split: if_splits)
      note go = resolved_step(1) [OF step this]
      have "process_ends s1 (r2, s2)"
        using deploy_stack.process_contract [OF refl refl refl refl False, where E = E and Ea = E] P
        by simp
      from process_chain_ends [OF s1 rd _ _ _ this] go True show ?thesis
        by (cases "r2 = Ok ()") (auto simp: CreateChain_run R P wrapping_Ok_iff)
    qed
  qed
qed

section \<open>Properties of the reconciliation\<close>

text \<open>The state in which the chain starts: the deploy as it was fetched.\<close>

abbreviation fetched :: "string \<Rightarrow> string \<Rightarrow> cd_stage_deploy \<Rightarrow> 'o st \<Rightarrow> cd_stage_deploy st" where
  "fetched ns name d s \<equiv> \<lparr>obj = d, log = log s @ [EvGet ''CDStageDeploy'' ns name]\<rparr>"

lemma Reconcile_deleted:
  assumes "k_get (api_stage_deploy E) (log s) ns name = Inr d" and "m_deletion (sd_meta d) \<noteq> None"
  shows "StageDeploy_Reconcile E ns name s = (Ok no_requeue, fetched ns name d s)"
  using assms
  by (simp add: StageDeploy_Reconcile_def bindp_run attempt_run kget_run StageDeploys_def)

lemma Reconcile_run:
  assumes "k_get (api_stage_deploy E) (log s) ns name = Inr d" and "m_deletion (sd_meta d) = None"
    and "CreateChain E (fetched ns name d s) = (r, t)"
  shows "StageDeploy_Reconcile E ns name s =
    (case r of
       Ok _ \<Rightarrow>
         (Ok (requeue_after requestTimeout),
          if status_of (obj t) \<noteq> status_of d \<and> \<not> IsCompleted (obj t)
          then snd (save VStatusUpdate StageDeploys E t) else t)
     | Fail e \<Rightarrow>
         (Fail (wrap_err ''failed to process default chainFactory'' e),
          snd (save VStatusUpdate StageDeploys E (t\<lparr>obj := SetFailedStatus e (obj t)\<rparr>)))
     | Panic p \<Rightarrow> (Panic p, t))"
proof -
  have get: "attempt (kget StageDeploys E ns name) s =
      (Ok (Inr d), s\<lparr>log := log s @ [EvGet ''CDStageDeploy'' ns name]\<rparr>)"
    using assms(1) by (simp add: attempt_run kget_run StageDeploys_def)
  have start: "s\<lparr>log := log s @ [EvGet ''CDStageDeploy'' ns name], obj := d\<rparr> = fetched ns name d s"
    by simp
  have chain: "attempt (CreateChain E) (fetched ns name d s) = (case r of
      Ok x \<Rightarrow> (Ok (Inr x), t) | Fail e \<Rightarrow> (Ok (Inl e), t) | Panic p \<Rightarrow> (Panic p, t))"
    by (simp add: attempt_run assms(3) split: outcome.split)
  show ?thesis
    unfolding StageDeploy_Reconcile_def
    by (subst bindp_run)
       (cases r; simp add: get start assms(2) bindp_run chain ignoring_save IsCompleted_def Let_def)
qed

lemma run_create_simps [simp]:
  "run_create (EvWrite VCreate (ObjUnstructured u) e)" "\<not> run_create (EvGet k n m)"
  "\<not> run_create (EvWrite v (ObjStageDeploy d) e)"
  by (simp_all add: run_create_def)

lemma reads_create_nothing [simp]: "list_all is_read es \<Longrightarrow> filter run_create es = []"
  by (induction es) (auto simp: is_read_def run_create_def split: event.splits)

lemma save_deploy_log:
  obtains e where "log (snd (save v StageDeploys E t)) = log t @ [EvWrite v (ObjStageDeploy (obj t)) e]"
  by (cases "k_write (api_stage_deploy E) (log t) v (obj t) (obj t)")
     (auto simp: save_run StageDeploys_def)

lemma save_deploy_adds:
  "\<exists>fs. log (snd (save v StageDeploys E t)) = log t @ fs \<and> filter run_create fs = []"
  by (rule save_deploy_log [of v E t]) simp

lemma added_run_create [simp]:
  "log t = log s @ es \<Longrightarrow> filter run_create (added s t) = filter run_create es"
  by simp

lemma chain_run_creates:
  assumes "chain_ends E s r t"
  shows "\<exists>es. log t = log s @ es \<and>
    (filter run_create es = [] \<or> (\<exists>e. creation_of E (log s) (obj s) e (filter run_create es)))"
  using assms
  by (cases rule: chain_endsE) (fastforce simp: creation_of_def deletion_of_def)+

lemma reconcile_run_creates:
  assumes "k_get (api_stage_deploy E) (log s) ns name = Inr d"
  defines "t \<equiv> snd (StageDeploy_Reconcile E ns name s)"
  shows "filter run_create (added s t) = [] \<or>
    m_deletion (sd_meta d) = None \<and>
    (\<exists>e. creation_of E (log s @ [EvGet ''CDStageDeploy'' ns name]) d e (filter run_create (added s t)))"
proof (cases "m_deletion (sd_meta d)")
  case (Some x)
  with assms(1) show ?thesis by (simp add: t_def Reconcile_deleted)
next
  case None
  obtain r u where C: "CreateChain E (fetched ns name d s) = (r, u)" by force
  from chain_run_creates [OF CreateChain_ends [of E "fetched ns name d s"]] C obtain es where
    es: "log u = log s @ EvGet ''CDStageDeploy'' ns name # es"
    and ok: "filter run_create es = [] \<or>
      (\<exists>e. creation_of E (log s @ [EvGet ''CDStageDeploy'' ns name]) d e (filter run_create es))"
    by auto
  have "\<exists>fs. log t = log u @ fs \<and> filter run_create fs = []"
    unfolding t_def Reconcile_run [OF assms(1) None C]
    using save_deploy_adds [of VStatusUpdate E u]
      save_deploy_adds [of VStatusUpdate E "u\<lparr>obj := SetFailedStatus e (obj u)\<rparr>" for e]
    by (cases r) auto
  with es have "filter run_create (added s t) = filter run_create es" by auto
  with ok None show ?thesis by simp
qed

text \<open>
  C2: one reconciliation of a stage deploy makes at most one attempt to create a pipeline
  run, in the deploy's namespace and with its label, and only when the deploy may start: it
  failed before, or every listed run of its stage has completed and it is pending or the
  head of a queue of waiting deploys. A deploy being deleted creates nothing.
\<close>

theorem reconcile_creates_run_only_when_allowed:
  assumes "k_get (api_stage_deploy E) (log s) ns name = Inr d"
  defines "t \<equiv> snd (StageDeploy_Reconcile E ns name s)"
  shows "filter run_create (added s t) = [] \<or>
    m_deletion (sd_meta d) = None \<and>
    (\<exists>e. creation_of E (log s @ [EvGet ''CDStageDeploy'' ns name]) d e (filter run_create (added s t)))"
  unfolding t_def using assms(1) by (rule reconcile_run_creates)

text \<open>
  C3: a reconciliation that succeeds takes the deploy one step of the abstract state
  machine. It reaches \<open>running\<close> from another status only after the pipeline run was
  created; when it reaches \<open>completed\<close> the deletion of the deploy is the last call, and it
  was accepted or found the deploy gone; any other change of the status is stored by a
  status update, the last call of the reconciliation.
\<close>

theorem reconcile_refines_deploy_step:
  assumes "k_get (api_stage_deploy E) (log s) ns name = Inr d" and "m_deletion (sd_meta d) = None"
    and "StageDeploy_Reconcile E ns name s = (Ok res, t)"
  shows "res = requeue_after requestTimeout \<and>
    (\<exists>x. deploy_step (status_of d) x \<and>
      (x = CDStageDeployStatusRunning \<and> \<not> IsRunning d \<longrightarrow>
         (\<exists>u. EvWrite VCreate (ObjUnstructured u) None \<in> set (added s t) \<and>
            run_for (m_ns (sd_meta d)) (m_name (sd_meta d)) u)) \<and>
      (x = CDStageDeployStatusCompleted \<longrightarrow>
         (\<exists>e. last (log t) = EvWrite VDelete (ObjStageDeploy (set_deploy_status x d)) e \<and>
            (case e of None \<Rightarrow> True | Some y \<Rightarrow> errors_is y KNotFound))) \<and>
      (x \<noteq> CDStageDeployStatusCompleted \<and> x \<noteq> status_of d \<longrightarrow>
         (\<exists>e. last (log t) = EvWrite VStatusUpdate (ObjStageDeploy (set_deploy_status x d)) e)))"
proof -
  obtain r u where C: "CreateChain E (fetched ns name d s) = (r, u)" by force
  have r: "r = Ok ()" and res: "res = requeue_after requestTimeout"
    and t: "t = (if status_of (obj u) \<noteq> status_of d \<and> \<not> IsCompleted (obj u)
                 then snd (save VStatusUpdate StageDeploys E u) else u)"
    using assms(3) Reconcile_run [OF assms(1,2) C] by (auto split: outcome.splits)
  have "chain_ends E (fetched ns name d s) (Ok ()) u"
    using CreateChain_ends [of E "fetched ns name d s"] C r by simp
  then show ?thesis
  proof (cases rule: chain_ends.cases)
    case (kept x rd)
    then have u: "obj u = set_deploy_status x d" by simp
    obtain e where e: "log (snd (save VStatusUpdate StageDeploys E u)) =
        log u @ [EvWrite VStatusUpdate (ObjStageDeploy (obj u)) e]" by (rule save_deploy_log)
    show ?thesis using kept res t e u
      by (intro conjI exI [of _ x]) auto
  next
    case (created rd cr)
    then have u: "obj u = set_deploy_status CDStageDeployStatusRunning d"
      and l: "log u = log s @ EvGet ''CDStageDeploy'' ns name # rd @ cr" by simp_all
    from created obtain v where v: "cr = [EvWrite VCreate (ObjUnstructured v) None]"
      "run_for (m_ns (sd_meta d)) (m_name (sd_meta d)) v" by (auto simp: creation_of_def)
    obtain e where e: "log (snd (save VStatusUpdate StageDeploys E u)) =
        log u @ [EvWrite VStatusUpdate (ObjStageDeploy (obj u)) e]" by (rule save_deploy_log)
    have "EvWrite VCreate (ObjUnstructured v) None \<in> set (added s t)"
      using v l e by (auto simp: t added_def)
    moreover have "deploy_step (status_of d) CDStageDeployStatusRunning" using created by simp
    ultimately show ?thesis using v res
      by (intro conjI exI [of _ CDStageDeployStatusRunning]) (auto simp: t e u)
  next
    case (deleted rd e dl)
    then have "IsCompleted (obj u)" by (simp add: completed_of_def)
    with deleted res show ?thesis
      by (intro conjI exI [of _ CDStageDeployStatusCompleted])
         (auto simp: t deletion_of_def completed_of_def)
  qed simp
qed

lemma SetFailedStatus_set [simp]: "SetFailedStatus e (set_deploy_status x d) = SetFailedStatus e d"
  by (simp add: SetFailedStatus_def set_deploy_status_def)

lemma chain_ends_obj: "chain_ends E s r t \<Longrightarrow> \<exists>x. obj t = set_deploy_status x (obj s)"
  by (cases rule: chain_ends.cases) (auto simp: completed_of_def)

text \<open>
  C4: when the chain fails, the last call of the reconciliation stores the deploy as it was
  fetched with the status \<open>failed\<close> and the text of the chain's error as its message, and the
  error it returns is the chain's.
\<close>

theorem reconcile_stores_failure:
  assumes "k_get (api_stage_deploy E) (log s) ns name = Inr d" and "m_deletion (sd_meta d) = None"
    and "CreateChain E \<lparr>obj = d, log = log s @ [EvGet ''CDStageDeploy'' ns name]\<rparr> = (Fail e, u)"
  shows "fst (StageDeploy_Reconcile E ns name s) = Fail (wrap_err ''failed to process default chainFactory'' e) \<and>
    (\<exists>r. log (snd (StageDeploy_Reconcile E ns name s)) = log u @ [EvWrite VStatusUpdate
      (ObjStageDeploy (d\<lparr>sd_status := \<lparr>sdt_status = ''failed'', sdt_message = err_msg e\<rparr>\<rparr>)) r])"
proof -
  have C: "CreateChain E (fetched ns name d s) = (Fail e, u)" using assms(3) by simp
  have "d\<lparr>sd_status := \<lparr>sdt_status = ''failed'', sdt_message = err_msg e\<rparr>\<rparr> = SetFailedStatus e d"
    by (cases "sd_status d") (simp add: SetFailedStatus_def)
  moreover obtain x where "obj u = set_deploy_status x d"
    using chain_ends_obj [OF CreateChain_ends [of E "fetched ns name d s"]] C by auto
  moreover obtain r where "log (snd (save VStatusUpdate StageDeploys E (u\<lparr>obj := SetFailedStatus e d\<rparr>)))
      = log u @ [EvWrite VStatusUpdate (ObjStageDeploy (SetFailedStatus e d)) r]"
    using save_deploy_log [of VStatusUpdate E "u\<lparr>obj := SetFailedStatus e d\<rparr>"] by auto
  ultimately show ?thesis by (simp add: Reconcile_run [OF assms(1,2) C])
qed

text \<open>
  C5: when the runs of a stage have completed, a deploy is told to start exactly if every
  listed deploy of the stage is waiting in the queue and it is the oldest of them, the first
  of the list among equally old ones. So when all wait exactly one starts, and while one of
  them is failed, pending or running none does.
\<close>

theorem queue_starts_exactly_the_oldest:
  assumes "\<forall>r \<in> set runs. pr_completionTime r \<noteq> None"
    and "k_list (api_stage_deploy E) (log s) ns (by_labels (stage_labels pipeline stage)) = Inr ds"
    and "ds \<noteq> []"
  shows "(\<exists>!f. head_of_queue ds f) \<and>
    (\<forall>name. fst (shouldStartCDStageDeploy E name stage pipeline ns runs s) =
      Ok ((\<forall>d \<in> set ds. IsInQueue d) \<and> (\<exists>f. head_of_queue ds f \<and> m_name (sd_meta f) = name)))"
proof
  from assms(3) obtain d ds' where "ds = d # ds'" by (cases ds) auto
  with first_deploy_Some [of ds' d] show "\<exists>!f. head_of_queue ds f"
    using head_of_queue_unique by blast
  show "\<forall>name. fst (shouldStartCDStageDeploy E name stage pipeline ns runs s) =
      Ok ((\<forall>d \<in> set ds. IsInQueue d) \<and> (\<exists>f. head_of_queue ds f \<and> m_name (sd_meta f) = name))"
    using assms by (simp add: shouldStart_run allPipelineRunsCompleted_iff allCdStageDeploysInQue_iff
        isFirs_iff)
qed

section \<open>Witnesses\<close>

definition deploy0 :: cd_stage_deploy where
  "deploy0 = \<lparr>sd_meta = new_meta ''d1'' ''ns'', sd_generateName = [],
     sd_spec = \<lparr>sd_pipeline = ''p'', sd_stage = ''dev'',
       sd_tag = \<lparr>ctag_codebase = ''app'', ctag_tag = ''1.0'', ctag_digest = []\<rparr>,
       sd_tags = [], sd_triggerType = ''Auto''\<rparr>,
     sd_status = \<lparr>sdt_status = CDStageDeployStatusPending, sdt_message = []\<rparr>\<rparr>"

definition pipeline0 :: cd_pipeline where
  "pipeline0 = \<lparr>p_meta = new_meta ''p'' ''ns'', p_specName = ''p'', p_applications = [''app''],
     p_applicationsToPromote = [], p_inputDockerStreams = []\<rparr>"

definition stage0 :: cd_stage where
  "stage0 = \<lparr>st_meta = new_meta ''p-dev'' ''ns'', st_specName = ''dev'', st_cdPipeline = ''p'',
     st_clusterName = ''c'', st_triggerTemplate = ''tt'', st_triggerType = ''Auto'',
     st_qualityGates = []\<rparr>"

definition deploy_env :: env where
  "deploy_env = null_env\<lparr>api_stage_deploy := one_api deploy0, api_cd_pipeline := one_api pipeline0,
     api_stage := one_api stage0,
     api_trigger_template :=
       one_api \<lparr>tt_meta = new_meta ''tt'' ''ns'', tt_resourceTemplates = [''{}'']\<rparr>\<rparr>"

definition start0 :: "cd_stage_deploy st" where
  "start0 = \<lparr>obj = deploy0, log = []\<rparr>"

lemmas deploy_example = deploy0_def pipeline0_def stage0_def deploy_env_def start0_def example_defs

lemma deploy_env_get [simp]: "k_get (api_stage_deploy deploy_env) h ns n = Inr deploy0"
  by (simp add: deploy_example)

lemma reconcile_creates_run_witness:
  "\<exists>e. creation_of deploy_env [EvGet ''CDStageDeploy'' ''ns'' ''d1''] deploy0 e
     (filter run_create (added start0 (snd (StageDeploy_Reconcile deploy_env ''ns'' ''d1'' start0))))"
proof -
  have "filter run_create (added start0 (snd (StageDeploy_Reconcile deploy_env ''ns'' ''d1'' start0))) \<noteq> []"
    by code_simp
  with reconcile_creates_run_only_when_allowed [of deploy_env start0 "''ns''" "''d1''" deploy0]
  show ?thesis by (simp add: start0_def)
qed

lemma reconcile_refines_witness:
  "\<exists>x. deploy_step (status_of deploy0) x"
proof -
  have "fst (StageDeploy_Reconcile deploy_env ''ns'' ''d1'' start0) = Ok (requeue_after requestTimeout)"
    by code_simp
  then obtain t where "StageDeploy_Reconcile deploy_env ''ns'' ''d1'' start0 =
      (Ok (requeue_after requestTimeout), t)" by (metis prod.collapse)
  from reconcile_refines_deploy_step [OF _ _ this, of deploy0]
  show ?thesis by (auto simp: deploy0_def new_meta_def)
qed

definition no_stage_env :: env where
  "no_stage_env = deploy_env\<lparr>api_stage := empty_api\<rparr>"

lemma reconcile_stores_failure_witness:
  "\<exists>r. log (snd (StageDeploy_Reconcile no_stage_env ''ns'' ''d1'' start0)) =
     log (snd (CreateChain no_stage_env \<lparr>obj = deploy0, log = [EvGet ''CDStageDeploy'' ''ns'' ''d1'']\<rparr>)) @
     [EvWrite VStatusUpdate (ObjStageDeploy (deploy0\<lparr>sd_status := \<lparr>sdt_status = ''failed'',
        sdt_message = ''failed to serve handler: failed to get Stage: not found''\<rparr>\<rparr>)) r]"
proof -
  let ?s = "\<lparr>obj = deploy0, log = [EvGet ''CDStageDeploy'' ''ns'' ''d1'']\<rparr>"
  let ?e = "GErr ''failed to serve handler: failed to get Stage: not found'' [KNotFound]"
  have "fst (CreateChain no_stage_env ?s) = Fail ?e" by code_simp
  then have "CreateChain no_stage_env ?s = (Fail ?e, snd (CreateChain no_stage_env ?s))"
    by (metis prod.collapse)
  with reconcile_stores_failure [of no_stage_env start0 "''ns''" "''d1''" deploy0 ?e] show ?thesis
    by (simp add: no_stage_env_def deploy0_def start0_def new_meta_def)
qed

lemma queue_starts_witness:
  "fst (shouldStartCDStageDeploy
      (null_env\<lparr>api_stage_deploy := one_api (set_deploy_status CDStageDeployStatusInQueue deploy0)\<rparr>)
      ''d1'' ''p-dev'' ''p'' ''ns'' [] start0) = Ok True"
  using queue_starts_exactly_the_oldest [of "[]"
      "null_env\<lparr>api_stage_deploy := one_api (set_deploy_status CDStageDeployStatusInQueue deploy0)\<rparr>"
      start0 "''ns''" "''p''" "''p-dev''" "[set_deploy_status CDStageDeployStatusInQueue deploy0]"]
  by (simp add: deploy_example IsInQueue_def set_deploy_status_def head_of_queue_def Cons_eq_append_conv
      new_meta_def)

end
