(* ===== verification/Deploy_Queue.thy ===== *)
theory Deploy_Queue
  imports Stage_Deploy
begin

text \<open>
  The stage deploys of a cluster as a transition system. A stage has many deploys, which the
  controller reconciles one at a time (\<open>MaxConcurrentReconciles: 1\<close> in
  \<open>cdstagedeploy_controller.go\<close>, whose comment gives the reason: \<open>to avoid running multiple
  pipelines in parallel\<close>). A state is what runs; between two reconciliations runs finish, are
  deleted, and everything else in the cluster may change, since each reconciliation has an
  environment of its own.
\<close>

section \<open>The runs of a stage\<close>

text \<open>A stage: namespace, pipeline and the name of its resource.\<close>

type_synonym stage_key = "string \<times> string \<times> string"

definition stage_of_deploy :: "cd_stage_deploy \<Rightarrow> stage_key" where
  "stage_of_deploy d = (m_ns (sd_meta d), sd_pipeline (sd_spec d), GetStageCRName d)"

definition of_stage :: "stage_key \<Rightarrow> pipeline_run \<Rightarrow> bool" where
  "of_stage k r \<longleftrightarrow> (case k of (ns, pipeline, stage) \<Rightarrow>
     m_ns (pr_meta r) = ns \<and>
     map_of (labels_of (pr_meta r)) CdPipelineLabel = Some pipeline \<and>
     map_of (labels_of (pr_meta r)) CdStageLabel = Some stage)"

definition unfinished :: "stage_key \<Rightarrow> pipeline_run list \<Rightarrow> pipeline_run list" where
  "unfinished k runs = filter (\<lambda>r. of_stage k r \<and> pr_completionTime r = None) runs"

text \<open>The run the server stores for a created resource, under a name it makes up.\<close>

definition run_of :: "unstructured \<Rightarrow> string \<Rightarrow> pipeline_run" where
  "run_of u n = \<lparr>pr_meta = (new_meta n (u_ns u))\<lparr>m_labels := u_labels u\<rparr>, pr_completionTime = None\<rparr>"

text \<open>
  The runs that exist after the calls of a reconciliation: an accepted creation stores one;
  one that was answered with an error may have stored one all the same, when the answer
  was lost.
\<close>

inductive stored :: "event list \<Rightarrow> pipeline_run list \<Rightarrow> bool" where
  none: "stored [] []"
| other: "\<not> run_create ev \<Longrightarrow> stored evs rs \<Longrightarrow> stored (ev # evs) rs"
| created: "stored evs rs \<Longrightarrow> stored (EvWrite VCreate (ObjUnstructured u) e # evs) (run_of u n # rs)"
| refused: "stored evs rs \<Longrightarrow> stored (EvWrite VCreate (ObjUnstructured u) (Some e) # evs) rs"

text \<open>
  The label a run is listed by comes from the trigger template, which is not code of the
  repository: it names the pipeline and the stage of the deploy.
\<close>

definition labelled :: "cd_stage_deploy \<Rightarrow> event list \<Rightarrow> bool" where
  "labelled d evs \<longleftrightarrow> (\<forall>u e. EvWrite VCreate (ObjUnstructured u) e \<in> set evs \<longrightarrow>
     (\<exists>l. u_labels u = Some l \<and> map_of l CdPipelineLabel = Some (sd_pipeline (sd_spec d)) \<and>
        map_of l CdStageLabel = Some (GetStageCRName d)))"

text \<open>
  The listing a reconciliation of \<open>d\<close> that starts at history \<open>h\<close> gets shows every unfinished run of
  its stage. A cache that lags behind, or more runs than the limit of the listing, may hide one.
\<close>

definition shows_unfinished :: "env \<Rightarrow> history \<Rightarrow> cd_stage_deploy \<Rightarrow> pipeline_run list \<Rightarrow> bool" where
  "shows_unfinished E h d runs \<longleftrightarrow>
     (\<forall>listed. k_list (api_pipeline_run E) h (m_ns (sd_meta d)) (runs_selector d) = Inr listed \<longrightarrow>
        set (unfinished (stage_of_deploy d) runs) \<subseteq> set listed)"

section \<open>The transition system\<close>

text \<open>
  The runs that exist, and how many were created for the stage by a retry of a failed
  deploy, and after a listing that hid one.
\<close>

record world =
  w_runs :: "pipeline_run list"
  w_retries :: nat
  w_hidden :: nat

definition deploys_once :: "stage_key \<Rightarrow> env \<Rightarrow> history \<Rightarrow> cd_stage_deploy \<Rightarrow> pipeline_run list \<Rightarrow> world \<Rightarrow> world" where
  "deploys_once k E h d new w =
     (let mine = filter (of_stage k) new
      in w\<lparr>w_runs := new @ w_runs w,
           w_retries := w_retries w + (if IsFailed d then length mine else 0),
           w_hidden := w_hidden w +
             (if \<not> IsFailed d \<and> \<not> shows_unfinished E h d (w_runs w) then length mine else 0)\<rparr>)"

inductive world_step :: "stage_key \<Rightarrow> world \<Rightarrow> world \<Rightarrow> bool" for k where
  reconcile: "k_get (api_stage_deploy E) (log s) ns name = Inr d \<Longrightarrow>
     stored (added s (snd (StageDeploy_Reconcile E ns name s))) new \<Longrightarrow>
     labelled d (added s (snd (StageDeploy_Reconcile E ns name s))) \<Longrightarrow>
     world_step k w (deploys_once k E (log s @ [EvGet ''CDStageDeploy'' ns name]) d new w)"
| finish: "w_runs w = before @ r # after \<Longrightarrow>
     world_step k w (w\<lparr>w_runs := before @ r\<lparr>pr_completionTime := Some time\<rparr> # after\<rparr>)"
| remove: "w_runs w = before @ r # after \<Longrightarrow> world_step k w (w\<lparr>w_runs := before @ after\<rparr>)"

inductive reachable :: "stage_key \<Rightarrow> world \<Rightarrow> bool" for k where
  start: "unfinished k (w_runs w) = [] \<Longrightarrow> reachable k w"
| step: "reachable k w \<Longrightarrow> world_step k w w' \<Longrightarrow> reachable k w'"

inductive_cases storedE: "stored evs rs"

section \<open>One step\<close>

lemma unfinished_append [simp]: "unfinished k (xs @ ys) = unfinished k xs @ unfinished k ys"
  and unfinished_Cons [simp]: "unfinished k (r # rs) =
    (if of_stage k r \<and> pr_completionTime r = None then r # unfinished k rs else unfinished k rs)"
  and unfinished_Nil [simp]: "unfinished k [] = []"
  by (simp_all add: unfinished_def)

lemma stored_creates:
  assumes "stored evs rs" and "filter run_create evs = [EvWrite VCreate (ObjUnstructured u) e]"
  shows "rs = [] \<or> (\<exists>n. rs = [run_of u n])"
proof -
  have none: "filter run_create es = [] \<Longrightarrow> stored es xs \<Longrightarrow> xs = []" for es xs
    by (induction es) (auto elim: stored.cases split: if_splits)
  from assms show ?thesis
    by (induction rule: stored.induct) (use none in \<open>auto split: if_splits\<close>)
qed

lemma stored_nothing: "stored evs rs \<Longrightarrow> filter run_create evs = [] \<Longrightarrow> rs = []"
  by (induction rule: stored.induct) (auto split: if_splits)

text \<open>A creation by a deploy that did not fail, after a listing that hides nothing, finds no run going.\<close>

lemma starts_alone:
  assumes "may_start E h d" and "\<not> IsFailed d" and "shows_unfinished E h d runs"
  shows "unfinished (stage_of_deploy d) runs = []"
proof -
  from assms(1,2) obtain listed where
    "k_list (api_pipeline_run E) h (m_ns (sd_meta d)) (runs_selector d) = Inr listed"
    "\<forall>r \<in> set listed. pr_completionTime r \<noteq> None"
    by (auto simp: may_start_def)
  with assms(3) have "\<forall>r \<in> set (unfinished (stage_of_deploy d) runs). pr_completionTime r \<noteq> None"
    by (auto simp: shows_unfinished_def)
  then show ?thesis by (auto simp: unfinished_def filter_empty_conv)
qed

lemma run_of_stage:
  assumes "labelled d evs" and "EvWrite VCreate (ObjUnstructured u) e \<in> set evs" and "u_ns u = m_ns (sd_meta d)"
  shows "of_stage k (run_of u n) \<longleftrightarrow> k = stage_of_deploy d"
proof -
  from assms(1,2) obtain l where "u_labels u = Some l" "map_of l CdPipelineLabel = Some (sd_pipeline (sd_spec d))"
    "map_of l CdStageLabel = Some (GetStageCRName d)" unfolding labelled_def by blast
  with assms(3) show ?thesis
    by (cases k) (auto simp: of_stage_def run_of_def labels_of_def stage_of_deploy_def new_meta_def)
qed

text \<open>The bound: one run, and those that were started in spite of it.\<close>

definition runs_bounded :: "stage_key \<Rightarrow> world \<Rightarrow> bool" where
  "runs_bounded k w \<longleftrightarrow> length (unfinished k (w_runs w)) \<le> 1 + w_retries w + w_hidden w"

lemma deploys_once_bounded:
  assumes "runs_bounded k w" and "k_get (api_stage_deploy E) (log s) ns name = Inr d"
    and "stored (added s (snd (StageDeploy_Reconcile E ns name s))) new"
    and "labelled d (added s (snd (StageDeploy_Reconcile E ns name s)))"
  shows "runs_bounded k (deploys_once k E (log s @ [EvGet ''CDStageDeploy'' ns name]) d new w)"
proof -
  let ?h = "log s @ [EvGet ''CDStageDeploy'' ns name]"
  let ?evs = "added s (snd (StageDeploy_Reconcile E ns name s))"
  consider "filter run_create ?evs = []" | e where "creation_of E ?h d e (filter run_create ?evs)"
    using reconcile_run_creates [OF assms(2)] by blast
  then show ?thesis
  proof cases
    case 1
    with stored_nothing [OF assms(3)] assms(1) show ?thesis
      by (simp add: deploys_once_def runs_bounded_def Let_def)
  next
    case 2
    then obtain u where u: "may_start E ?h d" "filter run_create ?evs = [EvWrite VCreate (ObjUnstructured u) e]"
      "u_ns u = m_ns (sd_meta d)"
      by (auto simp: creation_of_def run_for_def)
    then have "EvWrite VCreate (ObjUnstructured u) e \<in> set ?evs"
      by (metis filter_is_subset list.set_intros(1) subsetD)
    note mine = run_of_stage [OF assms(4) this u(3)]
    from stored_creates [OF assms(3) u(2)] consider "new = []" | n where "new = [run_of u n]" by blast
    then show ?thesis
    proof cases
      case new: 2
      show ?thesis
      proof (cases "k = stage_of_deploy d \<and> \<not> IsFailed d \<and> shows_unfinished E ?h d (w_runs w)")
        case True
        with starts_alone [OF u(1)] have "unfinished k (w_runs w) = []" by blast
        with True new show ?thesis
          by (simp add: deploys_once_def runs_bounded_def Let_def)
      next
        case False
        with assms(1) new mine show ?thesis
          by (cases "k = stage_of_deploy d") (auto simp: deploys_once_def runs_bounded_def Let_def)
      qed
    qed (use assms(1) in \<open>simp add: deploys_once_def runs_bounded_def Let_def\<close>)
  qed
qed

section \<open>Runs of a stage, one at a time\<close>

text \<open>
  C1: in every reachable state of the cluster a stage has at most one unfinished pipeline
  run, plus one for each retry of a failed deploy and each start after a listing that hid
  an unfinished run. So as long as no deploy of the stage fails and the listings are
  complete, two pipelines of a stage never run in parallel, in whatever order its deploys
  are reconciled and whatever the rest of the cluster does.
\<close>

theorem stage_runs_one_at_a_time:
  assumes "reachable k w"
  shows "length (unfinished k (w_runs w)) \<le> 1 + w_retries w + w_hidden w"
  using assms unfolding runs_bounded_def [symmetric]
proof (induction rule: reachable.induct)
  case (start w)
  then show ?case by (simp add: runs_bounded_def)
next
  case (step w w')
  from step.hyps(2) show ?case
  proof cases
    case (reconcile E s ns name d new)
    with deploys_once_bounded [OF step.IH] show ?thesis by blast
  next
    case (finish before r after time)
    with step.IH show ?thesis by (auto simp: runs_bounded_def split: if_splits)
  next
    case (remove before r after)
    with step.IH show ?thesis by (auto simp: runs_bounded_def split: if_splits)
  qed
qed

section \<open>Example\<close>

text \<open>A pending deploy whose template labels the run with the pipeline and the stage.\<close>

definition queue_env :: env where
  "queue_env = deploy_env\<lparr>lib_of := null_lib\<lparr>l_unmarshalUnstructured := \<lambda>raw. Inr \<lparr>u_ns = [],
     u_labels = Some [(CdPipelineLabel, ''p''), (CdStageLabel, ''p-dev'')], u_spec = Some [], u_raw = raw\<rparr>\<rparr>\<rparr>"

definition queued_run :: unstructured where
  "queued_run = \<lparr>u_ns = ''ns'', u_labels = Some (smap_put CdStageDeployLabel ''d1''
     [(CdPipelineLabel, ''p''), (CdStageLabel, ''p-dev'')]), u_spec = Some [], u_raw = ''{}''\<rparr>"

lemma queue_creates:
  "filter run_create (added start0 (snd (StageDeploy_Reconcile queue_env ''ns'' ''d1'' start0))) =
     [EvWrite VCreate (ObjUnstructured queued_run) None]"
  by code_simp

lemma stored_created:
  "filter run_create evs = [EvWrite VCreate (ObjUnstructured u) e] \<Longrightarrow> stored evs [run_of u n]"
proof (induction evs)
  case (Cons ev evs)
  have "filter run_create es = [] \<Longrightarrow> stored es []" for es
    by (induction es) (auto intro: stored.intros split: if_splits)
  with Cons show ?case by (auto intro: stored.intros split: if_splits)
qed simp

definition idle_world :: world where
  "idle_world = \<lparr>w_runs = [], w_retries = 0, w_hidden = 0\<rparr>"

abbreviation example_stage :: stage_key where
  "example_stage \<equiv> (''ns'', ''p'', ''p-dev'')"

lemma example_step:
  assumes "k_get (api_stage_deploy E) (log start0) ''ns'' ''d1'' = Inr d" and "stage_of_deploy d = example_stage"
    and "filter run_create (added start0 (snd (StageDeploy_Reconcile E ''ns'' ''d1'' start0))) =
      [EvWrite VCreate (ObjUnstructured queued_run) None]"
  shows "world_step example_stage w
    (deploys_once example_stage E (log start0 @ [EvGet ''CDStageDeploy'' ''ns'' ''d1'']) d [run_of queued_run n] w)"
proof (rule world_step.reconcile [OF assms(1) stored_created [OF assms(3)]])
  let ?evs = "added start0 (snd (StageDeploy_Reconcile E ''ns'' ''d1'' start0))"
  have "u = queued_run" if "EvWrite VCreate (ObjUnstructured u) e \<in> set ?evs" for u e
  proof -
    from that have "EvWrite VCreate (ObjUnstructured u) e \<in> set (filter run_create ?evs)" by simp
    then show ?thesis unfolding assms(3) by simp
  qed
  then show "labelled d ?evs"
    unfolding labelled_def
  proof (intro allI impI)
    fix u e assume "EvWrite VCreate (ObjUnstructured u) e \<in> set ?evs"
    with \<open>\<And>u e. EvWrite VCreate (ObjUnstructured u) e \<in> set ?evs \<Longrightarrow> u = queued_run\<close> have "u = queued_run" .
    with assms(2) show "\<exists>l. u_labels u = Some l \<and> map_of l CdPipelineLabel = Some (sd_pipeline (sd_spec d)) \<and>
        map_of l CdStageLabel = Some (GetStageCRName d)"
      by (simp add: queued_run_def smap_put_def stage_of_deploy_def)
  qed
qed

lemma busy_reachable:
  "reachable example_stage \<lparr>w_runs = [run_of queued_run ''r1''], w_retries = 0, w_hidden = 0\<rparr>"
proof -
  have "stage_of_deploy deploy0 = example_stage"
    by (simp add: stage_of_deploy_def deploy0_def GetStageCRName_def new_meta_def)
  from example_step [OF _ this queue_creates, of idle_world "''r1''"]
  have "world_step example_stage idle_world
      \<lparr>w_runs = [run_of queued_run ''r1''], w_retries = 0, w_hidden = 0\<rparr>"
    by (simp add: queue_env_def deploy_env_def one_api_def deploys_once_def idle_world_def shows_unfinished_def
        IsFailed_def deploy0_def)
  moreover have "reachable example_stage idle_world"
    by (rule reachable.start) (simp add: idle_world_def)
  ultimately show ?thesis by (rule reachable.step [rotated])
qed

text \<open>
  The bound is reached: a deploy that failed is retried without a look at the runs of its
  stage, so its run starts beside the one that is going.
\<close>

definition retry_env :: env where
  "retry_env = queue_env\<lparr>api_stage_deploy := one_api (set_deploy_status CDStageDeployStatusFailed deploy0)\<rparr>"

lemma retry_creates:
  "filter run_create (added start0 (snd (StageDeploy_Reconcile retry_env ''ns'' ''d1'' start0))) =
     [EvWrite VCreate (ObjUnstructured queued_run) None]"
  by code_simp

lemma retry_runs_in_parallel:
  "reachable example_stage
     \<lparr>w_runs = [run_of queued_run ''r2'', run_of queued_run ''r1''], w_retries = 1, w_hidden = 0\<rparr>"
proof -
  let ?d = "set_deploy_status CDStageDeployStatusFailed deploy0"
  have k: "stage_of_deploy ?d = example_stage"
    by (simp add: stage_of_deploy_def deploy0_def GetStageCRName_def new_meta_def)
  have mine: "of_stage example_stage (run_of queued_run ''r2'')"
    by (simp add: of_stage_def run_of_def queued_run_def labels_of_def smap_put_def new_meta_def)
  from example_step [OF _ k retry_creates,
      of "\<lparr>w_runs = [run_of queued_run ''r1''], w_retries = 0, w_hidden = 0\<rparr>" "''r2''"] mine
  have "world_step example_stage \<lparr>w_runs = [run_of queued_run ''r1''], w_retries = 0, w_hidden = 0\<rparr>
      \<lparr>w_runs = [run_of queued_run ''r2'', run_of queued_run ''r1''], w_retries = 1, w_hidden = 0\<rparr>"
    by (simp add: retry_env_def one_api_def deploys_once_def IsFailed_def)
  with busy_reachable show ?thesis by (rule reachable.step)
qed

theorem stage_runs_one_at_a_time_witness:
  "length (unfinished example_stage [run_of queued_run ''r1'']) = 1 \<and>
   length (unfinished example_stage [run_of queued_run ''r1'']) \<le> 1 + 0 + 0"
proof
  show "length (unfinished example_stage [run_of queued_run ''r1'']) = 1"
    by (simp add: of_stage_def run_of_def queued_run_def labels_of_def smap_put_def new_meta_def)
  show "length (unfinished example_stage [run_of queued_run ''r1'']) \<le> 1 + 0 + 0"
    using stage_runs_one_at_a_time [OF busy_reachable] by simp
qed

end
