(* ===== verification/Url_Util.thy ===== *)
theory Url_Util
  imports Kube
begin

text \<open>
  \<open>pkg/util\<close>: the URL helpers of \<open>url.go\<close>, the reconciliation delay of
  \<open>reconcilation.go\<close>, directories and environment variables; with them
  \<open>git.NewConfigFromGitServerAndSecret\<close> and the URL helpers of \<open>pkg/gitprovider\<close>.
\<close>

section \<open>The \<open>.git\<close> suffix\<close>

abbreviation CrSuffixGit :: string where "CrSuffixGit \<equiv> ''.git''"

text \<open>The loop ends because every round drops four bytes.\<close>

function TrimGitFromURL :: "string \<Rightarrow> string" where
  "TrimGitFromURL url =
     (if has_suffix CrSuffixGit url then TrimGitFromURL (trim_suffix CrSuffixGit url) else url)"
  by pat_completeness auto
termination
proof (relation "measure length")
  fix url :: string
  assume "has_suffix CrSuffixGit url"
  then show "(trim_suffix CrSuffixGit url, url) \<in> measure length"
    using has_suffix_length [of CrSuffixGit url] by (auto simp: trim_suffix_def)
qed simp

declare TrimGitFromURL.simps [simp del]

definition AddGitToURL :: "string \<Rightarrow> string" where
  "AddGitToURL url = (if has_suffix CrSuffixGit url then url else url @ CrSuffixGit)"

lemma TrimGitFromURL_suffix_free [simp]: "\<not> has_suffix CrSuffixGit (TrimGitFromURL url)"
  by (induction url rule: TrimGitFromURL.induct) (subst TrimGitFromURL.simps, simp)

lemma TrimGitFromURL_id: "\<not> has_suffix CrSuffixGit url \<Longrightarrow> TrimGitFromURL url = url"
  by (subst TrimGitFromURL.simps) simp

lemma TrimGitFromURL_idem [simp]: "TrimGitFromURL (TrimGitFromURL url) = TrimGitFromURL url"
  by (rule TrimGitFromURL_id) (rule TrimGitFromURL_suffix_free)

lemma TrimGitFromURL_step: "TrimGitFromURL (url @ CrSuffixGit) = TrimGitFromURL url"
  by (subst TrimGitFromURL.simps) simp

lemma TrimGitFromURL_decompose:
  "\<exists>n. url = TrimGitFromURL url @ concat (replicate n CrSuffixGit)"
proof (induction url rule: TrimGitFromURL.induct)
  case (1 url)
  show ?case
  proof (cases "has_suffix CrSuffixGit url")
    case True
    then obtain t where t: "url = t @ CrSuffixGit" by (auto simp: has_suffix_iff)
    with "1.IH" [OF True] obtain n where "t = TrimGitFromURL t @ concat (replicate n CrSuffixGit)"
      by auto
    with t have "url = TrimGitFromURL url @ concat (replicate n CrSuffixGit) @ CrSuffixGit"
      using TrimGitFromURL_step [of t] by (metis append.assoc)
    then have "url = TrimGitFromURL url @ concat (replicate (Suc n) CrSuffixGit)"
      by (simp only: replicate_Suc replicate_append_same [symmetric] concat_append) simp
    then show ?thesis ..
  next
    case False
    then have "url = TrimGitFromURL url @ concat (replicate 0 CrSuffixGit)"
      by (simp add: TrimGitFromURL_id)
    then show ?thesis ..
  qed
qed

lemma AddGitToURL_suffix [simp]: "has_suffix CrSuffixGit (AddGitToURL url)"
  by (simp add: AddGitToURL_def)

lemma AddGitToURL_idem [simp]: "AddGitToURL (AddGitToURL url) = AddGitToURL url"
  by (simp add: AddGitToURL_def)

section \<open>Repository URLs\<close>

abbreviation GithubDomain :: string where "GithubDomain \<equiv> ''https://github.com/epmd-edp''"
abbreviation PrivateSShKeyName :: string where "PrivateSShKeyName \<equiv> ''id_rsa''"
abbreviation GitServerSecretTokenField :: string where "GitServerSecretTokenField \<equiv> ''token''"
abbreviation GitServerSecretWebhookSecretField :: string where
  "GitServerSecretWebhookSecretField \<equiv> ''secretString''"
abbreviation GitServerSecretUserNameField :: string where
  "GitServerSecretUserNameField \<equiv> ''username''"

definition BuildTemplateRepoUrl :: "codebase_spec \<Rightarrow> string" where
  "BuildTemplateRepoUrl sp =
     to_lower (GithubDomain @ ''/'' @ cs_lang sp @ ''-'' @ cs_buildTool sp @ ''-'' @
       cs_framework sp @ ''.git'')"

definition tryGetRepoUrl :: "codebase_spec \<Rightarrow> gerr + string" where
  "tryGetRepoUrl sp =
     (case cs_repository sp of
        None \<Rightarrow> Inl (errorf ''repository cannot be nil for specified strategy'')
      | Some url \<Rightarrow> Inr url)"

definition GetRepoUrlForClone :: "codebase \<Rightarrow> gerr + string" where
  "GetRepoUrlForClone c =
     (if cs_strategy (c_spec c) = StrategyClone then tryGetRepoUrl (c_spec c)
      else Inr (BuildTemplateRepoUrl (c_spec c)))"

definition GetHostWithProtocol :: "string \<Rightarrow> string" where
  "GetHostWithProtocol host =
     (if has_prefix ''https://'' host \<or> has_prefix ''http://'' host then host
      else ''https://'' @ host)"

definition GetSSHUrl :: "git_server \<Rightarrow> string \<Rightarrow> string" where
  "GetSSHUrl gs repo =
     (if gs_gitProvider (gs_spec gs) = GitProviderGerrit
      then ''ssh://'' @ gs_gitHost (gs_spec gs) @ '':'' @ itoa (gs_sshPort (gs_spec gs)) @ ''/'' @ repo
      else ''git@'' @ gs_gitHost (gs_spec gs) @ '':'' @ repo @ ''.git'')"

definition GetHTTPSUrl :: "git_server \<Rightarrow> string \<Rightarrow> string" where
  "GetHTTPSUrl gs repo = ''https://'' @ gs_gitHost (gs_spec gs) @ ''/'' @ repo @ ''.git''"

definition GetProjectGitUrl :: "git_server \<Rightarrow> secret \<Rightarrow> string \<Rightarrow> string" where
  "GetProjectGitUrl gs sec repo =
     (if smap_get (s_data sec) PrivateSShKeyName = [] then GetHTTPSUrl gs repo
      else GetSSHUrl gs repo)"

definition NewConfigFromGitServerAndSecret :: "git_server \<Rightarrow> secret \<Rightarrow> git_config" where
  "NewConfigFromGitServerAndSecret gs sec =
     \<lparr>gc_sshKey = smap_get (s_data sec) PrivateSShKeyName,
      gc_sshUser = gs_gitUser (gs_spec gs),
      gc_sshPort = gs_sshPort (gs_spec gs),
      gc_gitProvider = gs_gitProvider (gs_spec gs),
      gc_token = smap_get (s_data sec) GitServerSecretTokenField,
      gc_username = smap_get (s_data sec) GitServerSecretUserNameField\<rparr>"

text \<open>\<open>pkg/gitprovider/provider.go\<close>\<close>

definition GetGitProviderAPIURL :: "git_server \<Rightarrow> string" where
  "GetGitProviderAPIURL gs =
     (let sp = gs_spec gs;
          url = GetHostWithProtocol (gs_gitHost sp);
          with_port = (\<lambda>u. if gs_httpsPort sp \<noteq> 0 then u @ '':'' @ itoa (gs_httpsPort sp) else u)
      in if gs_gitProvider sp = GitProviderGithub
         then if url = ''https://github.com'' then ''https://api.github.com''
              else with_port (url @ ''/api/v3'')
         else if gs_gitProvider sp = GitProviderBitbucket then ''https://api.bitbucket.org/2.0''
         else with_port url)"

definition parseProjectID :: "string \<Rightarrow> gerr + string \<times> string" where
  "parseProjectID projectID =
     (case split_on (CHR ''/'') projectID of
        [owner, repo] \<Rightarrow> Inr (owner, repo)
      | _ \<Rightarrow> Inl (errorf (''invalid project ID: '' @ projectID)))"

definition Visibility :: "bool \<Rightarrow> string" where
  "Visibility isPrivate = (if isPrivate then ''private'' else ''public'')"

lemma GetHostWithProtocol_prefix:
  "has_prefix ''https://'' (GetHostWithProtocol h) \<or> has_prefix ''http://'' (GetHostWithProtocol h)"
  by (simp add: GetHostWithProtocol_def has_prefix_def)

lemma GetHostWithProtocol_idem [simp]:
  "GetHostWithProtocol (GetHostWithProtocol h) = GetHostWithProtocol h"
  using GetHostWithProtocol_prefix [of h] by (simp add: GetHostWithProtocol_def [of "GetHostWithProtocol h"])

lemma parseProjectID_roundtrip:
  "parseProjectID p = Inr (owner, repo) \<longleftrightarrow>
     p = owner @ ''/'' @ repo \<and> CHR ''/'' \<notin> set owner \<and> CHR ''/'' \<notin> set repo"
proof
  assume "parseProjectID p = Inr (owner, repo)"
  then have sp: "split_on (CHR ''/'') p = [owner, repo]"
    by (auto simp: parseProjectID_def split: list.splits)
  have p: "p = owner @ ''/'' @ repo"
    using str_join_split_on [of "CHR ''/''" p] sp by simp
  have absent: "\<forall>w \<in> set (split_on c s). c \<notin> set w" for c s
    by (induction s) (auto split: list.splits)
  show "p = owner @ ''/'' @ repo \<and> CHR ''/'' \<notin> set owner \<and> CHR ''/'' \<notin> set repo"
    using p absent [of "CHR ''/''" p] sp by simp
next
  assume "p = owner @ ''/'' @ repo \<and> CHR ''/'' \<notin> set owner \<and> CHR ''/'' \<notin> set repo"
  then show "parseProjectID p = Inr (owner, repo)"
    by (simp add: parseProjectID_def split_on_append split_on_absent)
qed

section \<open>Delays\<close>

text \<open>
  \<open>GetTimeout\<close>: linear for the first ten failures, in \<open>int64\<close> arithmetic, then
  \<open>base * e^(factor + 1)\<close> in floating point, which is a parameter here.
\<close>

definition GetTimeout :: "env \<Rightarrow> int \<Rightarrow> int \<Rightarrow> int" where
  "GetTimeout E factor baseDuration =
     (if factor < 10 then i64 ((factor + 1) * baseDuration)
      else l_expBackoff (lib_of E) factor baseDuration)"

lemma GetTimeout_linear:
  assumes "0 \<le> f" and "f < 10" and "0 \<le> b" and "b \<le> 3600 * second"
  shows "GetTimeout E f b = (f + 1) * b"
proof -
  have "(f + 1) * b \<le> 10 * (3600 * second)"
    using assms by (intro mult_mono) auto
  moreover have "0 \<le> (f + 1) * b" using assms by simp
  ultimately show ?thesis
    using assms(2) by (simp add: GetTimeout_def i64_id)
qed

section \<open>Directories and environment variables\<close>

abbreviation WorkDirEnv :: string where "WorkDirEnv \<equiv> ''WORKING_DIR''"
abbreviation AssetsDirEnv :: string where "AssetsDirEnv \<equiv> ''ASSETS_DIR''"

text \<open>\<open>path.Clean\<close> and \<open>path.Join\<close>, element by element; the accumulator is reversed.\<close>

fun clean_parts :: "bool \<Rightarrow> string list \<Rightarrow> string list \<Rightarrow> string list" where
  "clean_parts rooted out [] = rev out"
| "clean_parts rooted out (c # cs) =
     (if c = [] \<or> c = ''.'' then clean_parts rooted out cs
      else if c = ''..'' then
        (case out of
           [] \<Rightarrow> clean_parts rooted (if rooted then [] else [''..'']) cs
         | a # rest \<Rightarrow>
             if a = ''..'' then clean_parts rooted (''..'' # out) cs else clean_parts rooted rest cs)
      else clean_parts rooted (c # out) cs)"

definition path_clean :: "string \<Rightarrow> string" where
  "path_clean p =
     (let rooted = has_prefix ''/'' p;
          r = (if rooted then ''/'' else []) @
                str_join ''/'' (clean_parts rooted [] (split_on (CHR ''/'') p))
      in if r = [] then ''.'' else r)"

definition path_join :: "string list \<Rightarrow> string" where
  "path_join elems =
     (let es = filter (\<lambda>e. e \<noteq> []) elems in if es = [] then [] else path_clean (str_join ''/'' es))"

definition GetWorkDir :: "env \<Rightarrow> string \<Rightarrow> string \<Rightarrow> string" where
  "GetWorkDir E codebaseName namespace =
     (case os_env E WorkDirEnv of
        None \<Rightarrow> ''/home/codebase-operator/edp/''
      | Some v \<Rightarrow> v @ ''/codebase-operator/edp/'') @
     namespace @ ''/'' @ codebaseName @ ''/templates/'' @ codebaseName"

definition GetAssetsDir :: "env \<Rightarrow> gerr + string" where
  "GetAssetsDir E = (case os_env E AssetsDirEnv of
     None \<Rightarrow> Inl (errorf ''ASSETS_DIR env variable is not set'') | Some v \<Rightarrow> Inr v)"

definition CreateDirectory :: "env \<Rightarrow> string \<Rightarrow> ('o st, unit) prog" where
  "CreateDirectory E dir =
     bindp (gets (\<lambda>s. fs_stat E (log s) dir)) (\<lambda>stat.
     if stat = StatNotExist then wrapping ''failed to make directory'' (fs E (FsMkdir dir))
     else ret ())"

definition RemoveDirectory :: "env \<Rightarrow> string \<Rightarrow> ('o st, unit) prog" where
  "RemoveDirectory E dir =
     wrapping (''failed to remove directory '' @ quoted dir) (fs E (FsRemoveAll dir))"

definition DoesDirectoryExist :: "env \<Rightarrow> string \<Rightarrow> ('o st, bool) prog" where
  "DoesDirectoryExist E dir = gets (\<lambda>s. fs_stat E (log s) dir = StatOk)"

definition IsDirectoryEmpty :: "env \<Rightarrow> string \<Rightarrow> ('o st, bool) prog" where
  "IsDirectoryEmpty E dir =
     gets (\<lambda>s. case fs_readdir E (log s) dir of Inl _ \<Rightarrow> False | Inr files \<Rightarrow> files = [])"

definition CopyFile :: "env \<Rightarrow> string \<Rightarrow> string \<Rightarrow> ('o st, unit) prog" where
  "CopyFile E src dest =
     bindp (wrapping (''failed to read a file '' @ quoted src)
       (bindp (gets (\<lambda>s. fs_read E (log s) src)) lift)) (\<lambda>input.
     wrapping (''failed to write to file '' @ quoted dest) (fs E (FsWrite dest input)))"

definition ReadDir :: "env \<Rightarrow> string \<Rightarrow> ('o st, (string \<times> bool) list) prog" where
  "ReadDir E src =
     wrapping (''failed to read a content of directory '' @ quoted src)
       (bindp (gets (\<lambda>s. fs_readdir E (log s) src)) lift)"

definition CopyFiles :: "env \<Rightarrow> string \<Rightarrow> string \<Rightarrow> ('o st, unit) prog" where
  "CopyFiles E src dest =
     bindp (ReadDir E src) (\<lambda>files.
     for_each files (\<lambda>(name, isDir).
       if isDir then ret ()
       else
         bindp (wrapping (''failed to read a file '' @ quoted (path_join [src, name]))
           (bindp (gets (\<lambda>s. fs_read E (log s) (path_join [src, name]))) lift)) (\<lambda>input.
         wrapping (''failed to write to file '' @ quoted (path_join [dest, name]))
           (fs E (FsWrite (path_join [dest, name]) input)))))"

definition ReplaceStringInFile :: "env \<Rightarrow> string \<Rightarrow> string \<Rightarrow> string \<Rightarrow> ('o st, unit) prog" where
  "ReplaceStringInFile E file oldLine newLine =
     bindp (wrapping (''failed to read a file '' @ quoted file)
       (bindp (gets (\<lambda>s. fs_read E (log s) file)) lift)) (\<lambda>input.
     wrapping (''failed to write to file '' @ quoted file)
       (fs E (FsWrite file (replace_all oldLine newLine input))))"

definition GetListFilesInDirectory :: "env \<Rightarrow> string \<Rightarrow> ('o st, (string \<times> bool) list) prog" where
  "GetListFilesInDirectory E src = ReadDir E src"

text \<open>\<open>strconv.ParseBool\<close>\<close>

definition ParseBool :: "string \<Rightarrow> bool option" where
  "ParseBool s =
     (if s \<in> set [''1'', ''t'', ''T'', ''TRUE'', ''true'', ''True''] then Some True
      else if s \<in> set [''0'', ''f'', ''F'', ''FALSE'', ''false'', ''False''] then Some False
      else None)"

definition GetDebugMode :: "env \<Rightarrow> gerr + bool" where
  "GetDebugMode E =
     (case os_env E ''DEBUG_MODE'' of
        None \<Rightarrow> Inr False
      | Some mode \<Rightarrow>
          (case ParseBool mode of
             None \<Rightarrow> Inl (errorf (''failed to parse env value as boolean: strconv.ParseBool: parsing '' @
                       quoted mode @ '': invalid syntax''))
           | Some b \<Rightarrow> Inr b))"

definition GetWatchNamespace :: "env \<Rightarrow> gerr + string" where
  "GetWatchNamespace E = (case os_env E ''WATCH_NAMESPACE'' of
     None \<Rightarrow> Inl (errorf ''WATCH_NAMESPACE must be set'') | Some ns \<Rightarrow> Inr ns)"

definition GetOwnerReference :: "string \<Rightarrow> owner_ref list \<Rightarrow> gerr + owner_ref" where
  "GetOwnerReference ownerKind ors =
     (case find (\<lambda>o1. or_kind o1 = ownerKind) ors of
        None \<Rightarrow> Inl (errorf (''resource doesn't have '' @ ownerKind @ '' owner reference''))
      | Some o1 \<Rightarrow> Inr o1)"

lemma appends_CreateDirectory [appends_intros]:
  "(\<And>e. A (EvFs (FsMkdir d) e)) \<Longrightarrow> appends A (CreateDirectory E d)"
  unfolding CreateDirectory_def by (intro appends_intros)

lemma appends_RemoveDirectory [appends_intros]:
  "(\<And>e. A (EvFs (FsRemoveAll d) e)) \<Longrightarrow> appends A (RemoveDirectory E d)"
  unfolding RemoveDirectory_def by (intro appends_intros)

lemma appends_DoesDirectoryExist [appends_intros]: "appends A (DoesDirectoryExist E d)"
  unfolding DoesDirectoryExist_def by (intro appends_intros)

lemma appends_IsDirectoryEmpty [appends_intros]: "appends A (IsDirectoryEmpty E d)"
  unfolding IsDirectoryEmpty_def by (intro appends_intros)

lemma appends_CopyFile [appends_intros]:
  "(\<And>x e. A (EvFs (FsWrite b x) e)) \<Longrightarrow> appends A (CopyFile E a b)"
  unfolding CopyFile_def by (intro appends_intros)

section \<open>Properties\<close>

text \<open>
  A project identifier splits into owner and repository exactly when it is the two
  joined by one slash, with no further slash; anything else is an error.
\<close>

theorem project_id_splits_exactly:
  "parseProjectID p = Inr (owner, repo) \<longleftrightarrow>
     p = owner @ ''/'' @ repo \<and> CHR ''/'' \<notin> set owner \<and> CHR ''/'' \<notin> set repo"
  by (rule parseProjectID_roundtrip)

text \<open>
  Trimming a clone URL removes every trailing \<open>.git\<close> and nothing else: the URL is the
  result followed by some copies of the suffix, and the result does not end in it.
\<close>

theorem trim_git_removes_all_suffixes:
  "(\<exists>n. url = TrimGitFromURL url @ concat (replicate n CrSuffixGit)) \<and>
   \<not> has_suffix CrSuffixGit (TrimGitFromURL url) \<and>
   TrimGitFromURL (AddGitToURL url) = TrimGitFromURL url"
proof -
  have "TrimGitFromURL (AddGitToURL url) = TrimGitFromURL url"
    by (simp add: AddGitToURL_def TrimGitFromURL_step)
  then show ?thesis using TrimGitFromURL_decompose by auto
qed

end
