(* ===== verification/Object_Modifier.thy ===== *)
theory Object_Modifier
  imports Url_Util Example_Env
begin

text \<open>
  \<open>pkg/objectmodifier/codebase_modifier.go\<close>: the defaults the Codebase controller puts on
  a Codebase before anything else, and when applying them converges.
\<close>

type_synonym codebase_modifier = "codebase \<Rightarrow> bool outcome \<times> codebase"

definition trimCodebaseGitSuffix :: codebase_modifier where
  "trimCodebaseGitSuffix c =
     (if \<not> has_suffix CrSuffixGit (cs_gitUrlPath (c_spec c)) then (Ok False, c)
      else (Ok True,
        c\<lparr>c_spec := (c_spec c)\<lparr>cs_gitUrlPath := TrimGitFromURL (cs_gitUrlPath (c_spec c))\<rparr>\<rparr>))"

text \<open>Reading \<open>Repository.Url\<close> through a nil \<open>Repository\<close> panics.\<close>

definition addCodebaseGitSuffix :: codebase_modifier where
  "addCodebaseGitSuffix c =
     (if cs_strategy (c_spec c) \<noteq> StrategyClone then (Ok False, c)
      else case cs_repository (c_spec c) of
        None \<Rightarrow> (Panic ''nil pointer dereference'', c)
      | Some url \<Rightarrow>
          if url = [] then (Ok False, c)
          else if has_suffix CrSuffixGit url \<and> str_count CrSuffixGit url = 1 then (Ok False, c)
          else let base = (if has_suffix CrSuffixGit url then TrimGitFromURL url else url)
               in (Ok True,
                   c\<lparr>c_spec := (c_spec c)\<lparr>cs_repository := Some (AddGitToURL base)\<rparr>\<rparr>))"

definition codebase_modifiers :: "codebase_modifier list" where
  "codebase_modifiers = [trimCodebaseGitSuffix, addCodebaseGitSuffix]"

definition run_modifier :: "codebase_modifier \<Rightarrow> bool \<Rightarrow> (codebase st, bool) prog" where
  "run_modifier m needToPatch s =
     (case m (obj s) of
        (Ok b, c) \<Rightarrow> (Ok (needToPatch \<or> b), s\<lparr>obj := c\<rparr>)
      | (Fail e, c) \<Rightarrow> (Fail e, s\<lparr>obj := c\<rparr>)
      | (Panic p, c) \<Rightarrow> (Panic p, s\<lparr>obj := c\<rparr>))"

text \<open>\<open>CodebaseModifier.Apply\<close>: whether the Codebase was patched.\<close>

definition modifier_Apply :: "env \<Rightarrow> (codebase st, bool) prog" where
  "modifier_Apply E =
     bindp (gets obj) (\<lambda>original.
     bindp (fold_each codebase_modifiers run_modifier False) (\<lambda>needToPatch.
     if needToPatch
     then bindp (wrapping ''failed to patch codebase'' (save_from VPatch Codebases E original))
            (\<lambda>_. ret True)
     else ret False))"

section \<open>Counting the suffix\<close>

text \<open>
  The modifier leaves a URL alone when it ends in \<open>.git\<close> and holds \<open>.git\<close> once. For
  \<open>u @ ''.git''\<close> that is the case exactly when \<open>u\<close> does not hold \<open>.git\<close>.
\<close>

lemma str_contains_prefix: "has_prefix p s \<Longrightarrow> str_contains p s"
  by (cases s) (auto simp: has_prefix_def)

lemma take_one: "take (Suc 0) xs = [c] \<longleftrightarrow> (\<exists>r. xs = c # r)"
  by (cases xs) auto

lemma str_contains_iff: "str_contains p s \<longleftrightarrow> (\<exists>a b. s = a @ p @ b)"
proof (induction s)
  case Nil
  show ?case by auto
next
  case (Cons c cs)
  show ?case
  proof
    assume "str_contains p (c # cs)"
    then consider "has_prefix p (c # cs)" | "str_contains p cs" by auto
    then show "\<exists>a b. c # cs = a @ p @ b"
    proof cases
      case 1
      then show ?thesis by (metis append_Nil has_prefix_iff)
    next
      case 2
      then show ?thesis using Cons.IH by (metis append_Cons)
    qed
  next
    assume "\<exists>a b. c # cs = a @ p @ b"
    then obtain a b where ab: "c # cs = a @ p @ b" by blast
    show "str_contains p (c # cs)"
    proof (cases a)
      case Nil
      with ab show ?thesis by (simp add: str_contains_prefix)
    next
      case (Cons x xs)
      with ab have "cs = xs @ p @ b" by simp
      with Cons.IH show ?thesis by auto
    qed
  qed
qed

lemma short_git_prefix:
  assumes "has_prefix CrSuffixGit (c # cs @ s)" and "length cs < 3"
  shows "c # cs \<in> {''.'', ''.g'', ''.gi''} \<and> s = drop (Suc (length cs)) CrSuffixGit @ drop (3 - length cs) s"
  using assms
  by (cases cs rule: remdups_adj.cases; cases s rule: remdups_adj.cases)
     (auto simp: has_prefix_def take_Cons' take_one split: if_splits)

lemma str_count_git_append: "str_count CrSuffixGit s \<le> str_count CrSuffixGit (x @ s)"
proof (induction x rule: length_induct)
  case (1 x)
  show ?case
  proof (cases x)
    case Nil
    then show ?thesis by simp
  next
    case (Cons c cs)
    show ?thesis
    proof (cases "has_prefix CrSuffixGit (c # cs @ s)")
      case False
      then have "str_count CrSuffixGit (x @ s) = str_count CrSuffixGit (cs @ s)"
        by (simp only: Cons append_Cons str_count.simps) simp
      with "1" Cons show ?thesis by simp
    next
      case True
      then have count: "str_count CrSuffixGit (x @ s) = Suc (str_count CrSuffixGit (drop 3 (cs @ s)))"
        by (simp add: Cons numeral_3_eq_3)
      show ?thesis
      proof (cases "length cs < 3")
        case False
        then have "drop 3 (cs @ s) = drop 3 cs @ s" by simp
        moreover have "length (drop 3 cs) < length x" by (simp add: Cons)
        ultimately show ?thesis using "1" count by (metis le_SucI)
      next
        case short: True
        define r where "r = drop (3 - length cs) s"
        from short_git_prefix [OF True short]
        have s: "c # cs \<in> {''.'', ''.g'', ''.gi''}" "s = drop (Suc (length cs)) CrSuffixGit @ r"
          by (simp_all add: r_def)
        have d: "drop 3 (cs @ s) = r" using short by (simp add: r_def)
        have "str_count CrSuffixGit s = str_count CrSuffixGit r"
          using s by (auto simp: has_prefix_def)
        with count d show ?thesis by simp
      qed
    qed
  qed
qed

lemma str_count_git_once:
  "str_count CrSuffixGit (u @ CrSuffixGit) = 1 \<longleftrightarrow> \<not> str_contains CrSuffixGit u"
proof
  assume once: "str_count CrSuffixGit (u @ CrSuffixGit) = 1"
  show "\<not> str_contains CrSuffixGit u"
  proof
    assume "str_contains CrSuffixGit u"
    then obtain a b where u: "u = a @ CrSuffixGit @ b" by (auto simp: str_contains_iff)
    have "str_count CrSuffixGit CrSuffixGit \<le> str_count CrSuffixGit (b @ CrSuffixGit)"
      by (rule str_count_git_append)
    then have "2 \<le> str_count CrSuffixGit (CrSuffixGit @ b @ CrSuffixGit)"
      by (simp add: has_prefix_def)
    also have "\<dots> \<le> str_count CrSuffixGit (a @ CrSuffixGit @ b @ CrSuffixGit)"
      by (rule str_count_git_append)
    finally show False using once u by simp
  qed
next
  assume "\<not> str_contains CrSuffixGit u"
  then show "str_count CrSuffixGit (u @ CrSuffixGit) = 1"
  proof (induction u)
    case Nil
    show ?case by (simp add: has_prefix_def)
  next
    case (Cons c cs)
    have "\<not> has_prefix CrSuffixGit (c # cs @ CrSuffixGit)"
    proof
      assume pre: "has_prefix CrSuffixGit (c # cs @ CrSuffixGit)"
      show False
      proof (cases "length cs < 3")
        case True
        from short_git_prefix [OF pre this] show False by auto
      next
        case False
        with pre have "has_prefix CrSuffixGit (c # cs)" by (simp add: has_prefix_def)
        with Cons.prems show False by simp
      qed
    qed
    with Cons show ?case by simp
  qed
qed

section \<open>Applying the modifiers\<close>

text \<open>What one application makes of the Codebase, or \<open>None\<close> when it panics.\<close>

definition modified :: "codebase \<Rightarrow> (bool \<times> codebase) option" where
  "modified c =
     (case addCodebaseGitSuffix (snd (trimCodebaseGitSuffix c)) of
        (Ok b, c2) \<Rightarrow> Some (has_suffix CrSuffixGit (cs_gitUrlPath (c_spec c)) \<or> b, c2)
      | _ \<Rightarrow> None)"

lemma run_trim:
  "run_modifier trimCodebaseGitSuffix b s =
     (Ok (b \<or> has_suffix CrSuffixGit (cs_gitUrlPath (c_spec (obj s)))),
      s\<lparr>obj := snd (trimCodebaseGitSuffix (obj s))\<rparr>)"
  by (simp add: run_modifier_def trimCodebaseGitSuffix_def)

lemma addCodebaseGitSuffix_cases:
  "(\<exists>b c2. addCodebaseGitSuffix c = (Ok b, c2)) \<or>
   addCodebaseGitSuffix c = (Panic ''nil pointer dereference'', c)"
  by (auto simp: addCodebaseGitSuffix_def Let_def split: option.split)

lemma run_add_Ok:
  "addCodebaseGitSuffix (obj s) = (Ok b, c2) \<Longrightarrow>
   run_modifier addCodebaseGitSuffix b0 s = (Ok (b0 \<or> b), s\<lparr>obj := c2\<rparr>)"
  by (simp add: run_modifier_def)

lemma run_add_Panic:
  "addCodebaseGitSuffix (obj s) = (Panic p, c2) \<Longrightarrow>
   run_modifier addCodebaseGitSuffix b0 s = (Panic p, s\<lparr>obj := c2\<rparr>)"
  by (simp add: run_modifier_def)

lemma fold_modifiers_run:
  "fold_each codebase_modifiers run_modifier False s =
     (case modified (obj s) of
        None \<Rightarrow> (Panic ''nil pointer dereference'', s\<lparr>obj := snd (trimCodebaseGitSuffix (obj s))\<rparr>)
      | Some (b, c2) \<Rightarrow> (Ok b, s\<lparr>obj := c2\<rparr>))"
  using addCodebaseGitSuffix_cases [of "snd (trimCodebaseGitSuffix (obj s))"]
  by (auto simp: codebase_modifiers_def bindp_run run_trim run_add_Ok run_add_Panic modified_def)

lemma modifier_Apply_run:
  "modifier_Apply E s =
     (case modified (obj s) of
        None \<Rightarrow> (Panic ''nil pointer dereference'', s\<lparr>obj := snd (trimCodebaseGitSuffix (obj s))\<rparr>)
      | Some (False, c2) \<Rightarrow> (Ok False, s\<lparr>obj := c2\<rparr>)
      | Some (True, c2) \<Rightarrow>
          bindp (wrapping ''failed to patch codebase'' (save_from VPatch Codebases E (obj s)))
            (\<lambda>_. ret True) (s\<lparr>obj := c2\<rparr>))"
  by (simp add: modifier_Apply_def bindp_run [of "fold_each codebase_modifiers run_modifier False"]
        fold_modifiers_run split: option.split bool.split)

text \<open>
  A URL the modifier settles: what is left of it without its \<open>.git\<close> suffixes holds no
  further \<open>.git\<close>.
\<close>

definition plain_url :: "string \<Rightarrow> bool" where
  "plain_url url \<longleftrightarrow> \<not> str_contains CrSuffixGit (TrimGitFromURL url)"

lemma settled_url:
  assumes "plain_url url"
  shows "str_count CrSuffixGit (AddGitToURL (TrimGitFromURL url)) = 1"
  using assms str_count_git_once [of "TrimGitFromURL url"]
  by (simp add: AddGitToURL_def plain_url_def del: One_nat_def)

lemma modified_settles:
  assumes m: "modified c = Some (b, c2)"
    and plain: "\<And>url. cs_repository (c_spec c) = Some url \<Longrightarrow> plain_url url"
  shows "modified c2 = Some (False, c2)"
proof -
  define c1 where "c1 = snd (trimCodebaseGitSuffix c)"
  have path: "\<not> has_suffix CrSuffixGit (cs_gitUrlPath (c_spec c1))"
    and repo: "cs_repository (c_spec c1) = cs_repository (c_spec c)"
    by (simp_all add: c1_def trimCodebaseGitSuffix_def)
  from m obtain b1 where add: "addCodebaseGitSuffix c1 = (Ok b1, c2)"
    by (auto simp: modified_def c1_def split: outcome.splits prod.splits)
  have kept: "\<not> has_suffix CrSuffixGit (cs_gitUrlPath (c_spec c2))"
    using add path by (auto simp: addCodebaseGitSuffix_def Let_def split: option.splits if_splits)
  have "addCodebaseGitSuffix c2 = (Ok False, c2)"
  proof (cases b1)
    case False
    with add show ?thesis
      by (auto simp: addCodebaseGitSuffix_def Let_def split: option.splits if_splits)
  next
    case True
    with add obtain url where url: "cs_repository (c_spec c1) = Some url" "cs_strategy (c_spec c1) = StrategyClone"
      and c2: "c2 = c1\<lparr>c_spec := (c_spec c1)\<lparr>cs_repository := Some (AddGitToURL (TrimGitFromURL url))\<rparr>\<rparr>"
      by (auto simp: addCodebaseGitSuffix_def Let_def TrimGitFromURL_id split: option.splits if_splits)
    have "AddGitToURL (TrimGitFromURL url) \<noteq> []"
      by (simp add: AddGitToURL_def)
    with settled_url [OF plain] url repo c2 show ?thesis
      by (simp add: addCodebaseGitSuffix_def)
  qed
  with kept show ?thesis by (simp add: modified_def trimCodebaseGitSuffix_def)
qed


lemma appends_run_modifier [appends_intros]: "appends A (run_modifier m b)"
  by (rule appends_const) (auto simp: run_modifier_def split: outcome.split prod.split)

lemma appends_modifier_Apply [appends_intros]:
  "(\<And>x e. A (EvWrite VPatch (ObjCodebase x) e)) \<Longrightarrow> appends A (modifier_Apply E)"
  unfolding modifier_Apply_def
  by (intro appends_intros) (simp_all add: Codebases_def)

section \<open>Properties\<close>

text \<open>
  The defaults converge. When a Codebase whose clone URL holds \<open>.git\<close> only at its end
  was patched, applying the defaults to the patched object reports no change and calls
  nothing, so the second reconciliation goes on to the chain.
\<close>

theorem codebase_defaults_converge:
  assumes "modifier_Apply E s = (Ok b, t)"
    and "\<forall>url. cs_repository (c_spec (obj s)) = Some url \<longrightarrow> plain_url url"
    and "\<And>x y. k_write (api_codebase E) (log s) VPatch x y = Inr y"
  shows "modifier_Apply E t = (Ok False, t)"
proof -
  from assms(1) obtain b' c2 where m: "modified (obj s) = Some (b', c2)"
    by (auto simp: modifier_Apply_run split: option.splits)
  have t: "obj t = c2"
    using assms(1,3) m
    by (cases b') (auto simp: modifier_Apply_run prog_runs save_from_run Codebases_def)
  have "modified c2 = Some (False, c2)"
    using modified_settles [OF m] assms(2) by blast
  then show ?thesis using t by (auto simp: modifier_Apply_run)
qed

definition codebase0 :: codebase where
  "codebase0 = \<lparr>c_meta = new_meta ''app'' ''ns'',
     c_spec = \<lparr>cs_lang = ''java'', cs_description = None, cs_framework = ''java17'', cs_buildTool = ''maven'',
       cs_strategy = StrategyClone, cs_repository = Some ''https://github.com/o/r'',
       cs_testReportFramework = None, cs_type = ''application'', cs_gitServer = ''github'', cs_gitUrlPath = ''/o/app'',
       cs_deploymentScript = ''helm-chart'', cs_versioningType = VersioningTypDefault,
       cs_startFrom = None, cs_jiraServer = None, cs_commitMessagePattern = None,
       cs_ticketNamePattern = None, cs_ciTool = ''tekton'',
       cs_defaultBranch = ''main'', cs_jiraIssueMetadataPayload = None, cs_emptyProject = False, cs_branchToCopy = [],
       cs_disablePutDeployTemplates = False, cs_private = False, cs_cloneCredentials = None\<rparr>,
     c_status = \<lparr>ct_available = False, ct_lastTimeUpdated = 0, ct_status = [], ct_username = [],
       ct_action = [], ct_result = [], ct_detailedMessage = [], ct_value = [], ct_failureCount = 0,
       ct_git = [], ct_webHookID = 0, ct_webHookRef = [], ct_gitWebUrl = []\<rparr>\<rparr>"

lemma codebase_defaults_converge_witness:
  "modifier_Apply null_env (snd (modifier_Apply null_env \<lparr>obj = codebase0, log = []\<rparr>)) =
     (Ok False, snd (modifier_Apply null_env \<lparr>obj = codebase0, log = []\<rparr>))"
proof -
  have ok: "fst (modifier_Apply null_env \<lparr>obj = codebase0, log = []\<rparr>) = Ok True" by code_simp
  have plain: "plain_url ''https://github.com/o/r''" by code_simp
  show ?thesis
    by (rule codebase_defaults_converge [of null_env "\<lparr>obj = codebase0, log = []\<rparr>" True])
       (use ok plain in \<open>simp_all add: prod_eq_iff codebase0_def null_env_def empty_api_def\<close>)
qed



end
