(* ===== verification/Codebase_Common.thy ===== *)
theory Codebase_Common
  imports Object_Modifier
begin

text \<open>
  \<open>controllers/codebase/service/chain/common.go\<close>, \<open>checkout_branch.go\<close> and
  \<open>pkg/codebase/creds.go\<close>: the status fields of a Codebase, the context of its git
  repository and how a working copy is brought to a branch.
\<close>

section \<open>Status fields\<close>

text \<open>The fields that survive when a new status is put together.\<close>

definition failed_fields :: "int \<Rightarrow> string \<Rightarrow> string \<Rightarrow> codebase_status \<Rightarrow> codebase_status" where
  "failed_fields t action message st =
     \<lparr>ct_available = False, ct_lastTimeUpdated = t, ct_status = StatusFailed,
      ct_username = ''system'', ct_action = action, ct_result = ResultError,
      ct_detailedMessage = message, ct_value = ''failed'', ct_failureCount = ct_failureCount st,
      ct_git = ct_git st, ct_webHookID = ct_webHookID st, ct_webHookRef = GetWebHookRef st,
      ct_gitWebUrl = ct_gitWebUrl st\<rparr>"

definition intermediate_fields :: "int \<Rightarrow> string \<Rightarrow> codebase_status \<Rightarrow> codebase_status" where
  "intermediate_fields t action st =
     \<lparr>ct_available = False, ct_lastTimeUpdated = t, ct_status = StatusInProgress,
      ct_username = ''system'', ct_action = action, ct_result = ResultSuccess,
      ct_detailedMessage = [], ct_value = ''inactive'', ct_failureCount = ct_failureCount st,
      ct_git = ct_git st, ct_webHookID = ct_webHookID st, ct_webHookRef = GetWebHookRef st,
      ct_gitWebUrl = ct_gitWebUrl st\<rparr>"

definition setFailedFields :: "env \<Rightarrow> string \<Rightarrow> string \<Rightarrow> (codebase st, unit) prog" where
  "setFailedFields E action message =
     bindp (now E) (\<lambda>t. set_obj (\<lambda>c. c\<lparr>c_status := failed_fields t action message (c_status c)\<rparr>))"

definition setIntermediateSuccessFields :: "env \<Rightarrow> string \<Rightarrow> (codebase st, unit) prog" where
  "setIntermediateSuccessFields E action =
     bindp (now E) (\<lambda>t.
     bindp (set_obj (\<lambda>c. c\<lparr>c_status := intermediate_fields t action (c_status c)\<rparr>)) (\<lambda>_.
     bindp (gets obj) (\<lambda>cb.
     wrapping (''failed to update status field of '' @ quoted (m_name (c_meta cb)) @
         '' resource '' @ in_quotes ''Codebase'')
       (save VStatusUpdate Codebases E))))"

text \<open>
  \<open>updateGitStatusWithPatch\<close>: nothing when the status is already there; otherwise a patch
  against the object as it was. A failed patch leaves the new git status in the object in
  hand, with the failed fields around it.
\<close>

definition updateGitStatusWithPatch :: "env \<Rightarrow> string \<Rightarrow> string \<Rightarrow> (codebase st, unit) prog" where
  "updateGitStatusWithPatch E action gitStatus =
     bindp (gets obj) (\<lambda>cb.
     if ct_git (c_status cb) = gitStatus then ret ()
     else
       bindp (set_obj (\<lambda>c. c\<lparr>c_status := (c_status c)\<lparr>ct_git := gitStatus\<rparr>\<rparr>)) (\<lambda>_.
       catchp (save_from VStatusPatch Codebases E cb) (\<lambda>err.
         bindp (setFailedFields E action (err_msg err)) (\<lambda>_.
         bindp (gets obj) (\<lambda>c.
         throw (wrap_err (''failed to patch git status to '' @ gitStatus @ '' for codebase '' @
           m_name (c_meta c)) err))))))"

section \<open>Credentials and the repository context\<close>

definition GetRepositoryCredentialsIfExists ::
  "env \<Rightarrow> codebase \<Rightarrow> ('o st, string \<times> string \<times> bool) prog" where
  "GetRepositoryCredentialsIfExists E cb =
     bindp (attempt (kget Secrets E (m_ns (c_meta cb)) (GetCloneRepositoryCredentialSecret cb)))
       (\<lambda>r.
     case r of
       Inl e \<Rightarrow>
         if errors_is e KNotFound then ret ([], [], False)
         else throw (wrap_err ''failed to get secret with clone repository credentials'' e)
     | Inr sec \<Rightarrow>
         if smap_get (s_data sec) ''username'' = []
         then throw (errorf (''username key is not defined in secret '' @ m_name (s_meta sec)))
         else if smap_get (s_data sec) ''password'' = []
         then throw (errorf (''password key is not defined in secret '' @ m_name (s_meta sec)))
         else ret (smap_get (s_data sec) ''username'', smap_get (s_data sec) ''password'', True))"

record git_repository_context =
  rc_gitServer :: git_server
  rc_gitServerSecret :: secret
  rc_privateSSHKey :: string
  rc_userName :: string
  rc_token :: string
  rc_repoGitUrl :: string
  rc_workDir :: string

definition GetGitRepositoryContext :: "env \<Rightarrow> codebase \<Rightarrow> ('o st, git_repository_context) prog" where
  "GetGitRepositoryContext E cb =
     bindp (wrapping ''failed to get GitServer''
       (kget GitServers E (m_ns (c_meta cb)) (cs_gitServer (c_spec cb)))) (\<lambda>gs.
     bindp (wrapping ''failed to get GitServer secret''
       (kget Secrets E (m_ns (c_meta cb)) (gs_nameSshKeySecret (gs_spec gs)))) (\<lambda>sec.
     ret \<lparr>rc_gitServer = gs, rc_gitServerSecret = sec,
       rc_privateSSHKey = smap_get (s_data sec) PrivateSShKeyName,
       rc_userName = smap_get (s_data sec) GitServerSecretUserNameField,
       rc_token = smap_get (s_data sec) GitServerSecretTokenField,
       rc_repoGitUrl = GetProjectGitUrl gs sec (GetProjectID (c_spec cb)),
       rc_workDir = GetWorkDir E (m_name (c_meta cb)) (m_ns (c_meta cb))\<rparr>))"

definition rc_config :: "git_repository_context \<Rightarrow> git_config" where
  "rc_config rc = NewConfigFromGitServerAndSecret (rc_gitServer rc) (rc_gitServerSecret rc)"

definition no_auth :: git_config where
  "no_auth = \<lparr>gc_sshKey = [], gc_sshUser = [], gc_sshPort = 0, gc_gitProvider = [], gc_token = [],
     gc_username = []\<rparr>"

definition basic_auth :: "string \<Rightarrow> string \<Rightarrow> git_config" where
  "basic_auth user password = no_auth\<lparr>gc_username := user, gc_token := password\<rparr>"

definition CheckoutBranch ::
  "env \<Rightarrow> string \<Rightarrow> git_repository_context \<Rightarrow> codebase \<Rightarrow> ('o st, unit) prog" where
  "CheckoutBranch E branchName rc cb =
     bindp (wrapping ''failed to get current branch name''
       (git_string E (rc_config rc) (GitCurrentBranch (rc_workDir rc)))) (\<lambda>currentBranchName.
     if currentBranchName = branchName then ret ()
     else if cs_strategy (c_spec cb) = StrategyCreate then
       wrapping (''failed to checkout to default branch '' @ branchName @ '' (create strategy)'')
         (git E (rc_config rc) (GitCheckout (rc_workDir rc) branchName False))
     else if cs_strategy (c_spec cb) = StrategyClone then
       bindp (wrapping ''failed to get repository credentials for checkout (clone strategy)''
         (GetRepositoryCredentialsIfExists E cb)) (\<lambda>(user, password, _).
       wrapping (''failed to checkout to default branch '' @ branchName @ '' (clone strategy)'')
         (git E (basic_auth user password) (GitCheckout (rc_workDir rc) branchName True)))
     else if cs_strategy (c_spec cb) = StrategyImport then
       wrapping (''failed to checkout to default branch '' @ branchName @ '' (import strategy)'')
         (git E (rc_config rc) (GitCheckoutRemote (rc_workDir rc) branchName))
     else throw (errorf (''failed to checkout, unsupported strategy: '' @ in_quotes (cs_strategy (c_spec cb)))))"

definition PrepareGitRepository :: "env \<Rightarrow> codebase \<Rightarrow> ('o st, git_repository_context) prog" where
  "PrepareGitRepository E cb =
     bindp (GetGitRepositoryContext E cb) (\<lambda>rc.
     bindp (DoesDirectoryExist E (rc_workDir rc)) (\<lambda>exists.
     bindp (if \<not> exists then ret True else IsDirectoryEmpty E (rc_workDir rc)) (\<lambda>toClone.
     bindp (if toClone
            then wrapping ''failed to clone git repository''
                   (git E (rc_config rc) (GitClone (rc_repoGitUrl rc) (rc_workDir rc)))
            else ret ()) (\<lambda>_.
     bindp (wrapping (''failed to checkout default branch '' @ cs_defaultBranch (c_spec cb))
       (CheckoutBranch E (cs_defaultBranch (c_spec cb)) rc cb)) (\<lambda>_.
     ret rc)))))"

end
