(* ===== verification/Git_Providers.thy ===== *)
theory Git_Providers
  imports Codebase_Common
begin

text \<open>
  \<open>pkg/gitprovider/provider.go\<close>: which client a git server gets. The Bitbucket client is
  made by generated code, whose error is \<open>provider_new\<close> of the environment.
\<close>

definition NewProvider :: "env \<Rightarrow> git_server \<Rightarrow> string \<Rightarrow> ('o st, unit) prog" where
  "NewProvider E gs tok =
     (if gs_gitProvider (gs_spec gs) = GitProviderGithub then ret ()
      else if gs_gitProvider (gs_spec gs) = GitProviderGitlab then ret ()
      else if gs_gitProvider (gs_spec gs) = GitProviderBitbucket then
        (case provider_new E gs tok of
           Some e \<Rightarrow> throw (wrap_err ''failed to create Bitbucket client'' e)
         | None \<Rightarrow> ret ())
      else throw (errorf (''unsupported git provider '' @ gs_gitProvider (gs_spec gs))))"

definition NewGitProjectProvider :: "env \<Rightarrow> git_server \<Rightarrow> string \<Rightarrow> ('o st, unit) prog" where
  "NewGitProjectProvider E gs tok = NewProvider E gs tok"

lemma reader_NewProvider [reader_intros]: "reader (NewProvider E gs tok)"
  unfolding NewProvider_def by (intro reader_intros)

lemma reader_NewGitProjectProvider [reader_intros]: "reader (NewGitProjectProvider E gs tok)"
  unfolding NewGitProjectProvider_def by (intro reader_intros)

lemma NewProvider_state [simp]: "snd (NewProvider E gs tok s) = s"
  by (simp add: NewProvider_def split: option.split)

end
