(* ===== verification/Put_Project.thy ===== *)
theory Put_Project
  imports Git_Providers
begin

text \<open>
  \<open>controllers/codebase/service/chain/put_project.go\<close>: creating the project of a Codebase
  on its git server and pushing the first history. The handler works on the Codebase in
  hand, whose status is stored on the way.
\<close>

definition skipPutProjectStatuses :: "string list" where
  "skipPutProjectStatuses =
     [ProjectPushedStatus, ProjectGitLabCIPushedStatus, ProjectTemplatesPushedStatus]"

definition putProjectStrategies :: "string list" where
  "putProjectStrategies = [StrategyClone, StrategyCreate]"

definition PutProject_skip :: "codebase \<Rightarrow> bool" where
  "PutProject_skip cb =
     (if \<not> List.member putProjectStrategies (cs_strategy (c_spec cb)) then True
      else if List.member skipPutProjectStatuses (ct_git (c_status cb)) then True
      else False)"

text \<open>\<open>handleError\<close>: the failed fields keep the bare message, the error is wrapped.\<close>

definition handleError :: "env \<Rightarrow> string \<Rightarrow> (codebase st, 'a) prog \<Rightarrow> (codebase st, 'a) prog" where
  "handleError E message m =
     catchp m (\<lambda>err.
       bindp (setFailedFields E RepositoryProvisioning (err_msg err)) (\<lambda>_.
       throw (wrap_err message err)))"

section \<open>The remote project\<close>

definition createGerritProject :: "env \<Rightarrow> git_server \<Rightarrow> string \<Rightarrow> string \<Rightarrow> ('o st, unit) prog" where
  "createGerritProject E gs privateSSHKey projectName =
     bindp (wrapping ''failed to check if project exist in Gerrit''
       (gerrit_ask E gs privateSSHKey (GerritExists projectName))) (\<lambda>projectExist.
     if projectExist then ret ()
     else wrapping ''failed to create gerrit project''
            (gerrit E gs privateSSHKey (GerritCreate projectName)))"

definition createGitThirdPartyProject ::
  "env \<Rightarrow> git_server \<Rightarrow> string \<Rightarrow> codebase \<Rightarrow> ('o st, unit) prog" where
  "createGitThirdPartyProject E gs tok cb =
     bindp (wrapping ''failed to create git provider'' (NewGitProjectProvider E gs tok)) (\<lambda>_.
     bindp (wrapping ''failed to check if project exists''
       (provider_ask E gs tok (ProjExists (GetProjectID (c_spec cb))))) (\<lambda>projectExists.
     if projectExists then ret ()
     else wrapping ''failed to create project''
            (provider E gs tok (ProjCreate (GetProjectID (c_spec cb)) (cs_private (c_spec cb))))))"

definition setDefaultBranch :: "env \<Rightarrow> git_repository_context \<Rightarrow> codebase \<Rightarrow> ('o st, unit) prog" where
  "setDefaultBranch E rc cb =
     (let gs = rc_gitServer rc; project = GetProjectID (c_spec cb);
          branch = cs_defaultBranch (c_spec cb) in
      if gs_gitProvider (gs_spec gs) = GitProviderGerrit then
        wrapping (''set remote HEAD for codebase '' @ project @ '' to default branch '' @ branch @
            '' has been failed'')
          (gerrit E gs (rc_privateSSHKey rc) (GerritSetHead project branch))
      else
        bindp (wrapping ''failed to create git provider'' (NewGitProjectProvider E gs (rc_token rc)))
          (\<lambda>_.
        catchp (provider E gs (rc_token rc) (ProjSetDefaultBranch project branch)) (\<lambda>err.
          if errors_is err KApiNotSupported then ret ()
          else throw (wrap_err ''failed to set default branch'' err))))"

definition remoteDefaultBranchAbsent ::
  "env \<Rightarrow> codebase \<Rightarrow> git_repository_context \<Rightarrow> ('o st, bool) prog" where
  "remoteDefaultBranchAbsent E cb rc =
     bindp (attempt (git_string E (rc_config rc)
       (GitResolve (GetProjectGitUrl (rc_gitServer rc) (rc_gitServerSecret rc) (GetProjectID (c_spec cb)))
         (cs_defaultBranch (c_spec cb))))) (\<lambda>r.
     case r of
       Inr _ \<Rightarrow> ret False
     | Inl err \<Rightarrow>
         if errors_is err KReferenceNotFound then ret True
         else throw (wrap_err ''failed to check remote default branch'' err))"

definition pushProject :: "env \<Rightarrow> string \<Rightarrow> git_repository_context \<Rightarrow> ('o st, unit) prog" where
  "pushProject E projectName rc =
     bindp (wrapping ''failed to add remote link''
       (git E (rc_config rc) (GitAddRemote (rc_workDir rc)
         (GetProjectGitUrl (rc_gitServer rc) (rc_gitServerSecret rc) projectName)))) (\<lambda>_.
     wrapping ''failed to push changes and tags into git''
       (git E (rc_config rc)
         (GitPush (rc_workDir rc) [''refs/heads/*:refs/heads/*'', ''refs/tags/*:refs/tags/*''])))"

definition createProject :: "env \<Rightarrow> git_repository_context \<Rightarrow> (codebase st, unit) prog" where
  "createProject E rc =
     bindp (gets obj) (\<lambda>cb.
     bindp (if gs_gitProvider (gs_spec (rc_gitServer rc)) = GitProviderGerrit
            then wrapping (''failed to create project in Gerrit for codebase '' @ m_name (c_meta cb))
                   (createGerritProject E (rc_gitServer rc) (rc_privateSSHKey rc) (GetProjectID (c_spec cb)))
            else createGitThirdPartyProject E (rc_gitServer rc) (rc_token rc) cb) (\<lambda>_.
     bindp (remoteDefaultBranchAbsent E cb rc) (\<lambda>remoteBranchAbsent.
     if \<not> remoteBranchAbsent
     then throw (errorf (''remote repository already contains default branch '' @
            cs_defaultBranch (c_spec cb) @ '' with history not pushed by this provisioning; '' @
            ''refusing to overwrite it - remove the remote branch or onboard the repository with the import strategy''))
     else
       bindp (updateGitStatusWithPatch E RepositoryProvisioning ProjectPushInProgressStatus) (\<lambda>_.
       bindp (gets obj) (\<lambda>cb2.
       bindp (pushProject E (GetProjectID (c_spec cb2)) rc) (\<lambda>_.
       setDefaultBranch E rc cb2))))))"

definition adoptPushedProject :: "env \<Rightarrow> git_repository_context \<Rightarrow> (codebase st, bool) prog" where
  "adoptPushedProject E rc =
     bindp (gets obj) (\<lambda>cb.
     if ct_git (c_status cb) \<noteq> ProjectPushInProgressStatus then ret False
     else
       bindp (remoteDefaultBranchAbsent E cb rc) (\<lambda>absent.
       if absent then ret False
       else
         bindp (setDefaultBranch E rc cb) (\<lambda>_.
         bindp (updateGitStatusWithPatch E RepositoryProvisioning ProjectPushedStatus) (\<lambda>_.
         ret True))))"

section \<open>The local repository\<close>

definition replaceDefaultBranch ::
  "env \<Rightarrow> git_config \<Rightarrow> string \<Rightarrow> string \<Rightarrow> string \<Rightarrow> ('o st, unit) prog" where
  "replaceDefaultBranch E cfg directory defaultBranchName newBranchName =
     bindp (wrapping (''failed to remove default branch '' @ defaultBranchName)
       (git E cfg (GitRemoveBranch directory defaultBranchName))) (\<lambda>_.
     wrapping ''failed to create child branch''
       (git E cfg (GitCreateChild directory newBranchName defaultBranchName)))"

definition PutProject_checkoutBranch ::
  "env \<Rightarrow> codebase \<Rightarrow> git_repository_context \<Rightarrow> ('o st, unit) prog" where
  "PutProject_checkoutBranch E cb rc =
     (let sp = c_spec cb; initBranch = ''master'' in
      if cs_branchToCopy sp \<noteq> [] \<and> cs_defaultBranch sp \<noteq> cs_branchToCopy sp then
        bindp (wrapping (''failed to checkout branch to copy '' @ cs_branchToCopy sp)
          (CheckoutBranch E (cs_branchToCopy sp) rc cb)) (\<lambda>_.
        wrapping (''failed to replace default branch '' @ cs_defaultBranch sp @ '' with '' @
            cs_branchToCopy sp)
          (replaceDefaultBranch E (rc_config rc) (rc_workDir rc) (cs_defaultBranch sp)
            (cs_branchToCopy sp)))
      else
        bindp (wrapping (''failed to checkout default branch '' @ cs_defaultBranch sp)
          (CheckoutBranch E (cs_defaultBranch sp) rc cb)) (\<lambda>_.
        if (cs_strategy sp = StrategyCreate \<or> cs_emptyProject sp) \<and> cs_defaultBranch sp \<noteq> initBranch
        then wrapping (''failed to remove init branch '' @ initBranch)
               (git E (rc_config rc) (GitRemoveBranch (rc_workDir rc) initBranch))
        else ret ()))"

definition tryToCloneRepo ::
  "env \<Rightarrow> string \<Rightarrow> string \<Rightarrow> string \<Rightarrow> git_repository_context \<Rightarrow> ('o st, unit) prog" where
  "tryToCloneRepo E repoUrl user password rc =
     bindp (DoesDirectoryExist E (path_join [rc_workDir rc, ''.git''])) (\<lambda>exists.
     if exists then ret ()
     else wrapping ''failed to clone repository''
            (git E (basic_auth user password) (GitClone repoUrl (rc_workDir rc))))"

definition squashCommits :: "env \<Rightarrow> string \<Rightarrow> string \<Rightarrow> ('o st, unit) prog" where
  "squashCommits E workDir strategy =
     (if strategy \<noteq> StrategyCreate then ret ()
      else
        bindp (wrapping ''failed to remove .git folder''
          (fs E (FsRemoveAll (path_join [workDir, ''.git''])))) (\<lambda>_.
        bindp (wrapping ''failed to create git repository'' (git E no_auth (GitInit workDir))) (\<lambda>_.
        wrapping ''failed to commit all default content''
          (git E no_auth (GitCommit workDir ''Initial commit'' False)))))"

definition emptyProjectProvisioning :: "env \<Rightarrow> git_repository_context \<Rightarrow> ('o st, unit) prog" where
  "emptyProjectProvisioning E rc =
     bindp (wrapping ''failed to remove stale .git folder''
       (fs E (FsRemoveAll (path_join [rc_workDir rc, ''.git''])))) (\<lambda>_.
     bindp (wrapping ''failed to create empty git repository''
       (git E no_auth (GitInit (rc_workDir rc)))) (\<lambda>_.
     wrapping ''failed to create Initial commit''
       (git E no_auth (GitCommit (rc_workDir rc) ''Initial commit'' True))))"

definition notEmptyProjectProvisioning ::
  "env \<Rightarrow> codebase \<Rightarrow> git_repository_context \<Rightarrow> ('o st, unit) prog" where
  "notEmptyProjectProvisioning E cb rc =
     bindp (wrapping ''failed to build repo url'' (lift (GetRepoUrlForClone cb))) (\<lambda>repoUrl.
     bindp (wrapping ''failed to get repository credentials for project provisioning''
       (GetRepositoryCredentialsIfExists E cb)) (\<lambda>(user, password, _).
     bindp (wrapping ''failed to clone template project''
       (tryToCloneRepo E repoUrl user password rc)) (\<lambda>_.
     wrapping ''failed to squash commits in a template repo''
       (squashCommits E (rc_workDir rc) (cs_strategy (c_spec cb))))))"

definition initialProjectProvisioning ::
  "env \<Rightarrow> codebase \<Rightarrow> git_repository_context \<Rightarrow> (codebase st, unit) prog" where
  "initialProjectProvisioning E cb rc =
     bindp (handleError E (''failed to create dir '' @ quoted (rc_workDir rc))
       (CreateDirectory E (rc_workDir rc))) (\<lambda>_.
     if cs_emptyProject (c_spec cb) then emptyProjectProvisioning E rc
     else notEmptyProjectProvisioning E cb rc)"

section \<open>The handler\<close>

text \<open>The handler after its first guard.\<close>

definition putProject :: "env \<Rightarrow> codebase \<Rightarrow> (codebase st, unit) prog" where
  "putProject E codebase =
     bindp (wrapping (''failed to update codebase '' @ m_name (c_meta codebase) @ '' status'')
       (setIntermediateSuccessFields E RepositoryProvisioning)) (\<lambda>_.
     bindp (gets obj) (\<lambda>cb.
     bindp (handleError E ''failed to get git repository context'' (GetGitRepositoryContext E cb))
       (\<lambda>repoContext.
     bindp (handleError E ''failed to adopt already pushed project''
       (adoptPushedProject E repoContext)) (\<lambda>adopted.
     if adopted then ret ()
     else
       bindp (handleError E (''failed to perform initial provisioning of codebase '' @ m_name (c_meta cb))
         (initialProjectProvisioning E cb repoContext)) (\<lambda>_.
       bindp (handleError E ''failed to checkout branch'' (PutProject_checkoutBranch E cb repoContext))
         (\<lambda>_.
       bindp (handleError E ''failed to create project'' (createProject E repoContext)) (\<lambda>_.
       updateGitStatusWithPatch E RepositoryProvisioning ProjectPushedStatus)))))))"

definition PutProject_ServeRequest :: "env \<Rightarrow> (codebase st, unit) prog" where
  "PutProject_ServeRequest E =
     bindp (gets obj) (\<lambda>codebase. if PutProject_skip codebase then ret () else putProject E codebase)"

section \<open>What a run adds to the history\<close>

definition is_push :: "event \<Rightarrow> bool" where
  "is_push ev \<longleftrightarrow> (case ev of EvGit _ (GitPush _ _) _ \<Rightarrow> True | _ \<Rightarrow> False)"

lemma is_push_simps [simp]:
  "is_push (EvGit cfg (GitPush d rs) e)" "\<not> is_push (EvGet k ns n)" "\<not> is_push (EvList k ns sel)"
  "\<not> is_push (EvWrite v x e)" "\<not> is_push (EvGerrit gs key c e)" "\<not> is_push (EvProvider gs tok c e)"
  "\<not> is_push (EvFs f e)" "\<not> is_push (EvRecord x ty r m)" "\<not> is_push (EvGit cfg (GitClone a b) e)"
  "\<not> is_push (EvGit cfg (GitCommit a b ae) e)" "\<not> is_push (EvGit cfg (GitCheckout a b rm) e)"
  "\<not> is_push (EvGit cfg (GitCurrentBranch a) e)" "\<not> is_push (EvGit cfg (GitResolve a b) e)"
  "\<not> is_push (EvGit cfg (GitRemoveBranch a b) e)" "\<not> is_push (EvGit cfg (GitCreateChild a b c') e)"
  "\<not> is_push (EvGit cfg (GitInit a) e)" "\<not> is_push (EvGit cfg (GitAddRemote a b) e)"
  "\<not> is_push (EvGit cfg (GitCheckoutRemote a b) e)" "\<not> is_push (EvGit cfg (GitCreateBranch a b c') e)"
  "\<not> is_push (EvGit cfg (GitListBranches a) e)"
  by (simp_all add: is_push_def)

abbreviation quiet :: "('o st, 'a) prog \<Rightarrow> bool" where
  "quiet m \<equiv> appends (\<lambda>ev. \<not> is_push ev) m"

lemma reader_quiet: "reader m \<Longrightarrow> quiet m"
  by (rule reader_appends) (auto simp: is_read_def split: event.splits)

lemma quiet_common [appends_intros]:
  "quiet (setFailedFields E a msg)"
  "quiet (setIntermediateSuccessFields E a)"
  "quiet (updateGitStatusWithPatch E a gst)"
  unfolding setFailedFields_def setIntermediateSuccessFields_def updateGitStatusWithPatch_def
  by (auto intro!: appends_intros simp: Codebases_def)

lemma reader_credentials [reader_intros]: "reader (GetRepositoryCredentialsIfExists E cb)"
  and reader_context [reader_intros]: "reader (GetGitRepositoryContext E cb)"
  unfolding GetRepositoryCredentialsIfExists_def GetGitRepositoryContext_def
  by (intro reader_intros)+

lemma quiet_checkout [appends_intros]: "quiet (CheckoutBranch E b rc cb)"
  unfolding CheckoutBranch_def
  by (intro appends_intros reader_quiet [OF reader_credentials]) simp_all

lemma quiet_handleError [appends_intros]: "quiet m \<Longrightarrow> quiet (handleError E msg m)"
  unfolding handleError_def by (intro appends_intros)

lemma quiet_NewProvider [appends_intros]: "quiet (NewGitProjectProvider E gs tok)"
  by (intro reader_quiet reader_intros)

lemma quiet_remote [appends_intros]:
  "quiet (remoteDefaultBranchAbsent E cb rc)"
  "quiet (setDefaultBranch E rc cb)"
  "quiet (createGerritProject E gs key name)"
  "quiet (createGitThirdPartyProject E gs tok cb)"
  unfolding remoteDefaultBranchAbsent_def setDefaultBranch_def createGerritProject_def
    createGitThirdPartyProject_def Let_def
  by (auto intro!: appends_intros)

lemma quiet_adopt [appends_intros]: "quiet (adoptPushedProject E rc)"
  unfolding adoptPushedProject_def by (intro appends_intros)

lemma quiet_local [appends_intros]:
  "quiet (PutProject_checkoutBranch E cb rc)"
  "quiet (squashCommits E wd st)"
  "quiet (tryToCloneRepo E url u p rc)"
  "quiet (emptyProjectProvisioning E rc)"
  unfolding PutProject_checkoutBranch_def replaceDefaultBranch_def squashCommits_def
    tryToCloneRepo_def emptyProjectProvisioning_def Let_def
  by (auto intro!: appends_intros)

lemma quiet_provisioning [appends_intros]: "quiet (initialProjectProvisioning E cb rc)"
  unfolding initialProjectProvisioning_def notEmptyProjectProvisioning_def
  by (intro appends_intros reader_quiet [OF reader_credentials]) simp_all

subsection \<open>The push\<close>

text \<open>
  What a run goes by: whose project it is, its specification, and how far the provisioning
  has come. The server answers a write with what it was sent of these: nobody else changes
  the specification or the provisioning status in the middle of a run.
\<close>

definition same_project :: "codebase \<Rightarrow> codebase \<Rightarrow> bool" where
  "same_project x y \<longleftrightarrow>
     m_name (c_meta y) = m_name (c_meta x) \<and> m_ns (c_meta y) = m_ns (c_meta x) \<and>
     c_spec y = c_spec x \<and> ct_git (c_status y) = ct_git (c_status x)"

definition keeps_project :: "env \<Rightarrow> bool" where
  "keeps_project E \<longleftrightarrow>
     (\<forall>h v b x y. k_write (api_codebase E) h v b x = Inr y \<longrightarrow> same_project x y)"

lemma keeps_projectD: "keeps_project E \<Longrightarrow> k_write (api_codebase E) h v b x = Inr y \<Longrightarrow> same_project x y"
  unfolding keeps_project_def by blast

lemma same_project_refl [simp]: "same_project x x"
  by (simp add: same_project_def)

lemma same_project_trans: "same_project x y \<Longrightarrow> same_project y z \<Longrightarrow> same_project x z"
  by (simp add: same_project_def)

text \<open>The mark a push leaves in the status first; nothing when it was there already.\<close>

definition push_mark :: "codebase \<Rightarrow> event list \<Rightarrow> bool" where
  "push_mark cb mark \<longleftrightarrow>
     (if ct_git (c_status cb) = ''push_in_progress'' then mark = []
      else \<exists>x. mark = [EvWrite VStatusPatch (ObjCodebase x) None] \<and>
        ct_git (c_status x) = ''push_in_progress'' \<and> c_spec x = c_spec cb \<and>
        m_name (c_meta x) = m_name (c_meta cb) \<and> m_ns (c_meta x) = m_ns (c_meta cb))"

text \<open>The git client's answer that a reference does not exist in a remote repository.\<close>

definition says_absent :: "env \<Rightarrow> git_config \<Rightarrow> string \<Rightarrow> string \<Rightarrow> gerr \<Rightarrow> bool" where
  "says_absent E cfg url branch e \<longleftrightarrow>
     errors_is e KReferenceNotFound \<and> (\<exists>h. git_str E h cfg (GitResolve url branch) = Inl e)"

text \<open>
  The git server of the Codebase with its secret as they were read, and the working copy.
\<close>

definition project_context :: "env \<Rightarrow> codebase \<Rightarrow> git_repository_context \<Rightarrow> bool" where
  "project_context E cb rc \<longleftrightarrow>
     (\<exists>h h'. k_get (api_git_server E) h (m_ns (c_meta cb)) (cs_gitServer (c_spec cb)) = Inr (rc_gitServer rc) \<and>
        k_get (api_secret E) h' (m_ns (c_meta cb)) (gs_nameSshKeySecret (gs_spec (rc_gitServer rc))) =
          Inr (rc_gitServerSecret rc)) \<and>
     rc_workDir rc = GetWorkDir E (m_name (c_meta cb)) (m_ns (c_meta cb))"

definition project_url :: "codebase \<Rightarrow> git_repository_context \<Rightarrow> string" where
  "project_url cb rc = GetProjectGitUrl (rc_gitServer rc) (rc_gitServerSecret rc) (GetProjectID (c_spec cb))"

text \<open>
  The calls of a push: the project's repository is asked for the default branch and says
  that it does not exist, the push is marked in the status unless it was, and the branches
  and tags of the working copy go to that repository.
\<close>

definition push_calls ::
  "codebase \<Rightarrow> git_repository_context \<Rightarrow> gerr \<Rightarrow> event list \<Rightarrow> gerr option \<Rightarrow> event list" where
  "push_calls cb rc e mark r =
     EvGit (rc_config rc) (GitResolve (project_url cb rc) (cs_defaultBranch (c_spec cb))) (Some e) # mark @
     [EvGit (rc_config rc) (GitAddRemote (rc_workDir rc) (project_url cb rc)) None,
      EvGit (rc_config rc) (GitPush (rc_workDir rc)
        [''refs/heads/*:refs/heads/*'', ''refs/tags/*:refs/tags/*'']) r]"

definition push_chunk :: "env \<Rightarrow> codebase \<Rightarrow> event list \<Rightarrow> bool" where
  "push_chunk E cb ch \<longleftrightarrow>
     (\<exists>rc e mark r. ch = push_calls cb rc e mark r \<and> project_context E cb rc \<and> push_mark cb mark \<and>
        says_absent E (rc_config rc) (project_url cb rc) (cs_defaultBranch (c_spec cb)) e)"

definition guarded_push :: "env \<Rightarrow> codebase \<Rightarrow> event list \<Rightarrow> bool" where
  "guarded_push E cb es \<longleftrightarrow>
     list_all (\<lambda>ev. \<not> is_push ev) es \<or>
     (\<exists>pre ch post. es = pre @ ch @ post \<and> push_chunk E cb ch \<and>
        list_all (\<lambda>ev. \<not> is_push ev) pre \<and> list_all (\<lambda>ev. \<not> is_push ev) post)"

text \<open>What a program adds from a state with \<open>P\<close>, when \<open>cb\<close> is the Codebase of the run.\<close>

definition guards :: "env \<Rightarrow> codebase \<Rightarrow> (codebase st \<Rightarrow> bool) \<Rightarrow> (codebase st, 'a) prog \<Rightarrow> bool" where
  "guards E cb P m \<longleftrightarrow> (\<forall>s. P s \<longrightarrow> (\<exists>es. log (snd (m s)) = log s @ es \<and> guarded_push E cb es))"

lemma guarded_push_pre:
  assumes "guarded_push E cb es" and "list_all (\<lambda>ev. \<not> is_push ev) es'"
  shows "guarded_push E cb (es' @ es)"
  using assms(1) unfolding guarded_push_def
proof (elim disjE exE conjE)
  fix pre ch post
  assume "es = pre @ ch @ post" "push_chunk E cb ch" "list_all (\<lambda>ev. \<not> is_push ev) pre"
    "list_all (\<lambda>ev. \<not> is_push ev) post"
  with assms(2) show "list_all (\<lambda>ev. \<not> is_push ev) (es' @ es) \<or>
     (\<exists>pre ch post. es' @ es = pre @ ch @ post \<and> push_chunk E cb ch \<and>
        list_all (\<lambda>ev. \<not> is_push ev) pre \<and> list_all (\<lambda>ev. \<not> is_push ev) post)"
    by (intro disjI2 exI [of _ "es' @ pre"] exI [of _ ch] exI [of _ post]) simp
qed (use assms(2) in simp)

lemma guarded_push_post:
  assumes "guarded_push E cb es" and "list_all (\<lambda>ev. \<not> is_push ev) es'"
  shows "guarded_push E cb (es @ es')"
  using assms(1) unfolding guarded_push_def
proof (elim disjE exE conjE)
  fix pre ch post
  assume "es = pre @ ch @ post" "push_chunk E cb ch" "list_all (\<lambda>ev. \<not> is_push ev) pre"
    "list_all (\<lambda>ev. \<not> is_push ev) post"
  with assms(2) show "list_all (\<lambda>ev. \<not> is_push ev) (es @ es') \<or>
     (\<exists>pre ch post. es @ es' = pre @ ch @ post \<and> push_chunk E cb ch \<and>
        list_all (\<lambda>ev. \<not> is_push ev) pre \<and> list_all (\<lambda>ev. \<not> is_push ev) post)"
    by (intro disjI2 exI [of _ pre] exI [of _ ch] exI [of _ "post @ es'"]) simp
qed (use assms(2) in simp)

lemma guardsD: "guards E cb P m \<Longrightarrow> P s \<Longrightarrow> \<exists>es. log (snd (m s)) = log s @ es \<and> guarded_push E cb es"
  by (simp add: guards_def)

lemma quiet_guards: "quiet m \<Longrightarrow> guards E cb P m"
  unfolding guards_def guarded_push_def using appendsD by blast

lemma guards_pre: "guards E cb P m \<Longrightarrow> (\<And>s. P' s \<Longrightarrow> P s) \<Longrightarrow> guards E cb P' m"
  by (simp add: guards_def)

lemma guards_after:
  assumes "quiet m" and "on_Ok P m Q" and "\<And>x. guards E cb (Q x) (f x)"
  shows "guards E cb P (bindp m f)"
  unfolding guards_def
proof (intro allI impI)
  fix s assume P: "P s"
  obtain es where es: "log (snd (m s)) = log s @ es" "list_all (\<lambda>ev. \<not> is_push ev) es"
    using appendsD [OF assms(1)] by blast
  show "\<exists>es. log (snd (bindp m f s)) = log s @ es \<and> guarded_push E cb es"
  proof (cases "fst (m s)")
    case (Ok x)
    obtain es' where "log (snd (f x (snd (m s)))) = log (snd (m s)) @ es'" "guarded_push E cb es'"
      using guardsD [OF assms(3) on_OkD [OF assms(2) P Ok]] by blast
    with es Ok show ?thesis
      by (intro exI [of _ "es @ es'"]) (simp add: bindp_run guarded_push_pre)
  qed (use es in \<open>simp_all add: bindp_run guarded_push_def\<close>)
qed

lemma guards_before:
  assumes "guards E cb P m" and "\<And>x. quiet (f x)"
  shows "guards E cb P (bindp m f)"
  unfolding guards_def
proof (intro allI impI)
  fix s assume "P s"
  then obtain es where es: "log (snd (m s)) = log s @ es" "guarded_push E cb es"
    using guardsD [OF assms(1)] by blast
  show "\<exists>es. log (snd (bindp m f s)) = log s @ es \<and> guarded_push E cb es"
  proof (cases "fst (m s)")
    case (Ok x)
    obtain es' where "log (snd (f x (snd (m s)))) = log (snd (m s)) @ es'"
      "list_all (\<lambda>ev. \<not> is_push ev) es'"
      using appendsD [OF assms(2)] by blast
    with es Ok show ?thesis
      by (intro exI [of _ "es @ es'"]) (simp add: bindp_run guarded_push_post)
  qed (use es in \<open>simp_all add: bindp_run\<close>)
qed

lemma guards_handleError:
  assumes "guards E cb P m"
  shows "guards E cb P (handleError E' msg m)"
proof -
  have "log (snd (handleError E' msg m s)) = log (snd (m s))" for s
    by (simp add: handleError_def catchp_run setFailedFields_def prog_runs split: outcome.split)
  with assms show ?thesis by (simp add: guards_def)
qed

lemma guards_if:
  "(b \<Longrightarrow> guards E cb P m) \<Longrightarrow> (\<not> b \<Longrightarrow> guards E cb P n) \<Longrightarrow> guards E cb P (if b then m else n)"
  by simp

lemma update_Ok:
  assumes "keeps_project E" and "same_project cb (obj s)"
    and "fst (updateGitStatusWithPatch E a ProjectPushInProgressStatus s) = Ok ()"
  obtains mark where "push_mark cb mark"
    "log (snd (updateGitStatusWithPatch E a ProjectPushInProgressStatus s)) = log s @ mark"
    "c_spec (obj (snd (updateGitStatusWithPatch E a ProjectPushInProgressStatus s))) = c_spec cb"
proof (cases "ct_git (c_status (obj s)) = ProjectPushInProgressStatus")
  case True
  with assms(2) show ?thesis
    by (intro that [of "[]"]) (simp_all add: updateGitStatusWithPatch_def push_mark_def same_project_def)
next
  case False
  let ?x = "(obj s)\<lparr>c_status := (c_status (obj s))\<lparr>ct_git := ProjectPushInProgressStatus\<rparr>\<rparr>"
  from assms(3) False obtain y where
    y: "k_write (api_codebase E) (log s) VStatusPatch (obj s) ?x = Inr y"
    by (auto simp: updateGitStatusWithPatch_def prog_runs save_from_run Codebases_def
        setFailedFields_def split: sum.splits)
  have "c_spec y = c_spec (obj s)" using keeps_projectD [OF assms(1) y] by (simp add: same_project_def)
  with False y assms(2) show ?thesis
    by (intro that [of "[EvWrite VStatusPatch (ObjCodebase ?x) None]"])
       (auto simp: updateGitStatusWithPatch_def prog_runs save_from_run Codebases_def push_mark_def
          same_project_def split: sum.splits)
qed

lemma git_log: "log (snd (git E cfg c s)) = log s @ [EvGit cfg c (git_do E (log s) cfg c)]"
  by (simp add: git_def asku_run)

lemma git_fst: "fst (git E cfg c s) = (case git_do E (log s) cfg c of None \<Rightarrow> Ok () | Some e \<Rightarrow> Fail e)"
  by (simp add: git_def asku_run)

lemma bindp_log_Ok: "fst (m s) = Ok x \<Longrightarrow> bindp m f s = f x (snd (m s))"
  by (simp add: bindp_run)

lemma bindp_log_not_Ok:
  "(\<And>x. fst (m s) \<noteq> Ok x) \<Longrightarrow> snd (bindp m f s) = snd (m s) \<and> (\<forall>y. fst (bindp m f s) \<noteq> Ok y)"
  by (simp add: bindp_run split: outcome.split)

lemma pushProject_log:
  "log (snd (pushProject E name rc s)) = log s @
     (let cfg = rc_config rc;
          link = GitAddRemote (rc_workDir rc)
            (GetProjectGitUrl (rc_gitServer rc) (rc_gitServerSecret rc) name);
          push = GitPush (rc_workDir rc) [''refs/heads/*:refs/heads/*'', ''refs/tags/*:refs/tags/*'']
      in (case git_do E (log s) cfg link of
            Some e \<Rightarrow> [EvGit cfg link (Some e)]
          | None \<Rightarrow> [EvGit cfg link None,
              EvGit cfg push (git_do E (log s @ [EvGit cfg link None]) cfg push)]))"
proof (cases "git_do E (log s) (rc_config rc) (GitAddRemote (rc_workDir rc)
            (GetProjectGitUrl (rc_gitServer rc) (rc_gitServerSecret rc) name))")
  case None
  show ?thesis unfolding pushProject_def
    by (subst bindp_log_Ok [where x = "()"])
       (simp_all add: wrapping_Ok_iff git_fst git_log None Let_def)
next
  case (Some e)
  show ?thesis unfolding pushProject_def
    by (subst bindp_log_not_Ok [THEN conjunct1])
       (simp_all add: wrapping_Ok_iff git_fst git_log Some Let_def)
qed

lemma pushProject_events:
  "\<exists>es. log (snd (pushProject E (GetProjectID (c_spec cb)) rc s)) = log s @ es \<and>
     (list_all (\<lambda>ev. \<not> is_push ev) es \<or>
      (\<exists>r. es = [EvGit (rc_config rc) (GitAddRemote (rc_workDir rc) (project_url cb rc)) None,
         EvGit (rc_config rc) (GitPush (rc_workDir rc)
           [''refs/heads/*:refs/heads/*'', ''refs/tags/*:refs/tags/*'']) r]))"
  unfolding pushProject_log Let_def project_url_def by (simp split: option.split)

text \<open>The part of \<open>createProject\<close> from the check of the remote on.\<close>

lemma remoteAbsent_log:
  assumes "fst (remoteDefaultBranchAbsent E cb rc s) = Ok True"
  obtains e where "says_absent E (rc_config rc)
      (GetProjectGitUrl (rc_gitServer rc) (rc_gitServerSecret rc) (GetProjectID (c_spec cb)))
      (cs_defaultBranch (c_spec cb)) e"
    "snd (remoteDefaultBranchAbsent E cb rc s) = s\<lparr>log := log s @ [EvGit (rc_config rc)
      (GitResolve (GetProjectGitUrl (rc_gitServer rc) (rc_gitServerSecret rc) (GetProjectID (c_spec cb)))
        (cs_defaultBranch (c_spec cb))) (Some e)]\<rparr>"
  using assms
  by (cases "git_str E (log s) (rc_config rc)
      (GitResolve (GetProjectGitUrl (rc_gitServer rc) (rc_gitServerSecret rc) (GetProjectID (c_spec cb)))
        (cs_defaultBranch (c_spec cb)))")
     (auto simp: remoteDefaultBranchAbsent_def says_absent_def prog_runs git_string_def ask_run
        split: if_splits)

definition push_to_absent :: "env \<Rightarrow> codebase \<Rightarrow> git_repository_context \<Rightarrow> (codebase st, unit) prog" where
  "push_to_absent E cb rc =
     bindp (remoteDefaultBranchAbsent E cb rc) (\<lambda>remoteBranchAbsent.
     if \<not> remoteBranchAbsent
     then throw (errorf (''remote repository already contains default branch '' @
            cs_defaultBranch (c_spec cb) @ '' with history not pushed by this provisioning; '' @
            ''refusing to overwrite it - remove the remote branch or onboard the repository with the import strategy''))
     else
       bindp (updateGitStatusWithPatch E RepositoryProvisioning ProjectPushInProgressStatus) (\<lambda>_.
       bindp (gets obj) (\<lambda>cb2.
       bindp (pushProject E (GetProjectID (c_spec cb2)) rc) (\<lambda>_.
       setDefaultBranch E rc cb2))))"

definition create_remote :: "env \<Rightarrow> codebase \<Rightarrow> git_repository_context \<Rightarrow> ('o st, unit) prog" where
  "create_remote E cb rc =
     (if gs_gitProvider (gs_spec (rc_gitServer rc)) = GitProviderGerrit
      then wrapping (''failed to create project in Gerrit for codebase '' @ m_name (c_meta cb))
             (createGerritProject E (rc_gitServer rc) (rc_privateSSHKey rc) (GetProjectID (c_spec cb)))
      else createGitThirdPartyProject E (rc_gitServer rc) (rc_token rc) cb)"

lemma createProject_split:
  "createProject E rc s =
     bindp (create_remote E (obj s) rc) (\<lambda>_. push_to_absent E (obj s) rc) s"
  unfolding createProject_def bindp_gets create_remote_def push_to_absent_def ..

text \<open>After the mark: the push and what follows it.\<close>

lemma push_mark_quiet: "push_mark cb mark \<Longrightarrow> list_all (\<lambda>ev. \<not> is_push ev) mark"
  by (auto simp: push_mark_def split: if_splits)

lemma push_tail:
  fixes cb rc e
  defines "resolve \<equiv> EvGit (rc_config rc) (GitResolve (project_url cb rc) (cs_defaultBranch (c_spec cb))) (Some e)"
  assumes mark: "push_mark cb mark" and rc: "project_context E cb rc"
    and e: "says_absent E (rc_config rc) (project_url cb rc) (cs_defaultBranch (c_spec cb)) e"
    and log: "log s = l @ resolve # mark"
  shows "\<exists>es. log (snd (bindp (pushProject E (GetProjectID (c_spec cb)) rc) (\<lambda>_. setDefaultBranch E rc cb2) s)) =
    l @ es \<and> guarded_push E cb es"
proof -
  let ?push = "pushProject E (GetProjectID (c_spec cb)) rc"
  obtain es where es: "log (snd (?push s)) = log s @ es"
    and split: "list_all (\<lambda>ev. \<not> is_push ev) es \<or> (\<exists>r. resolve # mark @ es = push_calls cb rc e mark r)"
    using pushProject_events [of E cb rc s] unfolding push_calls_def resolve_def by auto
  from split have guarded: "guarded_push E cb (resolve # mark @ es)"
  proof
    assume "list_all (\<lambda>ev. \<not> is_push ev) es"
    then show ?thesis
      using push_mark_quiet [OF mark] by (simp add: guarded_push_def resolve_def)
  next
    assume "\<exists>r. resolve # mark @ es = push_calls cb rc e mark r"
    then have "push_chunk E cb (resolve # mark @ es)"
      unfolding push_chunk_def using mark e rc by blast
    then show ?thesis
      unfolding guarded_push_def
      by (intro disjI2 exI [of _ "[]"] exI [of _ "resolve # mark @ es"]) simp
  qed
  obtain es' where "log (snd (bindp ?push (\<lambda>_. setDefaultBranch E rc cb2) s)) = log s @ es @ es'"
    and "list_all (\<lambda>ev. \<not> is_push ev) es'"
  proof (cases "fst (?push s)")
    case (Ok x)
    obtain es' where "log (snd (setDefaultBranch E rc cb2 (snd (?push s)))) =
        log (snd (?push s)) @ es'" "list_all (\<lambda>ev. \<not> is_push ev) es'"
      using appendsD [OF quiet_remote(2)] by blast
    with Ok es show ?thesis by (intro that [of es']) (simp_all add: bindp_run)
  qed (use es in \<open>auto intro!: that [of "[]"] simp: bindp_run\<close>)
  with guarded_push_post [OF guarded this(2)] log show ?thesis
    by (intro exI [of _ "(resolve # mark @ es) @ es'"]) simp
qed

text \<open>The Codebase in hand is the one of the run, and its context was read.\<close>

definition in_run :: "env \<Rightarrow> codebase \<Rightarrow> git_repository_context \<Rightarrow> codebase st \<Rightarrow> bool" where
  "in_run E cb rc s \<longleftrightarrow> same_project cb (obj s) \<and> project_context E cb rc"

lemma push_to_absent_guards:
  assumes "keeps_project E" and "in_run E cb rc s"
  shows "\<exists>es. log (snd (push_to_absent E (obj s) rc s)) = log s @ es \<and> guarded_push E cb es"
proof (cases "fst (remoteDefaultBranchAbsent E (obj s) rc s) = Ok True")
  case False
  obtain es where es: "log (snd (remoteDefaultBranchAbsent E (obj s) rc s)) = log s @ es"
    "list_all (\<lambda>ev. \<not> is_push ev) es"
    using appendsD [OF quiet_remote(1)] by blast
  have "snd (push_to_absent E (obj s) rc s) = snd (remoteDefaultBranchAbsent E (obj s) rc s)"
    using False by (simp add: push_to_absent_def bindp_run split: outcome.split)
  with es show ?thesis by (auto simp: guarded_push_def)
next
  case True
  have run: "same_project cb (obj s)" and rc: "project_context E cb rc" and spec: "c_spec (obj s) = c_spec cb"
    using assms(2) by (simp_all add: in_run_def same_project_def)
  define s1 where "s1 = snd (remoteDefaultBranchAbsent E (obj s) rc s)"
  obtain e where e: "says_absent E (rc_config rc) (project_url cb rc) (cs_defaultBranch (c_spec cb)) e"
    and s1: "s1 = s\<lparr>log := log s @ [EvGit (rc_config rc)
      (GitResolve (project_url cb rc) (cs_defaultBranch (c_spec cb))) (Some e)]\<rparr>"
    unfolding s1_def project_url_def spec [symmetric] using True by (rule remoteAbsent_log)
  let ?upd = "updateGitStatusWithPatch E RepositoryProvisioning ProjectPushInProgressStatus"
  have tail: "push_to_absent E (obj s) rc s =
      bindp ?upd (\<lambda>_. bindp (gets obj) (\<lambda>cb2.
        bindp (pushProject E (GetProjectID (c_spec cb2)) rc) (\<lambda>_. setDefaultBranch E rc cb2))) s1"
    using True by (simp add: push_to_absent_def bindp_log_Ok s1_def)
  show ?thesis
  proof (cases "fst (?upd s1) = Ok ()")
    case False
    obtain es where es: "log (snd (?upd s1)) = log s1 @ es" "list_all (\<lambda>ev. \<not> is_push ev) es"
      using appendsD [OF quiet_common(3)] by blast
    have "snd (push_to_absent E (obj s) rc s) = snd (?upd s1)"
      using False by (simp add: tail bindp_run split: outcome.split)
    with es s1 show ?thesis by (auto simp: guarded_push_def)
  next
    case True
    have "same_project cb (obj s1)" using run by (simp add: s1)
    from update_Ok [OF assms(1) this True] obtain mark where mark: "push_mark cb mark"
      "log (snd (?upd s1)) = log s1 @ mark" "c_spec (obj (snd (?upd s1))) = c_spec cb" .
    show ?thesis
      unfolding tail bindp_log_Ok [of ?upd s1, OF True] bindp_gets mark(3)
      by (rule push_tail [OF mark(1) rc e]) (use mark s1 in simp)
  qed
qed

lemma createProject_guards:
  assumes "keeps_project E"
  shows "guards E cb (in_run E cb rc) (createProject E rc)"
  unfolding guards_def
proof (intro allI impI)
  fix s :: "codebase st" assume run: "in_run E cb rc s"
  have quiet: "quiet (create_remote E (obj s) rc)"
    unfolding create_remote_def by (intro appends_intros)
  have "keeps (\<lambda>t. obj t = x) (create_remote E (obj s) rc)" for x
    unfolding create_remote_def createGerritProject_def createGitThirdPartyProject_def
    by (intro keeps_intros reader_keeps reader_intros)
  then have obj: "obj (snd (create_remote E (obj s) rc s)) = obj s" by (rule keeps_objD)
  obtain es where es: "log (snd (create_remote E (obj s) rc s)) = log s @ es"
    "list_all (\<lambda>ev. \<not> is_push ev) es"
    using appendsD [OF quiet] by blast
  show "\<exists>es. log (snd (createProject E rc s)) = log s @ es \<and> guarded_push E cb es"
  proof (cases "fst (create_remote E (obj s) rc s)")
    case (Ok x)
    have "in_run E cb rc (snd (create_remote E (obj s) rc s))" using run obj by (simp add: in_run_def)
    from push_to_absent_guards [OF assms this] obj obtain es' where
      "log (snd (push_to_absent E (obj s) rc (snd (create_remote E (obj s) rc s)))) =
        log (snd (create_remote E (obj s) rc s)) @ es'" "guarded_push E cb es'"
      by auto
    with es Ok show ?thesis
      by (intro exI [of _ "es @ es'"]) (simp add: createProject_split bindp_run guarded_push_pre)
  qed (use es in \<open>simp_all add: createProject_split bindp_run guarded_push_def\<close>)
qed

subsection \<open>The run up to the push\<close>

lemma handleError_Ok: "fst (handleError E msg m s) = Ok x \<longleftrightarrow> fst (m s) = Ok x"
  and handleError_Ok_state: "fst (m s) = Ok x \<Longrightarrow> snd (handleError E msg m s) = snd (m s)"
  by (simp_all add: handleError_def prog_runs setFailedFields_def split: outcome.split)

lemma on_Ok_handleError: "on_Ok P (handleError E msg m) Q = on_Ok P m Q"
  by (auto simp: on_Ok_def triple_def handleError_Ok handleError_Ok_state)

lemma obj_calls:
  "keeps (\<lambda>s. obj s = x) (remoteDefaultBranchAbsent E cb rc)"
  "keeps (\<lambda>s. obj s = x) (setDefaultBranch E rc cb)"
  "keeps (\<lambda>s. obj s = x) (pushProject E name rc)"
  "keeps (\<lambda>s. obj s = x) (createGerritProject E gs key name)"
  "keeps (\<lambda>s. obj s = x) (createGitThirdPartyProject E gs tok cb)"
  "keeps (\<lambda>s. obj s = x) (CheckoutBranch E b rc cb)"
  "keeps (\<lambda>s. obj s = x) (PutProject_checkoutBranch E cb rc)"
  "keeps (\<lambda>s. obj s = x) (emptyProjectProvisioning E rc)"
  "keeps (\<lambda>s. obj s = x) (notEmptyProjectProvisioning E cb rc)"
  unfolding remoteDefaultBranchAbsent_def setDefaultBranch_def pushProject_def createGerritProject_def
    createGitThirdPartyProject_def CheckoutBranch_def PutProject_checkoutBranch_def
    replaceDefaultBranch_def emptyProjectProvisioning_def notEmptyProjectProvisioning_def
    tryToCloneRepo_def squashCommits_def DoesDirectoryExist_def Let_def
  by (intro keeps_intros reader_keeps reader_intros)+

abbreviation of_run :: "codebase \<Rightarrow> codebase st \<Rightarrow> bool" where
  "of_run cb s \<equiv> same_project cb (obj s)"

lemma keeps_on_Ok: "keeps P m \<Longrightarrow> on_Ok P m (\<lambda>_. P)"
  by (rule on_OkI) (rule keepsD)

lemma keeps_of_run: "(\<And>x. keeps (\<lambda>s. obj s = x) m) \<Longrightarrow> keeps (of_run cb) m"
  by (rule keepsI) (simp add: keeps_objD)

lemma of_run_failed: "keeps (of_run cb) (setFailedFields E a msg)"
  by (rule keepsI) (simp add: setFailedFields_def same_project_def failed_fields_def)

lemma of_run_handleError: "keeps (of_run cb) m \<Longrightarrow> keeps (of_run cb) (handleError E msg m)"
  unfolding handleError_def by (intro keeps_intros of_run_failed)

lemma of_run_intermediate: "keeps_project E \<Longrightarrow> keeps (of_run cb) (setIntermediateSuccessFields E a)"
  by (rule keepsI)
     (auto simp: setIntermediateSuccessFields_def intermediate_fields_def save_run wrapping_run Codebases_def
       same_project_def dest!: keeps_projectD split: sum.split)

lemma of_run_context:
  "same_project cb x \<Longrightarrow>
   on_Ok (of_run cb) (GetGitRepositoryContext E x) (\<lambda>rc s. in_run E cb rc s)"
  by (rule on_OkI)
     (auto simp: GetGitRepositoryContext_def bindp_run wrapping_run kget_run GitServers_def Secrets_def
       in_run_def project_context_def same_project_def split: sum.splits)

lemma of_run_adopt:
  "on_Ok (in_run E cb rc) (adoptPushedProject E rc) (\<lambda>adopted s. adopted \<or> in_run E cb rc s)"
proof (rule on_OkI)
  fix s adopted
  assume run: "in_run E cb rc s" and Ok: "fst (adoptPushedProject E rc s) = Ok adopted"
  have "obj (snd (remoteDefaultBranchAbsent E (obj s) rc s)) = obj s"
    by (rule keeps_objD [OF obj_calls(1)])
  with run Ok show "adopted \<or> in_run E cb rc (snd (adoptPushedProject E rc s))"
    by (auto simp: adoptPushedProject_def in_run_def bindp_run split: outcome.splits if_splits)
qed

lemma in_run_provisioning:
  "keeps (in_run E cb rc) (handleError E m (initialProjectProvisioning E x rc'))"
  "keeps (in_run E cb rc) (handleError E m (PutProject_checkoutBranch E x rc'))"
proof -
  have "keeps (of_run cb) (initialProjectProvisioning E x rc')"
    unfolding initialProjectProvisioning_def CreateDirectory_def
    by (intro keeps_intros of_run_handleError keeps_of_run obj_calls)
  moreover have "keeps (of_run cb) (PutProject_checkoutBranch E x rc')"
    by (intro keeps_of_run obj_calls)
  ultimately have "keeps (of_run cb) (handleError E m (initialProjectProvisioning E x rc'))"
    "keeps (of_run cb) (handleError E m (PutProject_checkoutBranch E x rc'))"
    by (simp_all add: of_run_handleError)
  then show "keeps (in_run E cb rc) (handleError E m (initialProjectProvisioning E x rc'))"
    "keeps (in_run E cb rc) (handleError E m (PutProject_checkoutBranch E x rc'))"
    by (auto simp: keeps_def in_run_def)
qed

lemma provision_guards:
  assumes "keeps_project E"
  shows "guards E cb (in_run E cb rc)
    (bindp (handleError E m1 (initialProjectProvisioning E x rc)) (\<lambda>_.
     bindp (handleError E m2 (PutProject_checkoutBranch E x rc)) (\<lambda>_.
     bindp (handleError E m3 (createProject E rc)) (\<lambda>_.
     updateGitStatusWithPatch E RepositoryProvisioning ProjectPushedStatus))))"
  by (intro guards_after [where Q = "\<lambda>_. in_run E cb rc"] keeps_on_Ok in_run_provisioning guards_before
      guards_handleError createProject_guards assms appends_intros)

lemma putProject_guards:
  assumes E: "keeps_project E"
  shows "guards E cb (of_run cb) (putProject E x)"
  unfolding putProject_def
proof (rule guards_after [where Q = "\<lambda>_. of_run cb"])
  show "on_Ok (of_run cb) (wrapping m (setIntermediateSuccessFields E a)) (\<lambda>_. of_run cb)" for m a
    by (intro keeps_on_Ok keeps_wrapping of_run_intermediate E)
next
  fix u :: unit
  show "guards E cb (of_run cb) (bindp (gets obj) (\<lambda>cb'.
     bindp (handleError E ''failed to get git repository context'' (GetGitRepositoryContext E cb'))
       (\<lambda>repoContext.
     bindp (handleError E ''failed to adopt already pushed project'' (adoptPushedProject E repoContext))
       (\<lambda>adopted.
     if adopted then ret ()
     else
       bindp (handleError E (''failed to perform initial provisioning of codebase '' @ m_name (c_meta cb'))
         (initialProjectProvisioning E cb' repoContext)) (\<lambda>_.
       bindp (handleError E ''failed to checkout branch'' (PutProject_checkoutBranch E cb' repoContext))
         (\<lambda>_.
       bindp (handleError E ''failed to create project'' (createProject E repoContext)) (\<lambda>_.
       updateGitStatusWithPatch E RepositoryProvisioning ProjectPushedStatus)))))))"
  proof (rule guards_after [where Q = "\<lambda>y s. same_project cb y \<and> of_run cb s"])
    fix y
    show "guards E cb (\<lambda>s. same_project cb y \<and> of_run cb s)
      (bindp (handleError E ''failed to get git repository context'' (GetGitRepositoryContext E y))
       (\<lambda>repoContext.
     bindp (handleError E ''failed to adopt already pushed project'' (adoptPushedProject E repoContext))
       (\<lambda>adopted.
     if adopted then ret ()
     else
       bindp (handleError E (''failed to perform initial provisioning of codebase '' @ m_name (c_meta y))
         (initialProjectProvisioning E y repoContext)) (\<lambda>_.
       bindp (handleError E ''failed to checkout branch'' (PutProject_checkoutBranch E y repoContext))
         (\<lambda>_.
       bindp (handleError E ''failed to create project'' (createProject E repoContext)) (\<lambda>_.
       updateGitStatusWithPatch E RepositoryProvisioning ProjectPushedStatus))))))"
    proof (cases "same_project cb y")
      case True
      show ?thesis
        by (rule guards_pre [where P = "of_run cb"],
            intro guards_after [where Q = "in_run E cb"]
              guards_after [where P = "in_run E cb rc" and Q = "\<lambda>adopted s. adopted \<or> in_run E cb rc s" for rc]
              guards_if)
          (auto simp: on_Ok_handleError of_run_context [OF True] of_run_adopt
            intro: quiet_guards appends_intros reader_quiet reader_intros
              guards_pre [OF provision_guards [OF E]])
    qed (simp add: guards_def)
  qed (auto intro: on_OkI appends_intros)
qed (intro appends_intros)

lemma PutProject_guards:
  "keeps_project E \<Longrightarrow> guards E cb (\<lambda>s. obj s = cb) (PutProject_ServeRequest E)"
  unfolding PutProject_ServeRequest_def
  by (rule guards_after [where Q = "\<lambda>_. of_run cb"])
    (auto intro: on_OkI appends_intros quiet_guards putProject_guards guards_if)

section \<open>How a run ends\<close>

definition echoes :: "env \<Rightarrow> bool" where
  "echoes E \<longleftrightarrow> (\<forall>h v b x y. k_write (api_codebase E) h v b x = Inr y \<longrightarrow> y = x)"

lemma echoesD: "echoes E \<Longrightarrow> k_write (api_codebase E) h v b x = Inr y \<Longrightarrow> y = x"
  by (simp add: echoes_def)

definition not_pushed :: "codebase st \<Rightarrow> bool" where
  "not_pushed s \<longleftrightarrow> ct_git (c_status (obj s)) \<noteq> ProjectPushedStatus"

definition stored_pushed :: "codebase st \<Rightarrow> bool" where
  "stored_pushed s \<longleftrightarrow>
     (\<exists>x. last (log s) = EvWrite VStatusPatch (ObjCodebase x) None \<and>
        ct_git (c_status x) = ProjectPushedStatus \<and> log s \<noteq> [])"

lemma keeps_not_pushed: "(\<And>x. keeps (\<lambda>s. obj s = x) m) \<Longrightarrow> keeps not_pushed m"
  by (rule keepsI) (simp add: not_pushed_def keeps_objD)

lemma keeps_setFailed: "keeps not_pushed (setFailedFields E a msg)"
  by (rule keepsI) (simp add: setFailedFields_def not_pushed_def failed_fields_def)

lemma keeps_intermediate: "echoes E \<Longrightarrow> keeps not_pushed (setIntermediateSuccessFields E a)"
  by (rule keepsI)
     (auto simp: setIntermediateSuccessFields_def not_pushed_def intermediate_fields_def save_run
       wrapping_run Codebases_def dest: echoesD split: sum.split)

lemma keeps_handleError: "keeps not_pushed m \<Longrightarrow> keeps not_pushed (handleError E msg m)"
  unfolding handleError_def by (intro keeps_intros keeps_setFailed)

lemma update_pushed:
  "on_Ok not_pushed (updateGitStatusWithPatch E a ProjectPushedStatus) (\<lambda>_. stored_pushed)"
  by (rule on_OkI)
     (auto simp: updateGitStatusWithPatch_def not_pushed_def stored_pushed_def prog_runs save_from_run
       Codebases_def setFailedFields_def split: sum.splits)

lemma keeps_in_progress:
  "echoes E \<Longrightarrow> keeps not_pushed (updateGitStatusWithPatch E a ProjectPushInProgressStatus)"
  by (rule keepsI)
     (auto simp: updateGitStatusWithPatch_def not_pushed_def prog_runs save_from_run
       Codebases_def setFailedFields_def failed_fields_def dest: echoesD split: sum.splits)

lemma adopt_ends:
  "on_Ok not_pushed (adoptPushedProject E rc) (\<lambda>adopted. if adopted then stored_pushed else not_pushed)"
  unfolding adoptPushedProject_def
  by (intro on_Ok_after on_Ok_if on_Ok_ret keeps_not_pushed keeps_intros obj_calls
      on_Ok_bindp [OF update_pushed]) simp_all

lemma createProject_keeps: "echoes E \<Longrightarrow> keeps not_pushed (createProject E rc)"
  unfolding createProject_def
  by (intro keeps_intros keeps_not_pushed obj_calls keeps_in_progress)

lemma obj_initial: "echoes E \<Longrightarrow> keeps not_pushed (initialProjectProvisioning E cb rc)"
  unfolding initialProjectProvisioning_def CreateDirectory_def
  by (intro keeps_intros keeps_handleError keeps_not_pushed obj_calls)

lemma provision_ends:
  assumes E: "echoes E"
  shows "on_Ok not_pushed
     (bindp (handleError E m1 (initialProjectProvisioning E cb rc)) (\<lambda>_.
      bindp (handleError E m2 (PutProject_checkoutBranch E cb rc)) (\<lambda>_.
      bindp (handleError E m3 (createProject E rc)) (\<lambda>_.
      updateGitStatusWithPatch E RepositoryProvisioning ProjectPushedStatus))))
     (\<lambda>_. stored_pushed)"
proof -
  have "keeps not_pushed (handleError E m (initialProjectProvisioning E cb rc))"
    "keeps not_pushed (handleError E m (PutProject_checkoutBranch E cb rc))"
    "keeps not_pushed (handleError E m (createProject E rc))" for m
    by (rule keeps_handleError, rule obj_initial [OF E])
       (rule keeps_handleError, rule keeps_not_pushed, rule obj_calls,
        rule keeps_handleError, rule createProject_keeps [OF E])
  then show ?thesis by (intro on_Ok_after update_pushed)
qed

lemma putProject_ends:
  assumes E: "echoes E"
  shows "on_Ok not_pushed (putProject E cb) (\<lambda>_. stored_pushed)"
proof -
  have set: "keeps not_pushed (wrapping m (setIntermediateSuccessFields E a))" for m a
    by (intro keeps_wrapping keeps_intermediate E)
  have ctx: "keeps not_pushed (handleError E m (GetGitRepositoryContext E c))" for m c
    by (intro keeps_handleError keeps_not_pushed reader_keeps reader_intros)
  have adopt: "on_Ok not_pushed (handleError E m (adoptPushedProject E rc))
      (\<lambda>adopted. if adopted then stored_pushed else not_pushed)" for m rc
    by (simp add: on_Ok_handleError adopt_ends)
  have rest: "on_Ok (if adopted then stored_pushed else not_pushed)
      (if adopted then ret () else m) (\<lambda>_. stored_pushed)"
    if "on_Ok not_pushed m (\<lambda>_. stored_pushed)" for adopted m
    using that by (cases adopted) (simp_all add: on_Ok_ret)
  show ?thesis
    unfolding putProject_def
    by (rule on_Ok_after [OF set], rule on_Ok_after [OF keeps_gets], rule on_Ok_after [OF ctx],
        rule on_Ok_bindp [OF adopt], rule rest, rule provision_ends [OF E])
qed

lemma PutProject_ends:
  assumes "echoes E" and "\<not> PutProject_skip (obj s)"
    and "fst (PutProject_ServeRequest E s) = Ok ()"
  shows "stored_pushed (snd (PutProject_ServeRequest E s))"
proof -
  have start: "not_pushed s"
    using assms(2)
    by (auto simp: not_pushed_def PutProject_skip_def skipPutProjectStatuses_def split: if_splits)
  have "fst (putProject E (obj s) s) = Ok () \<Longrightarrow> stored_pushed (snd (putProject E (obj s) s))"
    by (rule on_OkD [OF putProject_ends [OF assms(1)] start])
  with assms(2,3) show ?thesis by (simp add: PutProject_ServeRequest_def)
qed

section \<open>Adopting an interrupted push\<close>

text \<open>A change of the working copy or of the remote's history.\<close>

definition git_change :: "event \<Rightarrow> bool" where
  "git_change ev \<longleftrightarrow> (case ev of
     EvGit _ (GitResolve _ _) _ \<Rightarrow> False | EvGit _ _ _ \<Rightarrow> True | EvFs _ _ \<Rightarrow> True | _ \<Rightarrow> False)"

lemma git_change_simps [simp]:
  "\<not> git_change (EvGet k ns n)" "\<not> git_change (EvList k ns sel)" "\<not> git_change (EvWrite v x e)"
  "\<not> git_change (EvGerrit gs key c e)" "\<not> git_change (EvProvider gs tok c e)"
  "\<not> git_change (EvGit cfg (GitResolve a b) e)" "\<not> git_change (EvRecord x ty r m)"
  by (simp_all add: git_change_def)

lemma reader_no_change: "reader m \<Longrightarrow> appends (\<lambda>ev. \<not> git_change ev) m"
  by (rule reader_appends) (auto simp: is_read_def split: event.splits)

lemma no_change_intermediate: "appends (\<lambda>ev. \<not> git_change ev) (setIntermediateSuccessFields E a)"
  and no_change_failed: "appends (\<lambda>ev. \<not> git_change ev) (setFailedFields E a msg)"
  and no_change_update: "appends (\<lambda>ev. \<not> git_change ev) (updateGitStatusWithPatch E a gst)"
  unfolding setIntermediateSuccessFields_def setFailedFields_def updateGitStatusWithPatch_def
  by (auto intro!: appends_intros)

lemma no_change_adopt: "appends (\<lambda>ev. \<not> git_change ev) (adoptPushedProject E rc)"
  unfolding adoptPushedProject_def remoteDefaultBranchAbsent_def setDefaultBranch_def Let_def
  by (intro appends_intros no_change_update reader_no_change [OF reader_NewGitProjectProvider]) simp_all

lemma no_change_handleError:
  "appends (\<lambda>ev. \<not> git_change ev) m \<Longrightarrow> appends (\<lambda>ev. \<not> git_change ev) (handleError E msg m)"
  unfolding handleError_def by (intro appends_intros no_change_failed)

lemma adopt_present:
  assumes "ct_git (c_status (obj s)) = ProjectPushInProgressStatus"
    and "git_str E (log s) (rc_config rc) (GitResolve (GetProjectGitUrl (rc_gitServer rc)
           (rc_gitServerSecret rc) (GetProjectID (c_spec (obj s)))) (cs_defaultBranch (c_spec (obj s))))
         = Inr h"
  shows "fst (adoptPushedProject E rc s) \<noteq> Ok False"
  using assms
  by (simp add: adoptPushedProject_def remoteDefaultBranchAbsent_def prog_runs git_string_def ask_run
      split: outcome.split)

lemma added_after:
  assumes "appends A m" and "m s = (r, s1)" and "log t = log s1 @ es" and "list_all A es"
  shows "list_all A (added s t)"
  using appendsD [OF assms(1), of s] assms(2-) by (auto simp: added_def)

section \<open>Properties\<close>

text \<open>
  No history is overwritten. In one run of the handler there is at most one push, and
  right before it the project's repository answered that the default branch of the project
  does not exist, and the push was marked in the status (or was marked already). Hence a
  project whose default branch exists is never pushed to.
\<close>

lemma push_only_over_absent_branch:
  assumes "keeps_project E"
  shows "\<exists>es. log (snd (PutProject_ServeRequest E s)) = log s @ es \<and> guarded_push E (obj s) es"
  using guardsD [OF PutProject_guards [OF assms]] by blast

text \<open>The state when the repository of the project has said that the branch exists.\<close>

definition found_present :: "git_repository_context \<Rightarrow> codebase st \<Rightarrow> codebase st" where
  "found_present rc s = s\<lparr>log := log s @ [EvGit (rc_config rc)
     (GitResolve (project_url (obj s) rc) (cs_defaultBranch (c_spec (obj s)))) None]\<rparr>"

lemma adopt_run:
  assumes "ct_git (c_status (obj s)) = ProjectPushInProgressStatus"
    and "git_str E (log s) (rc_config rc)
           (GitResolve (project_url (obj s) rc) (cs_defaultBranch (c_spec (obj s)))) = Inr h"
  shows "adoptPushedProject E rc s =
    bindp (setDefaultBranch E rc (obj s)) (\<lambda>_.
    bindp (updateGitStatusWithPatch E RepositoryProvisioning ProjectPushedStatus) (\<lambda>_.
    ret True)) (found_present rc s)"
  using assms
  by (simp add: adoptPushedProject_def remoteDefaultBranchAbsent_def found_present_def project_url_def
      bindp_run attempt_run git_string_def ask_run)

text \<open>How the status \<open>pushed\<close> is stored over another one.\<close>

lemma update_pushed_run:
  assumes "ct_git (c_status (obj s)) \<noteq> ''pushed''"
  shows "\<exists>x r. log (snd (updateGitStatusWithPatch E a ProjectPushedStatus s)) =
      log s @ [EvWrite VStatusPatch (ObjCodebase x) r] \<and>
    ct_git (c_status x) = ''pushed'' \<and> c_spec x = c_spec (obj s) \<and> c_meta x = c_meta (obj s) \<and>
    (fst (updateGitStatusWithPatch E a ProjectPushedStatus s) = Ok () \<longleftrightarrow> r = None)"
  using assms
  by (auto simp: updateGitStatusWithPatch_def prog_runs save_from_run Codebases_def setFailedFields_def
      split: sum.split)

text \<open>
  C8: an interrupted push is adopted. When the stored status says that a push was under
  way and the project's repository has the default branch, the run changes neither the
  working copy nor the remote's history: no clone, no commit, no push, no removal of files.
  It sets the default branch, and when that succeeds its last call stores the status
  \<open>pushed\<close>; it ends without an error exactly when both succeed.
\<close>

theorem interrupted_push_is_adopted:
  assumes "\<not> PutProject_skip (obj s)"
    and "setIntermediateSuccessFields E RepositoryProvisioning s = (Ok (), s1)"
    and "ct_git (c_status (obj s1)) = ''push_in_progress''"
    and "GetGitRepositoryContext E (obj s1) s1 = (Ok rc, s2)"
    and "git_str E (log s2) (rc_config rc) (GitResolve (GetProjectGitUrl (rc_gitServer rc)
           (rc_gitServerSecret rc) (GetProjectID (c_spec (obj s1)))) (cs_defaultBranch (c_spec (obj s1))))
         = Inr h"
    and "setDefaultBranch E rc (obj s1) (found_present rc s2) = (default_set, s3)"
    and "PutProject_ServeRequest E s = (res, t)"
  shows "list_all (\<lambda>ev. \<not> git_change ev) (added s t) \<and>
    (case default_set of
       Ok _ \<Rightarrow> \<exists>x r. log t = log s3 @ [EvWrite VStatusPatch (ObjCodebase x) r] \<and>
         ct_git (c_status x) = ''pushed'' \<and> c_spec x = c_spec (obj s1) \<and> c_meta x = c_meta (obj s1) \<and>
         (res = Ok () \<longleftrightarrow> r = None)
     | _ \<Rightarrow> res \<noteq> Ok () \<and> log t = log s3)"
proof -
  let ?adopt = "handleError E ''failed to adopt already pushed project'' (adoptPushedProject E rc)"
  have obj2: "obj s2 = obj s1"
    using keeps_objD [OF reader_keeps [OF reader_context], of E "obj s1" s1] assms(4) by simp
  have obj3: "obj s3 = obj s1"
    using keeps_objD [OF obj_calls(2), of E rc "obj s1" "found_present rc s2"] assms(6) obj2
    by (simp add: found_present_def)
  have run: "adoptPushedProject E rc s2 =
    bindp (setDefaultBranch E rc (obj s1)) (\<lambda>_.
    bindp (updateGitStatusWithPatch E RepositoryProvisioning ProjectPushedStatus) (\<lambda>_.
    ret True)) (found_present rc s2)"
    using adopt_run [of s2 E rc h] assms(3,5) by (simp add: obj2 project_url_def)
  have not_False: "fst (?adopt s2) \<noteq> Ok False"
    by (simp add: handleError_Ok run bindp_run split: outcome.split)
  have ctx: "handleError E m (GetGitRepositoryContext E (obj s1)) s1 = (Ok rc, s2)" for m
    using assms(4) by (simp add: handleError_def catchp_run)
  have ends: "t = snd (?adopt s2)" "res = Ok () \<longleftrightarrow> fst (adoptPushedProject E rc s2) = Ok True"
  proof -
    have "PutProject_ServeRequest E s = bindp ?adopt (\<lambda>adopted. if adopted then ret () else throw undefined) s2"
      using assms(1,2) not_False
      by (simp add: PutProject_ServeRequest_def putProject_def bindp_run wrapping_run ctx split: outcome.split)
    moreover have "fst (?adopt s2) = Ok True \<longleftrightarrow> fst (adoptPushedProject E rc s2) = Ok True"
      by (rule handleError_Ok)
    ultimately show "t = snd (?adopt s2)" "res = Ok () \<longleftrightarrow> fst (adoptPushedProject E rc s2) = Ok True"
      using assms(7) not_False by (auto simp: bindp_run split: outcome.splits)
  qed
  have log_t: "log t = log (snd (adoptPushedProject E rc s2))"
    by (simp add: ends(1) handleError_def catchp_run setFailedFields_def prog_runs split: outcome.split)
  have "list_all (\<lambda>ev. \<not> git_change ev) (added s t)"
  proof -
    obtain es where "log t = log s2 @ es" "list_all (\<lambda>ev. \<not> git_change ev) es"
      using appendsD [OF no_change_handleError [OF no_change_adopt]] ends(1) by blast
    moreover obtain es1 where "log s1 = log s @ es1" "list_all (\<lambda>ev. \<not> git_change ev) es1"
      using appendsD [OF no_change_intermediate, of E RepositoryProvisioning s] assms(2) by auto
    moreover obtain es2 where "log s2 = log s1 @ es2" "list_all (\<lambda>ev. \<not> git_change ev) es2"
      using appendsD [OF reader_no_change [OF reader_context], of E "obj s1" s1] assms(4) by auto
    ultimately show ?thesis by simp
  qed
  moreover have "case default_set of
       Ok _ \<Rightarrow> \<exists>x r. log t = log s3 @ [EvWrite VStatusPatch (ObjCodebase x) r] \<and>
         ct_git (c_status x) = ''pushed'' \<and> c_spec x = c_spec (obj s1) \<and> c_meta x = c_meta (obj s1) \<and>
         (res = Ok () \<longleftrightarrow> r = None)
     | _ \<Rightarrow> res \<noteq> Ok () \<and> log t = log s3"
  proof (cases default_set)
    case (Ok u)
    let ?upd = "updateGitStatusWithPatch E RepositoryProvisioning ProjectPushedStatus"
    have "log t = log (snd (?upd s3))" "res = Ok () \<longleftrightarrow> fst (?upd s3) = Ok ()"
      unfolding log_t ends(2) run using Ok assms(6) by (auto simp: bindp_run split: outcome.splits)
    with update_pushed_run [of s3 E RepositoryProvisioning] assms(3) Ok show ?thesis by (auto simp: obj3)
  qed (use log_t ends(2) assms(6) in \<open>simp_all add: run bindp_run\<close>)
  ultimately show ?thesis by blast
qed

text \<open>
  A run that succeeds on a Codebase not yet pushed ends with the status \<open>pushed\<close>
  stored by a patch, when the server stores what it is sent.
\<close>

theorem put_project_ends_pushed:
  assumes "echoes E" and "\<not> PutProject_skip (obj s)"
    and "fst (PutProject_ServeRequest E s) = Ok ()"
  shows "stored_pushed (snd (PutProject_ServeRequest E s))"
  using assms by (rule PutProject_ends)

section \<open>Witnesses\<close>

definition git_server0 :: git_server where
  "git_server0 = \<lparr>gs_meta = new_meta ''github'' ''ns'',
     gs_spec = \<lparr>gs_gitHost = ''github.com'', gs_gitUser = ''git'', gs_httpsPort = 443, gs_sshPort = 22,
       gs_nameSshKeySecret = ''key'', gs_gitProvider = GitProviderGithub,
       gs_skipWebhookSSLVerification = False, gs_webhookUrl = [], gs_tektonDisabled = False\<rparr>,
     gs_status = \<lparr>gst_error = [], gst_connected = True, gst_status = ''ok''\<rparr>\<rparr>"

definition secret0 :: secret where
  "secret0 = \<lparr>s_meta = new_meta ''key'' ''ns'',
     s_data = [(PrivateSShKeyName, ''k''), (GitServerSecretTokenField, ''t''),
       (''username'', ''u''), (''password'', ''p'')]\<rparr>"

definition git_env :: env where
  "git_env = null_env\<lparr>api_git_server := one_api git_server0, api_secret := one_api secret0\<rparr>"

definition absent_env :: env where
  "absent_env = git_env\<lparr>git_str := \<lambda>h cfg c. (case c of
     GitResolve u b \<Rightarrow> Inl (GErr ''reference not found'' [KReferenceNotFound]) | _ \<Rightarrow> Inr ''main'')\<rparr>"

definition fresh :: "codebase st" where
  "fresh = \<lparr>obj = codebase0, log = []\<rparr>"

definition interrupted :: "codebase st" where
  "interrupted = \<lparr>obj = codebase0\<lparr>c_status := (c_status codebase0)\<lparr>ct_git := ProjectPushInProgressStatus\<rparr>\<rparr>,
     log = []\<rparr>"

lemma example_echoes: "echoes absent_env"
  by (simp add: echoes_def absent_env_def git_env_def null_env_def empty_api_def)

text \<open>In the example the handler does push.\<close>

lemma fresh_is_pushed:
  "fst (PutProject_ServeRequest absent_env fresh) = Ok ()"
  "length (filter is_push (log (snd (PutProject_ServeRequest absent_env fresh)))) = 1"
  "\<not> PutProject_skip (obj fresh)"
  by code_simp+

lemma put_project_ends_pushed_witness:
  "stored_pushed (snd (PutProject_ServeRequest absent_env fresh))"
  by (rule put_project_ends_pushed [OF example_echoes]) (simp_all only: fresh_is_pushed not_False_eq_True)

text \<open>In the example the default branch is set, and the last call stores \<open>pushed\<close>.\<close>

lemma interrupted_push_is_adopted_witness:
  "\<exists>x r. last (log (snd (PutProject_ServeRequest git_env interrupted))) =
      EvWrite VStatusPatch (ObjCodebase x) r \<and> ct_git (c_status x) = ''pushed'' \<and>
    list_all (\<lambda>ev. \<not> git_change ev) (added interrupted (snd (PutProject_ServeRequest git_env interrupted)))"
proof -
  let ?s1 = "snd (setIntermediateSuccessFields git_env RepositoryProvisioning interrupted)"
  let ?c = "GetGitRepositoryContext git_env (obj ?s1) ?s1"
  have "fst (setIntermediateSuccessFields git_env RepositoryProvisioning interrupted) = Ok ()"
    by code_simp
  then have 1: "setIntermediateSuccessFields git_env RepositoryProvisioning interrupted = (Ok (), ?s1)"
    by (simp add: prod_eq_iff)
  have 2: "ct_git (c_status (obj ?s1)) = ''push_in_progress''" by code_simp
  have "case fst ?c of Ok rc \<Rightarrow> fst (setDefaultBranch git_env rc (obj ?s1) (found_present rc (snd ?c))) = Ok ()
      | _ \<Rightarrow> False" by code_simp
  then obtain rc where 3: "?c = (Ok rc, snd ?c)"
    and set: "fst (setDefaultBranch git_env rc (obj ?s1) (found_present rc (snd ?c))) = Ok ()"
    by (cases "fst ?c") (auto simp: prod_eq_iff)
  have 4: "git_str git_env h cfg c = Inr ''main''" for h cfg c
    by (simp add: git_env_def null_env_def)
  have 0: "\<not> PutProject_skip (obj interrupted)" by code_simp
  from interrupted_push_is_adopted [OF 0 1 2 3 4 prod.collapse [symmetric] prod.collapse [symmetric]] set
  show ?thesis by auto
qed

end
