(* ===== verification/Templates.thy ===== *)
theory Templates
  imports Codebase_Common
begin

text \<open>
  \<open>pkg/platform\<close>, \<open>pkg/util/template.go\<close> and
  \<open>controllers/codebase/service/template/template.go\<close>: the deploy templates put into the
  working copy of an application. Parsing and executing a template are calls of the file
  system's oracle; which files are made, from what and in which order, is the source's.
\<close>

section \<open>The platform\<close>

definition platform_lookup :: "env \<Rightarrow> string" where
  "platform_lookup E = (case os_env E ''PLATFORM_TYPE'' of None \<Rightarrow> ''kubernetes'' | Some v \<Rightarrow> v)"

definition IsK8S :: "env \<Rightarrow> bool" where
  "IsK8S E \<longleftrightarrow> platform_lookup E = ''kubernetes''"

definition IsOpenshift :: "env \<Rightarrow> bool" where
  "IsOpenshift E \<longleftrightarrow> platform_lookup E = ''openshift''"

definition GetPlatformType :: "env \<Rightarrow> string" where
  "GetPlatformType E = platform_lookup E"

text \<open>\<open>os.Getenv\<close>: an unset variable reads as the empty string.\<close>

definition getenv :: "env \<Rightarrow> string \<Rightarrow> string" where
  "getenv E n = (case os_env E n of None \<Rightarrow> [] | Some v \<Rightarrow> v)"

definition IsEnvoy :: "env \<Rightarrow> bool" where
  "IsEnvoy E \<longleftrightarrow> getenv E ''INGRESS_CONTROLLER_TYPE'' = ''envoy''"

definition GetIngressControllerType :: "env \<Rightarrow> string" where
  "GetIngressControllerType E = (if IsEnvoy E then ''envoy'' else ''nginx'')"

definition GatewayName :: "env \<Rightarrow> string" where
  "GatewayName E = getenv E ''GATEWAY_NAME''"

definition GatewayNamespace :: "env \<Rightarrow> string" where
  "GatewayNamespace E = getenv E ''GATEWAY_NAMESPACE''"

record krci_config =
  kc_dnsWildcard :: string
  kc_registryType :: string
  kc_edpVersion :: string
  kc_registryHost :: string
  kc_registrySpace :: string

definition mapConfigToKrciConfig :: "config_map \<Rightarrow> krci_config" where
  "mapConfigToKrciConfig cm =
     \<lparr>kc_dnsWildcard = smap_get (cm_data cm) ''dns_wildcard'',
      kc_registryType = smap_get (cm_data cm) ''container_registry_type'',
      kc_edpVersion = smap_get (cm_data cm) ''edp_version'',
      kc_registryHost = smap_get (cm_data cm) ''container_registry_host'',
      kc_registrySpace = smap_get (cm_data cm) ''container_registry_space''\<rparr>"

definition getEdpConfig :: "env \<Rightarrow> string \<Rightarrow> ('o st, krci_config) prog" where
  "getEdpConfig E ns =
     bindp (wrapping ''failed to get edp-config'' (kget ConfigMaps E ns ''edp-config'')) (\<lambda>config.
     ret (mapConfigToKrciConfig config))"

definition GetKrciConfig :: "env \<Rightarrow> string \<Rightarrow> ('o st, krci_config) prog" where
  "GetKrciConfig E ns =
     bindp (attempt (kget ConfigMaps E ns ''krci-config'')) (\<lambda>r.
     case r of
       Inl e \<Rightarrow>
         if errors_is e KNotFound then getEdpConfig E ns
         else throw (wrap_err ''failed to get krci-config'' e)
     | Inr config \<Rightarrow> ret (mapConfigToKrciConfig config))"

section \<open>The values of a template\<close>

record go_templating =
  gt_lang :: string
  gt_name :: string
  gt_platformType :: string
  gt_dnsWildcard :: string
  gt_framework :: string
  gt_gitURL :: string
  gt_ingressController :: string
  gt_gatewayName :: string
  gt_gatewayNamespace :: string

definition template_values :: "go_templating \<Rightarrow> smap" where
  "template_values cf =
     [(''Lang'', gt_lang cf), (''Name'', gt_name cf), (''PlatformType'', gt_platformType cf),
      (''DnsWildcard'', gt_dnsWildcard cf), (''Framework'', gt_framework cf),
      (''GitURL'', gt_gitURL cf), (''IngressController'', gt_ingressController cf),
      (''GatewayName'', gt_gatewayName cf), (''GatewayNamespace'', gt_gatewayNamespace cf)]"

definition getGitServerCR :: "env \<Rightarrow> string \<Rightarrow> string \<Rightarrow> ('o st, git_server) prog" where
  "getGitServerCR E name ns =
     catchp (kget GitServers E ns name) (\<lambda>e.
       if errors_is e KNotFound
       then throw (wrap_err (''failed to find GitServer '' @ name @ '' in k8s'') e)
       else throw (wrap_err (''failed to get GitServer '' @ name) e))"

definition getProjectUrl :: "env \<Rightarrow> codebase_spec \<Rightarrow> string \<Rightarrow> ('o st, string) prog" where
  "getProjectUrl E sp ns =
     (if cs_strategy sp = ''create'' then ret (BuildTemplateRepoUrl sp)
      else if cs_strategy sp = ''clone'' then
        (case cs_repository sp of
           None \<Rightarrow> panic ''nil pointer dereference''
         | Some url \<Rightarrow> ret url)
      else if cs_strategy sp = ''import'' then
        bindp (wrapping ''failed to get git server''
          (wrapping (''failed to get '' @ cs_gitServer sp @ '' Git Server CR'')
            (getGitServerCR E (cs_gitServer sp) ns))) (\<lambda>gs.
        ret (''https://'' @ gs_gitHost (gs_spec gs) @ cs_gitUrlPath sp))
      else throw (errorf ''failed to get project url, caused by the unsupported strategy''))"

definition buildTemplateConfig :: "env \<Rightarrow> codebase \<Rightarrow> ('o st, go_templating) prog" where
  "buildTemplateConfig E cb =
     bindp (wrapping ''failed to get user setting'' (GetKrciConfig E (m_ns (c_meta cb)))) (\<lambda>conf.
     bindp (wrapping ''failed to get project url''
       (getProjectUrl E (c_spec cb) (m_ns (c_meta cb)))) (\<lambda>url.
     ret \<lparr>gt_lang = cs_lang (c_spec cb), gt_name = m_name (c_meta cb),
       gt_platformType = GetPlatformType E, gt_dnsWildcard = kc_dnsWildcard conf,
       gt_framework = cs_framework (c_spec cb), gt_gitURL = url,
       gt_ingressController = GetIngressControllerType E, gt_gatewayName = GatewayName E,
       gt_gatewayNamespace = GatewayNamespace E\<rparr>))"

section \<open>Copying and rendering\<close>

definition renderTemplate :: "env \<Rightarrow> string \<Rightarrow> string \<Rightarrow> go_templating \<Rightarrow> ('o st, unit) prog" where
  "renderTemplate E file templatePath cf =
     bindp (gets (\<lambda>s. fs_parseTemplate E (log s) templatePath)) (\<lambda>parsed.
     case parsed of
       Some e \<Rightarrow> throw (wrap_err ''failed to parse codebase deploy template'' e)
     | None \<Rightarrow>
         wrapping ''failed to render codebase deploy template''
           (fs E (FsRender templatePath file (template_values cf))))"

definition create_file :: "env \<Rightarrow> string \<Rightarrow> string \<Rightarrow> ('o st, unit) prog" where
  "create_file E what file =
     wrapping (''failed to create '' @ what @ '' file '' @ quoted file) (fs E (FsCreate file))"

definition copy_readme :: "env \<Rightarrow> string \<Rightarrow> string \<Rightarrow> ('o st, unit) prog" where
  "copy_readme E src dest =
     bindp (wrapping (''failed to read file '' @ quoted src)
       (bindp (gets (\<lambda>s. fs_read E (log s) src)) lift)) (\<lambda>bytesRead.
     wrapping (''failed to write file '' @ quoted dest) (fs E (FsWrite dest bytesRead)))"

definition CopyHelmChartTemplates ::
  "env \<Rightarrow> string \<Rightarrow> string \<Rightarrow> string \<Rightarrow> go_templating \<Rightarrow> ('o st, unit) prog" where
  "CopyHelmChartTemplates E deploymentScript dest assetsDir cf =
     (let base = path_join [assetsDir, ''templates/applications'', deploymentScript, gt_platformType cf];
          templateFolder = path_join [dest, ''templates''];
          testFolder = path_join [dest, ''templates'', ''tests''];
          values_yaml = path_join [dest, ''values.yaml''];
          chart_yaml = path_join [dest, ''Chart.yaml''];
          readme_md = path_join [dest, ''README.md'']
      in
      bindp (CreateDirectory E dest) (\<lambda>_.
      bindp (create_file E ''Values'' values_yaml) (\<lambda>_.
      bindp (create_file E ''chart'' chart_yaml) (\<lambda>_.
      bindp (create_file E ''chart'' readme_md) (\<lambda>_.
      bindp (CreateDirectory E templateFolder) (\<lambda>_.
      bindp (CreateDirectory E testFolder) (\<lambda>_.
      bindp (CopyFiles E (path_join [base, ''templates'']) templateFolder) (\<lambda>_.
      bindp (copy_readme E (path_join [base, ''README.md.gotmpl'']) (path_join [dest, ''README.md.gotmpl'']))
        (\<lambda>_.
      bindp (CopyFiles E (path_join [base, ''templates'', ''tests'']) testFolder) (\<lambda>_.
      bindp (CopyFile E (path_join [base, ''.helmignore'']) (path_join [dest, ''.helmignore''])) (\<lambda>_.
      bindp (renderTemplate E values_yaml (path_join [base, ''values.tmpl'']) cf) (\<lambda>_.
      bindp (renderTemplate E chart_yaml (path_join [base, ''Chart.tmpl'']) cf) (\<lambda>_.
      bindp (renderTemplate E readme_md (path_join [base, ''README.tmpl'']) cf) (\<lambda>_.
      bindp (wrapping ''failed to GetListFilesInDirectory''
        (GetListFilesInDirectory E (path_join [dest, ''templates'']))) (\<lambda>files.
      bindp (for_each files (\<lambda>(name, isDir).
        if isDir then ret ()
        else ReplaceStringInFile E (path_join [dest, ''templates'', name]) ''REPLACE_IT'' (gt_name cf)))
        (\<lambda>_.
      ReplaceStringInFile E (path_join [dest, ''templates'', ''tests'', ''test-connection.yaml''])
        ''REPLACE_IT'' (gt_name cf)))))))))))))))))"

definition createAndRenderTemplate ::
  "env \<Rightarrow> string \<Rightarrow> string \<Rightarrow> go_templating \<Rightarrow> ('o st, unit) prog" where
  "createAndRenderTemplate E destPath templatePath cf =
     bindp (create_file E ''destination'' destPath) (\<lambda>_. renderTemplate E destPath templatePath cf)"

definition CopyRpmPackageTemplates ::
  "env \<Rightarrow> string \<Rightarrow> string \<Rightarrow> go_templating \<Rightarrow> ('o st, unit) prog" where
  "CopyRpmPackageTemplates E dest assetsDir cf =
     (let rpm = (\<lambda>p. path_join [assetsDir, ''templates/applications/rpm-package/'' @ p]);
          specOfLang = rpm (gt_lang cf @ ''/spec.tmpl'')
      in
      bindp (gets (\<lambda>s. fs_stat E (log s) specOfLang)) (\<lambda>st.
      case st of
        StatErr e \<Rightarrow> throw (wrap_err (''failed to check if '' @ quoted specOfLang @ '' exists'') e)
      | _ \<Rightarrow>
        bindp (gets (\<lambda>s. fs_stat E (log s) (path_join [dest, ''Makefile'']))) (\<lambda>mk.
        let spec = (if st = StatNotExist then rpm ''default/spec.tmpl'' else specOfLang);
            service = (if st = StatNotExist then rpm ''default/service.tmpl''
                       else rpm (gt_lang cf @ ''/service.tmpl''));
            makefile = (if mk = StatOk then path_join [dest, ''Makefile.kuberocketci'']
                        else path_join [dest, ''Makefile''])
        in
        bindp (createAndRenderTemplate E makefile (rpm ''Makefile.tmpl'') cf) (\<lambda>_.
        bindp (createAndRenderTemplate E (path_join [dest, gt_name cf @ ''.spec'']) spec cf) (\<lambda>_.
        bindp (createAndRenderTemplate E (path_join [dest, gt_name cf @ ''.service'']) service cf) (\<lambda>_.
        CopyFile E (rpm ''.rpmlintrc.toml'') (path_join [dest, ''.rpmlintrc.toml''])))))))"

definition CopyTemplate ::
  "env \<Rightarrow> string \<Rightarrow> string \<Rightarrow> string \<Rightarrow> go_templating \<Rightarrow> ('o st, unit) prog" where
  "CopyTemplate E deploymentScript workDir assetsDir cf =
     (if deploymentScript = ''helm-chart'' then
        bindp (DoesDirectoryExist E (path_join [workDir, ''deploy-templates''])) (\<lambda>exists.
        if exists then ret ()
        else CopyHelmChartTemplates E deploymentScript (path_join [workDir, ''deploy-templates''])
               assetsDir cf)
      else if deploymentScript = ''rpm-package'' then CopyRpmPackageTemplates E workDir assetsDir cf
      else throw (errorf ''unsupported deployment type''))"

definition copySonarConfigs :: "env \<Rightarrow> string \<Rightarrow> string \<Rightarrow> go_templating \<Rightarrow> ('o st, unit) prog" where
  "copySonarConfigs E workDir td cf =
     (if \<not> List.member [''javascript'', ''python'', ''go''] (to_lower (gt_lang cf)) then ret ()
      else
        let sonar = workDir @ ''/sonar-project.properties'';
            tmpl = td @ ''/templates/sonar/'' @ to_lower (gt_lang cf) @ ''-sonar-project.properties.tmpl'' in
        bindp (gets (\<lambda>s. fs_stat E (log s) sonar)) (\<lambda>st.
        if st = StatOk then ret ()
        else
          bindp (wrapping ''failed to create sonar config file'' (fs E (FsCreate sonar))) (\<lambda>_.
          bindp (gets (\<lambda>s. fs_parseTemplate E (log s) tmpl)) (\<lambda>parsed.
          case parsed of
            Some e \<Rightarrow> throw (wrap_err ''failed to parse sonar template file'' e)
          | None \<Rightarrow>
              wrapping (''failed to render Sonar configs fo '' @ gt_lang cf @ '' app: '' @ gt_name cf)
                (fs E (FsRender tmpl sonar (template_values cf)))))))"

definition PrepareTemplates :: "env \<Rightarrow> codebase \<Rightarrow> string \<Rightarrow> ('o st, unit) prog" where
  "PrepareTemplates E cb workDir =
     bindp (buildTemplateConfig E cb) (\<lambda>cf.
     bindp (wrapping ''failed to get assets dir'' (lift (GetAssetsDir E))) (\<lambda>assetsDir.
     bindp (wrapping (''failed to copy template for '' @ m_name (c_meta cb) @ '' codebase'')
       (CopyTemplate E (cs_deploymentScript (c_spec cb)) workDir assetsDir cf)) (\<lambda>_.
     copySonarConfigs E workDir assetsDir cf)))"

section \<open>Where the templates go\<close>

text \<open>
  Names as they come from Kubernetes and from a directory listing: one path element. A
  joined path of such names below an absolute path is what it looks like.
\<close>

definition plain_name :: "string \<Rightarrow> bool" where
  "plain_name n \<longleftrightarrow> n \<noteq> [] \<and> CHR ''/'' \<notin> set n \<and> n \<noteq> ''.'' \<and> n \<noteq> ''..''"

definition abs_path :: "string \<Rightarrow> bool" where
  "abs_path p \<longleftrightarrow>
     (\<exists>ws. ws \<noteq> [] \<and> (\<forall>w \<in> set ws. plain_name w) \<and> p = CHR ''/'' # str_join ''/'' ws)"

definition under :: "string \<Rightarrow> string \<Rightarrow> bool" where
  "under d p \<longleftrightarrow> p = d \<or> has_prefix (d @ ''/'') p"

lemma str_join_append:
  "xs \<noteq> [] \<Longrightarrow> ys \<noteq> [] \<Longrightarrow> str_join sep (xs @ ys) = str_join sep xs @ sep @ str_join sep ys"
proof (induction sep xs rule: str_join.induct)
  case (2 sep x)
  then show ?case by (cases ys) auto
qed simp_all

lemma split_join:
  "ws \<noteq> [] \<Longrightarrow> \<forall>w \<in> set ws. CHR ''/'' \<notin> set w \<Longrightarrow> split_on (CHR ''/'') (str_join ''/'' ws) = ws"
proof (induction "''/''" ws rule: str_join.induct)
  case (3 x y ys)
  then show ?case using split_on_append [of "CHR ''/''" x "str_join ''/'' (y # ys)"] by simp
qed (simp_all add: split_on_absent)

lemma clean_plain: "\<forall>w \<in> set ws. plain_name w \<Longrightarrow> clean_parts b out ws = rev out @ ws"
  by (induction ws arbitrary: out) (auto simp: plain_name_def)

lemma path_join_plain:
  assumes "abs_path d" and "xs \<noteq> []" and "\<forall>x \<in> set xs. plain_name x"
  shows "path_join (d # xs) = d @ ''/'' @ str_join ''/'' xs" and "abs_path (path_join (d # xs))"
proof -
  from assms(1) obtain ws where ws: "ws \<noteq> []" "\<forall>w \<in> set ws. plain_name w"
    and d: "d = CHR ''/'' # str_join ''/'' ws" unfolding abs_path_def by blast
  have ne: "filter (\<lambda>e. e \<noteq> []) (d # xs) = d # xs"
    using assms(3) by (simp add: d filter_id_conv plain_name_def)
  have all: "\<forall>w \<in> set (ws @ xs). plain_name w" using ws(2) assms(3) by auto
  have "str_join ''/'' (d # xs) = d @ ''/'' @ str_join ''/'' xs"
    using assms(2) by (cases xs) auto
  also have "\<dots> = CHR ''/'' # str_join ''/'' (ws @ xs)"
    by (simp add: d str_join_append [OF ws(1) assms(2)])
  finally have join: "str_join ''/'' (d # xs) = CHR ''/'' # str_join ''/'' (ws @ xs)" .
  have "split_on (CHR ''/'') (str_join ''/'' (ws @ xs)) = ws @ xs"
    using all ws(1) by (intro split_join) (auto simp: plain_name_def)
  then have "path_clean (CHR ''/'' # str_join ''/'' (ws @ xs)) = CHR ''/'' # str_join ''/'' (ws @ xs)"
    using clean_plain [OF all, of True "[]"] by (simp add: path_clean_def has_prefix_def Let_def)
  then have eq: "path_join (d # xs) = CHR ''/'' # str_join ''/'' (ws @ xs)"
    by (simp add: path_join_def ne join del: filter.simps)
  then show "path_join (d # xs) = d @ ''/'' @ str_join ''/'' xs"
    by (simp add: d str_join_append [OF ws(1) assms(2)])
  show "abs_path (path_join (d # xs))"
    unfolding abs_path_def eq using all ws(1) by (intro exI [of _ "ws @ xs"]) auto
qed

lemma under_join:
  "abs_path d \<Longrightarrow> xs \<noteq> [] \<Longrightarrow> \<forall>x \<in> set xs. plain_name x \<Longrightarrow> under d (path_join (d # xs))"
  unfolding under_def by (simp add: path_join_plain has_prefix_iff)

lemma under_trans: "under d p \<Longrightarrow> under p q \<Longrightarrow> under d q"
  unfolding under_def has_prefix_iff by auto

lemma under_refl [simp]: "under d d"
  by (simp add: under_def)

text \<open>What a call changes in the file system lies below a directory.\<close>

definition changes_under :: "string \<Rightarrow> event \<Rightarrow> bool" where
  "changes_under d ev \<longleftrightarrow>
     (case ev of
        EvFs (FsMkdir p) _ \<Rightarrow> under d p
      | EvFs (FsWrite p _) _ \<Rightarrow> under d p
      | EvFs (FsCreate p) _ \<Rightarrow> under d p
      | EvFs (FsRender _ p _) _ \<Rightarrow> under d p
      | EvFs (FsRemoveAll _) _ \<Rightarrow> False
      | EvGet _ _ _ \<Rightarrow> True | EvList _ _ _ \<Rightarrow> True
      | _ \<Rightarrow> False)"

lemma changes_under_simps [simp]:
  "changes_under d (EvFs (FsMkdir p) e) = under d p"
  "changes_under d (EvFs (FsWrite p x) e) = under d p"
  "changes_under d (EvFs (FsCreate p) e) = under d p"
  "changes_under d (EvFs (FsRender t p v) e) = under d p"
  "changes_under d (EvGet k ns n)"
  by (simp_all add: changes_under_def)

definition readdir_plain :: "env \<Rightarrow> bool" where
  "readdir_plain E \<longleftrightarrow>
     (\<forall>h p files. fs_readdir E h p = Inr files \<longrightarrow> (\<forall>(n, b) \<in> set files. plain_name n))"

lemma ReadDir_plain:
  "readdir_plain E \<Longrightarrow> fst (ReadDir E p s) = Ok files \<Longrightarrow> (n, b) \<in> set files \<Longrightarrow> plain_name n"
  by (fastforce simp: ReadDir_def prog_runs lift_def readdir_plain_def split: sum.splits)

lemma appends_ReadDir [appends_intros]: "appends A (ReadDir E p)"
  unfolding ReadDir_def by (intro appends_intros)

lemma changes_CopyFiles:
  assumes "readdir_plain E" and "abs_path dest" and "under d dest"
  shows "appends (changes_under d) (CopyFiles E src dest)"
  unfolding CopyFiles_def
proof (rule appends_bindp_result [OF appends_ReadDir])
  fix t files
  assume files: "fst (ReadDir E src t) = Ok files"
  show "appends (changes_under d) (for_each files (\<lambda>(name, isDir).
       if isDir then ret ()
       else
         bindp (wrapping (''failed to read a file '' @ quoted (path_join [src, name]))
           (bindp (gets (\<lambda>s. fs_read E (log s) (path_join [src, name]))) lift)) (\<lambda>input.
         wrapping (''failed to write to file '' @ quoted (path_join [dest, name]))
           (fs E (FsWrite (path_join [dest, name]) input)))))"
    by (intro appends_intros)
       (use ReadDir_plain [OF assms(1) files] in
         \<open>auto intro!: under_trans [OF assms(3)] under_join assms(2)\<close>)
qed

lemma changes_file_calls [appends_intros]:
  "under d p \<Longrightarrow> appends (changes_under d) (CreateDirectory E p)"
  "under d p \<Longrightarrow> appends (changes_under d) (create_file E w p)"
  "under d p \<Longrightarrow> appends (changes_under d) (CopyFile E src p)"
  "under d p \<Longrightarrow> appends (changes_under d) (copy_readme E src p)"
  "under d p \<Longrightarrow> appends (changes_under d) (renderTemplate E p tp cf)"
  "under d p \<Longrightarrow> appends (changes_under d) (createAndRenderTemplate E p tp cf)"
  "under d p \<Longrightarrow> appends (changes_under d) (ReplaceStringInFile E p old new)"
  unfolding CreateDirectory_def create_file_def CopyFile_def copy_readme_def renderTemplate_def
    createAndRenderTemplate_def ReplaceStringInFile_def
  by (intro appends_intros; simp)+

lemma below:
  "under d dest \<Longrightarrow> abs_path dest \<Longrightarrow> xs \<noteq> [] \<Longrightarrow> \<forall>x \<in> set xs. plain_name x \<Longrightarrow>
   under d (path_join (dest # xs))"
  by (rule under_trans [OF _ under_join])

lemma changes_Helm:
  assumes dir: "readdir_plain E" and dest: "abs_path dest" "under d dest"
  shows "appends (changes_under d) (CopyHelmChartTemplates E ds dest assets cf)"
proof -
  have sub: "under d (path_join (dest # xs))" "abs_path (path_join (dest # xs))"
    if "xs \<noteq> []" "\<forall>x \<in> set xs. plain_name x" for xs
    by (rule below [OF dest(2,1) that]) (rule path_join_plain(2) [OF dest(1) that])
  note [simp] = plain_name_def
  have list: "appends (changes_under d) (bindp (wrapping m (GetListFilesInDirectory E p)) (\<lambda>files.
      bindp (for_each files (\<lambda>(name, isDir). if isDir then ret ()
        else ReplaceStringInFile E (path_join [dest, ''templates'', name]) old new)) (\<lambda>_.
      ReplaceStringInFile E (path_join [dest, ''templates'', ''tests'', ''test-connection.yaml'']) old new)))"
    for m p old new
    unfolding GetListFilesInDirectory_def
  proof (rule appends_bindp_result)
    fix t files
    assume "fst (wrapping m (ReadDir E p) t) = Ok files"
    then have "fst (ReadDir E p t) = Ok files" by (simp add: wrapping_Ok_iff)
    then have "plain_name n" if "(n, b) \<in> set files" for n b
      using ReadDir_plain [OF dir] that by blast
    then show "appends (changes_under d) (bindp (for_each files (\<lambda>(name, isDir). if isDir then ret ()
        else ReplaceStringInFile E (path_join [dest, ''templates'', name]) old new)) (\<lambda>_.
      ReplaceStringInFile E (path_join [dest, ''templates'', ''tests'', ''test-connection.yaml'']) old new))"
      by (intro appends_intros sub) auto
  qed (intro appends_intros)
  show ?thesis
    unfolding CopyHelmChartTemplates_def Let_def
    by (rule appends_bindp, (rule changes_file_calls changes_CopyFiles [OF dir], simp_all add: dest sub)[1])+
       (rule list)
qed

lemma plain_suffix: "plain_name n \<Longrightarrow> CHR ''/'' \<notin> set x \<Longrightarrow> length x > 1 \<Longrightarrow> plain_name (n @ x)"
  by (cases n; cases "tl n") (auto simp: plain_name_def)

lemma changes_Rpm:
  assumes "abs_path dest" and "plain_name (gt_name cf)"
  shows "appends (changes_under dest) (CopyRpmPackageTemplates E dest assets cf)"
proof -
  have plain: "plain_name ''Makefile''" "plain_name ''Makefile.kuberocketci''"
    "plain_name ''.rpmlintrc.toml''" "plain_name (gt_name cf @ ''.spec'')"
    "plain_name (gt_name cf @ ''.service'')"
    using assms(2) by (simp_all add: plain_suffix) (simp_all add: plain_name_def)
  then have sub: "under dest (path_join [dest, x])"
    if "x \<in> {''Makefile'', ''Makefile.kuberocketci'', ''.rpmlintrc.toml'',
          gt_name cf @ ''.spec'', gt_name cf @ ''.service''}" for x
    using that under_join [OF assms(1), of "[x]"] by auto
  have mk: "under dest (if b then path_join [dest, ''Makefile.kuberocketci''] else path_join [dest, ''Makefile''])"
    for b using sub by simp
  show ?thesis
    unfolding CopyRpmPackageTemplates_def Let_def
    by (rule appends_bindp [OF appends_gets]) (auto split: file_stat.split
        intro!: appends_intros sub mk)
qed

lemma changes_Sonar: "appends (changes_under workDir) (copySonarConfigs E workDir td cf)"
  unfolding copySonarConfigs_def Let_def
  by (intro appends_intros) (simp_all add: under_def has_prefix_iff)

lemma buildTemplateConfig_name:
  "fst (buildTemplateConfig E cb s) = Ok cf \<Longrightarrow> gt_name cf = m_name (c_meta cb)"
  by (auto simp: buildTemplateConfig_def prog_runs split: outcome.splits)

lemma reader_template_config [reader_intros]: "reader (buildTemplateConfig E cb)"
  unfolding buildTemplateConfig_def GetKrciConfig_def getEdpConfig_def getProjectUrl_def
    getGitServerCR_def
  by (intro reader_intros)

lemma reader_changes: "reader m \<Longrightarrow> appends (changes_under d) m"
  by (rule reader_appends) (auto simp: is_read_def changes_under_def split: event.splits)

text \<open>
  C14: the templates are put into the working copy and nowhere else. Every directory, file
  and rendered template of \<open>PrepareTemplates\<close> lies below the working directory, and no file
  is removed, when the names of the Codebase and of the listed files are path elements.
\<close>

theorem templates_stay_in_working_copy:
  assumes "abs_path workDir" and "plain_name (m_name (c_meta cb))" and "readdir_plain E"
  shows "list_all (changes_under workDir) (added s (snd (PrepareTemplates E cb workDir s)))"
proof (rule appends_added)
  show "appends (changes_under workDir) (PrepareTemplates E cb workDir)"
    unfolding PrepareTemplates_def
  proof (rule appends_bindp_result [OF reader_changes [OF reader_template_config]])
    fix t cf
    assume "fst (buildTemplateConfig E cb t) = Ok cf"
    then have name: "plain_name (gt_name cf)" using assms(2) by (simp add: buildTemplateConfig_name)
    have dt: "plain_name ''deploy-templates''" by (simp add: plain_name_def)
    have helm: "appends (changes_under workDir)
        (CopyHelmChartTemplates E ds (path_join [workDir, ''deploy-templates'']) assets cf)" for ds assets
      using path_join_plain(2) [OF assms(1), of "[''deploy-templates'']"]
        under_join [OF assms(1), of "[''deploy-templates'']"] dt
      by (intro changes_Helm assms(3)) simp_all
    show "appends (changes_under workDir)
       (bindp (wrapping ''failed to get assets dir'' (lift (GetAssetsDir E))) (\<lambda>assetsDir.
        bindp (wrapping (''failed to copy template for '' @ m_name (c_meta cb) @ '' codebase'')
          (CopyTemplate E (cs_deploymentScript (c_spec cb)) workDir assetsDir cf)) (\<lambda>_.
        copySonarConfigs E workDir assetsDir cf)))"
      unfolding CopyTemplate_def
      by (intro appends_intros helm changes_Rpm changes_Sonar assms(1) name appends_DoesDirectoryExist)
  qed
qed

definition template_env :: env where
  "template_env = null_env\<lparr>os_env := \<lambda>n. if n = AssetsDirEnv then Some ''/assets'' else None,
     api_config_map := one_api \<lparr>cm_meta = new_meta ''krci-config'' ''ns'', cm_data = []\<rparr>\<rparr>"

lemma templates_stay_in_working_copy_witness:
  "list_all (changes_under ''/w'') (added \<lparr>obj = (), log = []\<rparr>
     (snd (PrepareTemplates template_env codebase0 ''/w'' \<lparr>obj = (), log = []\<rparr>)))"
proof (rule templates_stay_in_working_copy)
  show "abs_path ''/w''"
    unfolding abs_path_def by (intro exI [of _ "[''w'']"]) (simp add: plain_name_def)
  show "plain_name (m_name (c_meta codebase0))"
    by (simp add: codebase0_def new_meta_def plain_name_def)
  show "readdir_plain template_env"
    by (simp add: readdir_plain_def template_env_def null_env_def)
qed

lemma templates_are_written:
  "fst (PrepareTemplates template_env codebase0 ''/w'' \<lparr>obj = (), log = []\<rparr>) = Ok ()"
  by code_simp

end
