(* ===== verification/Random_Token.thy ===== *)
theory Random_Token
  imports Kube
begin

text \<open>
  Base64, and the random tokens of \<open>pkg/util/rand.go\<close>: bytes of \<open>crypto/rand\<close>, a parameter,
  in the URL alphabet. The encoding is injective, so a token is as hard to guess as the bytes
  it is made of.
\<close>

section \<open>Base64\<close>

definition base64_digit :: "string \<Rightarrow> nat \<Rightarrow> char" where
  "base64_digit alphabet n = alphabet ! (n mod 64)"

text \<open>\<open>Encoding.EncodeToString\<close>: three bytes become four characters, padded at the end.\<close>

fun base64_by :: "string \<Rightarrow> nat list \<Rightarrow> string" where
  "base64_by d [] = []"
| "base64_by d [a] = [base64_digit d (a div 4), base64_digit d (a mod 4 * 16), CHR ''='', CHR ''='']"
| "base64_by d [a, b] = [base64_digit d (a div 4), base64_digit d (a mod 4 * 16 + b div 16),
     base64_digit d (b mod 16 * 4), CHR ''='']"
| "base64_by d (a # b # c # r) = base64_digit d (a div 4) # base64_digit d (a mod 4 * 16 + b div 16) #
     base64_digit d (b mod 16 * 4 + c div 64) # base64_digit d (c mod 64) # base64_by d r"

definition StdEncoding :: string where
  "StdEncoding = ''ABCDEFGHIJKLMNOPQRSTUVWXYZabcdefghijklmnopqrstuvwxyz0123456789+/''"

definition URLEncoding :: string where
  "URLEncoding = ''ABCDEFGHIJKLMNOPQRSTUVWXYZabcdefghijklmnopqrstuvwxyz0123456789-_''"

definition encode_string :: "string \<Rightarrow> string \<Rightarrow> string" where
  "encode_string d s = base64_by d (map of_char s)"

section \<open>rand.go\<close>

text \<open>\<open>rand.Read\<close> fills the whole buffer or fails; on a failure the string is empty.\<close>

definition GenerateRandomBytes :: "env \<Rightarrow> history \<Rightarrow> nat \<Rightarrow> gerr + string" where
  "GenerateRandomBytes E h n =
     (case rand_read E h n of
        Inl err \<Rightarrow> Inl (wrap_err ''error reading from crypto/rand'' err)
      | Inr b \<Rightarrow> Inr b)"

definition GenerateRandomString :: "env \<Rightarrow> history \<Rightarrow> nat \<Rightarrow> string \<times> gerr option" where
  "GenerateRandomString E h n =
     (case GenerateRandomBytes E h n of
        Inl err \<Rightarrow> (encode_string URLEncoding [], Some err)
      | Inr b \<Rightarrow> (encode_string URLEncoding b, None))"

section \<open>The encoding is injective\<close>

definition base64_alphabet :: "string \<Rightarrow> bool" where
  "base64_alphabet d \<longleftrightarrow> length d = 64 \<and> distinct d \<and> CHR ''='' \<notin> set d"

lemma alphabets [simp]: "base64_alphabet StdEncoding" "base64_alphabet URLEncoding"
  by (simp_all add: base64_alphabet_def StdEncoding_def URLEncoding_def)

lemma digit_eq:
  assumes "base64_alphabet d" and "m < 64" and "n < 64"
  shows "base64_digit d m = base64_digit d n \<longleftrightarrow> m = n"
  using assms by (simp add: base64_alphabet_def base64_digit_def nth_eq_iff_index_eq)

lemma digit_in_alphabet: "base64_alphabet d \<Longrightarrow> base64_digit d n \<in> set d"
  by (simp add: base64_alphabet_def base64_digit_def)

lemma digit_no_padding [simp]:
  assumes "base64_alphabet d"
  shows "base64_digit d n \<noteq> CHR ''=''" "CHR ''='' \<noteq> base64_digit d n"
  using digit_in_alphabet [OF assms, of n] assms unfolding base64_alphabet_def by metis+

lemma split_eq:
  fixes x y k :: nat
  assumes "y < k" and "y' < k"
  shows "x * k + y = x' * k + y' \<longleftrightarrow> x = x' \<and> y = y'"
proof
  assume e: "x * k + y = x' * k + y'"
  from arg_cong [OF e, of "\<lambda>n. n mod k"] arg_cong [OF e, of "\<lambda>n. n div k"] assms
  show "x = x' \<and> y = y'" by simp
qed simp

lemma byte_eq: "a div k = a' div k \<Longrightarrow> a mod k = a' mod k \<Longrightarrow> a = (a' :: nat)"
  by (metis div_mult_mod_eq)

lemma base64_length: "length (base64_by d bs) = 4 * ((length bs + 2) div 3)"
proof (induction d bs rule: base64_by.induct)
  case (4 d a b c r)
  have "(length (a # b # c # r) + 2) div 3 = Suc ((length r + 2) div 3)"
    by (simp add: div_eq_dividend_iff flip: div_add_self2)
  with 4 show ?case by simp
qed simp_all

text \<open>The digits of three bytes determine them.\<close>

lemma digit_bounds:
  fixes a b :: nat
  assumes "a < 256" and "b < 256"
  shows "a div 4 < 64" "a mod 4 * 16 + b div 16 < 64" "a mod 16 * 4 + b div 64 < 64"
    "a mod 4 * 16 < 64" "a mod 16 * 4 < 64"
  using assms mod_less_divisor [of 4 a] mod_less_divisor [of 16 a] by linarith+

lemma same_two_digits:
  assumes "base64_alphabet d" and "a < 256" "b < 256" "a' < 256" "b' < 256"
    and "base64_digit d (a div 4) = base64_digit d (a' div 4)"
    and "base64_digit d (a mod 4 * 16 + b div 16) = base64_digit d (a' mod 4 * 16 + b' div 16)"
  shows "a = a'" and "b div 16 = b' div 16"
proof -
  note bounds = digit_bounds [OF assms(2,3)] digit_bounds [OF assms(4,5)]
  have "a div 4 = a' div 4"
    using digit_eq [OF assms(1) bounds(1) bounds(6)] assms(6) by blast
  moreover have "a mod 4 * 16 + b div 16 = a' mod 4 * 16 + b' div 16"
    using digit_eq [OF assms(1) bounds(2) bounds(7)] assms(7) by blast
  moreover have "b div 16 < 16" "b' div 16 < 16" using assms(3,5) by linarith+
  ultimately show "a = a'" "b div 16 = b' div 16"
    using split_eq [of "b div 16" 16 "b' div 16" "a mod 4" "a' mod 4"] byte_eq [of a 4 a'] by blast+
qed

lemma same_third_digit:
  assumes "base64_alphabet d" and "b < 256" "c < 256" "b' < 256" "c' < 256"
    and "b div 16 = b' div 16"
    and "base64_digit d (b mod 16 * 4 + c div 64) = base64_digit d (b' mod 16 * 4 + c' div 64)"
  shows "b = b'" and "c div 64 = c' div 64"
proof -
  note bounds = digit_bounds [OF assms(2,3)] digit_bounds [OF assms(4,5)]
  have "b mod 16 * 4 + c div 64 = b' mod 16 * 4 + c' div 64"
    using digit_eq [OF assms(1) bounds(3) bounds(8)] assms(7) by blast
  moreover have "c div 64 < 4" "c' div 64 < 4" using assms(3,5) by linarith+
  ultimately show "b = b'" "c div 64 = c' div 64"
    using split_eq [of "c div 64" 4 "c' div 64" "b mod 16" "b' mod 16"] byte_eq [of b 16 b'] assms(6)
    by blast+
qed

lemma base64_inj:
  assumes d: "base64_alphabet d"
  shows "\<forall>b \<in> set bs. b < 256 \<Longrightarrow> \<forall>b \<in> set cs. b < 256 \<Longrightarrow>
    base64_by d bs = base64_by d cs \<Longrightarrow> bs = cs"
  using d
proof (induction d bs arbitrary: cs rule: base64_by.induct)
  case (1 d)
  then show ?case by (cases "(d, cs)" rule: base64_by.cases) simp_all
next
  case (2 d a)
  then show ?case
    using same_two_digits [of d a 0 "hd cs" 0] by (cases "(d, cs)" rule: base64_by.cases) simp_all
next
  case (3 d a b)
  then show ?case
    using same_two_digits [of d a b "hd cs" "cs ! 1"] same_third_digit [of d b 0 "cs ! 1" 0]
    by (cases "(d, cs)" rule: base64_by.cases) simp_all
next
  case (4 d a b c r)
  then show ?case
  proof (cases "(d, cs)" rule: base64_by.cases)
    case (4 d' a' b' c' r')
    then have e: "base64_by d (a # b # c # r) = base64_by d (a' # b' # c' # r')"
      and b: "a < 256" "b < 256" "c < 256" "a' < 256" "b' < 256" "c' < 256"
      using "4.prems" by auto
    have d: "base64_alphabet d" by fact
    from e have "a = a'" and b16: "b div 16 = b' div 16"
      using same_two_digits [OF d b(1,2,4,5)] by simp_all
    from e have "b = b'" and c64: "c div 64 = c' div 64"
      using same_third_digit [OF d b(2,3,5,6) b16] by simp_all
    from e have "c = c'"
      using c64 by (intro byte_eq [of c 64]) (simp_all add: digit_eq [OF d])
    have "r = r'" using 4 "4.IH" "4.prems" by simp
    with \<open>a = a'\<close> \<open>b = b'\<close> \<open>c = c'\<close> 4 show ?thesis by simp
  qed simp_all
qed

lemma encode_string_inj:
  assumes d: "base64_alphabet d" and e: "encode_string d s = encode_string d t"
  shows "s = t"
proof -
  have "map of_char s = (map of_char t :: nat list)"
    using e unfolding encode_string_def by (rule base64_inj [OF d, rotated 2]) auto
  then show ?thesis by (simp add: inj_map_eq_map inj_def)
qed

text \<open>A token for each sequence of bytes, four characters for three bytes.\<close>

lemma encode_examples:
  "encode_string URLEncoding ''Man'' = ''TWFu''" "encode_string URLEncoding ''Ma'' = ''TWE=''"
  "encode_string URLEncoding [CHR 0xFB] = ''-w==''" "encode_string StdEncoding [CHR 0xFB] = ''+w==''"
  by code_simp+

lemma random_string_ok:
  assumes "rand_read E h n = Inr b" and "length b = n"
  shows "GenerateRandomString E h n = (encode_string URLEncoding b, None)"
    and "length (fst (GenerateRandomString E h n)) = 4 * ((n + 2) div 3)"
  using assms by (simp_all add: GenerateRandomString_def GenerateRandomBytes_def encode_string_def base64_length)

lemma random_string_distinct:
  assumes "snd (GenerateRandomString E h n) = None" and "snd (GenerateRandomString E h' n) = None"
    and "rand_read E h n \<noteq> rand_read E h' n"
  shows "fst (GenerateRandomString E h n) \<noteq> fst (GenerateRandomString E h' n)"
  using assms
  by (auto simp: GenerateRandomString_def GenerateRandomBytes_def split: sum.splits
      dest: encode_string_inj [OF alphabets(2)])

end
