(* ===== verification/Codebase_Handlers.thy ===== *)
theory Codebase_Handlers
  imports Put_Project Templates Random_Token
begin

text \<open>
  The other handlers of \<open>controllers/codebase/service/chain\<close>: the web URL, the webhook,
  the GitLab CI configuration with \<open>pkg/gitlab/manager.go\<close>, the deploy templates, the
  default branch and the cleaning; and the deletion of the webhook.
\<close>

section \<open>put_gitwebrepourl.go\<close>

definition getGitWebURL :: "env \<Rightarrow> git_server \<Rightarrow> codebase \<Rightarrow> ('o st, string) prog" where
  "getGitWebURL E gs cb =
     (if gs_gitProvider (gs_spec gs) \<in> {GitProviderGitlab, GitProviderGithub, GitProviderBitbucket}
      then ret (trim_suffix ''/'' (GetHostWithProtocol (gs_gitHost (gs_spec gs))) @ ''/'' @
                GetProjectID (c_spec cb))
      else if gs_gitProvider (gs_spec gs) = GitProviderGerrit then
        bindp (wrapping ''failed to get QuickLink gerrit''
          (kget QuickLinks E (m_ns (gs_meta gs)) ''gerrit'')) (\<lambda>link.
        ret (trim_suffix ''/'' (ql_url link) @ ''/gitweb?p='' @ GetProjectID (c_spec cb) @ ''.git''))
      else throw (errorf (''unsupported Git provider '' @ gs_gitProvider (gs_spec gs))))"

text \<open>\<open>processCodebaseError\<close>: the failed fields, and the error as it is.\<close>

definition processCodebaseError :: "env \<Rightarrow> string \<Rightarrow> (codebase st, 'a) prog \<Rightarrow> (codebase st, 'a) prog" where
  "processCodebaseError E action m =
     catchp m (\<lambda>err. bindp (setFailedFields E action (err_msg err)) (\<lambda>_. throw err))"

definition get_git_server :: "env \<Rightarrow> codebase \<Rightarrow> ('o st, git_server) prog" where
  "get_git_server E cb =
     wrapping (''failed to get git server '' @ cs_gitServer (c_spec cb))
       (kget GitServers E (m_ns (c_meta cb)) (cs_gitServer (c_spec cb)))"

definition PutGitWebRepoUrl_ServeRequest :: "env \<Rightarrow> (codebase st, unit) prog" where
  "PutGitWebRepoUrl_ServeRequest E =
     bindp (gets obj) (\<lambda>cb.
     bindp (processCodebaseError E ActionPutGitWebRepoUrl (get_git_server E cb)) (\<lambda>gs.
     bindp (processCodebaseError E ActionPutGitWebRepoUrl (getGitWebURL E gs cb)) (\<lambda>url.
     bindp (set_obj (\<lambda>c. c\<lparr>c_status := (c_status c)\<lparr>ct_gitWebUrl := url\<rparr>\<rparr>)) (\<lambda>_.
     wrapping (''failed to update codebase '' @ m_name (c_meta cb) @ '' status'')
       (setIntermediateSuccessFields E ActionPutGitWebRepoUrl)))))"

section \<open>put_webhook.go\<close>

abbreviation webhookTokenLength :: nat where "webhookTokenLength \<equiv> 20"

definition GenerateIngressName :: "string \<Rightarrow> string" where
  "GenerateIngressName n = ''event-listener-'' @ n"

definition PutWebHook_getGitServerSecret :: "env \<Rightarrow> string \<Rightarrow> string \<Rightarrow> ('o st, secret) prog" where
  "PutWebHook_getGitServerSecret E secretName ns =
     bindp (wrapping (''failed to get '' @ secretName @ '' secret'') (kget Secrets E ns secretName))
       (\<lambda>sec.
     if map_of (s_data sec) GitServerSecretTokenField = None
     then throw (errorf (''failed to get '' @ GitServerSecretTokenField @ '' field from '' @ secretName @
            '' secret''))
     else if smap_get (s_data sec) GitServerSecretWebhookSecretField = [] then
       bindp (wrapping ''failed to generate webhook secret''
         (bindp (gets (\<lambda>s. GenerateRandomString E (log s) webhookTokenLength)) (\<lambda>(tok, err).
            case err of None \<Rightarrow> ret tok | Some e \<Rightarrow> throw e))) (\<lambda>tok.
       wrapping (''failed to update '' @ secretName @ '' secret'')
         (let sec2 = sec\<lparr>s_data := smap_put GitServerSecretWebhookSecretField tok (s_data sec)\<rparr>
          in kwrite VUpdate Secrets E sec2 sec2))
     else ret sec)"

definition getWebhookIngressUrl :: "env \<Rightarrow> string \<Rightarrow> string \<Rightarrow> ('o st, string) prog" where
  "getWebhookIngressUrl E gitServerName ns =
     bindp (wrapping ''failed to get webhook ingress''
       (kget Ingresses E ns (GenerateIngressName gitServerName))) (\<lambda>ingress.
     case ex_hosts ingress of
       [] \<Rightarrow> throw (errorf (''ingress '' @ m_name (ex_meta ingress) @ '' doesn't have rules''))
     | h # _ \<Rightarrow> ret (GetHostWithProtocol h))"

definition getWebhookHTTPRouteUrl :: "env \<Rightarrow> string \<Rightarrow> string \<Rightarrow> ('o st, string) prog" where
  "getWebhookHTTPRouteUrl E gitServerName ns =
     bindp (wrapping ''failed to get webhook HTTPRoute''
       (kget HTTPRoutes E ns (GenerateIngressName gitServerName))) (\<lambda>route.
     case ex_hosts route of
       [] \<Rightarrow> throw (errorf (''HTTPRoute '' @ m_name (ex_meta route) @ '' doesn't have hostnames''))
     | h # _ \<Rightarrow> ret (GetHostWithProtocol h))"

text \<open>The OpenShift route's first ingress is read without a check.\<close>

definition getWebhookRouteUrl :: "env \<Rightarrow> string \<Rightarrow> string \<Rightarrow> ('o st, string) prog" where
  "getWebhookRouteUrl E gitServerName ns =
     bindp (wrapping ''failed to get webhook route''
       (kget Routes E ns (GenerateIngressName gitServerName))) (\<lambda>route.
     case ex_hosts route of
       [] \<Rightarrow> panic ''index out of range''
     | h # _ \<Rightarrow> ret (GetHostWithProtocol h))"

definition getWebHookUrl :: "env \<Rightarrow> git_server \<Rightarrow> ('o st, string) prog" where
  "getWebHookUrl E gs =
     (if gs_webhookUrl (gs_spec gs) \<noteq> [] then ret (gs_webhookUrl (gs_spec gs))
      else if \<not> IsK8S E then getWebhookRouteUrl E (m_name (gs_meta gs)) (m_ns (gs_meta gs))
      else if IsEnvoy E then getWebhookHTTPRouteUrl E (m_name (gs_meta gs)) (m_ns (gs_meta gs))
      else getWebhookIngressUrl E (m_name (gs_meta gs)) (m_ns (gs_meta gs)))"

text \<open>Whether the webhook the status refers to still exists.\<close>

definition webhook_exists :: "env \<Rightarrow> codebase \<Rightarrow> git_server \<Rightarrow> string \<Rightarrow> ('o st, bool) prog" where
  "webhook_exists E cb gs tok =
     (if GetWebHookRef (c_status cb) = [] then ret False
      else
        bindp (attempt (provider_string E gs tok
          (HookGet (GetProjectID (c_spec cb)) (GetWebHookRef (c_status cb))))) (\<lambda>r.
        case r of
          Inr _ \<Rightarrow> ret True
        | Inl err \<Rightarrow>
            if errors_is err KWebHookNotFound then ret False
            else throw (wrap_err ''failed to get webhook'' err)))"

definition PutWebHook_ServeRequest :: "env \<Rightarrow> (codebase st, unit) prog" where
  "PutWebHook_ServeRequest E =
     bindp (gets obj) (\<lambda>cb.
     if cs_ciTool (c_spec cb) \<noteq> CITekton then ret ()
     else
       bindp (processCodebaseError E ActionPutWebHook (get_git_server E cb)) (\<lambda>gs.
       if gs_gitProvider (gs_spec gs) \<notin> {GitProviderGitlab, GitProviderGithub, GitProviderBitbucket}
       then ret ()
       else
         bindp (processCodebaseError E ActionPutWebHook
           (PutWebHook_getGitServerSecret E (gs_nameSshKeySecret (gs_spec gs)) (m_ns (gs_meta gs))))
           (\<lambda>sec.
         let tok = smap_get (s_data sec) GitServerSecretTokenField in
         bindp (processCodebaseError E ActionPutWebHook
           (wrapping ''failed to create git provider'' (NewProvider E gs tok))) (\<lambda>_.
         bindp (processCodebaseError E ActionPutWebHook (webhook_exists E cb gs tok)) (\<lambda>exists.
         if exists then ret ()
         else
           bindp (processCodebaseError E ActionPutWebHook (getWebHookUrl E gs)) (\<lambda>url.
           bindp (processCodebaseError E ActionPutWebHook
             (wrapping ''failed to create web hook''
               (provider_string E gs tok
                 (HookCreateIfNotExists (GetProjectID (c_spec cb))
                   (smap_get (s_data sec) GitServerSecretWebhookSecretField) url
                   (gs_skipWebhookSSLVerification (gs_spec gs)))))) (\<lambda>hook.
           bindp (set_obj (\<lambda>c. c\<lparr>c_status := (c_status c)\<lparr>ct_webHookRef := hook\<rparr>\<rparr>)) (\<lambda>_.
           wrapping (''failed to update codebase '' @ m_name (c_meta cb) @ '' status'')
             (setIntermediateSuccessFields E ActionPutWebHook)))))))))"

section \<open>delete_webhook.go\<close>

definition DeleteWebHook_getGitServerSecret :: "env \<Rightarrow> string \<Rightarrow> string \<Rightarrow> ('o st, secret) prog" where
  "DeleteWebHook_getGitServerSecret E secretName ns =
     bindp (wrapping (''failed to get '' @ secretName @ '' secret'') (kget Secrets E ns secretName))
       (\<lambda>sec.
     if map_of (s_data sec) GitServerSecretTokenField = None
     then throw (errorf (''failed to get field '' @ GitServerSecretTokenField @ '' from '' @ secretName @
            '' secret''))
     else ret sec)"

text \<open>Every error on the way is logged and ends the handler without an error.\<close>

definition DeleteWebHook_ServeRequest :: "env \<Rightarrow> (codebase st, unit) prog" where
  "DeleteWebHook_ServeRequest E =
     bindp (gets obj) (\<lambda>cb.
     if cs_ciTool (c_spec cb) \<noteq> CITekton then ret ()
     else if GetWebHookRef (c_status cb) = [] then ret ()
     else
       ignoring
         (bindp (kget GitServers E (m_ns (c_meta cb)) (cs_gitServer (c_spec cb))) (\<lambda>gs.
          bindp (DeleteWebHook_getGitServerSecret E (gs_nameSshKeySecret (gs_spec gs)) (m_ns (c_meta cb)))
            (\<lambda>sec.
          let tok = smap_get (s_data sec) GitServerSecretTokenField in
          bindp (NewProvider E gs tok) (\<lambda>_.
          provider E gs tok (HookDelete (GetProjectID (c_spec cb)) (GetWebHookRef (c_status cb))))))))"

section \<open>put_gitlab_ci_config.go and pkg/gitlab/manager.go\<close>

abbreviation GitLabCIFileName :: string where "GitLabCIFileName \<equiv> ''.gitlab-ci.yml''"

definition getTemplateFromConfigMap :: "env \<Rightarrow> string \<Rightarrow> string \<Rightarrow> ('o st, string) prog" where
  "getTemplateFromConfigMap E configMapName ns =
     bindp (kget ConfigMaps E ns configMapName) (\<lambda>cm.
     if smap_get (cm_data cm) GitLabCIFileName = []
     then throw (errorf (''no '' @ GitLabCIFileName @ '' template found in ConfigMap '' @ configMapName))
     else ret (smap_get (cm_data cm) GitLabCIFileName))"

definition getGitLabCITemplate :: "env \<Rightarrow> codebase \<Rightarrow> ('o st, string) prog" where
  "getGitLabCITemplate E cb =
     (let ann = smap_get (m_annotations (c_meta cb)) GitLabCITemplateAnnotation;
          configMapName = (if ann \<noteq> [] then ann else ''gitlab-ci-default'') in
      wrapping (''failed to get GitLab CI template from ConfigMap '' @ quoted configMapName)
        (getTemplateFromConfigMap E configMapName (m_ns (c_meta cb))))"

definition InjectGitLabCIConfig :: "env \<Rightarrow> codebase \<Rightarrow> string \<Rightarrow> ('o st, unit) prog" where
  "InjectGitLabCIConfig E cb workDir =
     (let gitlabCIPath = path_join [workDir, GitLabCIFileName] in
      bindp (gets (\<lambda>s. fs_stat E (log s) gitlabCIPath)) (\<lambda>st.
      if st = StatOk then ret ()
      else
        bindp (wrapping ''failed to get GitLab CI template'' (getGitLabCITemplate E cb)) (\<lambda>tmpl.
        wrapping (''failed to write '' @ GitLabCIFileName)
          (fs E (FsWrite gitlabCIPath (replace_all ''{{.CodebaseName}}'' (m_name (c_meta cb)) tmpl))))))"

definition gitlabCIAlreadyExists :: "env \<Rightarrow> codebase \<Rightarrow> ('o st, bool) prog" where
  "gitlabCIAlreadyExists E cb =
     gets (\<lambda>s. fs_stat E (log s)
       (path_join [GetWorkDir E (m_name (c_meta cb)) (m_ns (c_meta cb)), GitLabCIFileName]) = StatOk)"

abbreviation push_branches :: "string list" where
  "push_branches \<equiv> [''refs/heads/*:refs/heads/*'']"

text \<open>
  Committing what was prepared in the working copy and pushing it. The error of the
  preparation sets the failed fields at once, and the caller sets them again.
\<close>

definition commit_and_push :: "env \<Rightarrow> git_repository_context \<Rightarrow> string \<Rightarrow> ('o st, unit) prog" where
  "commit_and_push E rc message =
     bindp (wrapping ''failed to commit changes''
       (git E (rc_config rc) (GitCommit (rc_workDir rc) message False))) (\<lambda>_.
     wrapping ''failed to push changes'' (git E (rc_config rc) (GitPush (rc_workDir rc) push_branches)))"

definition prepare_repository ::
  "env \<Rightarrow> string \<Rightarrow> codebase \<Rightarrow> (codebase st, git_repository_context) prog" where
  "prepare_repository E action cb =
     catchp (PrepareGitRepository E cb) (\<lambda>err.
       bindp (setFailedFields E action (err_msg err)) (\<lambda>_.
       throw (wrap_err ''failed to prepare git repository'' err)))"

definition tryToPushGitLabCIConfig :: "env \<Rightarrow> codebase \<Rightarrow> (codebase st, unit) prog" where
  "tryToPushGitLabCIConfig E cb =
     bindp (prepare_repository E RepositoryProvisioning cb) (\<lambda>rc.
     bindp (wrapping ''failed to inject GitLab CI config'' (InjectGitLabCIConfig E cb (rc_workDir rc)))
       (\<lambda>_.
     commit_and_push E rc ''Add GitLab CI configuration''))"

definition PutGitLabCIConfig_ServeRequest :: "env \<Rightarrow> (codebase st, unit) prog" where
  "PutGitLabCIConfig_ServeRequest E =
     bindp (gets obj) (\<lambda>cb.
     if cs_ciTool (c_spec cb) \<noteq> CIGitLab then ret ()
     else if ct_git (c_status cb) = ProjectGitLabCIPushedStatus \<or>
             ct_git (c_status cb) = ProjectTemplatesPushedStatus then ret ()
     else
       bindp (gitlabCIAlreadyExists E cb) (\<lambda>exists.
       if exists then ret ()
       else
         bindp (catchp (tryToPushGitLabCIConfig E cb) (\<lambda>err.
           bindp (setFailedFields E RepositoryProvisioning (err_msg err)) (\<lambda>_.
           throw (wrap_err (''failed to push GitLab CI config for '' @ m_name (c_meta cb) @ '' codebase'')
             err)))) (\<lambda>_.
         updateGitStatusWithPatch E RepositoryProvisioning ProjectGitLabCIPushedStatus)))"

section \<open>put_deploy_configs.go\<close>

definition addCommitHooks :: "env \<Rightarrow> string \<Rightarrow> ('o st, unit) prog" where
  "addCommitHooks E wd =
     (let destinationPath = wd @ ''/.git/hooks'' in
      bindp (wrapping (''failed to create folder '' @ destinationPath)
        (CreateDirectory E destinationPath)) (\<lambda>_.
      bindp (wrapping ''failed to get assets dir'' (lift (GetAssetsDir E))) (\<lambda>assetsDir.
      wrapping ''failed to copy file commit-msg''
        (CopyFile E (assetsDir @ ''/configs/commit-msg'') (destinationPath @ ''/commit-msg'')))))"

definition tryToPushConfigs :: "env \<Rightarrow> codebase \<Rightarrow> (codebase st, unit) prog" where
  "tryToPushConfigs E cb =
     (if ct_git (c_status cb) = ProjectTemplatesPushedStatus then ret ()
      else
        bindp (prepare_repository E SetupDeploymentTemplates cb) (\<lambda>rc.
        bindp (if gs_gitProvider (gs_spec (rc_gitServer rc)) = GitProviderGerrit
               then wrapping ''failed to add commit hooks'' (addCommitHooks E (rc_workDir rc))
               else ret ()) (\<lambda>_.
        bindp (wrapping ''failed to prepare template'' (PrepareTemplates E cb (rc_workDir rc))) (\<lambda>_.
        bindp (commit_and_push E rc (''Add deployment templates for '' @ m_name (c_meta cb))) (\<lambda>_.
        updateGitStatusWithPatch E SetupDeploymentTemplates ProjectTemplatesPushedStatus)))))"

definition PutDeployConfigs_ServeRequest :: "env \<Rightarrow> (codebase st, unit) prog" where
  "PutDeployConfigs_ServeRequest E =
     bindp (gets obj) (\<lambda>cb.
     if cs_disablePutDeployTemplates (c_spec cb) then ret ()
     else if cs_type (c_spec cb) \<noteq> Application then ret ()
     else
       catchp (tryToPushConfigs E cb) (\<lambda>err.
         bindp (setFailedFields E SetupDeploymentTemplates (err_msg err)) (\<lambda>_.
         throw (wrap_err (''failed to push deploy configs for '' @ m_name (c_meta cb) @ '' codebase'')
           err))))"

section \<open>put_default_codebasebranch.go\<close>

definition processNameToKubernetesConvention :: "string \<Rightarrow> string" where
  "processNameToKubernetesConvention name = map (\<lambda>c. if c = CHR ''/'' then CHR ''-'' else c) name"

definition new_branch :: "string \<Rightarrow> string \<Rightarrow> branch_spec \<Rightarrow> branch" where
  "new_branch name ns sp =
     \<lparr>b_meta = new_meta name ns, b_spec = sp,
      b_status = \<lparr>bt_lastTimeUpdated = 0, bt_versionHistory = [], bt_lastSuccessfulBuild = None,
        bt_build = None, bt_status = [], bt_username = [], bt_action = [], bt_result = [],
        bt_detailedMessage = [], bt_value = [], bt_failureCount = 0, bt_git = [], bt_conditions = []\<rparr>\<rparr>"

definition default_branch :: "codebase \<Rightarrow> branch" where
  "default_branch cb =
     new_branch
       (m_name (c_meta cb) @ ''-'' @ processNameToKubernetesConvention (cs_defaultBranch (c_spec cb)))
       (m_ns (c_meta cb))
       \<lparr>bs_codebaseName = m_name (c_meta cb), bs_branchName = cs_defaultBranch (c_spec cb),
        bs_fromCommit = [],
        bs_version = (if cs_versioningType (c_spec cb) \<noteq> VersioningTypDefault
                      then cs_startFrom (c_spec cb) else None),
        bs_release = False, bs_pipelines = None\<rparr>"

definition PutDefaultCodeBaseBranch_ServeRequest :: "env \<Rightarrow> (codebase st, unit) prog" where
  "PutDefaultCodeBaseBranch_ServeRequest E =
     bindp (gets obj) (\<lambda>cb.
     let branch = default_branch cb in
     bindp (attempt (kget Branches E (m_ns (c_meta cb)) (m_name (b_meta branch)))) (\<lambda>r.
     case r of
       Inr _ \<Rightarrow> ret ()
     | Inl err \<Rightarrow>
         if \<not> errors_is err KNotFound then throw (wrap_err ''failed to get codebase branch'' err)
         else
           bindp (wrapping ''failed to create codebase branch'' (kcreate Branches E branch)) (\<lambda>_.
           ret ())))"

section \<open>cleaner.go\<close>

definition deleteSecret :: "env \<Rightarrow> codebase \<Rightarrow> ('o st, unit) prog" where
  "deleteSecret E cb =
     (if (case cs_cloneCredentials (c_spec cb) of None \<Rightarrow> False
            | Some cc \<Rightarrow> \<not> cc_clearSecretAfterUse cc) then ret ()
      else
        bindp (attempt (kdelete Secrets E
          \<lparr>s_meta = new_meta (GetCloneRepositoryCredentialSecret cb) (m_ns (c_meta cb)), s_data = []\<rparr>))
          (\<lambda>r.
        case r of
          Inr _ \<Rightarrow> ret ()
        | Inl e \<Rightarrow>
            if errors_is e KNotFound then ret ()
            else throw (wrap_err ''failed to delete secret with repository credentials for clone'' e)))"

definition deleteWorkDirectory :: "env \<Rightarrow> string \<Rightarrow> ('o st, unit) prog" where
  "deleteWorkDirectory E dir = wrapping (''failed to delete directory '' @ dir) (RemoveDirectory E dir)"

definition clean :: "env \<Rightarrow> codebase \<Rightarrow> ('o st, unit) prog" where
  "clean E cb =
     bindp (attempt (deleteSecret E cb)) (\<lambda>r1.
     bindp (attempt (deleteWorkDirectory E (GetWorkDir E (m_name (c_meta cb)) (m_ns (c_meta cb))))) (\<lambda>r2.
     case join_errs ((case r1 of Inl e \<Rightarrow> [e] | Inr _ \<Rightarrow> []) @ (case r2 of Inl e \<Rightarrow> [e] | Inr _ \<Rightarrow> [])) of
       None \<Rightarrow> ret ()
     | Some e \<Rightarrow> throw e))"

definition Cleaner_ServeRequest :: "env \<Rightarrow> (codebase st, unit) prog" where
  "Cleaner_ServeRequest E =
     bindp (gets obj) (\<lambda>cb. processCodebaseError E CleanData (clean E cb))"

section \<open>chain.go and factory.go\<close>

definition codebase_chain_ServeRequest :: "(codebase st, unit) prog list \<Rightarrow> (codebase st, unit) prog" where
  "codebase_chain_ServeRequest handlers = for_each handlers (\<lambda>h. wrapping ''failed to serve handler'' h)"

definition MakeChain :: "env \<Rightarrow> (codebase st, unit) prog" where
  "MakeChain E = codebase_chain_ServeRequest
     [PutGitWebRepoUrl_ServeRequest E, PutProject_ServeRequest E, PutWebHook_ServeRequest E,
      PutGitLabCIConfig_ServeRequest E, PutDeployConfigs_ServeRequest E,
      PutDefaultCodeBaseBranch_ServeRequest E, Cleaner_ServeRequest E]"

definition MakeDeletionChain :: "env \<Rightarrow> (codebase st, unit) prog" where
  "MakeDeletionChain E = codebase_chain_ServeRequest
     [DeleteWebHook_ServeRequest E, Cleaner_ServeRequest E]"

end
