(* ===== verification/Git_Path_Label.thy ===== *)
theory Git_Path_Label
  imports Prelude "HOL-Library.Word"
begin

text \<open>
  \<open>pkg/util/gitpathlabel/gitpathlabel.go\<close>: the label value that identifies a repository, with
  SHA-256 of Go's standard library on byte strings, its words 32 bits wide.
\<close>

unbundle bit_operations_syntax

section \<open>SHA-256\<close>

type_synonym w32 = "32 word"

definition sha_init :: "w32 list" where
  "sha_init = [0x6a09e667, 0xbb67ae85, 0x3c6ef372, 0xa54ff53a, 0x510e527f, 0x9b05688c, 0x1f83d9ab,
     0x5be0cd19]"

definition sha_k :: "w32 list" where
  "sha_k = [
     0x428a2f98, 0x71374491, 0xb5c0fbcf, 0xe9b5dba5, 0x3956c25b, 0x59f111f1, 0x923f82a4, 0xab1c5ed5,
     0xd807aa98, 0x12835b01, 0x243185be, 0x550c7dc3, 0x72be5d74, 0x80deb1fe, 0x9bdc06a7, 0xc19bf174,
     0xe49b69c1, 0xefbe4786, 0x0fc19dc6, 0x240ca1cc, 0x2de92c6f, 0x4a7484aa, 0x5cb0a9dc, 0x76f988da,
     0x983e5152, 0xa831c66d, 0xb00327c8, 0xbf597fc7, 0xc6e00bf3, 0xd5a79147, 0x06ca6351, 0x14292967,
     0x27b70a85, 0x2e1b2138, 0x4d2c6dfc, 0x53380d13, 0x650a7354, 0x766a0abb, 0x81c2c92e, 0x92722c85,
     0xa2bfe8a1, 0xa81a664b, 0xc24b8b70, 0xc76c51a3, 0xd192e819, 0xd6990624, 0xf40e3585, 0x106aa070,
     0x19a4c116, 0x1e376c08, 0x2748774c, 0x34b0bcb5, 0x391c0cb3, 0x4ed8aa4a, 0x5b9cca4f, 0x682e6ff3,
     0x748f82ee, 0x78a5636f, 0x84c87814, 0x8cc70208, 0x90befffa, 0xa4506ceb, 0xbef9a3f7, 0xc67178f2]"

definition rotr :: "nat \<Rightarrow> w32 \<Rightarrow> w32" where
  "rotr n x = drop_bit n x OR push_bit (32 - n) x"

definition big_endian :: "nat \<Rightarrow> nat \<Rightarrow> nat list" where
  "big_endian bytes n = map (\<lambda>i. n div 256 ^ (bytes - 1 - i) mod 256) [0..<bytes]"

definition sha_pad :: "nat list \<Rightarrow> nat list" where
  "sha_pad bytes =
     bytes @ [128] @ replicate ((119 - length bytes mod 64) mod 64) 0 @ big_endian 8 (8 * length bytes)"

fun words_of :: "nat list \<Rightarrow> w32 list" where
  "words_of (a # b # c # d # rest) =
     word_of_nat (((a * 256 + b) * 256 + c) * 256 + d) # words_of rest"
| "words_of _ = []"

text \<open>The message schedule, the newest word first.\<close>

fun schedule :: "nat \<Rightarrow> w32 list \<Rightarrow> w32 list" where
  "schedule 0 ws = rev ws"
| "schedule (Suc n) ws =
     (let w15 = ws ! 14; w2 = ws ! 1;
          s0 = rotr 7 w15 XOR rotr 18 w15 XOR drop_bit 3 w15;
          s1 = rotr 17 w2 XOR rotr 19 w2 XOR drop_bit 10 w2
      in schedule n ((ws ! 15 + s0 + ws ! 6 + s1) # ws))"

type_synonym sha_state = "w32 \<times> w32 \<times> w32 \<times> w32 \<times> w32 \<times> w32 \<times> w32 \<times> w32"

fun sha_round :: "w32 \<times> w32 \<Rightarrow> sha_state \<Rightarrow> sha_state" where
  "sha_round (k, w) (a, b, c, d, e, f, g, h) =
     (let s1 = rotr 6 e XOR rotr 11 e XOR rotr 25 e;
          ch = (e AND f) XOR (NOT e AND g);
          t1 = h + s1 + ch + k + w;
          s0 = rotr 2 a XOR rotr 13 a XOR rotr 22 a;
          maj = (a AND b) XOR (a AND c) XOR (b AND c)
      in (t1 + s0 + maj, a, b, c, d + t1, e, f, g))"

fun sha_block :: "w32 list \<Rightarrow> sha_state \<Rightarrow> sha_state" where
  "sha_block block (a, b, c, d, e, f, g, h) =
     (case fold sha_round (zip sha_k (schedule 48 (rev block))) (a, b, c, d, e, f, g, h) of
        (a2, b2, c2, d2, e2, f2, g2, h2) \<Rightarrow>
          (a + a2, b + b2, c + c2, d + d2, e + e2, f + f2, g + g2, h + h2))"

function blocks :: "'a list \<Rightarrow> 'a list list" where
  "blocks xs = (if xs = [] then [] else take 16 xs # blocks (drop 16 xs))"
  by pat_completeness auto
termination by (relation "measure length") auto

declare blocks.simps [simp del]

definition sha256 :: "string \<Rightarrow> nat list" where
  "sha256 s =
     (case fold sha_block (blocks (words_of (sha_pad (map of_char s))))
         (0x6a09e667, 0xbb67ae85, 0x3c6ef372, 0xa54ff53a, 0x510e527f, 0x9b05688c, 0x1f83d9ab, 0x5be0cd19) of
        (a, b, c, d, e, f, g, h) \<Rightarrow>
          concat (map (\<lambda>w. big_endian 4 (unat w)) [a, b, c, d, e, f, g, h]))"

definition hex_digit :: "nat \<Rightarrow> char" where
  "hex_digit n = ''0123456789abcdef'' ! (n mod 16)"

definition hex_encode :: "nat list \<Rightarrow> string" where
  "hex_encode bytes = concat (map (\<lambda>b. [hex_digit (b div 16), hex_digit b]) bytes)"

section \<open>The label\<close>

abbreviation hashLen :: nat where "hashLen \<equiv> 32"

definition normal_path :: "string \<Rightarrow> string" where
  "normal_path gitUrlPath =
     (let path = to_lower gitUrlPath in if has_prefix ''/'' path then path else ''/'' @ path)"

definition gitpathlabel_Hash :: "string \<Rightarrow> string" where
  "gitpathlabel_Hash gitUrlPath = take hashLen (hex_encode (sha256 (normal_path gitUrlPath)))"

lemma length_big_endian [simp]: "length (big_endian n x) = n"
  by (simp add: big_endian_def)

lemma length_sha256: "length (sha256 s) = 32"
  by (simp add: sha256_def split: prod.split)

lemma length_hex_encode [simp]: "length (hex_encode bs) = 2 * length bs"
  by (induction bs) (simp_all add: hex_encode_def)

abbreviation hex_chars :: "char set" where
  "hex_chars \<equiv> set ''0123456789abcdef''"

lemma hex_digit_char: "hex_digit n \<in> hex_chars"
  unfolding hex_digit_def by (rule nth_mem) simp

lemma hex_digits: "set (hex_encode bs) \<subseteq> hex_chars"
proof
  fix c assume "c \<in> set (hex_encode bs)"
  then obtain n where "c = hex_digit n" by (auto simp: hex_encode_def)
  then show "c \<in> hex_chars" using hex_digit_char by blast
qed

lemma lower_char_slash: "lower_char c = CHR ''/'' \<longleftrightarrow> c = CHR ''/''"
proof
  assume slash: "lower_char c = CHR ''/''"
  let ?n = "of_char c :: nat"
  show "c = CHR ''/''"
  proof (cases "65 \<le> ?n \<and> ?n \<le> 90")
    case True
    then have "of_char (lower_char c) = ?n + 32" by (simp add: lower_char_def Let_def of_char_of)
    with slash True show ?thesis by simp
  qed (use slash in \<open>auto simp: lower_char_def Let_def\<close>)
qed (simp add: lower_char_def)

lemma normal_path_eq: "normal_path p = ''/'' @ to_lower (trim_prefix ''/'' p)"
proof (cases p)
  case (Cons c cs)
  have "lower_char CHR ''/'' = CHR ''/''" by (simp add: lower_char_slash)
  with Cons show ?thesis
    by (simp add: normal_path_def Let_def has_prefix_def trim_prefix_def to_lower_def lower_char_slash)
qed (simp add: normal_path_def has_prefix_def trim_prefix_def to_lower_def)

text \<open>
  C23: The label value of a repository path is a legal label, 32 lower-case hexadecimal digits,
  and it does not depend on the letter case of the path nor on whether the path starts with its
  slash: it is the value of the path in lower case behind exactly that slash.
\<close>

theorem path_hash_identifies_repository:
  "length (gitpathlabel_Hash p) = 32 \<and> set (gitpathlabel_Hash p) \<subseteq> hex_chars \<and>
   gitpathlabel_Hash p = gitpathlabel_Hash (''/'' @ to_lower (trim_prefix ''/'' p))"
proof -
  let ?q = "''/'' @ to_lower (trim_prefix ''/'' p)"
  have "normal_path ?q = normal_path p"
    by (simp only: normal_path_eq trim_prefix_append to_lower_idem)
  moreover have "set (take hashLen (hex_encode bs)) \<subseteq> hex_chars" for bs
    using set_take_subset hex_digits by fast
  ultimately show ?thesis by (simp only: gitpathlabel_Hash_def) (simp add: length_sha256)
qed

end
