(* ===== verification/Codebase_Controller.thy ===== *)
theory Codebase_Controller
  imports Codebase_Handlers Git_Path_Label
begin

text \<open>
  \<open>controllers/codebase/codebase_controller.go\<close>: the reconciliation of a Codebase around
  the chain of \<open>Codebase_Handlers\<close>: defaults, finalizers, deletion, labels, the chain, and
  what becomes of its error.
\<close>

abbreviation codebaseOperatorFinalizerName :: string where
  "codebaseOperatorFinalizerName \<equiv> ''codebase.operator.finalizer.name''"
abbreviation codebaseTypeLabelName :: string where
  "codebaseTypeLabelName \<equiv> ''app.edp.epam.com/codebaseType''"

section \<open>Finalizers, directory, labels\<close>

definition set_codebase_meta :: "(objmeta \<Rightarrow> objmeta) \<Rightarrow> codebase \<Rightarrow> codebase" where
  "set_codebase_meta f c = c\<lparr>c_meta := f (c_meta c)\<rparr>"

definition addFinalizer :: "env \<Rightarrow> string \<Rightarrow> (codebase st, bool) prog" where
  "addFinalizer E f =
     bindp (gets obj) (\<lambda>c.
     case l_addFinalizer (lib_of E) f (m_finalizers (c_meta c)) of
       (was_added, fin) \<Rightarrow>
         bindp (set_obj (set_codebase_meta (\<lambda>m. m\<lparr>m_finalizers := fin\<rparr>))) (\<lambda>_. ret was_added))"

definition update_codebase :: "env \<Rightarrow> (codebase st, unit) prog" where
  "update_codebase E =
     bindp (gets obj) (\<lambda>c.
     wrapping (''failed to update '' @ in_quotes ''Codebase'' @ '' resource '' @ quoted (m_name (c_meta c)))
       (save VUpdate Codebases E))"

definition setFinalizers :: "env \<Rightarrow> (codebase st, unit) prog" where
  "setFinalizers E =
     bindp (gets obj) (\<lambda>c.
     if \<not> is_zero_time (m_deletion (c_meta c)) then ret ()
     else
       bindp (addFinalizer E codebaseOperatorFinalizerName) (\<lambda>a1.
       bindp (addFinalizer E ForegroundDeletionFinalizerName) (\<lambda>a2.
       if a1 \<or> a2 then update_codebase E else ret ())))"

definition removeDirectoryIfExists :: "env \<Rightarrow> (codebase st, unit) prog" where
  "removeDirectoryIfExists E =
     bindp (gets obj) (\<lambda>c.
     let wd = GetWorkDir E (m_name (c_meta c)) (m_ns (c_meta c)) in
     wrapping (''failed to remove directory '' @ wd) (RemoveDirectory E wd))"

definition init_labels :: "codebase_spec \<Rightarrow> smap \<Rightarrow> smap" where
  "init_labels sp labels =
     (let l1 = (if map_of labels codebaseTypeLabelName = None
                then smap_put codebaseTypeLabelName (cs_type sp) labels else labels);
          hash = gitpathlabel_Hash (cs_gitUrlPath sp)
      in if smap_get l1 GitUrlPathHashLabel \<noteq> hash then smap_put GitUrlPathHashLabel hash l1 else l1)"

definition labels_changed :: "codebase_spec \<Rightarrow> smap \<Rightarrow> bool" where
  "labels_changed sp labels \<longleftrightarrow>
     map_of labels codebaseTypeLabelName = None \<or>
     smap_get labels GitUrlPathHashLabel \<noteq> gitpathlabel_Hash (cs_gitUrlPath sp)"

text \<open>
  A label map that exists is changed in place; the patch is computed against the deep copy
  taken before.
\<close>

definition initLabels :: "env \<Rightarrow> (codebase st, unit) prog" where
  "initLabels E =
     bindp (gets obj) (\<lambda>c.
     let labels = labels_of (c_meta c) in
     if \<not> labels_changed (c_spec c) labels then ret ()
     else
       bindp (set_obj (set_codebase_meta (\<lambda>m. m\<lparr>m_labels := Some (init_labels (c_spec c) labels)\<rparr>)))
         (\<lambda>_.
       wrapping (''failed to patch '' @ in_quotes ''Codebase'' @ '' resource '' @
           quoted (m_name (c_meta c)))
         (save_from VPatch Codebases E c)))"

section \<open>Deletion, failure, success\<close>

definition tryToDeleteCodebase :: "env \<Rightarrow> (codebase st, reconcile_result option) prog" where
  "tryToDeleteCodebase E =
     bindp (gets obj) (\<lambda>c.
     if is_zero_time (m_deletion (c_meta c)) then ret None
     else
       bindp (removeDirectoryIfExists E) (\<lambda>_.
       bindp (wrapping ''failed to make deletion chain'' (MakeDeletionChain E)) (\<lambda>_.
       bindp (set_obj (set_codebase_meta (\<lambda>m.
         m\<lparr>m_finalizers := l_removeFinalizer (lib_of E) codebaseOperatorFinalizerName (m_finalizers m)\<rparr>)))
         (\<lambda>_.
       bindp (update_codebase E) (\<lambda>_.
       ret (Some no_requeue))))))"

definition finish_status :: "int \<Rightarrow> codebase_status \<Rightarrow> codebase_status" where
  "finish_status t st =
     \<lparr>ct_available = True, ct_lastTimeUpdated = t, ct_status = StatusFinished,
      ct_username = ''system'', ct_action = SetupDeploymentTemplates, ct_result = ResultSuccess,
      ct_detailedMessage = [], ct_value = ''active'', ct_failureCount = 0, ct_git = ct_git st,
      ct_webHookID = ct_webHookID st, ct_webHookRef = GetWebHookRef st,
      ct_gitWebUrl = ct_gitWebUrl st\<rparr>"

definition updateFinishStatus :: "env \<Rightarrow> (codebase st, unit) prog" where
  "updateFinishStatus E =
     bindp (now E) (\<lambda>t.
     bindp (set_obj (\<lambda>c. c\<lparr>c_status := finish_status t (c_status c)\<rparr>)) (\<lambda>_.
     wrapping ''failed to update Codebase status'' (save VStatusUpdate Codebases E)))"

abbreviation codebaseDefaultTimeout :: int where "codebaseDefaultTimeout \<equiv> 10 * second"

definition count_failure :: "codebase \<Rightarrow> codebase" where
  "count_failure c =
     c\<lparr>c_status := (c_status c)\<lparr>ct_failureCount := i64 (ct_failureCount (c_status c) + 1)\<rparr>\<rparr>"

definition setFailureCount :: "env \<Rightarrow> (codebase st, int) prog" where
  "setFailureCount E =
     bindp (gets obj) (\<lambda>c.
     let timeout = GetTimeout E (ct_failureCount (c_status c)) codebaseDefaultTimeout in
     bindp (set_obj count_failure) (\<lambda>_.
     bindp (ignoring (save VStatusUpdate Codebases E)) (\<lambda>_.
     ret timeout)))"

section \<open>The reconciliation\<close>

text \<open>The chain, and what follows its outcome.\<close>

definition serve_codebase :: "env \<Rightarrow> (codebase st, reconcile_result) prog" where
  "serve_codebase E =
     bindp (attempt (MakeChain E)) (\<lambda>r.
     case r of
       Inl _ \<Rightarrow>
         bindp (setFailureCount E) (\<lambda>timeout.
         bindp (ignoring (removeDirectoryIfExists E)) (\<lambda>_.
         ret (requeue_after timeout)))
     | Inr _ \<Rightarrow>
         bindp (gets obj) (\<lambda>c.
         bindp (wrapping (''failed to update '' @ m_name (c_meta c) @ '' Codebase status'')
           (updateFinishStatus E)) (\<lambda>_.
         ret no_requeue)))"

definition reconcile_codebase :: "env \<Rightarrow> (codebase st, reconcile_result) prog" where
  "reconcile_codebase E =
     bindp (wrapping ''failed to apply codebase changes'' (modifier_Apply E)) (\<lambda>patched.
     if patched then ret no_requeue
     else
       bindp (wrapping ''failed to set finalizers'' (setFinalizers E)) (\<lambda>_.
       bindp (wrapping ''failed to try to delete codebase'' (tryToDeleteCodebase E)) (\<lambda>result.
       case result of
         Some r \<Rightarrow> ret r
       | None \<Rightarrow>
           bindp (wrapping ''failed to init labels for codebase'' (initLabels E)) (\<lambda>_.
           serve_codebase E))))"

definition Codebase_Reconcile :: "env \<Rightarrow> string \<Rightarrow> string \<Rightarrow> (codebase st, reconcile_result) prog" where
  "Codebase_Reconcile E ns name =
     bindp (attempt (kget Codebases E ns name)) (\<lambda>r.
     case r of
       Inl e \<Rightarrow>
         if errors_is e KNotFound then ret no_requeue
         else throw (wrap_err (''failed to fetch Codebase resource '' @ quoted (ns @ ''/'' @ name)) e)
     | Inr c \<Rightarrow> bindp (set_obj (\<lambda>_. c)) (\<lambda>_. reconcile_codebase E))"

end
