(* ===== verification/Codebase_Invariant.thy ===== *)
theory Codebase_Invariant
  imports Codebase_Controller
begin

text \<open>
  What the whole reconciliation of a Codebase keeps. A property of the Codebase in hand is
  carried through the chain when it survives the status fields the handlers set; every
  Codebase that is written on the way then has it too. The provisioning status never goes
  back, and a Codebase is available only after its project has been pushed.
\<close>

named_theorems outside_intros \<open>introduction rules of \<open>outside\<close>\<close>

section \<open>Programs that leave the Codebase alone\<close>

definition cb_write :: "event \<Rightarrow> bool" where
  "cb_write ev \<longleftrightarrow> (case ev of EvWrite v (ObjCodebase c) e \<Rightarrow> True | _ \<Rightarrow> False)"

lemma cb_write_simps [simp]:
  "cb_write (EvWrite v (ObjCodebase c) e)" "\<not> cb_write (EvGet k ns n)" "\<not> cb_write (EvList k ns sel)"
  "\<not> cb_write (EvGit cfg gc e)" "\<not> cb_write (EvGerrit gs key pc e)"
  "\<not> cb_write (EvProvider gs tok pc e)" "\<not> cb_write (EvFs f e)" "\<not> cb_write (EvRecord x ty r m)"
  "\<not> cb_write (EvWrite v (ObjSecret sec) e)" "\<not> cb_write (EvWrite v (ObjBranch br) e)"
  by (simp_all add: cb_write_def)

definition outside :: "('o st, 'a) prog \<Rightarrow> bool" where
  "outside m \<longleftrightarrow> appends (\<lambda>ev. \<not> cb_write ev) m \<and> (\<forall>x. keeps (\<lambda>s. obj s = x) m)"

lemma outsideI: "appends (\<lambda>ev. \<not> cb_write ev) m \<Longrightarrow> (\<And>x. keeps (\<lambda>s. obj s = x) m) \<Longrightarrow> outside m"
  by (simp add: outside_def)

lemma outside_reader: "reader m \<Longrightarrow> outside m"
  by (rule outsideI) (auto intro: reader_keeps elim!: reader_appends simp: is_read_def cb_write_def
      split: event.splits)

lemma outside_readers [outside_intros]:
  "outside (ret x)" "outside (throw e)" "outside (panic p)" "outside (gets f)" "outside (now E)"
  "outside (lift y)" "outside (kget R E ns n)" "outside (klist R E ns sel)"
  "outside (NewProvider E gs tok)" "outside (NewGitProjectProvider E gs tok)"
  by (intro outside_reader reader_intros)+

lemma outside_calls [outside_intros]:
  "outside (git E cfg gc)" "outside (git_string E cfg gc)" "outside (git_strings E cfg gc)"
  "outside (gerrit E gs key pc)" "outside (gerrit_ask E gs key pc)" "outside (provider E gs tok pc)"
  "outside (provider_ask E gs tok pc)" "outside (provider_string E gs tok pc)" "outside (fs E fc)"
  "outside (kwrite v Secrets E x1 x2)" "outside (kwrite v Branches E y1 y2)"
  by (rule outsideI; intro appends_intros keeps_intros; simp add: Secrets_def Branches_def)+

lemma outside_bindp [outside_intros]:
  "outside m \<Longrightarrow> (\<And>x. outside (f x)) \<Longrightarrow> outside (bindp m f)"
  and outside_catchp [outside_intros]:
  "outside k \<Longrightarrow> (\<And>e. outside (h e)) \<Longrightarrow> outside (catchp k h)"
  and outside_wrapping [outside_intros]: "outside k \<Longrightarrow> outside (wrapping pre k)"
  and outside_attempt [outside_intros]: "outside m \<Longrightarrow> outside (attempt m)"
  and outside_ignoring [outside_intros]: "outside j \<Longrightarrow> outside (ignoring j)"
  unfolding outside_def by (auto intro!: appends_intros keeps_intros)

lemma outside_if [outside_intros]:
  "(b \<Longrightarrow> outside m) \<Longrightarrow> (\<not> b \<Longrightarrow> outside n) \<Longrightarrow> outside (if b then m else n)"
  by simp

lemma outside_cases [outside_intros]:
  "(\<And>y. outside (f y)) \<Longrightarrow> outside m \<Longrightarrow> outside (case x of None \<Rightarrow> m | Some y \<Rightarrow> f y)"
  "(\<And>e. outside (g e)) \<Longrightarrow> (\<And>y. outside (f y)) \<Longrightarrow>
     outside (case z of Inl e \<Rightarrow> g e | Inr y \<Rightarrow> f y)"
  "(\<And>a b. outside (p a b)) \<Longrightarrow> outside (case w of (a, b) \<Rightarrow> p a b)"
  "outside m \<Longrightarrow> (\<And>u us. outside (q u us)) \<Longrightarrow> outside (case l of [] \<Rightarrow> m | u # us \<Rightarrow> q u us)"
  by (cases x; cases z; cases w; cases l; simp)+

lemma outside_case_stat [outside_intros]:
  "outside m \<Longrightarrow> outside n \<Longrightarrow> (\<And>e. outside (f e)) \<Longrightarrow>
   outside (case x of StatOk \<Rightarrow> m | StatNotExist \<Rightarrow> n | StatErr e \<Rightarrow> f e)"
  by (cases x) simp_all

lemma outside_for_each [outside_intros]: "(\<And>x. outside (f x)) \<Longrightarrow> outside (for_each xs f)"
  by (induction xs) (auto intro: outside_intros)

lemma outside_files [outside_intros]:
  "outside (CreateDirectory E d)" "outside (RemoveDirectory E d)" "outside (DoesDirectoryExist E d)"
  "outside (IsDirectoryEmpty E d)" "outside (CopyFile E a b)" "outside (ReadDir E d)"
  "outside (CopyFiles E a b)" "outside (ReplaceStringInFile E a b c)"
  "outside (GetListFilesInDirectory E d)"
  unfolding CreateDirectory_def RemoveDirectory_def DoesDirectoryExist_def IsDirectoryEmpty_def
    CopyFile_def ReadDir_def CopyFiles_def ReplaceStringInFile_def GetListFilesInDirectory_def Let_def
  by (intro outside_intros)+

lemma outside_repository [outside_intros]:
  "outside (GetRepositoryCredentialsIfExists E cb)" "outside (GetGitRepositoryContext E cb)"
  "outside (CheckoutBranch E b rc cb)"
  unfolding CheckoutBranch_def
  by (intro outside_intros outside_reader [OF reader_credentials] outside_reader [OF reader_context])+

lemma outside_prepare [outside_intros]: "outside (PrepareGitRepository E cb)"
  unfolding PrepareGitRepository_def by (intro outside_intros)

lemma outside_put_project [outside_intros]:
  "outside (remoteDefaultBranchAbsent E cb rc)" "outside (setDefaultBranch E rc cb)"
  "outside (pushProject E name rc)" "outside (createGerritProject E gs key name)"
  "outside (createGitThirdPartyProject E gs tok cb)" "outside (PutProject_checkoutBranch E cb rc)"
  "outside (emptyProjectProvisioning E rc)" "outside (notEmptyProjectProvisioning E cb rc)"
  unfolding remoteDefaultBranchAbsent_def setDefaultBranch_def pushProject_def createGerritProject_def
    createGitThirdPartyProject_def PutProject_checkoutBranch_def replaceDefaultBranch_def
    emptyProjectProvisioning_def notEmptyProjectProvisioning_def tryToCloneRepo_def squashCommits_def
    Let_def
  by (intro outside_intros)+

lemma outside_templates [outside_intros]: "outside (PrepareTemplates E cb wd)"
  unfolding PrepareTemplates_def CopyTemplate_def copySonarConfigs_def CopyHelmChartTemplates_def
    CopyRpmPackageTemplates_def createAndRenderTemplate_def renderTemplate_def create_file_def
    copy_readme_def Let_def
  by (intro outside_intros outside_reader [OF reader_template_config])

lemma outside_handlers [outside_intros]:
  "outside (get_git_server E cb)" "outside (getGitWebURL E gs cb)"
  "outside (PutWebHook_getGitServerSecret E n ns)" "outside (getWebHookUrl E gs)"
  "outside (webhook_exists E cb gs tok)" "outside (DeleteWebHook_getGitServerSecret E n ns)"
  "outside (InjectGitLabCIConfig E cb wd)" "outside (gitlabCIAlreadyExists E cb)"
  "outside (commit_and_push E rc msg)" "outside (addCommitHooks E wd)" "outside (clean E cb)"
  unfolding get_git_server_def getGitWebURL_def PutWebHook_getGitServerSecret_def getWebHookUrl_def
    getWebhookRouteUrl_def getWebhookHTTPRouteUrl_def getWebhookIngressUrl_def webhook_exists_def
    DeleteWebHook_getGitServerSecret_def InjectGitLabCIConfig_def getGitLabCITemplate_def
    getTemplateFromConfigMap_def gitlabCIAlreadyExists_def commit_and_push_def addCommitHooks_def
    clean_def deleteSecret_def deleteWorkDirectory_def Let_def
  by (intro outside_intros)+

lemma outside_whole_handlers [outside_intros]:
  "outside (PutDefaultCodeBaseBranch_ServeRequest E)" "outside (DeleteWebHook_ServeRequest E)"
  unfolding PutDefaultCodeBaseBranch_ServeRequest_def DeleteWebHook_ServeRequest_def Let_def
  by (intro outside_intros)+

section \<open>Properties carried through the handlers\<close>

text \<open>Every Codebase a write sends has \<open>W\<close>.\<close>

definition stored_ok :: "(codebase \<Rightarrow> bool) \<Rightarrow> event \<Rightarrow> bool" where
  "stored_ok W ev \<longleftrightarrow> (case ev of EvWrite v (ObjCodebase c) e \<Rightarrow> W c | _ \<Rightarrow> True)"

text \<open>The Codebase in hand has \<open>I\<close>, and what was written since \<open>h\<close> has \<open>W\<close>.\<close>

definition stays :: "(codebase \<Rightarrow> bool) \<Rightarrow> (codebase \<Rightarrow> bool) \<Rightarrow> history \<Rightarrow> codebase st \<Rightarrow> bool" where
  "stays I W h s \<longleftrightarrow> I (obj s) \<and> (\<exists>es. log s = h @ es \<and> list_all (stored_ok W) es)"

lemma stored_ok_simps [simp]: "stored_ok W (EvWrite v (ObjCodebase c) e) = W c"
  by (simp add: stored_ok_def)

lemma stored_ok_other: "\<not> cb_write ev \<Longrightarrow> stored_ok W ev"
  by (auto simp: stored_ok_def cb_write_def split: event.splits kobj.splits)

lemma stays_now: "I (obj s) \<Longrightarrow> stays I W (log s) s"
  by (simp add: stays_def)

lemma stays_obj: "stays I W h s \<Longrightarrow> I (obj s)"
  by (simp add: stays_def)

lemma stays_change: "stays I W h s \<Longrightarrow> J (obj s) \<Longrightarrow> stays J W h s"
  by (simp add: stays_def)

lemma stays_added: "stays I W (log s) t \<Longrightarrow> list_all (stored_ok W) (added s t)"
  by (auto simp: stays_def)

lemma stays_outside: "outside m \<Longrightarrow> keeps (stays I W h) m"
proof (rule keepsI)
  fix s assume m: "outside m" and s: "stays I W h s"
  from m have o: "obj (snd (m s)) = obj s" by (simp add: outside_def keeps_objD)
  from m obtain fs where fs: "log (snd (m s)) = log s @ fs" "list_all (\<lambda>ev. \<not> cb_write ev) fs"
    using appendsD [of "\<lambda>ev. \<not> cb_write ev" m s] by (auto simp: outside_def)
  then have "list_all (stored_ok W) fs" by (auto simp: list_all_iff stored_ok_other)
  with s o fs(1) show "stays I W h (snd (m s))" by (auto simp: stays_def)
qed

lemma stays_set: "(\<And>c. I c \<Longrightarrow> I (f c)) \<Longrightarrow> keeps (stays I W h) (set_obj f)"
  by (rule keepsI) (simp add: stays_def)

lemma stays_save_from:
  assumes "echoes E" and "\<And>c. I c \<Longrightarrow> W c"
  shows "keeps (stays I W h) (save_from v Codebases E b)"
  using assms by (intro keepsI) (auto simp: stays_def save_from_run Codebases_def dest: echoesD
      split: sum.split)

lemma stays_save: "echoes E \<Longrightarrow> (\<And>c. I c \<Longrightarrow> W c) \<Longrightarrow> keeps (stays I W h) (save v Codebases E)"
  unfolding save_def by (intro keeps_intros stays_save_from)

locale codebase_writes =
  fixes I W :: "codebase \<Rightarrow> bool"
  assumes written: "I c \<Longrightarrow> W c"
begin

abbreviation stay :: "history \<Rightarrow> (codebase st, 'a) prog \<Rightarrow> bool" where
  "stay h m \<equiv> keeps (stays I W h) m"

lemma stay_update: "echoes E \<Longrightarrow> stay h (update_codebase E)"
  unfolding update_codebase_def by (intro keeps_intros stays_save written)

lemma stay_directory: "stay h (removeDirectoryIfExists E)"
  unfolding removeDirectoryIfExists_def Let_def by (intro stays_outside outside_intros)

end

locale codebase_property = codebase_writes +
  assumes failed: "I c \<Longrightarrow> I (c\<lparr>c_status := failed_fields t a msg (c_status c)\<rparr>)"
    and intermediate: "I c \<Longrightarrow> I (c\<lparr>c_status := intermediate_fields t a (c_status c)\<rparr>)"
    and url: "I c \<Longrightarrow> I (c\<lparr>c_status := (c_status c)\<lparr>ct_gitWebUrl := u\<rparr>\<rparr>)"
    and hook: "I c \<Longrightarrow> I (c\<lparr>c_status := (c_status c)\<lparr>ct_webHookRef := w\<rparr>\<rparr>)"
begin

lemma stay_failed: "stay h (setFailedFields E a msg)"
  unfolding setFailedFields_def by (intro keeps_intros stays_outside outside_intros stays_set failed)

lemma stay_intermediate: "echoes E \<Longrightarrow> stay h (setIntermediateSuccessFields E a)"
  unfolding setIntermediateSuccessFields_def
  by (intro keeps_intros stays_save written stays_set intermediate)
     (auto intro: stays_outside outside_intros)

lemma stay_process: "stay h m \<Longrightarrow> stay h (processCodebaseError E a m)"
  unfolding processCodebaseError_def by (intro keeps_intros stay_failed)

lemma stay_handle: "stay h m \<Longrightarrow> stay h (handleError E msg m)"
  unfolding handleError_def by (intro keeps_intros stay_failed)

lemma stay_prepare: "stay h (prepare_repository E a cb)"
  unfolding prepare_repository_def by (intro keeps_intros stay_failed stays_outside outside_intros)

lemma stay_git:
  assumes "echoes E" and "\<And>c. I c \<Longrightarrow> I (c\<lparr>c_status := (c_status c)\<lparr>ct_git := g\<rparr>\<rparr>)"
  shows "stay h (updateGitStatusWithPatch E a g)"
  unfolding updateGitStatusWithPatch_def
  by (intro keeps_intros stays_set assms stays_save_from written stay_failed)

lemma stay_web_url: "echoes E \<Longrightarrow> stay h (PutGitWebRepoUrl_ServeRequest E)"
  unfolding PutGitWebRepoUrl_ServeRequest_def
  by (intro keeps_intros stay_process stays_outside outside_intros stays_set url stay_intermediate)

lemma stay_web_hook: "echoes E \<Longrightarrow> stay h (PutWebHook_ServeRequest E)"
  unfolding PutWebHook_ServeRequest_def Let_def
  by (intro keeps_intros stay_process stays_outside outside_intros stays_set hook stay_intermediate)

lemma stay_cleaner: "stay h (Cleaner_ServeRequest E)"
  unfolding Cleaner_ServeRequest_def by (intro keeps_intros stay_process stays_outside outside_intros)

lemma stay_default_branch: "stay h (PutDefaultCodeBaseBranch_ServeRequest E)"
  by (intro stays_outside outside_intros)

lemma stay_gitlab_ci:
  assumes "echoes E"
    and "\<And>c. I c \<Longrightarrow> I (c\<lparr>c_status := (c_status c)\<lparr>ct_git := ProjectGitLabCIPushedStatus\<rparr>\<rparr>)"
  shows "stay h (tryToPushGitLabCIConfig E cb)"
    and "stay h (updateGitStatusWithPatch E a ProjectGitLabCIPushedStatus)"
  unfolding tryToPushGitLabCIConfig_def
  by (intro keeps_intros stay_prepare stays_outside outside_intros)
     (rule stay_git [OF assms])

lemma stay_deploy_configs:
  assumes "echoes E"
    and "\<And>c. I c \<Longrightarrow> I (c\<lparr>c_status := (c_status c)\<lparr>ct_git := ProjectTemplatesPushedStatus\<rparr>\<rparr>)"
  shows "stay h (PutDeployConfigs_ServeRequest E)"
  unfolding PutDeployConfigs_ServeRequest_def tryToPushConfigs_def
  by (intro keeps_intros stay_prepare stay_failed stay_git [OF assms] stays_outside outside_intros)

lemma stay_put_project:
  assumes "echoes E"
    and "\<And>c. I c \<Longrightarrow> I (c\<lparr>c_status := (c_status c)\<lparr>ct_git := ProjectPushInProgressStatus\<rparr>\<rparr>)"
    and "\<And>c. I c \<Longrightarrow> I (c\<lparr>c_status := (c_status c)\<lparr>ct_git := ProjectPushedStatus\<rparr>\<rparr>)"
  shows "stay h (putProject E cb)"
  unfolding putProject_def adoptPushedProject_def initialProjectProvisioning_def createProject_def
  by (intro keeps_intros stay_handle stay_git [OF assms(1,2)] stay_git [OF assms(1,3)]
      stay_intermediate assms(1) stays_outside outside_intros)

end

text \<open>
  A property that looks at the status and the strategy only is untouched by the defaults,
  the finalizers and the labels.
\<close>

locale codebase_frame = codebase_writes +
  assumes frame: "I c \<Longrightarrow> c_status c' = c_status c \<Longrightarrow>
      cs_strategy (c_spec c') = cs_strategy (c_spec c) \<Longrightarrow> I c'"
begin

lemma stay_modifier:
  assumes "m \<in> set codebase_modifiers" shows "stay h (run_modifier m b)"
proof (rule keepsI)
  fix s assume s: "stays I W h s"
  have "c_status (snd (m c)) = c_status c \<and> cs_strategy (c_spec (snd (m c))) = cs_strategy (c_spec c)"
    for c
    using assms by (auto simp: codebase_modifiers_def trimCodebaseGitSuffix_def addCodebaseGitSuffix_def
        Let_def split: option.split)
  with s have "I (snd (m (obj s)))" by (intro frame [OF stays_obj [OF s]]) auto
  moreover have "snd (run_modifier m b s) = s\<lparr>obj := snd (m (obj s))\<rparr>"
    by (simp add: run_modifier_def split: prod.split outcome.split)
  ultimately show "stays I W h (snd (run_modifier m b s))" using s by (simp add: stays_def)
qed

lemma stay_Apply: "echoes E \<Longrightarrow> stay h (modifier_Apply E)"
  unfolding modifier_Apply_def by (intro keeps_intros stay_modifier stays_save_from written)

lemma stay_meta: "stay h (set_obj (set_codebase_meta f))"
  by (intro stays_set) (auto intro: frame simp: set_codebase_meta_def)

lemma stay_finalizers: "echoes E \<Longrightarrow> stay h (setFinalizers E)"
  unfolding setFinalizers_def addFinalizer_def by (intro keeps_intros stay_meta stay_update)

lemma stay_labels: "echoes E \<Longrightarrow> stay h (initLabels E)"
  unfolding initLabels_def Let_def by (intro keeps_intros stay_meta stays_save_from written)

end

text \<open>With both, the reconciliation keeps it when the chain and what follows the chain do.\<close>

locale codebase_status_property = codebase_property + codebase_frame +
  assumes count: "I c \<Longrightarrow> I (count_failure c)"
begin

lemma stay_deletion: "echoes E \<Longrightarrow> stay h (tryToDeleteCodebase E)"
  unfolding tryToDeleteCodebase_def MakeDeletionChain_def codebase_chain_ServeRequest_def
  by (intro keeps_intros stay_meta stay_update stay_directory)
     (auto intro: keeps_intros stay_cleaner stays_outside outside_intros)

lemma stay_failure: "echoes E \<Longrightarrow> stay h (setFailureCount E)"
  unfolding setFailureCount_def Let_def by (intro keeps_intros stays_set count stays_save written)

lemma stay_reconcile:
  "echoes E \<Longrightarrow> stay h (serve_codebase E) \<Longrightarrow> stay h (reconcile_codebase E)"
  unfolding reconcile_codebase_def
  by (intro keeps_intros stay_Apply stay_finalizers stay_deletion stay_labels)

end

section \<open>The provisioning status\<close>

text \<open>The phases of the provisioning, ordered as they follow each other.\<close>

datatype provisioning = NotStarted | PushInProgress | Pushed | GitLabCIPushed | TemplatesPushed

primrec provisioning_rank :: "provisioning \<Rightarrow> nat" where
  "provisioning_rank NotStarted = 0"
| "provisioning_rank PushInProgress = 1"
| "provisioning_rank Pushed = 2"
| "provisioning_rank GitLabCIPushed = 3"
| "provisioning_rank TemplatesPushed = 4"

lemma provisioning_rank_inject: "provisioning_rank x = provisioning_rank y \<longleftrightarrow> x = y"
  by (cases x; cases y; simp)

instantiation provisioning :: linorder
begin

definition less_eq_provisioning :: "provisioning \<Rightarrow> provisioning \<Rightarrow> bool" where
  "less_eq_provisioning x y \<longleftrightarrow> provisioning_rank x \<le> provisioning_rank y"

definition less_provisioning :: "provisioning \<Rightarrow> provisioning \<Rightarrow> bool" where
  "less_provisioning x y \<longleftrightarrow> provisioning_rank x < provisioning_rank y"

instance
  by standard (auto simp: less_eq_provisioning_def less_provisioning_def provisioning_rank_inject)

end

definition provisioning_of :: "codebase \<Rightarrow> provisioning" where
  "provisioning_of c =
     (let g = ct_git (c_status c) in
      if g = ProjectTemplatesPushedStatus then TemplatesPushed
      else if g = ProjectGitLabCIPushedStatus then GitLabCIPushed
      else if g = ProjectPushedStatus then Pushed
      else if g = ProjectPushInProgressStatus then PushInProgress else NotStarted)"

definition git_rank :: "codebase \<Rightarrow> nat" where
  "git_rank c = provisioning_rank (provisioning_of c)"

lemma git_rank_eq:
  "git_rank c =
     (let g = ct_git (c_status c) in
      if g = ProjectTemplatesPushedStatus then 4 else if g = ProjectGitLabCIPushedStatus then 3
      else if g = ProjectPushedStatus then 2 else if g = ProjectPushInProgressStatus then 1 else 0)"
  by (simp add: git_rank_def provisioning_of_def Let_def)

lemma provisioning_le_iff: "provisioning_of c \<le> provisioning_of c' \<longleftrightarrow> git_rank c \<le> git_rank c'"
  by (simp add: less_eq_provisioning_def git_rank_def)

lemma git_rank_bound: "git_rank c \<le> 4"
  by (simp add: git_rank_eq Let_def)

lemma git_rank_skip: "PutProject_skip c = False \<Longrightarrow> git_rank c \<le> 1"
  by (auto simp: git_rank_eq PutProject_skip_def skipPutProjectStatuses_def Let_def split: if_splits)

interpretation rank: codebase_status_property "\<lambda>c. n \<le> git_rank c" "\<lambda>c. n \<le> git_rank c" for n
  by unfold_locales
     (auto simp: git_rank_eq failed_fields_def intermediate_fields_def count_failure_def)

lemma rank_put_project:
  assumes "echoes E"
  shows "keeps (stays (\<lambda>c. n \<le> git_rank c) (\<lambda>c. n \<le> git_rank c) h) (PutProject_ServeRequest E)"
proof (rule keepsI)
  fix s assume s: "stays (\<lambda>c. n \<le> git_rank c) (\<lambda>c. n \<le> git_rank c) h s"
  show "stays (\<lambda>c. n \<le> git_rank c) (\<lambda>c. n \<le> git_rank c) h (snd (PutProject_ServeRequest E s))"
  proof (cases "PutProject_skip (obj s)")
    case False
    with git_rank_skip stays_obj [OF s] have "n \<le> 1" by fastforce
    then have "keeps (stays (\<lambda>c. n \<le> git_rank c) (\<lambda>c. n \<le> git_rank c) h) (putProject E (obj s))"
      by (intro rank.stay_put_project assms) (simp_all add: git_rank_eq)
    from keepsD [OF this s] False show ?thesis by (simp add: PutProject_ServeRequest_def)
  qed (use s in \<open>simp add: PutProject_ServeRequest_def\<close>)
qed

lemma rank_gitlab_ci:
  assumes "echoes E"
  shows "keeps (stays (\<lambda>c. n \<le> git_rank c) (\<lambda>c. n \<le> git_rank c) h) (PutGitLabCIConfig_ServeRequest E)"
proof (cases "n \<le> 3")
  case True
  then show ?thesis
    unfolding PutGitLabCIConfig_ServeRequest_def
    by (intro keeps_intros rank.stay_gitlab_ci rank.stay_failed assms stays_outside outside_intros)
       (simp_all add: git_rank_eq)
next
  case False
  show ?thesis
  proof (rule keepsI)
    fix s assume s: "stays (\<lambda>c. n \<le> git_rank c) (\<lambda>c. n \<le> git_rank c) h s"
    with False have "git_rank (obj s) > 3" using stays_obj [OF s] by simp
    then have "ct_git (c_status (obj s)) = ProjectTemplatesPushedStatus"
      by (auto simp: git_rank_eq Let_def split: if_splits)
    with s show "stays (\<lambda>c. n \<le> git_rank c) (\<lambda>c. n \<le> git_rank c) h
        (snd (PutGitLabCIConfig_ServeRequest E s))"
      by (simp add: PutGitLabCIConfig_ServeRequest_def)
  qed
qed

lemma rank_deploy_configs:
  assumes "echoes E"
  shows "keeps (stays (\<lambda>c. n \<le> git_rank c) (\<lambda>c. n \<le> git_rank c) h) (PutDeployConfigs_ServeRequest E)"
proof (cases "n \<le> 4")
  case True
  then show ?thesis by (intro rank.stay_deploy_configs assms) (simp add: git_rank_eq)
next
  case False
  then have "\<not> stays (\<lambda>c. n \<le> git_rank c) (\<lambda>c. n \<le> git_rank c) h s" for s
    using git_rank_bound [of "obj s"] by (auto simp: stays_def)
  then show ?thesis by (simp add: keeps_def)
qed

lemmas rank_handlers = rank.stay_web_url rank_put_project rank.stay_web_hook rank_gitlab_ci
  rank_deploy_configs rank.stay_default_branch rank.stay_cleaner

lemma rank_chain:
  assumes "echoes E"
  shows "keeps (stays (\<lambda>c. n \<le> git_rank c) (\<lambda>c. n \<le> git_rank c) h) (MakeChain E)"
  unfolding MakeChain_def codebase_chain_ServeRequest_def
  by (intro keeps_intros) (auto intro: rank_handlers assms)

lemma rank_finish:
  "echoes E \<Longrightarrow> keeps (stays (\<lambda>c. n \<le> git_rank c) (\<lambda>c. n \<le> git_rank c) h) (updateFinishStatus E)"
  unfolding updateFinishStatus_def
  by (intro keeps_intros stays_outside [OF outside_readers(5)] stays_save stays_set)
     (simp_all add: git_rank_eq finish_status_def)

lemma rank_serve:
  "echoes E \<Longrightarrow> keeps (stays (\<lambda>c. n \<le> git_rank c) (\<lambda>c. n \<le> git_rank c) h) (serve_codebase E)"
  unfolding serve_codebase_def
  by (intro keeps_intros rank_chain rank.stay_failure rank.stay_directory rank_finish)

section \<open>The type of a status\<close>

text \<open>
  The four fields that say how far a Codebase is tell one of three stories; the result is
  one the custom resource definition allows, the provisioning status is one the handlers
  know, and the counter is a 64-bit integer.
\<close>

definition codebase_phases :: "(bool \<times> string \<times> string \<times> string) list" where
  "codebase_phases =
     [(False, StatusFailed, ResultError, ''failed''), (False, StatusInProgress, ResultSuccess, ''inactive''),
      (True, StatusFinished, ResultSuccess, ''active'')]"

definition status_typed :: "codebase_status \<Rightarrow> bool" where
  "status_typed st \<longleftrightarrow>
     (ct_available st, ct_status st, ct_result st, ct_value st) \<in> set codebase_phases \<and>
     ct_git st \<in> set [[], ProjectPushInProgressStatus, ProjectPushedStatus, ProjectGitLabCIPushedStatus,
       ProjectTemplatesPushedStatus] \<and>
     - (2 ^ 63) \<le> ct_failureCount st \<and> ct_failureCount st < 2 ^ 63"

abbreviation typed :: "codebase \<Rightarrow> bool" where "typed c \<equiv> status_typed (c_status c)"

interpretation typed: codebase_status_property typed typed
  using i64_range
  by unfold_locales
     (auto simp: status_typed_def codebase_phases_def failed_fields_def intermediate_fields_def
        count_failure_def)

lemma typed_git:
  "g \<in> {ProjectPushInProgressStatus, ProjectPushedStatus, ProjectGitLabCIPushedStatus,
     ProjectTemplatesPushedStatus} \<Longrightarrow> typed c \<Longrightarrow> typed (c\<lparr>c_status := (c_status c)\<lparr>ct_git := g\<rparr>\<rparr>)"
  by (auto simp: status_typed_def)

lemma typed_put_project: "echoes E \<Longrightarrow> typed.stay h (PutProject_ServeRequest E)"
  unfolding PutProject_ServeRequest_def
  by (intro keeps_intros typed.stay_put_project typed_git) auto

lemma typed_gitlab_ci: "echoes E \<Longrightarrow> typed.stay h (PutGitLabCIConfig_ServeRequest E)"
  unfolding PutGitLabCIConfig_ServeRequest_def
  by (intro keeps_intros typed.stay_gitlab_ci typed.stay_failed stays_outside outside_intros typed_git) auto

lemma typed_deploy_configs: "echoes E \<Longrightarrow> typed.stay h (PutDeployConfigs_ServeRequest E)"
  by (intro typed.stay_deploy_configs typed_git) auto

lemma typed_chain: "echoes E \<Longrightarrow> typed.stay h (MakeChain E)"
  unfolding MakeChain_def codebase_chain_ServeRequest_def
  by (intro keeps_intros) (auto intro: typed.stay_web_url typed_put_project typed.stay_web_hook
      typed_gitlab_ci typed_deploy_configs typed.stay_default_branch typed.stay_cleaner)

lemma typed_finish: "echoes E \<Longrightarrow> typed.stay h (updateFinishStatus E)"
  unfolding updateFinishStatus_def
  by (intro keeps_intros stays_outside [OF outside_readers(5)] stays_save stays_set)
     (simp_all add: status_typed_def codebase_phases_def finish_status_def)

lemma typed_serve: "echoes E \<Longrightarrow> typed.stay h (serve_codebase E)"
  unfolding serve_codebase_def
  by (intro keeps_intros typed_chain typed.stay_failure typed.stay_directory typed_finish)

section \<open>Available Codebases\<close>

text \<open>A Codebase whose project the operator makes itself is available only when it is pushed.\<close>

definition made_here :: "codebase \<Rightarrow> bool" where
  "made_here c \<longleftrightarrow> cs_strategy (c_spec c) \<in> {StrategyClone, StrategyCreate}"

definition available_pushed :: "codebase \<Rightarrow> bool" where
  "available_pushed c \<longleftrightarrow> ct_available (c_status c) \<and> made_here c \<longrightarrow> 2 \<le> git_rank c"

definition unavailable :: "codebase \<Rightarrow> bool" where
  "unavailable c \<longleftrightarrow> \<not> ct_available (c_status c)"

lemmas availability_defs = available_pushed_def unavailable_def made_here_def failed_fields_def
  intermediate_fields_def count_failure_def git_rank_eq

interpretation available: codebase_status_property available_pushed available_pushed
  by unfold_locales (auto simp: availability_defs)

interpretation down: codebase_status_property unavailable available_pushed
  by unfold_locales (auto simp: availability_defs)

interpretation strategy: codebase_status_property "\<lambda>c. made_here c = b" "\<lambda>c. True" for b
  by unfold_locales (auto simp: made_here_def count_failure_def)

text \<open>The first handler takes the Codebase down, the others leave it so.\<close>

lemma down_handlers:
  assumes "echoes E"
  shows "keeps (stays unavailable available_pushed h) (PutProject_ServeRequest E)"
    and "keeps (stays unavailable available_pushed h) (PutGitLabCIConfig_ServeRequest E)"
    and "keeps (stays unavailable available_pushed h) (PutDeployConfigs_ServeRequest E)"
  unfolding PutProject_ServeRequest_def PutGitLabCIConfig_ServeRequest_def
  by (intro keeps_intros down.stay_put_project down.stay_gitlab_ci down.stay_failed
        down.stay_deploy_configs assms stays_outside outside_intros;
      simp add: unavailable_def)+

lemma intermediate_Ok:
  assumes "echoes E"
  shows "on_Ok P (setIntermediateSuccessFields E a) (\<lambda>_ s. unavailable (obj s))"
  using assms by (intro on_OkI) (auto simp: setIntermediateSuccessFields_def prog_runs save_run
      unavailable_def intermediate_fields_def Codebases_def dest: echoesD split: sum.splits)

lemma web_url_Ok:
  assumes "echoes E"
  shows "on_Ok (\<lambda>_. True) (PutGitWebRepoUrl_ServeRequest E) (\<lambda>_ s. unavailable (obj s))"
  unfolding PutGitWebRepoUrl_ServeRequest_def
  by (intro on_Ok_after) (simp_all add: keeps_def intermediate_Ok [OF assms])

text \<open>What a chain is when its first handler is taken off.\<close>

lemma chain_step:
  "codebase_chain_ServeRequest (m # ms) =
   bindp (wrapping ''failed to serve handler'' m) (\<lambda>_. codebase_chain_ServeRequest ms)"
  by (simp add: codebase_chain_ServeRequest_def)

lemma rest_of_chain:
  "MakeChain E =
   bindp (wrapping ''failed to serve handler'' (PutGitWebRepoUrl_ServeRequest E)) (\<lambda>_.
   codebase_chain_ServeRequest
     [PutProject_ServeRequest E, PutWebHook_ServeRequest E, PutGitLabCIConfig_ServeRequest E,
      PutDeployConfigs_ServeRequest E, PutDefaultCodeBaseBranch_ServeRequest E,
      Cleaner_ServeRequest E])"
  by (simp add: MakeChain_def chain_step)

lemma available_chain:
  assumes E: "echoes E"
  shows "keeps (stays available_pushed available_pushed h) (MakeChain E)"
proof (rule keepsI)
  fix s assume s: "stays available_pushed available_pushed h s"
  define s1 where "s1 = snd (PutGitWebRepoUrl_ServeRequest E s)"
  have s1: "stays available_pushed available_pushed h s1"
    unfolding s1_def by (rule keepsD [OF available.stay_web_url [OF E] s])
  let ?rest = "codebase_chain_ServeRequest
     [PutProject_ServeRequest E, PutWebHook_ServeRequest E, PutGitLabCIConfig_ServeRequest E,
      PutDeployConfigs_ServeRequest E, PutDefaultCodeBaseBranch_ServeRequest E,
      Cleaner_ServeRequest E]"
  have rest: "keeps (stays unavailable available_pushed h) ?rest"
    unfolding codebase_chain_ServeRequest_def
    by (intro keeps_intros)
       (auto intro: down_handlers down.stay_web_hook down.stay_default_branch down.stay_cleaner E)
  show "stays available_pushed available_pushed h (snd (MakeChain E s))"
  proof (cases "fst (PutGitWebRepoUrl_ServeRequest E s)")
    case (Ok u)
    then have "unavailable (obj s1)" using on_OkD [OF web_url_Ok [OF E]] by (simp add: s1_def)
    with s1 have "stays unavailable available_pushed h s1" by (rule stays_change)
    from keepsD [OF rest this] have "stays available_pushed available_pushed h (snd (?rest s1))"
      by (auto intro: stays_change down.written dest: stays_obj)
    with Ok show ?thesis by (simp add: rest_of_chain bindp_run wrapping_run s1_def)
  qed (use s1 in \<open>simp_all add: rest_of_chain bindp_run wrapping_run s1_def\<close>)
qed

definition pushed_if_made :: "codebase \<Rightarrow> bool" where
  "pushed_if_made c \<longleftrightarrow> made_here c \<longrightarrow> 2 \<le> git_rank c"

interpretation pushed: codebase_status_property pushed_if_made pushed_if_made
  by unfold_locales (auto simp: pushed_if_made_def availability_defs)

lemma keeps_of_stays: "(\<And>h. keeps (stays I W h) m) \<Longrightarrow> keeps (\<lambda>s. I (obj s)) m"
  by (rule keepsI) (meson keepsD stays_now stays_obj)

lemma update_git_Ok:
  assumes "echoes E"
  shows "on_Ok P (updateGitStatusWithPatch E a g) (\<lambda>_ s. ct_git (c_status (obj s)) = g)"
  using assms by (intro on_OkI) (auto simp: updateGitStatusWithPatch_def prog_runs save_from_run
      Codebases_def dest: echoesD split: sum.splits if_splits outcome.splits)

lemma pushed_put_project:
  assumes E: "echoes E"
  shows "on_Ok (\<lambda>_. True) (putProject E cb) (\<lambda>_ s. ct_git (c_status (obj s)) = ProjectPushedStatus)"
proof -
  have adopt: "on_Ok (\<lambda>_. True) (adoptPushedProject E rc)
      (\<lambda>b s. b \<longrightarrow> ct_git (c_status (obj s)) = ProjectPushedStatus)" for rc
    unfolding adoptPushedProject_def
    by (intro on_Ok_after on_Ok_if on_Ok_ret on_Ok_bindp [OF update_git_Ok [OF E]])
       (simp_all add: keeps_def)
  show ?thesis
    unfolding putProject_def
    by (rule on_Ok_after, simp add: keeps_def, rule on_Ok_after, simp add: keeps_def,
        rule on_Ok_after, simp add: keeps_def,
        rule on_Ok_bindp, subst on_Ok_handleError, rule adopt, rule on_Ok_if, rule on_Ok_ret, simp,
        rule on_Ok_pre [where P = "\<lambda>_. True"],
        intro on_Ok_after update_git_Ok [OF E], simp_all add: keeps_def)
qed

lemma pushed_Ok:
  assumes E: "echoes E"
  shows "on_Ok (\<lambda>_. True) (PutProject_ServeRequest E) (\<lambda>_ s. pushed_if_made (obj s))"
proof (rule on_OkI)
  fix s and y :: unit
  assume Ok: "fst (PutProject_ServeRequest E s) = Ok y"
  show "pushed_if_made (obj (snd (PutProject_ServeRequest E s)))"
  proof (cases "PutProject_skip (obj s)")
    case True
    then show ?thesis
      by (auto simp: PutProject_ServeRequest_def pushed_if_made_def made_here_def PutProject_skip_def
          putProjectStrategies_def skipPutProjectStatuses_def git_rank_eq split: if_splits)
  next
    case False
    with Ok have "ct_git (c_status (obj (snd (PutProject_ServeRequest E s)))) = ProjectPushedStatus"
      using on_OkD [OF pushed_put_project [OF E] TrueI] by (simp add: PutProject_ServeRequest_def)
    then show ?thesis by (simp add: pushed_if_made_def git_rank_eq)
  qed
qed

lemma pushed_rest:
  assumes "echoes E"
  shows "keeps (\<lambda>s. pushed_if_made (obj s))
     (codebase_chain_ServeRequest [PutWebHook_ServeRequest E, PutGitLabCIConfig_ServeRequest E,
       PutDeployConfigs_ServeRequest E, PutDefaultCodeBaseBranch_ServeRequest E, Cleaner_ServeRequest E])"
proof -
  have "keeps (\<lambda>s. pushed_if_made (obj s)) (PutGitLabCIConfig_ServeRequest E)"
    unfolding PutGitLabCIConfig_ServeRequest_def
    by (intro keeps_of_stays [where W = pushed_if_made] keeps_intros pushed.stay_gitlab_ci
          pushed.stay_failed assms stays_outside outside_intros)
       (simp_all add: pushed_if_made_def git_rank_eq)
  moreover have "keeps (\<lambda>s. pushed_if_made (obj s)) (PutDeployConfigs_ServeRequest E)"
    by (intro keeps_of_stays [where W = pushed_if_made] pushed.stay_deploy_configs assms)
       (simp_all add: pushed_if_made_def git_rank_eq)
  ultimately show ?thesis
    unfolding codebase_chain_ServeRequest_def
    by (intro keeps_intros)
       (auto intro: keeps_of_stays [OF pushed.stay_web_hook] keeps_of_stays [OF pushed.stay_cleaner]
         keeps_of_stays [OF pushed.stay_default_branch] assms)
qed

lemma pushed_chain:
  assumes "echoes E"
  shows "on_Ok (\<lambda>_. True) (MakeChain E) (\<lambda>_ s. pushed_if_made (obj s))"
proof -
  have "on_Ok (\<lambda>s. pushed_if_made (obj s)) m (\<lambda>_ s. pushed_if_made (obj s))"
    if "keeps (\<lambda>s. pushed_if_made (obj s)) m" for m :: "(codebase st, unit) prog"
    using that by (auto simp: keeps_def intro: on_OkI)
  note rest = this [OF pushed_rest [OF assms]]
  show ?thesis
    unfolding rest_of_chain chain_step [of "PutProject_ServeRequest E"]
    by (rule on_Ok_after, simp add: keeps_def, rule on_Ok_bindp, subst on_Ok_wrapping,
        rule pushed_Ok [OF assms], rule rest)
qed

lemma available_finish:
  assumes "echoes E"
  shows "pushed_if_made (obj s) \<Longrightarrow> stays available_pushed available_pushed h s \<Longrightarrow>
     stays available_pushed available_pushed h (snd (updateFinishStatus E s))"
  using assms unfolding stays_def
  by (auto simp: updateFinishStatus_def save_run Codebases_def prog_runs pushed_if_made_def
      available_pushed_def made_here_def finish_status_def git_rank_eq dest: echoesD split: sum.split)

lemma available_serve:
  assumes E: "echoes E"
  shows "keeps (stays available_pushed available_pushed h) (serve_codebase E)"
proof (rule keepsI)
  fix s assume s: "stays available_pushed available_pushed h s"
  have after: "stays available_pushed available_pushed h (snd (MakeChain E s))"
    by (rule keepsD [OF available_chain [OF E] s])
  have "keeps (stays available_pushed available_pushed h)
     (bindp (setFailureCount E) (\<lambda>timeout. bindp (ignoring (removeDirectoryIfExists E)) (\<lambda>_.
       ret (requeue_after timeout))))"
    by (intro keeps_intros available.stay_failure available.stay_directory E)
  note failed = keepsD [OF this after]
  have "fst (MakeChain E s) = Ok () \<Longrightarrow> pushed_if_made (obj (snd (MakeChain E s)))"
    using on_OkD [OF pushed_chain [OF E]] by simp
  with after have finished: "fst (MakeChain E s) = Ok () \<Longrightarrow>
     stays available_pushed available_pushed h (snd (updateFinishStatus E (snd (MakeChain E s))))"
    using available_finish [OF E] by blast
  show "stays available_pushed available_pushed h (snd (serve_codebase E s))"
    unfolding serve_codebase_def
    using failed after finished
    by (cases "fst (MakeChain E s)") (auto simp: bindp_run attempt_run wrapping_run split: outcome.split)
qed

section \<open>Failures\<close>

interpretation counted: codebase_property "\<lambda>c. ct_failureCount (c_status c) = n" "\<lambda>c. True" for n
  by unfold_locales (auto simp: failed_fields_def intermediate_fields_def)

interpretation same_status: codebase_frame "\<lambda>c. c_status c = st" "\<lambda>c. True" for st
  by unfold_locales auto

lemma counted_handlers:
  assumes "echoes E"
  shows "keeps (stays (\<lambda>c. ct_failureCount (c_status c) = n) (\<lambda>c. True) h) (PutProject_ServeRequest E)"
    and "keeps (stays (\<lambda>c. ct_failureCount (c_status c) = n) (\<lambda>c. True) h)
           (PutGitLabCIConfig_ServeRequest E)"
    and "keeps (stays (\<lambda>c. ct_failureCount (c_status c) = n) (\<lambda>c. True) h)
           (PutDeployConfigs_ServeRequest E)"
  unfolding PutProject_ServeRequest_def PutGitLabCIConfig_ServeRequest_def
  by (intro keeps_intros counted.stay_put_project counted.stay_gitlab_ci counted.stay_failed
        counted.stay_deploy_configs assms stays_outside outside_intros; simp)+

lemma counted_chain:
  assumes "echoes E"
  shows "keeps (\<lambda>s. ct_failureCount (c_status (obj s)) = n) (MakeChain E)"
  by (rule keeps_of_stays [where W = "\<lambda>_. True"])
     (auto simp: MakeChain_def codebase_chain_ServeRequest_def intro!: keeps_intros
       intro: counted_handlers counted.stay_web_url counted.stay_web_hook counted.stay_default_branch
         counted.stay_cleaner assms)

text \<open>Whatever way the first handler ends, short of a panic, the Codebase is down.\<close>

abbreviation down :: "'a outcome \<Rightarrow> codebase st \<Rightarrow> bool" where
  "down r s \<equiv> (\<exists>e. r = Fail e) \<longrightarrow> unavailable (obj s)"

lemma down_process: "triple (\<lambda>_. True) (processCodebaseError E a m) down"
  by (rule tripleI) (simp add: processCodebaseError_def prog_runs setFailedFields_def unavailable_def
      failed_fields_def split: outcome.split)

lemma down_after:
  "triple (\<lambda>_. True) m down \<Longrightarrow> (\<And>x. triple (\<lambda>_. True) (f x) down) \<Longrightarrow>
   triple (\<lambda>_. True) (bindp m f) down"
  by (rule triple_bindp [where R = down]) (auto simp: triple_def)

lemma down_web_url:
  assumes "echoes E"
  shows "triple (\<lambda>_. True) (PutGitWebRepoUrl_ServeRequest E) down"
proof -
  have "triple (\<lambda>_. True) (wrapping pre (setIntermediateSuccessFields E a)) down" for pre a
    by (rule tripleI) (auto simp: setIntermediateSuccessFields_def prog_runs save_run unavailable_def
        intermediate_fields_def split: sum.split)
  moreover have "triple (\<lambda>_. True) (gets f) down" "triple (\<lambda>_. True) (set_obj g) down"
    for f :: "codebase st \<Rightarrow> 'x" and g
    by (simp_all add: triple_def)
  ultimately show ?thesis
    unfolding PutGitWebRepoUrl_ServeRequest_def by (intro down_after down_process)
qed

lemma down_chain:
  assumes E: "echoes E" and failed: "fst (MakeChain E s) = Fail e"
  shows "unavailable (obj (snd (MakeChain E s)))"
proof -
  define s1 where "s1 = snd (PutGitWebRepoUrl_ServeRequest E s)"
  let ?rest = "codebase_chain_ServeRequest
     [PutProject_ServeRequest E, PutWebHook_ServeRequest E, PutGitLabCIConfig_ServeRequest E,
      PutDeployConfigs_ServeRequest E, PutDefaultCodeBaseBranch_ServeRequest E,
      Cleaner_ServeRequest E]"
  have rest: "keeps (\<lambda>s. unavailable (obj s)) ?rest"
    unfolding codebase_chain_ServeRequest_def
    by (intro keeps_of_stays [where W = available_pushed] keeps_intros)
       (auto intro: down_handlers down.stay_web_hook down.stay_default_branch down.stay_cleaner E)
  show ?thesis
  proof (cases "fst (PutGitWebRepoUrl_ServeRequest E s)")
    case (Ok u)
    then have "unavailable (obj s1)" using on_OkD [OF web_url_Ok [OF E] TrueI] by (simp add: s1_def)
    from keepsD [OF rest this] Ok show ?thesis by (simp add: rest_of_chain bindp_run wrapping_run s1_def)
  next
    case (Fail e')
    then have "unavailable (obj s1)" using tripleD [OF down_web_url [OF E] TrueI] by (simp add: s1_def)
    with Fail show ?thesis by (simp add: rest_of_chain bindp_run wrapping_run s1_def)
  next
    case (Panic p)
    with failed show ?thesis by (simp add: rest_of_chain bindp_run wrapping_run)
  qed
qed

text \<open>
  What follows a failed chain: one status update with the failure counted, one attempt to
  remove the directory.
\<close>

lemma failure_tail:
  assumes "echoes E"
  shows "fst (bindp (setFailureCount E) (\<lambda>timeout.
      bindp (ignoring (removeDirectoryIfExists E)) (\<lambda>_. ret (requeue_after timeout))) s) =
      Ok (requeue_after (GetTimeout E (ct_failureCount (c_status (obj s))) codebaseDefaultTimeout))"
    and "\<exists>x y. log (snd (bindp (setFailureCount E) (\<lambda>timeout.
      bindp (ignoring (removeDirectoryIfExists E)) (\<lambda>_. ret (requeue_after timeout))) s)) =
      log s @ [EvWrite VStatusUpdate (ObjCodebase ((obj s)\<lparr>c_status := (c_status (obj s))
          \<lparr>ct_failureCount := i64 (ct_failureCount (c_status (obj s)) + 1)\<rparr>\<rparr>)) x,
        EvFs (FsRemoveAll (GetWorkDir E (m_name (c_meta (obj s))) (m_ns (c_meta (obj s))))) y]"
  using assms
  by (auto simp: setFailureCount_def ignoring_save bindp_run ignoring_run save_run
      removeDirectoryIfExists_def RemoveDirectory_def fs_def asku_run wrapping_run Codebases_def
      count_failure_def Let_def dest: echoesD split: sum.split option.split)

section \<open>The reconciliation\<close>

lemma Reconcile_fetched:
  assumes "k_get (api_codebase E) (log s) ns name = Inr cb"
  shows "Codebase_Reconcile E ns name s =
    reconcile_codebase E \<lparr>obj = cb, log = log s @ [EvGet ''Codebase'' ns name]\<rparr>"
  using assms by (cases s) (simp add: Codebase_Reconcile_def bindp_run attempt_run kget_run Codebases_def)

text \<open>Until the chain the status is the one that was fetched.\<close>

lemma status_before_chain:
  assumes "echoes E"
    and "modifier_Apply E s = (Ok False, s1)" and "setFinalizers E s1 = (Ok (), s2)"
    and "initLabels E s2 = (Ok (), s3)"
  shows "c_status (obj s3) = c_status (obj s)"
proof -
  let ?same = "\<lambda>t. c_status (obj t) = c_status (obj s)"
  have keeps: "keeps ?same (modifier_Apply E)" "keeps ?same (setFinalizers E)" "keeps ?same (initLabels E)"
    by (rule keeps_of_stays [where W = "\<lambda>_. True"],
        rule same_status.stay_Apply [OF assms(1)] same_status.stay_finalizers [OF assms(1)]
          same_status.stay_labels [OF assms(1)])+
  from keepsD [OF keeps(1), of s] keepsD [OF keeps(2), of s1] keepsD [OF keeps(3), of s2] show ?thesis
    by (simp add: assms(2-4))
qed

section \<open>Properties\<close>

text \<open>
  C9: The provisioning status of a Codebase never goes back. The statuses are ordered:
  none, push in progress, pushed, GitLab CI pushed, templates pushed. However a
  reconciliation ends, by success, error or panic, whatever the git servers, the providers,
  the file system and the cluster answer, no status it stores and no status it leaves in the
  Codebase is below the one it fetched, when the server stores what it is sent.
\<close>

theorem provisioning_never_regresses:
  assumes "echoes E" and "k_get (api_codebase E) (log s) ns name = Inr cb"
  shows "provisioning_of cb \<le> provisioning_of (obj (snd (Codebase_Reconcile E ns name s))) \<and>
     list_all (stored_ok (\<lambda>c. provisioning_of cb \<le> provisioning_of c))
       (added s (snd (Codebase_Reconcile E ns name s)))"
proof -
  let ?s = "\<lparr>obj = cb, log = log s @ [EvGet ''Codebase'' ns name]\<rparr>"
  let ?I = "\<lambda>c. git_rank cb \<le> git_rank c"
  have "stays ?I ?I (log s) ?s" by (simp add: stays_def stored_ok_def)
  then have "stays ?I ?I (log s) (snd (reconcile_codebase E ?s))"
    by (rule keepsD [OF rank.stay_reconcile [OF assms(1) rank_serve [OF assms(1)]]])
  from stays_obj [OF this] this show ?thesis
    by (simp add: Reconcile_fetched [OF assms(2)] stays_added provisioning_le_iff)
qed

text \<open>
  C10: A Codebase that the operator creates or clones is available only when its project has
  been pushed: if that holds of the Codebase a reconciliation fetches, it holds of the
  Codebase it leaves and of every one it stores, again for every behaviour of the outside.
\<close>

theorem available_only_when_pushed:
  assumes "echoes E" and "k_get (api_codebase E) (log s) ns name = Inr cb"
    and "available_pushed cb"
  shows "available_pushed (obj (snd (Codebase_Reconcile E ns name s))) \<and>
     list_all (stored_ok available_pushed) (added s (snd (Codebase_Reconcile E ns name s)))"
proof -
  let ?s = "\<lparr>obj = cb, log = log s @ [EvGet ''Codebase'' ns name]\<rparr>"
  have "stays available_pushed available_pushed (log s) ?s"
    using assms(3) by (simp add: stays_def stored_ok_def)
  then have "stays available_pushed available_pushed (log s) (snd (reconcile_codebase E ?s))"
    by (rule keepsD [OF available.stay_reconcile [OF assms(1) available_serve [OF assms(1)]]])
  from stays_obj [OF this] this show ?thesis
    by (simp add: Reconcile_fetched [OF assms(2)] stays_added)
qed

text \<open>
  C11: Whatever step of the provisioning chain fails, the reconciliation succeeds and asks to
  be repeated: after ten seconds for the first failure, ten more for each one after it, and
  after the exponential delay from the eleventh on, by the count the fetched Codebase carried.
  The chain leaves the Codebase unavailable, and what follows it is the attempt to store that
  Codebase with one failure more, and the attempt to remove its working copy.
\<close>

theorem failed_provisioning_is_retried:
  assumes "echoes E" and "k_get (api_codebase E) (log s) ns name = Inr cb"
    and "modifier_Apply E \<lparr>obj = cb, log = log s @ [EvGet ''Codebase'' ns name]\<rparr> = (Ok False, s1)"
    and "setFinalizers E s1 = (Ok (), s2)" and "is_zero_time (m_deletion (c_meta (obj s2)))"
    and "initLabels E s2 = (Ok (), s3)"
    and failed: "MakeChain E s3 = (Fail e, u)"
  shows "(\<exists>d. fst (Codebase_Reconcile E ns name s) = Ok (requeue_after d) \<and>
      (0 \<le> ct_failureCount (c_status cb) \<and> ct_failureCount (c_status cb) < 10 \<longrightarrow>
         d = (ct_failureCount (c_status cb) + 1) * (10 * second)) \<and>
      (10 \<le> ct_failureCount (c_status cb) \<longrightarrow>
         d = l_expBackoff (lib_of E) (ct_failureCount (c_status cb)) (10 * second))) \<and>
    \<not> ct_available (c_status (obj u)) \<and>
    (\<exists>x y. log (snd (Codebase_Reconcile E ns name s)) =
      log u @ [EvWrite VStatusUpdate (ObjCodebase ((obj u)\<lparr>c_status := (c_status (obj u))
          \<lparr>ct_failureCount := i64 (ct_failureCount (c_status cb) + 1)\<rparr>\<rparr>)) x,
        EvFs (FsRemoveAll (GetWorkDir E (m_name (c_meta (obj u))) (m_ns (c_meta (obj u))))) y])"
proof -
  let ?s = "\<lparr>obj = cb, log = log s @ [EvGet ''Codebase'' ns name]\<rparr>"
  let ?n = "ct_failureCount (c_status cb)"
  have "c_status (obj s3) = c_status cb" using status_before_chain [OF assms(1,3,4,6)] by simp
  then have "ct_failureCount (c_status (obj s3)) = ?n" by simp
  from keepsD [OF counted_chain [OF assms(1)] this] have n: "ct_failureCount (c_status (obj u)) = ?n"
    by (simp add: failed)
  have "tryToDeleteCodebase E s2 = (Ok None, s2)"
    using assms(5) by (simp add: tryToDeleteCodebase_def bindp_run)
  then have "Codebase_Reconcile E ns name s = bindp (setFailureCount E) (\<lambda>timeout.
      bindp (ignoring (removeDirectoryIfExists E)) (\<lambda>_. ret (requeue_after timeout))) u"
    using assms(3,4,6) by (simp add: Reconcile_fetched [OF assms(2)] reconcile_codebase_def serve_codebase_def
        bindp_run [of "wrapping _ _"] bindp_run [of "attempt _"] wrapping_run attempt_run failed)
  moreover have "0 \<le> ?n \<and> ?n < 10 \<longrightarrow> GetTimeout E ?n (10 * second) = (?n + 1) * (10 * second)"
    using GetTimeout_linear [of ?n "10 * second" E] by simp
  moreover have "10 \<le> ?n \<longrightarrow> GetTimeout E ?n (10 * second) = l_expBackoff (lib_of E) ?n (10 * second)"
    by (simp add: GetTimeout_def)
  moreover have "\<not> ct_available (c_status (obj u))"
    using down_chain [OF assms(1), of s3 e] failed by (simp add: unavailable_def)
  ultimately show ?thesis using failure_tail [OF assms(1), of u]
    by (intro conjI exI [of _ "GetTimeout E ?n (10 * second)"]) (simp_all add: n)
qed

text \<open>
  C36: The status of a Codebase keeps its type. If the status a reconciliation fetches has
  the fields of one of the three phases (failed, in progress, finished), a result the
  custom resource definition allows, a provisioning status the handlers know and a counter
  of 64 bits, then so has every status it stores and the one it leaves, for every
  behaviour of the outside and for every place where it may stop.
\<close>

theorem codebase_status_keeps_its_type:
  assumes "echoes E" and "k_get (api_codebase E) (log s) ns name = Inr cb"
    and "status_typed (c_status cb)"
  shows "status_typed (c_status (obj (snd (Codebase_Reconcile E ns name s)))) \<and>
     list_all (stored_ok (\<lambda>c. status_typed (c_status c))) (added s (snd (Codebase_Reconcile E ns name s)))"
proof -
  let ?s = "\<lparr>obj = cb, log = log s @ [EvGet ''Codebase'' ns name]\<rparr>"
  have "stays typed typed (log s) ?s" using assms(3) by (simp add: stays_def stored_ok_def)
  then have "stays typed typed (log s) (snd (reconcile_codebase E ?s))"
    by (rule keepsD [OF typed.stay_reconcile [OF assms(1) typed_serve [OF assms(1)]]])
  from stays_obj [OF this] this show ?thesis
    by (simp add: Reconcile_fetched [OF assms(2)] stays_added)
qed

section \<open>Witnesses\<close>

definition failing_codebase :: codebase where
  "failing_codebase = codebase0
     \<lparr>c_spec := (c_spec codebase0)\<lparr>cs_repository := Some ''https://github.com/o/r.git''\<rparr>,
      c_status := (c_status codebase0)\<lparr>ct_git := ProjectPushedStatus, ct_failureCount := 2\<rparr>\<rparr>"

definition no_server_env :: env where
  "no_server_env = null_env\<lparr>api_codebase := one_api failing_codebase\<rparr>"

lemma no_server_echoes: "echoes no_server_env"
  by (simp add: echoes_def no_server_env_def one_api_def)

lemma no_server_fetch: "k_get (api_codebase no_server_env) h ns n = Inr failing_codebase"
  by (simp add: no_server_env_def one_api_def)

lemma provisioning_never_regresses_witness:
  "Pushed \<le> provisioning_of (obj (snd (Codebase_Reconcile no_server_env ''ns'' ''app''
     \<lparr>obj = codebase0, log = []\<rparr>)))"
proof -
  have "provisioning_of failing_codebase = Pushed" by (simp add: provisioning_of_def failing_codebase_def)
  with provisioning_never_regresses [OF no_server_echoes no_server_fetch,
      where s = "\<lparr>obj = codebase0, log = []\<rparr>" and ns = "''ns''" and name = "''app''"]
  show ?thesis by simp
qed

lemma available_only_when_pushed_witness:
  "available_pushed (obj (snd (Codebase_Reconcile no_server_env ''ns'' ''app''
     \<lparr>obj = codebase0, log = []\<rparr>)))"
proof -
  have "available_pushed failing_codebase"
    by (simp add: available_pushed_def git_rank_eq failing_codebase_def)
  from available_only_when_pushed [OF no_server_echoes no_server_fetch this] show ?thesis by simp
qed

definition typed_codebase :: codebase where
  "typed_codebase = failing_codebase\<lparr>c_status := (c_status failing_codebase)
     \<lparr>ct_available := True, ct_status := StatusFinished, ct_result := ResultSuccess, ct_value := ''active''\<rparr>\<rparr>"

lemma codebase_status_keeps_its_type_witness:
  "status_typed (c_status (obj (snd (Codebase_Reconcile (null_env\<lparr>api_codebase := one_api typed_codebase\<rparr>)
     ''ns'' ''app'' \<lparr>obj = codebase0, log = []\<rparr>))))"
proof -
  let ?E = "null_env\<lparr>api_codebase := one_api typed_codebase\<rparr>"
  have "echoes ?E" "k_get (api_codebase ?E) h ns n = Inr typed_codebase" for h ns n
    by (simp_all add: echoes_def one_api_def)
  moreover have "status_typed (c_status typed_codebase)"
    by (simp add: status_typed_def codebase_phases_def typed_codebase_def failing_codebase_def)
  ultimately show ?thesis using codebase_status_keeps_its_type by blast
qed

text \<open>The run of the example: no git server is found.\<close>

definition failing_start :: "codebase st" where
  "failing_start = \<lparr>obj = failing_codebase, log = [EvGet ''Codebase'' ''ns'' ''app'']\<rparr>"

definition labelled_start :: "codebase st" where
  "labelled_start = snd (initLabels no_server_env (snd (setFinalizers no_server_env failing_start)))"

lemma failed_provisioning_is_retried_witness:
  "fst (Codebase_Reconcile no_server_env ''ns'' ''app'' \<lparr>obj = codebase0, log = []\<rparr>) =
     Ok (requeue_after (30 * second))"
proof -
  let ?s1 = "snd (setFinalizers no_server_env failing_start)"
  let ?u = "snd (MakeChain no_server_env labelled_start)"
  have 1: "modifier_Apply no_server_env failing_start = (Ok False, failing_start)"
    and 2: "fst (setFinalizers no_server_env failing_start) = Ok ()"
    and 3: "is_zero_time (m_deletion (c_meta (obj ?s1)))"
    and spec: "cs_gitServer (c_spec (obj ?s1)) = ''github''"
    by code_simp+
  have 4: "fst (initLabels no_server_env ?s1) = Ok ()"
    and "c_spec (obj labelled_start) = c_spec (obj ?s1)"
    by (auto simp: labelled_start_def initLabels_def Let_def prog_runs save_from_run Codebases_def
        no_server_env_def one_api_def set_codebase_meta_def)
  with spec have server: "cs_gitServer (c_spec (obj labelled_start)) = ''github''" by simp
  have "fst (MakeChain no_server_env labelled_start) \<noteq> Panic p \<and> fst (MakeChain no_server_env labelled_start) \<noteq> Ok u"
    for p u
    by (simp add: rest_of_chain PutGitWebRepoUrl_ServeRequest_def processCodebaseError_def get_git_server_def
        prog_runs kget_run GitServers_def server no_server_env_def example_defs setFailedFields_def)
  then obtain e where "fst (MakeChain no_server_env labelled_start) = Fail e"
    by (cases "fst (MakeChain no_server_env labelled_start)") auto
  then have "MakeChain no_server_env labelled_start = (Fail e, ?u)" by (metis prod.collapse)
  moreover have "initLabels no_server_env ?s1 = (Ok (), labelled_start)"
    using 4 by (metis labelled_start_def prod.collapse)
  moreover have "setFinalizers no_server_env failing_start = (Ok (), ?s1)"
    using 2 by (metis prod.collapse)
  ultimately show ?thesis
    using failed_provisioning_is_retried [OF no_server_echoes no_server_fetch, of "\<lparr>obj = codebase0, log = []\<rparr>"
        "''ns''" "''app''" failing_start ?s1 labelled_start e ?u] 1 3
    by (simp add: failing_start_def failing_codebase_def)
qed

end
