(* ===== verification/Codebase_Deletion.thy ===== *)
theory Codebase_Deletion
  imports Codebase_Invariant
begin

text \<open>
  The deletion of a Codebase: the finalizer goes last, and a webhook that cannot be deleted
  does not hold it up. And the default branch, which the chain creates at most once.
\<close>

section \<open>The webhook\<close>

definition hook_delete :: "event \<Rightarrow> bool" where
  "hook_delete ev \<longleftrightarrow> (case ev of EvProvider gs tok (HookDelete p w) e \<Rightarrow> True | _ \<Rightarrow> False)"

lemma hook_delete_simps [simp]:
  "hook_delete (EvProvider gs tok (HookDelete p w) e)" "\<not> hook_delete (EvGet k ns n)"
  by (simp_all add: hook_delete_def)

text \<open>The events of the handler: reads, then perhaps one deletion.\<close>

lemma DeleteWebHook_Ok: "fst (DeleteWebHook_ServeRequest E s) = Ok ()"
  by (simp add: DeleteWebHook_ServeRequest_def DeleteWebHook_getGitServerSecret_def NewProvider_def
      ignoring_run bindp_run wrapping_run kget_run provider_def asku_run Let_def
      split: sum.split option.split)

definition only_own_hook :: "codebase \<Rightarrow> event \<Rightarrow> bool" where
  "only_own_hook cb ev \<longleftrightarrow> is_read ev \<or>
     (\<exists>gs tok e. ev = EvProvider gs tok
        (HookDelete (GetProjectID (c_spec cb)) (GetWebHookRef (c_status cb))) e)"

lemma only_own_hook_read: "is_read ev \<Longrightarrow> only_own_hook cb ev"
  by (simp add: only_own_hook_def)

lemma DeleteWebHook_events:
  "list_all (only_own_hook (obj s)) (added s (snd (DeleteWebHook_ServeRequest E s)))"
proof -
  let ?rest = "\<lambda>cb. ignoring
         (bindp (kget GitServers E (m_ns (c_meta cb)) (cs_gitServer (c_spec cb))) (\<lambda>gs.
          bindp (DeleteWebHook_getGitServerSecret E (gs_nameSshKeySecret (gs_spec gs)) (m_ns (c_meta cb)))
            (\<lambda>sec.
          let tok = smap_get (s_data sec) GitServerSecretTokenField in
          bindp (NewProvider E gs tok) (\<lambda>_.
          provider E gs tok (HookDelete (GetProjectID (c_spec cb)) (GetWebHookRef (c_status cb)))))))
      :: (codebase st, unit) prog"
  have new: "appends (only_own_hook cb) (NewProvider E gs tok)" for cb gs tok
    by (intro reader_appends reader_NewProvider only_own_hook_read)
  have "appends (only_own_hook cb) (?rest cb)" for cb
    unfolding DeleteWebHook_getGitServerSecret_def Let_def
    by (intro appends_intros new) (simp_all add: only_own_hook_def)
  from appends_added [OF this [of "obj s"], of s] show ?thesis
    by (simp add: DeleteWebHook_ServeRequest_def added_def)
qed

section \<open>The finalizer\<close>

lemma outside_appends: "outside m \<Longrightarrow> appends (\<lambda>ev. \<not> cb_write ev) m"
  by (simp add: outside_def)

lemma keeps_meta_status: "keeps (\<lambda>s. c_meta (obj s) = m) (set_obj (\<lambda>c. c\<lparr>c_status := f c\<rparr>))"
  by (simp add: keeps_def)

lemma outside_clean_up: "appends (\<lambda>ev. \<not> cb_write ev) (Cleaner_ServeRequest E)"
  unfolding Cleaner_ServeRequest_def processCodebaseError_def setFailedFields_def
  by (intro appends_intros outside_appends [OF outside_handlers(11)])

lemma no_write_before:
  "appends (\<lambda>ev. \<not> cb_write ev) (MakeDeletionChain E)"
  "appends (\<lambda>ev. \<not> cb_write ev) (removeDirectoryIfExists E)"
proof -
  have "appends (\<lambda>ev. \<not> cb_write ev) (DeleteWebHook_ServeRequest E)"
    using outside_whole_handlers(2) by (simp add: outside_def)
  then show "appends (\<lambda>ev. \<not> cb_write ev) (MakeDeletionChain E)"
    unfolding MakeDeletionChain_def codebase_chain_ServeRequest_def
    by (intro appends_intros) (auto intro: outside_clean_up)
  show "appends (\<lambda>ev. \<not> cb_write ev) (removeDirectoryIfExists E)"
    unfolding removeDirectoryIfExists_def RemoveDirectory_def Let_def
    by (intro appends_intros) simp_all
qed

lemma keeps_meta_chain: "keeps (\<lambda>s. c_meta (obj s) = m) (MakeDeletionChain E)"
proof -
  have "keeps (\<lambda>s. c_meta (obj s) = m) p" if "outside p" for p :: "(codebase st, 'a) prog"
    using that by (auto simp: outside_def keeps_def)
  note out = this
  have "keeps (\<lambda>s. c_meta (obj s) = m) (Cleaner_ServeRequest E)"
    unfolding Cleaner_ServeRequest_def processCodebaseError_def setFailedFields_def
    by (intro keeps_intros keeps_meta_status out [OF outside_handlers(11)] out [OF outside_readers(5)])
  then show ?thesis
    unfolding MakeDeletionChain_def codebase_chain_ServeRequest_def
    by (intro keeps_intros) (auto intro: out outside_intros)
qed

lemma removeDirectory_run:
  "removeDirectoryIfExists E s =
     (let wd = GetWorkDir E (m_name (c_meta (obj s))) (m_ns (c_meta (obj s)));
          r = fs_do E (log s) (FsRemoveAll wd)
      in (case r of None \<Rightarrow> Ok ()
          | Some e \<Rightarrow> Fail (wrap_err (''failed to remove directory '' @ wd)
              (wrap_err (''failed to remove directory '' @ quoted wd) e)),
          s\<lparr>log := log s @ [EvFs (FsRemoveAll wd) r]\<rparr>))"
  by (simp add: removeDirectoryIfExists_def RemoveDirectory_def fs_def wrapping_run asku_run Let_def
      split: option.split)

definition work_dir_of :: "env \<Rightarrow> codebase \<Rightarrow> string" where
  "work_dir_of E c = GetWorkDir E (m_name (c_meta c)) (m_ns (c_meta c))"

text \<open>The directory goes first; what follows happens in the state after it.\<close>

abbreviation dir_removed :: "env \<Rightarrow> codebase st \<Rightarrow> codebase st" where
  "dir_removed E s \<equiv> s\<lparr>log := log s @ [EvFs (FsRemoveAll (work_dir_of E (obj s))) None]\<rparr>"

abbreviation without_finalizer :: "env \<Rightarrow> codebase \<Rightarrow> codebase" where
  "without_finalizer E c \<equiv> set_codebase_meta (\<lambda>m. m\<lparr>m_finalizers :=
     l_removeFinalizer (lib_of E) codebaseOperatorFinalizerName (m_finalizers m)\<rparr>) c"

lemma delete_dir_kept:
  assumes "\<not> is_zero_time (m_deletion (c_meta (obj s)))"
    and "fs_do E (log s) (FsRemoveAll (work_dir_of E (obj s))) = Some e"
  shows "fst (tryToDeleteCodebase E s) \<noteq> Ok r \<and>
    \<not> list_ex cb_write (added s (snd (tryToDeleteCodebase E s))) \<and>
    c_meta (obj (snd (tryToDeleteCodebase E s))) = c_meta (obj s)"
  using assms
  by (simp add: tryToDeleteCodebase_def bindp_run removeDirectory_run work_dir_of_def Let_def added_def)

lemma delete_dir_removed:
  assumes "\<not> is_zero_time (m_deletion (c_meta (obj s)))"
    and "fs_do E (log s) (FsRemoveAll (work_dir_of E (obj s))) = None"
  shows "tryToDeleteCodebase E s =
    bindp (wrapping ''failed to make deletion chain'' (MakeDeletionChain E)) (\<lambda>_.
    bindp (set_obj (without_finalizer E)) (\<lambda>_. bindp (update_codebase E) (\<lambda>_. ret (Some no_requeue))))
      (dir_removed E s)"
  using assms
  by (simp add: tryToDeleteCodebase_def bindp_run [of "removeDirectoryIfExists E"] removeDirectory_run
      work_dir_of_def Let_def)

lemma delete_chain_ended:
  assumes "\<not> is_zero_time (m_deletion (c_meta (obj s)))"
    and "fs_do E (log s) (FsRemoveAll (work_dir_of E (obj s))) = None"
    and "fst (MakeDeletionChain E (dir_removed E s)) = Ok ()"
    and "log (snd (MakeDeletionChain E (dir_removed E s))) = log (dir_removed E s) @ mid"
  shows "\<exists>x. added s (snd (tryToDeleteCodebase E s)) = EvFs (FsRemoveAll (work_dir_of E (obj s))) None # mid @
    [EvWrite VUpdate (ObjCodebase (without_finalizer E (obj (snd (MakeDeletionChain E (dir_removed E s)))))) x]"
  using assms(3,4)
  by (auto simp: delete_dir_removed [OF assms(1,2)] bindp_run wrapping_run update_codebase_def save_run
      Codebases_def added_def split: sum.split)

text \<open>
  C12: A Codebase that is being deleted loses the operator's finalizer last. If a run of
  \<open>tryToDeleteCodebase\<close> writes the Codebase at all, the write is an update, it is the run's last
  action, before it the working copy was removed, the webhook's deletion was attempted and the
  cleaning chain ended without an error, and of its metadata only the finalizer list is changed;
  in every other run the Codebase is not written, its metadata stay and no result is returned.
\<close>

theorem finalizer_released_last:
  assumes "\<not> is_zero_time (m_deletion (c_meta (obj s)))"
  shows "if list_ex cb_write (added s (snd (tryToDeleteCodebase E s)))
     then \<exists>mid c x.
       added s (snd (tryToDeleteCodebase E s)) =
         EvFs (FsRemoveAll (work_dir_of E (obj s))) None # mid @ [EvWrite VUpdate (ObjCodebase c) x] \<and>
       list_all (\<lambda>ev. \<not> cb_write ev) mid \<and>
       (\<exists>t. log t = log s @ [EvFs (FsRemoveAll (work_dir_of E (obj s))) None] \<and> obj t = obj s \<and>
          fst (MakeDeletionChain E t) = Ok () \<and> log (snd (MakeDeletionChain E t)) = log t @ mid) \<and>
       c_meta c = (c_meta (obj s))\<lparr>m_finalizers := l_removeFinalizer (lib_of E)
         codebaseOperatorFinalizerName (m_finalizers (c_meta (obj s)))\<rparr>
     else c_meta (obj (snd (tryToDeleteCodebase E s))) = c_meta (obj s) \<and>
       (\<forall>r. fst (tryToDeleteCodebase E s) \<noteq> Ok r)"
proof -
  let ?ev = "EvFs (FsRemoveAll (work_dir_of E (obj s))) None"
  let ?t = "dir_removed E s"
  let ?u = "snd (MakeDeletionChain E ?t)"
  obtain mid where mid: "log ?u = log ?t @ mid" "list_all (\<lambda>ev. \<not> cb_write ev) mid"
    using appendsD [OF no_write_before(1), of E ?t] by blast
  have meta: "c_meta (obj ?u) = c_meta (obj s)"
    by (rule keepsD [OF keeps_meta_chain]) simp
  show ?thesis
  proof (cases "fs_do E (log s) (FsRemoveAll (work_dir_of E (obj s)))")
    case (Some e)
    with delete_dir_kept [OF assms] show ?thesis by simp
  next
    case None
    show ?thesis
    proof (cases "fst (MakeDeletionChain E ?t)")
      case (Ok u)
      then have ok: "fst (MakeDeletionChain E ?t) = Ok ()" by simp
      let ?c = "without_finalizer E (obj ?u)"
      from delete_chain_ended [OF assms None ok mid(1)] obtain x where
        x: "added s (snd (tryToDeleteCodebase E s)) = ?ev # mid @ [EvWrite VUpdate (ObjCodebase ?c) x]" ..
      then have written: "list_ex cb_write (added s (snd (tryToDeleteCodebase E s)))" by simp
      have meta_c: "c_meta ?c = (c_meta (obj s))\<lparr>m_finalizers := l_removeFinalizer (lib_of E)
         codebaseOperatorFinalizerName (m_finalizers (c_meta (obj s)))\<rparr>"
        by (simp add: set_codebase_meta_def meta)
      have "log ?t = log s @ [?ev]" "obj ?t = obj s" by simp_all
      with ok mid(1) have ended: "\<exists>t. log t = log s @ [?ev] \<and> obj t = obj s \<and> fst (MakeDeletionChain E t) = Ok () \<and>
          log (snd (MakeDeletionChain E t)) = log t @ mid" by blast
      show ?thesis unfolding if_P [OF written] using x mid(2) ended meta_c by blast
    qed (use mid meta in \<open>auto simp: delete_dir_removed [OF assms None] bindp_run wrapping_run added_def
          list_ex_iff list_all_iff\<close>)
  qed
qed

text \<open>
  C13: A webhook never holds up a deletion. The deletion chain fails exactly when the cleaning
  after it fails; the webhook handler ends without an error whatever the cluster and the
  provider answer, leaves the Codebase as it is, and beyond reading deletes no webhook but the
  one the status of the Codebase refers to.
\<close>

theorem webhook_never_blocks_deletion:
  "fst (MakeDeletionChain E s) =
     fst (wrapping ''failed to serve handler'' (Cleaner_ServeRequest E)
       (snd (DeleteWebHook_ServeRequest E s))) \<and>
   obj (snd (DeleteWebHook_ServeRequest E s)) = obj s \<and>
   list_all (only_own_hook (obj s)) (added s (snd (DeleteWebHook_ServeRequest E s)))"
proof -
  have "obj (snd (DeleteWebHook_ServeRequest E s)) = obj s"
    using outside_whole_handlers(2) by (auto simp: outside_def intro: keeps_objD)
  moreover have "fst (bindp p (\<lambda>_. ret ()) t) = fst (p t)" for p :: "(codebase st, unit) prog" and t
    by (simp add: bindp_run split: outcome.split)
  ultimately show ?thesis
    using DeleteWebHook_events [of s E]
    by (simp add: MakeDeletionChain_def codebase_chain_ServeRequest_def bindp_run wrapping_run
        DeleteWebHook_Ok split: outcome.split)
qed

section \<open>Witness\<close>

definition deleted_codebase :: codebase where
  "deleted_codebase = set_codebase_meta (\<lambda>m. m\<lparr>m_deletion := Some 7,
     m_finalizers := [codebaseOperatorFinalizerName, ForegroundDeletionFinalizerName]\<rparr>) codebase0"

lemma finalizer_released_last_witness:
  "\<exists>mid c x. added \<lparr>obj = deleted_codebase, log = []\<rparr>
       (snd (tryToDeleteCodebase null_env \<lparr>obj = deleted_codebase, log = []\<rparr>)) =
     EvFs (FsRemoveAll (work_dir_of null_env deleted_codebase)) None #
       mid @ [EvWrite VUpdate (ObjCodebase c) x]"
proof -
  let ?s = "\<lparr>obj = deleted_codebase, log = []\<rparr>"
  have "\<not> is_zero_time (m_deletion (c_meta (obj ?s)))" by code_simp
  note claim = finalizer_released_last [OF this, of null_env]
  have "list_ex cb_write (added ?s (snd (tryToDeleteCodebase null_env ?s)))" by code_simp
  with claim show ?thesis by auto
qed

end
