(* ===== verification/Deployment_Usage.thy ===== *)
theory Deployment_Usage
  imports Kube
begin

text \<open>
  \<open>pkg/deploymentusage\<close>, \<open>pkg/codebase/usage.go\<close> and \<open>pkg/codebasebranch\<close>: which CD
  pipelines and stages still use a codebase or a branch, by a scan for a codebase and by
  an index for branches, and the labels of a branch. The index answers every branch as a
  direct scan of the pipelines and the quality gates does.
\<close>

section \<open>References\<close>

abbreviation KindCDPipeline :: string where "KindCDPipeline \<equiv> ''CDPipeline''"
abbreviation KindStage :: string where "KindStage \<equiv> ''Stage''"
abbreviation FieldApplications :: string where "FieldApplications \<equiv> ''spec.applications''"
abbreviation FieldApplicationsToPromote :: string where
  "FieldApplicationsToPromote \<equiv> ''spec.applicationsToPromote''"
abbreviation FieldInputDockerStreams :: string where
  "FieldInputDockerStreams \<equiv> ''spec.inputDockerStreams''"
abbreviation FieldQualityGateAutotest :: string where
  "FieldQualityGateAutotest \<equiv> ''spec.qualityGates.autotestName''"

record reference =
  ref_kind :: string
  ref_name :: string
  ref_field :: string
  ref_reason :: string
  ref_parent :: string

definition Reference_String :: "reference \<Rightarrow> string" where
  "Reference_String r =
     (if ref_kind r = KindStage
      then KindStage @ '' '' @ ref_name r @ '' of '' @ KindCDPipeline @ '' '' @ ref_parent r
           @ '' ('' @ ref_reason r @ '')''
      else ref_kind r @ '' '' @ ref_name r @ '' ('' @ ref_reason r @ '')'')"

definition Join :: "reference list \<Rightarrow> string" where
  "Join refs = str_join ''; '' (map Reference_String refs)"

lemma Reference_String_nonempty: "Reference_String r \<noteq> []"
  by (simp add: Reference_String_def)

lemma Join_eq_Nil [simp]: "Join refs = [] \<longleftrightarrow> refs = []"
  by (cases refs; cases "tl refs") (auto simp: Join_def Reference_String_nonempty)

section \<open>Pipelines, stages and gates that are not being deleted\<close>

definition IsKindUnavailable :: "gerr \<Rightarrow> bool" where
  "IsKindUnavailable e \<longleftrightarrow> errors_is e KKindUnavailable"

definition ListActiveCDPipelines :: "env \<Rightarrow> string \<Rightarrow> ('o st, cd_pipeline list) prog" where
  "ListActiveCDPipelines E ns =
     bindp (attempt (klist CDPipelines E ns (by_labels []))) (\<lambda>r.
     case r of
       Inl e \<Rightarrow> if IsKindUnavailable e then ret []
                else throw (wrap_err ''failed to list CDPipelines'' e)
     | Inr ps \<Rightarrow> ret (filter (\<lambda>p. m_deletion (p_meta p) = None) ps))"

definition listActiveStages :: "env \<Rightarrow> string \<Rightarrow> ('o st, cd_stage list) prog" where
  "listActiveStages E ns =
     bindp (attempt (klist Stages E ns (by_labels []))) (\<lambda>r.
     case r of
       Inl e \<Rightarrow> if IsKindUnavailable e then ret []
                else throw (wrap_err ''failed to list Stages'' e)
     | Inr ss \<Rightarrow> ret (filter (\<lambda>sg. m_deletion (st_meta sg) = None) ss))"

record autotest_gate =
  ag_reference :: reference
  ag_autotestName :: string
  ag_branchName :: string

definition gate_of :: "cd_stage \<Rightarrow> quality_gate \<Rightarrow> autotest_gate list" where
  "gate_of sg g =
     (case qg_autotestName g of
        None \<Rightarrow> []
      | Some a \<Rightarrow>
          if a = [] then []
          else [\<lparr>ag_reference = \<lparr>ref_kind = KindStage, ref_name = m_name (st_meta sg),
                   ref_field = FieldQualityGateAutotest, ref_reason = ''autotest quality gate'',
                   ref_parent = st_cdPipeline sg\<rparr>,
                 ag_autotestName = a,
                 ag_branchName = (case qg_branchName g of None \<Rightarrow> [] | Some b \<Rightarrow> b)\<rparr>])"

definition stage_gates :: "cd_stage \<Rightarrow> autotest_gate list" where
  "stage_gates sg = concat (map (gate_of sg) (st_qualityGates sg))"

definition FindAutotestGates :: "env \<Rightarrow> string \<Rightarrow> ('o st, autotest_gate list) prog" where
  "FindAutotestGates E ns =
     bindp (listActiveStages E ns) (\<lambda>ss. ret (concat (map stage_gates ss)))"

section \<open>What uses a codebase\<close>

abbreviation BranchCodebaseNameIndex :: string where "BranchCodebaseNameIndex \<equiv> ''spec.codebaseName''"

text \<open>The values a branch is found under in the index the field selector asks.\<close>

definition IndexBranchByCodebaseName :: "kobj \<Rightarrow> string list" where
  "IndexBranchByCodebaseName ob =
     (case ob of
        ObjBranch b \<Rightarrow> if bs_codebaseName (b_spec b) = [] then [] else [bs_codebaseName (b_spec b)]
      | _ \<Rightarrow> [])"

fun first_stream :: "string list \<Rightarrow> string list \<Rightarrow> (string \<times> string) option" where
  "first_stream [] names = None"
| "first_stream (x # xs) names =
     (if x \<in> set names
      then Some (FieldInputDockerStreams, ''branch '' @ x @ '' in inputDockerStreams'')
      else first_stream xs names)"

definition matchPipeline ::
  "cd_pipeline \<Rightarrow> string \<Rightarrow> string list \<Rightarrow> (string \<times> string) option" where
  "matchPipeline p codebaseName branchNames =
     (if codebaseName \<in> set (p_applications p) then Some (FieldApplications, ''applications'')
      else if codebaseName \<in> set (p_applicationsToPromote p)
      then Some (FieldApplicationsToPromote, ''applicationsToPromote'')
      else first_stream (p_inputDockerStreams p) branchNames)"

definition listBranchNames :: "env \<Rightarrow> codebase \<Rightarrow> ('o st, string list) prog" where
  "listBranchNames E c =
     bindp (attempt (klist Branches E (m_ns (c_meta c))
       \<lparr>sel_labels = [], sel_fields = [(BranchCodebaseNameIndex, m_name (c_meta c))],
        sel_limit = None\<rparr>)) (\<lambda>r.
     case r of
       Inl e \<Rightarrow> if IsKindUnavailable e then ret []
                else throw (wrap_err ''failed to list CodebaseBranches'' e)
     | Inr bs \<Rightarrow> ret (map (\<lambda>b. m_name (b_meta b)) bs))"

fun pipeline_refs :: "cd_pipeline list \<Rightarrow> string \<Rightarrow> string list \<Rightarrow> reference list" where
  "pipeline_refs [] cb names = []"
| "pipeline_refs (p # ps) cb names =
     (case matchPipeline p cb names of
        None \<Rightarrow> pipeline_refs ps cb names
      | Some (field, reason) \<Rightarrow>
          \<lparr>ref_kind = KindCDPipeline, ref_name = m_name (p_meta p), ref_field = field,
           ref_reason = reason, ref_parent = []\<rparr> # pipeline_refs ps cb names)"

definition FindCodebaseUsage :: "env \<Rightarrow> codebase \<Rightarrow> ('o st, reference list) prog" where
  "FindCodebaseUsage E c =
     bindp (ListActiveCDPipelines E (m_ns (c_meta c))) (\<lambda>ps.
     bindp (listBranchNames E c) (\<lambda>names.
     bindp (FindAutotestGates E (m_ns (c_meta c))) (\<lambda>gates.
     ret (pipeline_refs ps (m_name (c_meta c)) names @
          map ag_reference (filter (\<lambda>g. ag_autotestName g = m_name (c_meta c)) gates)))))"

section \<open>What uses a branch\<close>

text \<open>
  The maps of the index from a resource name, and from an autotest and one of its git
  branches, to the references; an absent key holds the nil slice.
\<close>

type_synonym 'k ref_map = "('k \<times> reference list) list"

definition refs_at :: "'k ref_map \<Rightarrow> 'k \<Rightarrow> reference list" where
  "refs_at m k = (case map_of m k of None \<Rightarrow> [] | Some rs \<Rightarrow> rs)"

definition append_ref :: "'k \<Rightarrow> reference \<Rightarrow> 'k ref_map \<Rightarrow> 'k ref_map" where
  "append_ref k r m = AList.update k (refs_at m k @ [r]) m"

record branch_usage_index =
  byStreamName :: "string ref_map"
  byAutotest :: "(string \<times> string) ref_map"

definition stream_ref :: "cd_pipeline \<Rightarrow> reference" where
  "stream_ref p = \<lparr>ref_kind = KindCDPipeline, ref_name = m_name (p_meta p),
     ref_field = FieldInputDockerStreams, ref_reason = ''inputDockerStreams'', ref_parent = []\<rparr>"

fun add_streams ::
  "string list \<Rightarrow> reference \<Rightarrow> string list \<Rightarrow> string ref_map \<Rightarrow> string ref_map" where
  "add_streams seen r [] m = m"
| "add_streams seen r (x # xs) m =
     (if x \<in> set seen then add_streams seen r xs m
      else add_streams (x # seen) r xs (append_ref x r m))"

definition addPipeline :: "cd_pipeline \<Rightarrow> branch_usage_index \<Rightarrow> branch_usage_index" where
  "addPipeline p i =
     i\<lparr>byStreamName := add_streams [] (stream_ref p) (p_inputDockerStreams p) (byStreamName i)\<rparr>"

definition add_gate :: "autotest_gate \<Rightarrow> branch_usage_index \<Rightarrow> branch_usage_index" where
  "add_gate g i = i\<lparr>byAutotest :=
     append_ref (ag_autotestName g, ag_branchName g) (ag_reference g) (byAutotest i)\<rparr>"

definition empty_index :: branch_usage_index where
  "empty_index = \<lparr>byStreamName = [], byAutotest = []\<rparr>"

definition NewBranchUsageIndex :: "env \<Rightarrow> string \<Rightarrow> ('o st, branch_usage_index) prog" where
  "NewBranchUsageIndex E ns =
     bindp (ListActiveCDPipelines E ns) (\<lambda>ps.
     bindp (FindAutotestGates E ns) (\<lambda>gates.
     ret (fold add_gate gates (fold addPipeline ps empty_index))))"

definition Find :: "branch_usage_index \<Rightarrow> branch \<Rightarrow> reference list" where
  "Find i b =
     refs_at (byStreamName i) (m_name (b_meta b)) @
     refs_at (byAutotest i) (bs_codebaseName (b_spec b), bs_branchName (b_spec b))"

definition FindBranchUsage :: "env \<Rightarrow> branch \<Rightarrow> ('o st, reference list) prog" where
  "FindBranchUsage E b =
     bindp (NewBranchUsageIndex E (m_ns (b_meta b))) (\<lambda>i. ret (Find i b))"

section \<open>The labels of a branch\<close>

abbreviation LabelCodebaseName :: string where "LabelCodebaseName \<equiv> ''app.edp.epam.com/codebaseName''"

text \<open>\<open>%x\<close> of an unsigned integer.\<close>

definition hex_char :: "nat \<Rightarrow> char" where
  "hex_char n = (if n < 10 then char_of (48 + n) else char_of (87 + n))"

fun nat_hex :: "nat \<Rightarrow> string" where
  "nat_hex n = (if n < 16 then [hex_char n] else nat_hex (n div 16) @ [hex_char (n mod 16)])"

declare nat_hex.simps [simp del]

definition MakeGitBranchHash :: "env \<Rightarrow> string \<Rightarrow> string" where
  "MakeGitBranchHash E gitBranchName = nat_hex (l_xxhash (lib_of E) gitBranchName)"

fun put_labels :: "smap \<Rightarrow> smap \<Rightarrow> bool \<times> smap" where
  "put_labels [] cur = (False, cur)"
| "put_labels ((k, v) # xs) cur =
     (if smap_get cur k \<noteq> v then (True, snd (put_labels xs (smap_put k v cur)))
      else put_labels xs cur)"

definition branch_labels :: "env \<Rightarrow> branch \<Rightarrow> string \<Rightarrow> smap" where
  "branch_labels E b codebaseName =
     [(LabelCodebaseName, codebaseName), (CodebaseLabel, codebaseName),
      (BranchHashLabel, MakeGitBranchHash E (bs_branchName (b_spec b)))]"

definition AddCodebaseLabel :: "env \<Rightarrow> string \<Rightarrow> (branch st, unit) prog" where
  "AddCodebaseLabel E codebaseName =
     bindp (gets obj) (\<lambda>b.
     let (needsUpdate, labels) =
       put_labels (branch_labels E b codebaseName) (labels_of (b_meta b))
     in if \<not> needsUpdate then ret ()
        else bindp (set_obj (\<lambda>b. b\<lparr>b_meta := (b_meta b)\<lparr>m_labels := Some labels\<rparr>\<rparr>)) (\<lambda>_.
             wrapping ''failed to update k8s resource labels'' (save VUpdate Branches E)))"

section \<open>Facts\<close>

lemma reader_ListActiveCDPipelines [reader_intros]: "reader (ListActiveCDPipelines E ns)"
  unfolding ListActiveCDPipelines_def by (intro reader_intros)

lemma reader_FindAutotestGates [reader_intros]: "reader (FindAutotestGates E ns)"
  unfolding FindAutotestGates_def listActiveStages_def by (intro reader_intros)

lemma reader_FindCodebaseUsage [reader_intros]: "reader (FindCodebaseUsage E c)"
  unfolding FindCodebaseUsage_def listBranchNames_def by (intro reader_intros)

lemma reader_NewBranchUsageIndex [reader_intros]: "reader (NewBranchUsageIndex E ns)"
  unfolding NewBranchUsageIndex_def by (intro reader_intros)

lemma reader_FindBranchUsage [reader_intros]: "reader (FindBranchUsage E b)"
  unfolding FindBranchUsage_def by (intro reader_intros)

lemma refs_at_append_ref [simp]:
  "refs_at (append_ref k r m) k' = (if k' = k then refs_at m k @ [r] else refs_at m k')"
  by (simp add: refs_at_def append_ref_def update_conv')

text \<open>A pipeline adds its reference once to every stream it lists, and to no other.\<close>

lemma refs_at_add_streams:
  "refs_at (add_streams seen r xs m) k =
     refs_at m k @ (if k \<in> set xs \<and> k \<notin> set seen then [r] else [])"
  by (induction xs arbitrary: seen m) auto

lemma byStreamName_addPipeline:
  "refs_at (byStreamName (addPipeline p i)) k =
     refs_at (byStreamName i) k @ (if k \<in> set (p_inputDockerStreams p) then [stream_ref p] else [])"
  by (simp add: addPipeline_def refs_at_add_streams)

lemma fold_addPipeline:
  "refs_at (byStreamName (fold addPipeline ps i)) k =
     refs_at (byStreamName i) k @
     map stream_ref (filter (\<lambda>p. k \<in> set (p_inputDockerStreams p)) ps)
   \<and> byAutotest (fold addPipeline ps i) = byAutotest i"
  by (induction ps arbitrary: i) (simp_all add: byStreamName_addPipeline, simp add: addPipeline_def)

lemma fold_add_gate:
  "refs_at (byAutotest (fold add_gate gs i)) k =
     refs_at (byAutotest i) k @
     map ag_reference (filter (\<lambda>g. (ag_autotestName g, ag_branchName g) = k) gs)
   \<and> byStreamName (fold add_gate gs i) = byStreamName i"
  by (induction gs arbitrary: i) (auto simp: add_gate_def)

text \<open>The direct scan the index stands for.\<close>

definition scan_branch :: "cd_pipeline list \<Rightarrow> autotest_gate list \<Rightarrow> branch \<Rightarrow> reference list" where
  "scan_branch ps gates b =
     map stream_ref (filter (\<lambda>p. m_name (b_meta b) \<in> set (p_inputDockerStreams p)) ps) @
     map ag_reference (filter (\<lambda>g. ag_autotestName g = bs_codebaseName (b_spec b) \<and>
        ag_branchName g = bs_branchName (b_spec b)) gates)"

lemma refs_at_empty_index [simp]:
  "refs_at (byStreamName empty_index) x = []" "refs_at (byAutotest empty_index) k = []"
  by (simp_all add: empty_index_def refs_at_def)

lemma Find_index:
  "Find (fold add_gate gates (fold addPipeline ps empty_index)) b = scan_branch ps gates b"
  by (simp add: Find_def scan_branch_def fold_add_gate fold_addPipeline)

lemma FindBranchUsage_scan:
  "FindBranchUsage E b =
     bindp (ListActiveCDPipelines E (m_ns (b_meta b))) (\<lambda>ps.
     bindp (FindAutotestGates E (m_ns (b_meta b))) (\<lambda>gates.
     ret (scan_branch ps gates b)))"
  unfolding FindBranchUsage_def NewBranchUsageIndex_def
  by (simp only: bindp_assoc bindp_ret Find_index)

text \<open>
  C22: finding the deployments that use a branch through the index of the namespace gives,
  in every environment and state, the same references in the same order, the same errors
  and the same history as scanning every active pipeline and quality gate for that branch.
\<close>

theorem branch_index_equals_scan:
  "FindBranchUsage E b =
     bindp (ListActiveCDPipelines E (m_ns (b_meta b))) (\<lambda>ps.
     bindp (FindAutotestGates E (m_ns (b_meta b))) (\<lambda>gates.
     ret (scan_branch ps gates b)))"
  by (rule FindBranchUsage_scan)

text \<open>When nothing uses a codebase, when nothing uses a branch.\<close>

definition codebase_in_use ::
  "cd_pipeline list \<Rightarrow> cd_stage list \<Rightarrow> branch list \<Rightarrow> string \<Rightarrow> bool" where
  "codebase_in_use ps ss bs cb \<longleftrightarrow>
     (\<exists>p \<in> set ps. m_deletion (p_meta p) = None \<and>
        (cb \<in> set (p_applications p) \<or> cb \<in> set (p_applicationsToPromote p) \<or>
         (\<exists>b \<in> set bs. m_name (b_meta b) \<in> set (p_inputDockerStreams p)))) \<or>
     (\<exists>sg \<in> set ss. m_deletion (st_meta sg) = None \<and>
        (\<exists>g \<in> set (st_qualityGates sg). qg_autotestName g = Some cb \<and> cb \<noteq> []))"

definition branch_in_use :: "cd_pipeline list \<Rightarrow> cd_stage list \<Rightarrow> branch \<Rightarrow> bool" where
  "branch_in_use ps ss b \<longleftrightarrow>
     (\<exists>p \<in> set ps. m_deletion (p_meta p) = None \<and> m_name (b_meta b) \<in> set (p_inputDockerStreams p)) \<or>
     (\<exists>sg \<in> set ss. m_deletion (st_meta sg) = None \<and>
        (\<exists>g \<in> set (st_qualityGates sg). bs_codebaseName (b_spec b) \<noteq> [] \<and>
           qg_autotestName g = Some (bs_codebaseName (b_spec b)) \<and>
           (case qg_branchName g of None \<Rightarrow> [] | Some x \<Rightarrow> x) = bs_branchName (b_spec b)))"

lemma first_stream_None: "first_stream xs names = None \<longleftrightarrow> set xs \<inter> set names = {}"
  by (induction xs) auto

lemma matchPipeline_None:
  "matchPipeline p cb names = None \<longleftrightarrow>
     cb \<notin> set (p_applications p) \<and> cb \<notin> set (p_applicationsToPromote p) \<and>
     (\<forall>x \<in> set names. x \<notin> set (p_inputDockerStreams p))"
  by (auto simp: matchPipeline_def first_stream_None)

lemma pipeline_refs_Nil:
  "pipeline_refs ps cb names = [] \<longleftrightarrow> (\<forall>p \<in> set ps. matchPipeline p cb names = None)"
  by (induction ps) (auto split: option.split)

lemma set_stage_gates:
  "g \<in> set (stage_gates sg) \<longleftrightarrow> (\<exists>q \<in> set (st_qualityGates sg). g \<in> set (gate_of sg q))"
  by (simp add: stage_gates_def)

lemma gate_of_autotest:
  "(\<exists>g \<in> set (gate_of sg q). ag_autotestName g = a \<and> P (ag_branchName g)) \<longleftrightarrow>
     a \<noteq> [] \<and> qg_autotestName q = Some a \<and> P (case qg_branchName q of None \<Rightarrow> [] | Some x \<Rightarrow> x)"
  by (cases "qg_autotestName q"; cases "the (qg_autotestName q) = []") (auto simp: gate_of_def)

lemma gates_autotest:
  "(\<exists>g \<in> set (concat (map stage_gates ss)). ag_autotestName g = a \<and> P (ag_branchName g)) \<longleftrightarrow>
     (\<exists>sg \<in> set ss. \<exists>q \<in> set (st_qualityGates sg). a \<noteq> [] \<and> qg_autotestName q = Some a \<and>
        P (case qg_branchName q of None \<Rightarrow> [] | Some x \<Rightarrow> x))"
proof -
  have "(\<exists>g \<in> set (concat (map stage_gates ss)). ag_autotestName g = a \<and> P (ag_branchName g)) \<longleftrightarrow>
     (\<exists>sg \<in> set ss. \<exists>q \<in> set (st_qualityGates sg).
        \<exists>g \<in> set (gate_of sg q). ag_autotestName g = a \<and> P (ag_branchName g))"
    by (simp add: Bex_def set_stage_gates) blast
  then show ?thesis by (simp only: gate_of_autotest)
qed

text \<open>A cluster that answers the three lists with what it holds.\<close>

definition cluster_lists ::
  "env \<Rightarrow> string \<Rightarrow> cd_pipeline list \<Rightarrow> cd_stage list \<Rightarrow> branch list \<Rightarrow> bool" where
  "cluster_lists E ns ps ss bs \<longleftrightarrow>
     (\<forall>h. k_list (api_cd_pipeline E) h ns (by_labels []) = Inr ps) \<and>
     (\<forall>h. k_list (api_stage E) h ns (by_labels []) = Inr ss) \<and>
     (\<forall>h cb. k_list (api_branch E) h ns
        \<lparr>sel_labels = [], sel_fields = [(BranchCodebaseNameIndex, cb)], sel_limit = None\<rparr> =
        Inr (filter (\<lambda>b. cb \<in> set (IndexBranchByCodebaseName (ObjBranch b))) bs))"

lemma ListActiveCDPipelines_lists:
  "cluster_lists E ns ps ss bs \<Longrightarrow>
   fst (ListActiveCDPipelines E ns s) = Ok (filter (\<lambda>p. m_deletion (p_meta p) = None) ps)"
  by (simp add: cluster_lists_def ListActiveCDPipelines_def CDPipelines_def prog_runs klist_run)

lemma FindAutotestGates_lists:
  "cluster_lists E ns ps ss bs \<Longrightarrow>
   fst (FindAutotestGates E ns s) =
     Ok (concat (map stage_gates (filter (\<lambda>sg. m_deletion (st_meta sg) = None) ss)))"
  by (simp add: cluster_lists_def FindAutotestGates_def listActiveStages_def Stages_def
      prog_runs klist_run)

lemma listBranchNames_lists:
  "cluster_lists E (m_ns (c_meta c)) ps ss bs \<Longrightarrow>
   fst (listBranchNames E c s) = Ok (map (\<lambda>b. m_name (b_meta b))
     (filter (\<lambda>b. m_name (c_meta c) \<in> set (IndexBranchByCodebaseName (ObjBranch b))) bs))"
  by (simp add: cluster_lists_def listBranchNames_def Branches_def prog_runs klist_run)

lemma FindCodebaseUsage_empty_iff:
  assumes "cluster_lists E (m_ns (c_meta c)) ps ss bs"
  shows "\<exists>refs. fst (FindCodebaseUsage E c s) = Ok refs \<and>
    (refs = [] \<longleftrightarrow> \<not> codebase_in_use ps ss
       (filter (\<lambda>b. m_name (c_meta c) \<in> set (IndexBranchByCodebaseName (ObjBranch b))) bs)
       (m_name (c_meta c)))"
proof -
  let ?cb = "m_name (c_meta c)"
  let ?ss = "filter (\<lambda>sg. m_deletion (st_meta sg) = None) ss"
  have gates: "filter (\<lambda>g. ag_autotestName g = ?cb) (concat (map stage_gates ?ss)) = [] \<longleftrightarrow>
      \<not> (\<exists>sg \<in> set ?ss. \<exists>q \<in> set (st_qualityGates sg). ?cb \<noteq> [] \<and> qg_autotestName q = Some ?cb)"
    using gates_autotest [of ?ss ?cb "\<lambda>_. True"] unfolding filter_empty_conv by blast
  show ?thesis
    by (auto simp: FindCodebaseUsage_def bindp_run ListActiveCDPipelines_lists [OF assms]
        listBranchNames_lists [OF assms] FindAutotestGates_lists [OF assms] gates pipeline_refs_Nil matchPipeline_None
        codebase_in_use_def)
qed

lemma FindBranchUsage_empty_iff:
  assumes "cluster_lists E (m_ns (b_meta b)) ps ss bs"
  shows "\<exists>refs. fst (FindBranchUsage E b s) = Ok refs \<and> (refs = [] \<longleftrightarrow> \<not> branch_in_use ps ss b)"
proof -
  let ?ss = "filter (\<lambda>sg. m_deletion (st_meta sg) = None) ss"
  let ?cb = "bs_codebaseName (b_spec b)" and ?bn = "bs_branchName (b_spec b)"
  have gates: "filter (\<lambda>g. ag_autotestName g = ?cb \<and> ag_branchName g = ?bn)
      (concat (map stage_gates ?ss)) = [] \<longleftrightarrow>
      \<not> (\<exists>sg \<in> set ?ss. \<exists>q \<in> set (st_qualityGates sg). ?cb \<noteq> [] \<and> qg_autotestName q = Some ?cb \<and>
           (case qg_branchName q of None \<Rightarrow> [] | Some x \<Rightarrow> x) = ?bn)"
    using gates_autotest [of ?ss ?cb "\<lambda>x. x = ?bn"] unfolding filter_empty_conv by blast
  have pipes: "filter (\<lambda>p. m_name (b_meta b) \<in> set (p_inputDockerStreams p))
      (filter (\<lambda>p. m_deletion (p_meta p) = None) ps) = [] \<longleftrightarrow>
      \<not> (\<exists>p \<in> set ps. m_deletion (p_meta p) = None \<and> m_name (b_meta b) \<in> set (p_inputDockerStreams p))"
    by (auto simp: filter_empty_conv)
  have "scan_branch (filter (\<lambda>p. m_deletion (p_meta p) = None) ps)
      (concat (map stage_gates ?ss)) b = [] \<longleftrightarrow> \<not> branch_in_use ps ss b"
    unfolding scan_branch_def append_is_Nil_conv map_is_Nil_conv pipes gates branch_in_use_def
    by auto
  then show ?thesis
    by (simp add: FindBranchUsage_scan bindp_run ListActiveCDPipelines_lists [OF assms]
        FindAutotestGates_lists [OF assms])
qed

text \<open>The three labels are set, and every other label is kept.\<close>

lemma put_labels_get:
  "distinct (map fst xs) \<Longrightarrow>
   smap_get (snd (put_labels xs cur)) k =
     (case map_of xs k of None \<Rightarrow> smap_get cur k | Some v \<Rightarrow> v)"
proof (induction xs arbitrary: cur)
  case (Cons x xs)
  then show ?case
    by (cases x) (fastforce split: option.split simp: image_iff dest: map_of_SomeD)
qed simp

lemma put_labels_unchanged: "\<not> fst (put_labels xs cur) \<Longrightarrow> snd (put_labels xs cur) = cur"
  by (induction xs arbitrary: cur) (auto split: if_splits)

lemma AddCodebaseLabel_appends [appends_intros]:
  "(\<And>b e. A (EvWrite VUpdate (ObjBranch b) e)) \<Longrightarrow> appends A (AddCodebaseLabel E cn)"
  unfolding AddCodebaseLabel_def Let_def
  by (intro appends_intros) (auto simp: Branches_def intro: appends_intros)

end
