(* ===== verification/Branch_Chain.thy ===== *)
theory Branch_Chain
  imports Templates Image_Stream Deployment_Usage
begin

text \<open>
  \<open>controllers/codebasebranch/chain\<close>: the handlers a branch goes through. The reference it
  starts from is resolved, the branch is created in git, a new version is entered in the
  version history, and the image stream of the branch is created or relabelled.
\<close>

section \<open>Status fields\<close>

definition set_branch_status :: "(branch_status \<Rightarrow> branch_status) \<Rightarrow> branch \<Rightarrow> branch" where
  "set_branch_status f b = b\<lparr>b_status := f (b_status b)\<rparr>"

text \<open>
  The handlers put a new status together and carry some of the old fields over. The two
  handlers before the branch exists keep the last successful build and the failure count;
  the one for the image stream drops the failure count, and when it fails the build too.
\<close>

definition CheckReferenceExists_setFailedFields ::
  "int \<Rightarrow> string \<Rightarrow> string \<Rightarrow> branch_status \<Rightarrow> branch_status" where
  "CheckReferenceExists_setFailedFields t actionType message st =
     \<lparr>bt_lastTimeUpdated = t, bt_versionHistory = bt_versionHistory st,
      bt_lastSuccessfulBuild = bt_lastSuccessfulBuild st, bt_build = bt_build st,
      bt_status = StatusFailed, bt_username = ''system'', bt_action = actionType,
      bt_result = ResultError, bt_detailedMessage = message, bt_value = ''failed'',
      bt_failureCount = bt_failureCount st, bt_git = bt_git st, bt_conditions = bt_conditions st\<rparr>"

definition putGitBranchSetFailedFields :: "int \<Rightarrow> string \<Rightarrow> branch_status \<Rightarrow> branch_status" where
  "putGitBranchSetFailedFields t message st =
     \<lparr>bt_lastTimeUpdated = t, bt_versionHistory = bt_versionHistory st,
      bt_lastSuccessfulBuild = bt_lastSuccessfulBuild st, bt_build = bt_build st,
      bt_status = StatusFailed, bt_username = ''system'', bt_action = PutGitBranch,
      bt_result = ResultError, bt_detailedMessage = message, bt_value = ''failed'',
      bt_failureCount = bt_failureCount st, bt_git = bt_git st, bt_conditions = bt_conditions st\<rparr>"

definition put_branch_intermediate :: "int \<Rightarrow> string \<Rightarrow> branch_status \<Rightarrow> branch_status" where
  "put_branch_intermediate t action st =
     \<lparr>bt_lastTimeUpdated = t, bt_versionHistory = bt_versionHistory st,
      bt_lastSuccessfulBuild = bt_lastSuccessfulBuild st, bt_build = bt_build st,
      bt_status = StatusInit, bt_username = ''system'', bt_action = action,
      bt_result = ResultSuccess, bt_detailedMessage = [], bt_value = ''inactive'',
      bt_failureCount = bt_failureCount st, bt_git = bt_git st, bt_conditions = bt_conditions st\<rparr>"

definition image_stream_failed :: "int \<Rightarrow> string \<Rightarrow> string \<Rightarrow> branch_status \<Rightarrow> branch_status" where
  "image_stream_failed t action message st =
     \<lparr>bt_lastTimeUpdated = t, bt_versionHistory = bt_versionHistory st,
      bt_lastSuccessfulBuild = None, bt_build = bt_build st,
      bt_status = StatusFailed, bt_username = ''system'', bt_action = action,
      bt_result = ResultError, bt_detailedMessage = message, bt_value = ''failed'',
      bt_failureCount = 0, bt_git = bt_git st, bt_conditions = bt_conditions st\<rparr>"

definition image_stream_intermediate :: "int \<Rightarrow> string \<Rightarrow> branch_status \<Rightarrow> branch_status" where
  "image_stream_intermediate t action st =
     \<lparr>bt_lastTimeUpdated = t, bt_versionHistory = bt_versionHistory st,
      bt_lastSuccessfulBuild = bt_lastSuccessfulBuild st, bt_build = bt_build st,
      bt_status = StatusInit, bt_username = ''system'', bt_action = action,
      bt_result = ResultSuccess, bt_detailedMessage = [], bt_value = ''inactive'',
      bt_failureCount = 0, bt_git = bt_git st, bt_conditions = bt_conditions st\<rparr>"

definition stamp :: "env \<Rightarrow> (int \<Rightarrow> branch_status \<Rightarrow> branch_status) \<Rightarrow> (branch st, unit) prog" where
  "stamp E f = bindp (now E) (\<lambda>t. set_obj (set_branch_status (f t)))"

text \<open>An error that is entered in the status on its way out.\<close>

definition failing ::
  "env \<Rightarrow> (int \<Rightarrow> string \<Rightarrow> branch_status \<Rightarrow> branch_status) \<Rightarrow> (branch st, 'a) prog \<Rightarrow> (branch st, 'a) prog"
  where
  "failing E f m = catchp m (\<lambda>e. bindp (stamp E (\<lambda>t. f t (err_msg e))) (\<lambda>_. throw e))"

section \<open>The chain\<close>

type_synonym branch_handler = "(branch st, unit) prog"

definition NextServeOrNil :: "branch_handler option \<Rightarrow> branch_handler" where
  "NextServeOrNil next =
     (case next of None \<Rightarrow> ret () | Some m \<Rightarrow> wrapping ''failed to server handler in a chain'' m)"

definition empty_ServeRequest :: "string \<Rightarrow> bool \<Rightarrow> branch_handler" where
  "empty_ServeRequest logMessage returnError =
     (if returnError then throw (errorf logMessage) else ret ())"

subsection \<open>The reference\<close>

definition CheckReferenceExists_processErr :: "env \<Rightarrow> (branch st, 'a) prog \<Rightarrow> (branch st, 'a) prog" where
  "CheckReferenceExists_processErr E m =
     failing E (\<lambda>t. CheckReferenceExists_setFailedFields t CheckCommitHashExists) m"

definition CheckReferenceExists_next :: "branch_handler option \<Rightarrow> branch_handler" where
  "CheckReferenceExists_next next =
     wrapping ''failed to serve next chain element'' (NextServeOrNil next)"

definition CheckReferenceExists_ServeRequest :: "env \<Rightarrow> branch_handler option \<Rightarrow> branch_handler" where
  "CheckReferenceExists_ServeRequest E next =
     bindp (gets obj) (\<lambda>cb.
     if bt_git (b_status cb) = CodebaseBranchGitStatusBranchCreated
     then CheckReferenceExists_next next
     else if bs_fromCommit (b_spec cb) = [] then CheckReferenceExists_next next
     else
       bindp (CheckReferenceExists_processErr E
         (wrapping (''failed to get codebase '' @ bs_codebaseName (b_spec cb))
           (kget Codebases E (m_ns (b_meta cb)) (bs_codebaseName (b_spec cb))))) (\<lambda>c.
       bindp (CheckReferenceExists_processErr E
         (wrapping (''failed to get git server '' @ cs_gitServer (c_spec c))
           (kget GitServers E (m_ns (b_meta cb)) (cs_gitServer (c_spec c))))) (\<lambda>gs.
       bindp (CheckReferenceExists_processErr E
         (wrapping (''failed to get secret '' @ gs_nameSshKeySecret (gs_spec gs))
           (kget Secrets E (m_ns (b_meta cb)) (gs_nameSshKeySecret (gs_spec gs))))) (\<lambda>sec.
       bindp (CheckReferenceExists_processErr E
         (wrapping (''reference '' @ bs_fromCommit (b_spec cb) @ '' doesn'' @ [CHR 0x27] @ ''t exist'')
           (git_string E (NewConfigFromGitServerAndSecret gs sec)
             (GitResolve (GetProjectGitUrl gs sec (GetProjectID (c_spec c)))
               (bs_fromCommit (b_spec cb)))))) (\<lambda>_.
       CheckReferenceExists_next next)))))"

subsection \<open>The branch in git\<close>

definition PutBranchInGit_setIntermediateSuccessFields :: "env \<Rightarrow> string \<Rightarrow> branch_handler" where
  "PutBranchInGit_setIntermediateSuccessFields E action =
     bindp (stamp E (\<lambda>t. put_branch_intermediate t action)) (\<lambda>_.
     bindp (gets obj) (\<lambda>cb.
     wrapping (''failed to update CodebaseBranch status field '' @ quoted (m_name (b_meta cb)))
       (save VStatusUpdate Branches E)))"

text \<open>
  The branch that was just created is entered in the status; when that cannot be stored the
  status says so, and the next reconciliation creates the branch again.
\<close>

definition branch_created :: "env \<Rightarrow> branch_handler" where
  "branch_created E =
     bindp (set_obj (set_branch_status (\<lambda>st. st\<lparr>bt_git := CodebaseBranchGitStatusBranchCreated\<rparr>))) (\<lambda>_.
     catchp (save VStatusUpdate Branches E) (\<lambda>err.
       bindp (set_obj (set_branch_status (\<lambda>st. st\<lparr>bt_git := []\<rparr>))) (\<lambda>_.
       bindp (stamp E (\<lambda>t. putGitBranchSetFailedFields t (err_msg err))) (\<lambda>_.
       throw (wrap_err ''failed to update CodebaseBranch status'' err)))))"

definition PutBranchInGit_next :: "branch_handler option \<Rightarrow> branch_handler" where
  "PutBranchInGit_next next =
     wrapping ''failed to process next handler in chain'' (NextServeOrNil next)"

definition put_branch :: "env \<Rightarrow> branch_handler" where
  "put_branch E =
     bindp (gets obj) (\<lambda>cb.
     bindp (wrapping ''failed to fetch Codebase'' (failing E putGitBranchSetFailedFields
       (kget Codebases E (m_ns (b_meta cb)) (bs_codebaseName (b_spec cb))))) (\<lambda>c.
     if \<not> ct_available (c_status c)
     then throw (GErr (m_name (c_meta c) @ '' codebase is unavailable'') [KBranchReconcile])
     else
       bindp (wrapping ''failed to fetch GitServer'' (failing E putGitBranchSetFailedFields
         (kget GitServers E (m_ns (b_meta cb)) (cs_gitServer (c_spec c))))) (\<lambda>gs.
       bindp (failing E putGitBranchSetFailedFields
         (wrapping (''failed to get '' @ gs_nameSshKeySecret (gs_spec gs) @ '' secret'')
           (kget Secrets E (m_ns (b_meta cb)) (gs_nameSshKeySecret (gs_spec gs))))) (\<lambda>sec.
       let fromRef = (if bs_fromCommit (b_spec cb) = [] then cs_defaultBranch (c_spec c)
                      else bs_fromCommit (b_spec cb)) in
       bindp (wrapping ''failed to create remote branch'' (failing E putGitBranchSetFailedFields
         (git E (NewConfigFromGitServerAndSecret gs sec)
           (GitCreateBranch (GetProjectGitUrl gs sec (GetProjectID (c_spec c)))
             (bs_branchName (b_spec cb)) fromRef)))) (\<lambda>_.
       branch_created E)))))"

definition PutBranchInGit_ServeRequest :: "env \<Rightarrow> branch_handler option \<Rightarrow> branch_handler" where
  "PutBranchInGit_ServeRequest E next =
     bindp (gets obj) (\<lambda>cb.
     if bt_git (b_status cb) = CodebaseBranchGitStatusBranchCreated then PutBranchInGit_next next
     else
       bindp (PutBranchInGit_setIntermediateSuccessFields E AcceptCodebaseBranchRegistration) (\<lambda>_.
       bindp (put_branch E) (\<lambda>_.
       PutBranchInGit_next next)))"

subsection \<open>The version\<close>

definition HasNewVersion :: "branch \<Rightarrow> gerr + bool" where
  "HasNewVersion b =
     (case bs_version (b_spec b) of
        None \<Rightarrow> Inl (errorf (''codebase branch '' @ m_name (b_meta b) @ '' doesn'' @ [CHR 0x27] @
                             ''t have version''))
      | Some v \<Rightarrow> Inr (v \<notin> set (bt_versionHistory (b_status b))))"

definition enter_version :: "branch \<Rightarrow> branch" where
  "enter_version b =
     set_branch_status (\<lambda>st. st\<lparr>bt_build := Some ''0'', bt_lastSuccessfulBuild := None,
       bt_versionHistory := bt_versionHistory st @
         (case bs_version (b_spec b) of None \<Rightarrow> [] | Some v \<Rightarrow> [v])\<rparr>) b"

definition processNewVersion :: "env \<Rightarrow> codebase \<Rightarrow> branch_handler" where
  "processNewVersion E c =
     bindp (gets obj) (\<lambda>cb.
     if \<not> IsVersionTypeSemver (c_spec c) then ret ()
     else
       bindp (wrapping (''failed to check if branch '' @ m_name (b_meta cb) @ '' has new version'')
         (lift (HasNewVersion cb))) (\<lambda>hasVersion.
       if \<not> hasVersion then ret ()
       else
         bindp (set_obj enter_version) (\<lambda>_.
         wrapping ''failed to update CodebaseBranch status'' (save VStatusUpdate Branches E))))"

text \<open>An error that names the object in hand as it is when the error is returned.\<close>

definition wrapping_branch :: "string \<Rightarrow> string \<Rightarrow> (branch st, 'a) prog \<Rightarrow> (branch st, 'a) prog" where
  "wrapping_branch pre post m =
     catchp m (\<lambda>e. bindp (gets obj) (\<lambda>b. throw (wrap_err (pre @ m_name (b_meta b) @ post) e)))"

definition ProcessNewVersion_ServeRequest :: "env \<Rightarrow> branch_handler option \<Rightarrow> branch_handler" where
  "ProcessNewVersion_ServeRequest E next =
     bindp (gets obj) (\<lambda>cb.
     bindp (wrapping ''failed to get Codebase''
       (kget Codebases E (m_ns (b_meta cb)) (bs_codebaseName (b_spec cb)))) (\<lambda>c.
     bindp (wrapping_branch ''failed to process new version for '' '' branch'' (processNewVersion E c)) (\<lambda>_.
     wrapping ''failed to serve next chain element'' (NextServeOrNil next))))"

subsection \<open>The image stream\<close>

definition ProcessNameToK8sConvention :: "string \<Rightarrow> string" where
  "ProcessNameToK8sConvention name =
     map (\<lambda>c. if c = CHR ''/'' \<or> c = CHR ''.'' then CHR ''-'' else c) name"

definition getDockerRegistryUrl :: "env \<Rightarrow> string \<Rightarrow> ('o st, string) prog" where
  "getDockerRegistryUrl E ns =
     bindp (wrapping ''failed to get config'' (GetKrciConfig E ns)) (\<lambda>config.
     if kc_registryHost config = []
     then throw (errorf ''container_registry_host is not set in krci-config config map'')
     else if kc_registrySpace config = []
     then throw (errorf ''container_registry_space is not set in krci-config config map'')
     else ret (kc_registryHost config @ ''/'' @ kc_registrySpace config))"

definition getCodebaseImageStream :: "env \<Rightarrow> branch \<Rightarrow> ('o st, image_stream) prog" where
  "getCodebaseImageStream E b =
     bindp (attempt (GetCodebaseImageStreamByCodebaseBaseBranchName E (m_name (b_meta b))
       (m_ns (b_meta b)))) (\<lambda>r.
     case r of
       Inr cis \<Rightarrow> ret cis
     | Inl e \<Rightarrow>
         if \<not> errors_is e KImageStreamNotFound
         then throw (wrap_err ''failed to get CodebaseImageStream'' e)
         else wrapping ''failed to get CodebaseImageStream''
           (kget ImageStreams E (m_ns (b_meta b))
             (bs_codebaseName (b_spec b) @ ''-'' @
              ProcessNameToK8sConvention (bs_branchName (b_spec b)))))"

definition relabelled :: "branch \<Rightarrow> image_stream \<Rightarrow> image_stream" where
  "relabelled b cis = cis\<lparr>is_meta := (is_meta cis)\<lparr>m_labels :=
     Some (smap_put CodebaseLabel (bs_codebaseName (b_spec b))
       (smap_put CodebaseBranchLabel (m_name (b_meta b)) (labels_of (is_meta cis))))\<rparr>\<rparr>"

definition new_image_stream :: "branch \<Rightarrow> string \<Rightarrow> image_stream" where
  "new_image_stream b registryUrl =
     \<lparr>is_meta = (new_meta (m_name (b_meta b)) (m_ns (b_meta b)))
        \<lparr>m_labels := Some [(CodebaseBranchLabel, m_name (b_meta b)),
                           (CodebaseLabel, bs_codebaseName (b_spec b))]\<rparr>,
      is_spec = \<lparr>is_codebase = bs_codebaseName (b_spec b),
        is_imageName = registryUrl @ ''/'' @ bs_codebaseName (b_spec b), is_tags = []\<rparr>\<rparr>"

definition createCodebaseImageStreamIfNotExists :: "env \<Rightarrow> branch \<Rightarrow> ('o st, unit) prog" where
  "createCodebaseImageStreamIfNotExists E b =
     bindp (attempt (getCodebaseImageStream E b)) (\<lambda>r.
     case r of
       Inr cis \<Rightarrow>
         if map_of (labels_of (is_meta cis)) CodebaseBranchLabel \<noteq> Some (m_name (b_meta b))
         then wrapping ''failed to set branch label''
                (bindp (kwrite VPatch ImageStreams E cis (relabelled b cis)) (\<lambda>_. ret ()))
         else ret ()
     | Inl e \<Rightarrow>
         if \<not> errors_is e KNotFound then throw (wrap_err ''failed to get CodebaseImageStream'' e)
         else
           bindp (wrapping ''failed to get container registry url''
             (getDockerRegistryUrl E (m_ns (b_meta b)))) (\<lambda>registryUrl.
           let cis = new_image_stream b registryUrl in
           bindp (wrapping ''failed to set controller reference for CodebaseImageStream''
             (lift (l_setControllerReference (lib_of E) (ObjBranch b) (is_meta cis)))) (\<lambda>m.
           wrapping ''failed to create CodebaseImageStream''
             (bindp (kcreate ImageStreams E (cis\<lparr>is_meta := m\<rparr>)) (\<lambda>_. ret ())))))"

definition PutCodebaseImageStream_setIntermediateSuccessFields ::
  "env \<Rightarrow> string \<Rightarrow> branch_handler" where
  "PutCodebaseImageStream_setIntermediateSuccessFields E action =
     bindp (stamp E (\<lambda>t. image_stream_intermediate t action)) (\<lambda>_.
     bindp (gets obj) (\<lambda>cb.
     bindp (wrapping (''failed to update CodebaseBranch status field '' @ quoted (m_name (b_meta cb)))
       (save VStatusUpdate Branches E)) (\<lambda>_.
     bindp (gets obj) (\<lambda>cb.
     wrapping (''failed to update CodebaseBranch resource '' @ quoted (m_name (b_meta cb)))
       (save VUpdate Branches E)))))"

definition PutCodebaseImageStream_ServeRequest :: "env \<Rightarrow> branch_handler option \<Rightarrow> branch_handler" where
  "PutCodebaseImageStream_ServeRequest E next =
     bindp (PutCodebaseImageStream_setIntermediateSuccessFields E ActionPutCodebaseImageStream) (\<lambda>_.
     bindp (gets obj) (\<lambda>cb.
     bindp (wrapping ''failed to fetch Codebase resource''
       (failing E (\<lambda>t. image_stream_failed t ActionPutCodebaseImageStream)
         (kget Codebases E (m_ns (b_meta cb)) (bs_codebaseName (b_spec cb))))) (\<lambda>_.
     bindp (failing E (\<lambda>t. image_stream_failed t ActionPutCodebaseImageStream)
       (createCodebaseImageStreamIfNotExists E cb)) (\<lambda>_.
     wrapping ''failed to process next handler in chain'' (NextServeOrNil next)))))"

subsection \<open>The two chains\<close>

definition GetDeletionChain :: branch_handler where
  "GetDeletionChain = empty_ServeRequest ''no deletion chain for tekton'' False"

definition GetChain :: "env \<Rightarrow> branch_handler" where
  "GetChain E =
     CheckReferenceExists_ServeRequest E (Some
       (PutBranchInGit_ServeRequest E (Some
         (ProcessNewVersion_ServeRequest E (Some
           (PutCodebaseImageStream_ServeRequest E None))))))"

section \<open>The service of branches\<close>

definition CodebaseBranchService_updateStatus :: "env \<Rightarrow> branch_handler" where
  "CodebaseBranchService_updateStatus E =
     catchp (save VStatusUpdate Branches E) (\<lambda>_.
       wrapping ''failed to update codebase branch status'' (save VUpdate Branches E))"

definition AppendVersionToTheHistorySlice :: "env \<Rightarrow> branch_handler" where
  "AppendVersionToTheHistorySlice E =
     bindp (gets obj) (\<lambda>b.
     case bs_version (b_spec b) of
       None \<Rightarrow> ret ()
     | Some v \<Rightarrow>
         bindp (set_obj (set_branch_status (\<lambda>st. st\<lparr>bt_versionHistory := bt_versionHistory st @ [v]\<rparr>))) (\<lambda>_.
         CodebaseBranchService_updateStatus E))"

definition ResetBranchBuildCounter :: "env \<Rightarrow> branch_handler" where
  "ResetBranchBuildCounter E =
     bindp (gets obj) (\<lambda>b.
     case bt_build (b_status b) of
       None \<Rightarrow> ret ()
     | Some _ \<Rightarrow>
         bindp (set_obj (set_branch_status (\<lambda>st. st\<lparr>bt_build := Some ''0''\<rparr>))) (\<lambda>_.
         CodebaseBranchService_updateStatus E))"

definition ResetBranchSuccessBuildCounter :: "env \<Rightarrow> branch_handler" where
  "ResetBranchSuccessBuildCounter E =
     bindp (gets obj) (\<lambda>b.
     case bt_lastSuccessfulBuild (b_status b) of
       None \<Rightarrow> ret ()
     | Some _ \<Rightarrow>
         bindp (set_obj (set_branch_status (\<lambda>st. st\<lparr>bt_lastSuccessfulBuild := None\<rparr>))) (\<lambda>_.
         CodebaseBranchService_updateStatus E))"

end
