(* ===== verification/Branch_Controller.thy ===== *)
theory Branch_Controller
  imports Branch_Chain
begin

text \<open>
  \<open>controllers/codebasebranch/codebasebranch_controller.go\<close>: the reconciliation of a branch
  around the chain of \<open>Branch_Chain\<close>: pipeline names, owner, labels, deletion, and what is
  stored of the outcome.
\<close>

abbreviation codebaseBranchOperatorFinalizerName :: string where
  "codebaseBranchOperatorFinalizerName \<equiv> ''codebase.branch.operator.finalizer.name''"

section \<open>Status\<close>

text \<open>
  The status of the object in hand is stored in the branch as it is now, but for the
  conditions, which belong to the stale branch checker.
\<close>

definition with_status_of :: "branch \<Rightarrow> branch \<Rightarrow> branch" where
  "with_status_of cb fresh =
     fresh\<lparr>b_status := (b_status cb)\<lparr>bt_conditions := bt_conditions (b_status fresh)\<rparr>\<rparr>"

definition Branch_updateStatus :: "env \<Rightarrow> (branch st, unit) prog" where
  "Branch_updateStatus E =
     bindp (gets obj) (\<lambda>cb.
     bindp (wrapping ''failed to get CodebaseBranch''
       (kget Branches E (m_ns (b_meta cb)) (m_name (b_meta cb)))) (\<lambda>fresh.
     let x = with_status_of cb fresh in
     wrapping ''failed to update CodebaseBranch status''
       (bindp (kwrite VStatusUpdate Branches E x x) (\<lambda>_. ret ()))))"

definition success_status :: "int \<Rightarrow> string \<Rightarrow> branch_status \<Rightarrow> branch_status" where
  "success_status t action st =
     \<lparr>bt_lastTimeUpdated = t, bt_versionHistory = bt_versionHistory st,
      bt_lastSuccessfulBuild = bt_lastSuccessfulBuild st, bt_build = bt_build st,
      bt_status = StatusFinished, bt_username = ''system'', bt_action = action,
      bt_result = ResultSuccess, bt_detailedMessage = [], bt_value = ''active'',
      bt_failureCount = 0, bt_git = bt_git st, bt_conditions = bt_conditions st\<rparr>"

definition setSuccessStatus :: "env \<Rightarrow> string \<Rightarrow> (branch st, unit) prog" where
  "setSuccessStatus E action =
     bindp (stamp E (\<lambda>t. success_status t action)) (\<lambda>_. Branch_updateStatus E)"

definition setErrorStatus :: "string \<Rightarrow> branch \<Rightarrow> branch" where
  "setErrorStatus msg = set_branch_status (\<lambda>st. st\<lparr>bt_status := ''error'', bt_detailedMessage := msg\<rparr>)"

definition Branch_setFailureCount :: "env \<Rightarrow> (branch st, int) prog" where
  "Branch_setFailureCount E =
     bindp (gets obj) (\<lambda>c.
     let timeout = GetTimeout E (bt_failureCount (b_status c)) (10 * second) in
     bindp (set_obj (set_branch_status (\<lambda>st. st\<lparr>bt_failureCount := i64 (bt_failureCount st + 1)\<rparr>))) (\<lambda>_.
     ret timeout))"

section \<open>Pipelines and owner\<close>

definition pipelinesIsSet :: "branch \<Rightarrow> bool" where
  "pipelinesIsSet cb \<longleftrightarrow>
     (case bs_pipelines (b_spec cb) of
        None \<Rightarrow> False
      | Some m \<Rightarrow> map_of m ''review'' \<noteq> None \<and> map_of m ''build'' \<noteq> None)"

definition pipeline_stem :: "codebase_spec \<Rightarrow> git_server \<Rightarrow> string" where
  "pipeline_stem sp gs =
     gs_gitProvider (gs_spec gs) @ ''-'' @ to_lower (cs_buildTool sp) @ ''-'' @
     to_lower (cs_framework sp) @ ''-'' @ take 3 (cs_type sp)"

definition default_pipelines :: "codebase_spec \<Rightarrow> git_server \<Rightarrow> smap \<Rightarrow> smap" where
  "default_pipelines sp gs m =
     (let m1 = (if map_of m ''build'' \<noteq> None then m
                else smap_put ''build'' (pipeline_stem sp gs @ ''-build-'' @ cs_versioningType sp) m)
      in if map_of m1 ''review'' \<noteq> None then m1
         else smap_put ''review'' (pipeline_stem sp gs @ ''-review'') m1)"

definition setDefaultValues :: "env \<Rightarrow> codebase \<Rightarrow> (branch st, bool) prog" where
  "setDefaultValues E c =
     bindp (gets obj) (\<lambda>cb.
     if pipelinesIsSet cb then ret False
     else if cs_ciTool (c_spec c) = CIGitLab then ret False
     else
       bindp (wrapping ''failed to get GitServer''
         (kget GitServers E (m_ns (c_meta c)) (cs_gitServer (c_spec c)))) (\<lambda>gs.
       if length (cs_type (c_spec c)) < 3
       then throw (errorf (''codebase type is invalid: '' @ cs_type (c_spec c)))
       else
         let m = (case bs_pipelines (b_spec cb) of None \<Rightarrow> [] | Some m \<Rightarrow> m);
             changed = (map_of m ''build'' = None \<or> map_of m ''review'' = None)
         in bindp (set_obj (\<lambda>b. b\<lparr>b_spec := (b_spec b)
              \<lparr>bs_pipelines := Some (default_pipelines (c_spec c) gs m)\<rparr>\<rparr>)) (\<lambda>_.
            ret changed)))"

definition Branch_setOwnerRef :: "env \<Rightarrow> codebase \<Rightarrow> (branch st, unit) prog" where
  "Branch_setOwnerRef E c =
     bindp (gets obj) (\<lambda>cb.
     bindp (wrapping ''failed to set owner ref for CodebaseBranch CR''
       (lift (l_setControllerReference (lib_of E) (ObjCodebase c) (b_meta cb)))) (\<lambda>m.
     set_obj (\<lambda>b. b\<lparr>b_meta := m\<rparr>)))"

section \<open>Deletion\<close>

text \<open>
  \<open>retry.RetryOnConflict\<close> is a function of the Kubernetes client library. This is its
  documented contract, and no more is assumed of it: it runs its argument again as long as
  the answer is a conflict, up to a number of tries that is a parameter of the model
  (\<open>l_retrySteps\<close>), without its delays, and returns the last error as it is.
\<close>

fun RetryOnConflict :: "nat \<Rightarrow> ('s, unit) prog \<Rightarrow> ('s, unit) prog" where
  "RetryOnConflict 0 f = ret ()"
| "RetryOnConflict (Suc n) f =
     catchp f (\<lambda>e. if errors_is e KConflict \<and> n > 0 then RetryOnConflict n f else throw e)"

definition set_branch_finalizers :: "(string list \<Rightarrow> string list) \<Rightarrow> branch \<Rightarrow> branch" where
  "set_branch_finalizers f b = b\<lparr>b_meta := (b_meta b)\<lparr>m_finalizers := f (m_finalizers (b_meta b))\<rparr>\<rparr>"

definition release_finalizer :: "env \<Rightarrow> (branch st, unit) prog" where
  "release_finalizer E =
     bindp (gets obj) (\<lambda>cb.
     bindp (kget Branches E (m_ns (b_meta cb)) (m_name (b_meta cb))) (\<lambda>fresh.
     bindp (set_obj (\<lambda>_. set_branch_finalizers
       (l_removeFinalizer (lib_of E) codebaseBranchOperatorFinalizerName) fresh)) (\<lambda>_.
     save VUpdate Branches E)))"

text \<open>Only a failed job stops the deletion; every other error of the chain is dropped.\<close>

definition tryToDeleteCodebaseBranch ::
  "env \<Rightarrow> branch_handler \<Rightarrow> (branch st, reconcile_result option) prog" where
  "tryToDeleteCodebaseBranch E deletionChain =
     bindp (gets obj) (\<lambda>cb.
     if is_zero_time (m_deletion (b_meta cb)) then
       (case l_addFinalizer (lib_of E) codebaseBranchOperatorFinalizerName (m_finalizers (b_meta cb)) of
          (was_added, fin) \<Rightarrow>
            bindp (set_obj (set_branch_finalizers (\<lambda>_. fin))) (\<lambda>_.
            bindp (if was_added then wrapping_branch ''failed to add finalizer to '' [] (save VUpdate Branches E)
                   else ret ()) (\<lambda>_.
            ret None)))
     else
       bindp (attempt deletionChain) (\<lambda>r.
       if (case r of Inl e \<Rightarrow> errors_is e KJobFailed | Inr _ \<Rightarrow> False) then
         bindp (Branch_setFailureCount E) (\<lambda>timeout.
         bindp (ignoring (save VStatusUpdate Branches E)) (\<lambda>_.
         ret (Some (requeue_after timeout))))
       else
         bindp (wrapping_branch ''failed to remove finalizer from '' []
           (RetryOnConflict (l_retrySteps (lib_of E)) (release_finalizer E))) (\<lambda>_.
         ret (Some no_requeue))))"

section \<open>The reconciliation\<close>

text \<open>
  A result that is returned next to an error is not looked at by the caller, so the delay
  computed for a failed chain has no effect but the failure count stored with it.
\<close>

definition serve_branch :: "env \<Rightarrow> codebase \<Rightarrow> (branch st, reconcile_result) prog" where
  "serve_branch E c =
     bindp (set_obj (set_branch_status (\<lambda>st.
       if IsVersionTypeSemver (c_spec c) \<and> bt_build st = None then st\<lparr>bt_build := Some ''0''\<rparr> else st))) (\<lambda>_.
     bindp (attempt (GetChain E)) (\<lambda>r.
     case r of
       Inl err \<Rightarrow>
         if errors_is err KBranchReconcile then ret (requeue_after (5 * second))
         else
           bindp (Branch_setFailureCount E) (\<lambda>_.
           bindp (ignoring (Branch_updateStatus E)) (\<lambda>_.
           throw (wrap_err ''failed to process default chain'' err)))
     | Inr _ \<Rightarrow>
         bindp (wrapping_branch ''failed to update Codebase '' '' branch status''
           (setSuccessStatus E CIConfiguration)) (\<lambda>_.
         ret no_requeue)))"

text \<open>
  The error of the owner reference is overwritten by the one of the status update: what is
  returned wraps that, or nothing at all.
\<close>

definition owner_failed :: "env \<Rightarrow> gerr \<Rightarrow> (branch st, 'a) prog" where
  "owner_failed E err =
     bindp (set_obj (setErrorStatus (err_msg err))) (\<lambda>_.
     bindp (attempt (Branch_updateStatus E)) (\<lambda>r.
     bindp (gets obj) (\<lambda>cb.
     let pre = ''failed to set OwnerRef for codebasebranch '' @ m_name (b_meta cb) in
     case r of
       Inl e \<Rightarrow> throw (wrap_err pre e)
     | Inr _ \<Rightarrow> throw (errorf (pre @ '': %!w(<nil>)'')))))"

definition reconcile_owned :: "env \<Rightarrow> codebase \<Rightarrow> (branch st, reconcile_result) prog" where
  "reconcile_owned E c =
     bindp (wrapping ''failed to set default values'' (setDefaultValues E c)) (\<lambda>updated.
     if updated then
       bindp (wrapping ''failed to update CodebaseBranch'' (save VUpdate Branches E)) (\<lambda>_.
       ret no_requeue)
     else
       bindp (catchp (Branch_setOwnerRef E c) (owner_failed E)) (\<lambda>_.
       bindp (ignoring (AddCodebaseLabel E (m_name (c_meta c)))) (\<lambda>_.
       bindp (wrapping_branch ''failed to remove codebasebranch '' []
         (tryToDeleteCodebaseBranch E GetDeletionChain)) (\<lambda>result.
       case result of
         Some r \<Rightarrow> ret r
       | None \<Rightarrow> serve_branch E c))))"

definition reconcile_branch :: "env \<Rightarrow> (branch st, reconcile_result) prog" where
  "reconcile_branch E =
     bindp (gets obj) (\<lambda>cb.
     bindp (attempt (kget Codebases E (m_ns (b_meta cb)) (bs_codebaseName (b_spec cb)))) (\<lambda>r.
     case r of
       Inl e \<Rightarrow>
         if errors_is e KNotFound \<and> m_deletion (b_meta cb) \<noteq> None then
           bindp (wrapping_branch ''failed to remove codebasebranch '' []
             (tryToDeleteCodebaseBranch E GetDeletionChain)) (\<lambda>result.
           ret (case result of Some r \<Rightarrow> r | None \<Rightarrow> no_requeue))
         else throw (wrap_err ''failed to get Codebase'' e)
     | Inr c \<Rightarrow> reconcile_owned E c))"

definition Branch_Reconcile :: "env \<Rightarrow> string \<Rightarrow> string \<Rightarrow> (branch st, reconcile_result) prog" where
  "Branch_Reconcile E ns name =
     bindp (attempt (kget Branches E ns name)) (\<lambda>r.
     case r of
       Inl e \<Rightarrow>
         if errors_is e KNotFound then ret no_requeue
         else throw (wrap_err (''failed to fetch CodebaseBranch resource '' @ quoted (ns @ ''/'' @ name)) e)
     | Inr cb \<Rightarrow> bindp (set_obj (\<lambda>_. cb)) (\<lambda>_. reconcile_branch E))"

end
