(* ===== verification/Branch_Invariant.thy ===== *)
theory Branch_Invariant
  imports Branch_Controller Example_Env
begin

text \<open>
  What a whole reconciliation of a branch keeps. A property of the events so far and of the
  branch in hand is carried through the handlers when it survives reads, writes of other
  objects, and status fields that leave the git status and the version history alone.
\<close>

section \<open>What happened since a point of the history\<close>

definition so_far :: "(event list \<Rightarrow> 'o \<Rightarrow> bool) \<Rightarrow> history \<Rightarrow> 'o st \<Rightarrow> bool" where
  "so_far P h s \<longleftrightarrow> (\<exists>es. log s = h @ es \<and> P es (obj s))"

lemma so_far_step:
  "so_far P h s \<Longrightarrow> log t = log s @ xs \<Longrightarrow> (\<And>es. P es (obj s) \<Longrightarrow> Q (es @ xs) (obj t)) \<Longrightarrow>
   so_far Q h t"
  unfolding so_far_def by (metis append.assoc)

lemma so_far_log:
  "so_far P h s \<Longrightarrow> (\<And>es. P es (obj s) \<Longrightarrow> P (es @ xs) (obj s)) \<Longrightarrow>
   so_far P h (s\<lparr>log := log s @ xs\<rparr>)"
  by (erule so_far_step [where xs = xs and Q = P]) simp_all

definition status_write :: "event \<Rightarrow> bool" where
  "status_write ev \<longleftrightarrow> (case ev of EvWrite VStatusUpdate (ObjBranch b) e \<Rightarrow> True | _ \<Rightarrow> False)"

lemma status_write_simps [simp]:
  "status_write (EvWrite VStatusUpdate (ObjBranch b) e)" "\<not> status_write (EvGet k ns n)"
  "\<not> status_write (EvList k ns sel)" "\<not> status_write (EvGit cfg gc e)"
  "\<not> status_write (EvWrite VUpdate (ObjBranch b) e)" "\<not> status_write (EvWrite v (ObjImageStream i) e)"
  by (simp_all add: status_write_def split: verb.split)

text \<open>Programs that read, or change something other than the branch in hand and its status.\<close>

definition quiet :: "('o st, 'a) prog \<Rightarrow> bool" where
  "quiet m \<longleftrightarrow> appends (\<lambda>ev. \<not> status_write ev) m \<and> (\<forall>x. keeps (\<lambda>s. obj s = x) m)"

named_theorems quiet_intros \<open>introduction rules of \<open>quiet\<close>\<close>

lemma quietI: "appends (\<lambda>ev. \<not> status_write ev) m \<Longrightarrow> (\<And>x. keeps (\<lambda>s. obj s = x) m) \<Longrightarrow> quiet m"
  by (simp add: quiet_def)

lemma quiet_keeps: "quiet m \<Longrightarrow> keeps (\<lambda>s. obj s = x) m"
  by (simp add: quiet_def)

lemma quiet_reader: "reader m \<Longrightarrow> quiet m"
  by (rule quietI) (auto intro: reader_keeps elim!: reader_appends simp: is_read_def status_write_def
      split: event.splits)

lemma quiet_readers [quiet_intros]:
  "quiet (ret x)" "quiet (throw e)" "quiet (gets f)" "quiet (lift y)"
  "quiet (kget R E ns n)" "quiet (klist R E ns sel)"
  by (intro quiet_reader reader_intros)+

lemma quiet_calls [quiet_intros]:
  "quiet (git E cfg gc)" "quiet (git_string E cfg gc)" "quiet (kwrite v ImageStreams E x1 x2)"
  by (rule quietI; intro appends_intros keeps_intros; simp add: ImageStreams_def)+

lemma quiet_bindp [quiet_intros]:
  "quiet m \<Longrightarrow> (\<And>x. quiet (f x)) \<Longrightarrow> quiet (bindp m f)"
  and quiet_wrapping [quiet_intros]: "quiet k \<Longrightarrow> quiet (wrapping pre k)"
  and quiet_attempt [quiet_intros]: "quiet m \<Longrightarrow> quiet (attempt m)"
  unfolding quiet_def by (auto intro!: appends_intros keeps_intros)

lemma quiet_if [quiet_intros]:
  "(b \<Longrightarrow> quiet m) \<Longrightarrow> (\<not> b \<Longrightarrow> quiet n) \<Longrightarrow> quiet (if b then m else n)"
  by simp

lemma quiet_case_sum [quiet_intros]:
  "(\<And>e. quiet (g e)) \<Longrightarrow> (\<And>y. quiet (f y)) \<Longrightarrow> quiet (case z of Inl e \<Rightarrow> g e | Inr y \<Rightarrow> f y)"
  by (cases z) simp_all

lemma reader_GetKrciConfig [reader_intros]: "reader (GetKrciConfig E ns)"
  unfolding GetKrciConfig_def getEdpConfig_def by (intro reader_intros)

lemma reader_getCodebaseImageStream [reader_intros]: "reader (getCodebaseImageStream E b)"
  unfolding getCodebaseImageStream_def GetCodebaseImageStreamByCodebaseBaseBranchName_def
  by (intro reader_intros)

lemma quiet_image_stream [quiet_intros]: "quiet (createCodebaseImageStreamIfNotExists E b)"
  unfolding createCodebaseImageStreamIfNotExists_def getDockerRegistryUrl_def Let_def
  by (intro quiet_intros quiet_reader [OF reader_getCodebaseImageStream]
      quiet_reader [OF reader_GetKrciConfig])

section \<open>Properties carried through the handlers\<close>

text \<open>What the status fields of the handlers leave alone.\<close>

definition core_status :: "branch \<Rightarrow> string \<times> string list" where
  "core_status b = (bt_git (b_status b), bt_versionHistory (b_status b))"

definition core :: "branch \<Rightarrow> string \<times> string \<times> string list" where
  "core b = (bs_branchName (b_spec b), core_status b)"

lemma core_simps [simp]:
  "core (b\<lparr>b_meta := m\<rparr>) = core b"
  "core (b\<lparr>b_spec := (b_spec b)\<lparr>bs_pipelines := p\<rparr>\<rparr>) = core b"
  "core (set_branch_finalizers f b) = core b"
  "core (setErrorStatus msg b) = core b"
  "core (set_branch_status (CheckReferenceExists_setFailedFields t a msg) b) = core b"
  "core (set_branch_status (putGitBranchSetFailedFields t msg) b) = core b"
  "core (set_branch_status (put_branch_intermediate t a) b) = core b"
  "core (set_branch_status (image_stream_failed t a msg) b) = core b"
  "core (set_branch_status (image_stream_intermediate t a) b) = core b"
  "core (set_branch_status (success_status t a) b) = core b"
  "core (set_branch_status (\<lambda>st. st\<lparr>bt_failureCount := n st\<rparr>) b) = core b"
  "core (set_branch_status (\<lambda>st. if c st then st\<lparr>bt_build := v\<rparr> else st) b) = core b"
  by (simp_all add: core_def core_status_def set_branch_finalizers_def setErrorStatus_def
      set_branch_status_def CheckReferenceExists_setFailedFields_def putGitBranchSetFailedFields_def
      put_branch_intermediate_def image_stream_failed_def image_stream_intermediate_def
      success_status_def)

lemma core_status_with [simp]: "core_status (with_status_of cb fresh) = core_status cb"
  by (simp add: core_status_def with_status_of_def)

definition branch_echoes :: "env \<Rightarrow> bool" where
  "branch_echoes E \<longleftrightarrow> (\<forall>h v b x y. k_write (api_branch E) h v b x = Inr y \<longrightarrow> y = x)"

lemma branch_echoesD: "branch_echoes E \<Longrightarrow> k_write (api_branch E) h v b x = Inr y \<Longrightarrow> y = x"
  by (simp add: branch_echoes_def)

lemma save_branch_state:
  assumes "branch_echoes E"
  shows "\<exists>e. snd (save v Branches E s) = s\<lparr>log := log s @ [EvWrite v (ObjBranch (obj s)) e]\<rparr>"
  using branch_echoesD [OF assms, of "log s" v "obj s" "obj s"]
  by (cases s) (auto simp: save_run Branches_def split: sum.split)

lemma updateStatus_state:
  "\<exists>xs. snd (Branch_updateStatus E s) = s\<lparr>log := log s @ xs\<rparr> \<and>
     (xs = [EvGet ''CodebaseBranch'' (m_ns (b_meta (obj s))) (m_name (b_meta (obj s)))] \<or>
      (\<exists>x e. core_status x = core_status (obj s) \<and>
         xs = [EvGet ''CodebaseBranch'' (m_ns (b_meta (obj s))) (m_name (b_meta (obj s))),
               EvWrite VStatusUpdate (ObjBranch x) e]))"
  by (auto simp: Branch_updateStatus_def bindp_run wrapping_run kget_run kwrite_def ask_run
      Branches_def Let_def split: sum.split)

lemma release_appends: "appends (\<lambda>e. \<not> status_write e) (release_finalizer E)"
  unfolding release_finalizer_def by (intro appends_intros) (simp_all add: Branches_def)

text \<open>
  \<open>P\<close> looks at the events and at the branch in hand; \<open>Q\<close> is what remains of it when the
  branch in hand has been fetched anew.
\<close>

locale branch_property =
  fixes P :: "event list \<Rightarrow> branch \<Rightarrow> bool" and Q :: "event list \<Rightarrow> bool"
  assumes other: "P es b \<Longrightarrow> \<not> status_write e \<Longrightarrow> P (es @ [e]) b"
    and stored: "P es b \<Longrightarrow> core_status x = core_status b \<Longrightarrow>
      P (es @ [EvWrite VStatusUpdate (ObjBranch x) r]) b"
    and frame: "P es b \<Longrightarrow> core b' = core b \<Longrightarrow> P es b'"
    and seen: "P es b \<Longrightarrow> Q es"
    and seen_other: "Q es \<Longrightarrow> \<not> status_write e \<Longrightarrow> Q (es @ [e])"
begin

abbreviation stay :: "history \<Rightarrow> (branch st, 'a) prog \<Rightarrow> bool" where
  "stay h m \<equiv> keeps (so_far P h) m"

abbreviation ends :: "history \<Rightarrow> (branch st, 'a) prog \<Rightarrow> bool" where
  "ends h m \<equiv> keeps (so_far (\<lambda>es _. Q es) h) m"

lemma others: "P es b \<Longrightarrow> list_all (\<lambda>e. \<not> status_write e) xs \<Longrightarrow> P (es @ xs) b"
  by (induction xs rule: rev_induct) (auto simp: other simp flip: append_assoc)

lemma seen_others: "Q es \<Longrightarrow> list_all (\<lambda>e. \<not> status_write e) xs \<Longrightarrow> Q (es @ xs)"
  by (induction xs rule: rev_induct) (auto simp: seen_other simp flip: append_assoc)

lemma stay_quiet: "quiet m \<Longrightarrow> stay h m"
proof (rule keepsI)
  fix s assume m: "quiet m" and s: "so_far P h s"
  from m have o: "obj (snd (m s)) = obj s" by (simp add: quiet_def keeps_objD)
  from m obtain xs where "log (snd (m s)) = log s @ xs" "list_all (\<lambda>ev. \<not> status_write ev) xs"
    using appendsD [of "\<lambda>ev. \<not> status_write ev" m s] by (auto simp: quiet_def)
  from s this(1) show "so_far P h (snd (m s))"
    by (rule so_far_step) (simp add: o others \<open>list_all _ xs\<close>)
qed

lemma stay_leaves:
  "stay h (kget R E ns n)" "stay h (klist R E ns sel)" "stay h (git E cfg gc)"
  "stay h (git_string E cfg gc)" "stay h (lift y)"
  "stay h (createCodebaseImageStreamIfNotExists E b)"
  by (intro stay_quiet quiet_intros)+

lemma stay_set: "(\<And>b. core (f b) = core b) \<Longrightarrow> stay h (set_obj f)"
  by (rule keepsI) (auto simp: so_far_def intro: frame)

lemma stay_set_so: "(\<And>es b. P es b \<Longrightarrow> P es (f b)) \<Longrightarrow> stay h (set_obj f)"
  by (rule keepsI) (auto simp: so_far_def)

lemma stay_stamp: "(\<And>t b. core (set_branch_status (f t) b) = core b) \<Longrightarrow> stay h (stamp E f)"
  unfolding stamp_def by (rule keepsI) (auto simp: so_far_def intro: frame)

lemma stay_save_status: "branch_echoes E \<Longrightarrow> stay h (save VStatusUpdate Branches E)"
proof (rule keepsI)
  fix s assume "branch_echoes E" and s: "so_far P h s"
  then obtain e where "snd (save VStatusUpdate Branches E s) =
      s\<lparr>log := log s @ [EvWrite VStatusUpdate (ObjBranch (obj s)) e]\<rparr>"
    using save_branch_state by blast
  then show "so_far P h (snd (save VStatusUpdate Branches E s))"
    by (metis so_far_log [OF s] stored)
qed

lemma stay_save: "branch_echoes E \<Longrightarrow> stay h (save VUpdate Branches E)"
proof (rule keepsI)
  fix s assume "branch_echoes E" and s: "so_far P h s"
  then obtain e where "snd (save VUpdate Branches E s) =
      s\<lparr>log := log s @ [EvWrite VUpdate (ObjBranch (obj s)) e]\<rparr>"
    using save_branch_state by blast
  then show "so_far P h (snd (save VUpdate Branches E s))"
    by (metis so_far_log [OF s] other status_write_simps(5))
qed

lemma stay_failing:
  "stay h m \<Longrightarrow> (\<And>t e b. core (set_branch_status (f t e) b) = core b) \<Longrightarrow> stay h (failing E f m)"
  unfolding failing_def by (intro keeps_intros stay_stamp)

lemma stay_processErr: "stay h m \<Longrightarrow> stay h (CheckReferenceExists_processErr E m)"
  unfolding CheckReferenceExists_processErr_def by (intro stay_failing) simp_all

lemma stay_next: "(\<And>m. next = Some m \<Longrightarrow> stay h m) \<Longrightarrow> stay h (NextServeOrNil next)"
  unfolding NextServeOrNil_def by (intro keeps_intros)

lemma stay_reference:
  "(\<And>m. next = Some m \<Longrightarrow> stay h m) \<Longrightarrow> stay h (CheckReferenceExists_ServeRequest E next)"
  unfolding CheckReferenceExists_ServeRequest_def CheckReferenceExists_next_def
  by (intro keeps_intros stay_next stay_processErr stay_leaves)

lemma stay_put_branch:
  assumes "branch_echoes E" and "stay h (put_branch E)" and "\<And>m. next = Some m \<Longrightarrow> stay h m"
  shows "stay h (PutBranchInGit_ServeRequest E next)"
  unfolding PutBranchInGit_ServeRequest_def PutBranchInGit_next_def
    PutBranchInGit_setIntermediateSuccessFields_def
  by (intro keeps_intros stay_next stay_stamp stay_save_status assms) simp_all

lemma stay_put:
  assumes "stay h (branch_created E)" shows "stay h (put_branch E)"
  unfolding put_branch_def Let_def
  by (intro keeps_intros stay_failing stay_leaves assms) simp_all

lemma stay_created:
  assumes "branch_echoes E"
    and "\<And>es b g. P es b \<Longrightarrow> P es (set_branch_status (\<lambda>st. st\<lparr>bt_git := g\<rparr>) b)"
  shows "stay h (branch_created E)"
  unfolding branch_created_def
  by (intro keeps_intros stay_set_so stay_save_status stay_stamp assms) simp_all

lemma stay_wrapping_branch: "stay h m \<Longrightarrow> stay h (wrapping_branch pre post m)"
  unfolding wrapping_branch_def by (intro keeps_intros)

lemma stay_version:
  assumes "\<And>c. stay h (processNewVersion E c)" and "\<And>m. next = Some m \<Longrightarrow> stay h m"
  shows "stay h (ProcessNewVersion_ServeRequest E next)"
  unfolding ProcessNewVersion_ServeRequest_def
  by (intro keeps_intros stay_next stay_wrapping_branch assms stay_leaves)

lemma stay_image_stream:
  "branch_echoes E \<Longrightarrow> stay h (PutCodebaseImageStream_ServeRequest E None)"
  unfolding PutCodebaseImageStream_ServeRequest_def
    PutCodebaseImageStream_setIntermediateSuccessFields_def
  by (intro keeps_intros stay_next stay_stamp stay_save_status stay_save stay_failing
      stay_leaves) simp_all

lemma stay_chain:
  assumes "branch_echoes E" and "stay h (put_branch E)" and "\<And>c. stay h (processNewVersion E c)"
  shows "stay h (GetChain E)"
  unfolding GetChain_def
  by (intro stay_reference) (auto intro!: stay_put_branch stay_version stay_image_stream assms)

lemma stay_updateStatus: "stay h (Branch_updateStatus E)"
proof (rule keepsI)
  fix s assume s: "so_far P h s"
  obtain xs where xs: "snd (Branch_updateStatus E s) = s\<lparr>log := log s @ xs\<rparr>"
    and shape: "xs = [EvGet ''CodebaseBranch'' (m_ns (b_meta (obj s))) (m_name (b_meta (obj s)))] \<or>
      (\<exists>x e. core_status x = core_status (obj s) \<and>
         xs = [EvGet ''CodebaseBranch'' (m_ns (b_meta (obj s))) (m_name (b_meta (obj s))),
               EvWrite VStatusUpdate (ObjBranch x) e])"
    using updateStatus_state by blast
  have "P (es @ xs) (obj s)" if "P es (obj s)" for es
    using shape other [OF that] stored [OF other [OF that]] by auto
  then show "so_far P h (snd (Branch_updateStatus E s))"
    unfolding xs by (rule so_far_log [OF s])
qed

lemma stay_count: "stay h (Branch_setFailureCount E)"
  unfolding Branch_setFailureCount_def Let_def by (intro keeps_intros stay_set) simp

lemma stay_serve: "stay h (GetChain E) \<Longrightarrow> stay h (serve_branch E c)"
  unfolding serve_branch_def setSuccessStatus_def
  by (intro keeps_intros stay_set stay_count stay_updateStatus stay_wrapping_branch stay_stamp) simp_all

lemma stay_labels: "branch_echoes E \<Longrightarrow> stay h (AddCodebaseLabel E n)"
  unfolding AddCodebaseLabel_def Let_def
  by (intro keeps_intros stay_set stay_save) simp

lemma stay_defaults: "stay h (setDefaultValues E c)"
  unfolding setDefaultValues_def Let_def
  by (intro keeps_intros stay_set stay_leaves) simp

lemma stay_owner: "stay h (catchp (Branch_setOwnerRef E c) (owner_failed E))"
  unfolding Branch_setOwnerRef_def owner_failed_def Let_def
  by (intro keeps_intros stay_set stay_updateStatus stay_leaves) simp_all

lemma ends_of_stay: "stay h m \<Longrightarrow> so_far P h s \<Longrightarrow> so_far (\<lambda>es _. Q es) h (snd (m s))"
  using keepsD [of "so_far P h" m s] by (auto simp: so_far_def intro: seen)

lemma ends_release: "ends h (release_finalizer E)"
proof (rule keepsI)
  fix s :: "branch st" assume s: "so_far (\<lambda>es _. Q es) h s"
  from appendsD [OF release_appends] obtain xs where
    "log (snd (release_finalizer E s)) = log s @ xs" "list_all (\<lambda>e. \<not> status_write e) xs"
    by blast
  from s this(1) show "so_far (\<lambda>es _. Q es) h (snd (release_finalizer E s))"
    by (rule so_far_step) (rule seen_others [OF _ \<open>list_all _ xs\<close>])
qed

lemma ends_retry: "ends h (RetryOnConflict n (release_finalizer E))"
  by (induction n) (auto intro!: keeps_intros ends_release simp del: ret_run simp: keeps_ret)

text \<open>The deletion leaves \<open>P\<close> when it lets the reconciliation go on, and \<open>Q\<close> always.\<close>

lemma delete_ends:
  assumes "branch_echoes E" and "so_far P h s"
  shows "so_far (\<lambda>es _. Q es) h (snd (tryToDeleteCodebaseBranch E GetDeletionChain s)) \<and>
    (fst (tryToDeleteCodebaseBranch E GetDeletionChain s) = Ok None \<longrightarrow>
     so_far P h (snd (tryToDeleteCodebaseBranch E GetDeletionChain s)))"
proof (cases "is_zero_time (m_deletion (b_meta (obj s)))")
  case True
  obtain a fin where fin: "l_addFinalizer (lib_of E) codebaseBranchOperatorFinalizerName
      (m_finalizers (b_meta (obj s))) = (a, fin)" by fastforce
  let ?m = "bindp (set_obj (set_branch_finalizers (\<lambda>_. fin))) (\<lambda>_.
      bindp (if a then wrapping_branch ''failed to add finalizer to '' [] (save VUpdate Branches E)
             else ret ()) (\<lambda>_. ret None))"
  have "stay h ?m"
    by (intro keeps_intros stay_set stay_wrapping_branch stay_save assms(1)) simp
  moreover have run: "tryToDeleteCodebaseBranch E GetDeletionChain s = ?m s"
    using True fin by (simp add: tryToDeleteCodebaseBranch_def)
  ultimately show ?thesis
    unfolding run
    using ends_of_stay [OF \<open>stay h ?m\<close> assms(2)] keepsD [OF \<open>stay h ?m\<close> assms(2)] by blast
next
  case False
  let ?m = "bindp (wrapping_branch ''failed to remove finalizer from '' []
      (RetryOnConflict (l_retrySteps (lib_of E)) (release_finalizer E))) (\<lambda>_. ret (Some no_requeue))"
  have run: "tryToDeleteCodebaseBranch E GetDeletionChain s = ?m s"
    using False by (simp add: tryToDeleteCodebaseBranch_def GetDeletionChain_def
        empty_ServeRequest_def attempt_run bindp_run)
  have "ends h ?m" unfolding wrapping_branch_def by (intro keeps_intros ends_retry)
  moreover have "so_far (\<lambda>es _. Q es) h s" using assms(2) by (auto simp: so_far_def intro: seen)
  ultimately have "so_far (\<lambda>es _. Q es) h (snd (?m s))" by (rule keepsD)
  moreover have "fst (?m s) \<noteq> Ok None" by (simp add: bindp_run split: outcome.split)
  ultimately show ?thesis unfolding run by simp
qed

lemma delete_then:
  assumes "branch_echoes E" and "stay h k"
  shows "triple (so_far P h) (bindp (wrapping_branch pre [] (tryToDeleteCodebaseBranch E GetDeletionChain))
    (\<lambda>r. case r of Some x \<Rightarrow> ret x | None \<Rightarrow> k)) (\<lambda>_. so_far (\<lambda>es _. Q es) h)"
proof (rule tripleI)
  fix s assume s: "so_far P h s"
  from delete_ends [OF assms(1) s] ends_of_stay [OF assms(2)]
  show "so_far (\<lambda>es _. Q es) h (snd (bindp (wrapping_branch pre []
      (tryToDeleteCodebaseBranch E GetDeletionChain))
      (\<lambda>r. case r of Some x \<Rightarrow> ret x | None \<Rightarrow> k) s))"
    by (auto simp: bindp_run wrapping_branch_def catchp_run split: outcome.split option.split)
qed

lemma ends_owned:
  assumes "branch_echoes E" and "stay h (GetChain E)"
  shows "triple (so_far P h) (reconcile_owned E c) (\<lambda>_. so_far (\<lambda>es _. Q es) h)"
proof (rule tripleI)
  fix s assume s: "so_far P h s"
  let ?rest = "bindp (wrapping_branch ''failed to remove codebasebranch '' []
      (tryToDeleteCodebaseBranch E GetDeletionChain)) (\<lambda>r. case r of Some x \<Rightarrow> ret x | None \<Rightarrow> serve_branch E c)"
  let ?defaults = "wrapping ''failed to set default values'' (setDefaultValues E c)"
  let ?pre = "bindp (catchp (Branch_setOwnerRef E c) (owner_failed E)) (\<lambda>_.
      ignoring (AddCodebaseLabel E (m_name (c_meta c))))"
  let ?upd = "bindp (wrapping ''failed to update CodebaseBranch'' (save VUpdate Branches E)) (\<lambda>_. ret no_requeue)"
  have run: "reconcile_owned E c = bindp ?defaults (\<lambda>updated. if updated then ?upd else bindp ?pre (\<lambda>_. ?rest))"
    unfolding reconcile_owned_def bindp_assoc ..
  have defaults: "stay h ?defaults" and pre: "stay h ?pre" and upd: "stay h ?upd"
    by (intro keeps_intros stay_defaults stay_owner stay_labels stay_save assms(1))+
  note rest = tripleD [OF delete_then [OF assms(1) stay_serve [OF assms(2)]]]
  have mid: "so_far (\<lambda>es _. Q es) h (snd (bindp ?pre (\<lambda>_. ?rest) t))" if t: "so_far P h t" for t
    using keepsD [OF pre t] rest ends_of_stay [OF pre t]
    by (auto simp: bindp_run [of ?pre] split: outcome.split)
  show "so_far (\<lambda>es _. Q es) h (snd (reconcile_owned E c s))"
    unfolding run
    using keepsD [OF defaults s] ends_of_stay [OF defaults s] ends_of_stay [OF upd] mid
    by (auto simp: bindp_run [of ?defaults] split: outcome.split)
qed

lemma ends_reconcile:
  assumes "branch_echoes E" and "stay h (GetChain E)"
  shows "triple (so_far P h) (reconcile_branch E) (\<lambda>_. so_far (\<lambda>es _. Q es) h)"
proof (rule tripleI)
  fix s assume s: "so_far P h s"
  let ?get = "attempt (kget Codebases E (m_ns (b_meta (obj s))) (bs_codebaseName (b_spec (obj s))))"
  have get: "stay h ?get" by (intro keeps_intros stay_leaves)
  have gone: "so_far (\<lambda>es _. Q es) h (snd (bindp (wrapping_branch ''failed to remove codebasebranch '' []
      (tryToDeleteCodebaseBranch E GetDeletionChain))
      (\<lambda>result. ret (case result of Some r \<Rightarrow> r | None \<Rightarrow> no_requeue)) t))" if "so_far P h t" for t
    using delete_ends [OF assms(1) that]
    by (auto simp: bindp_run wrapping_branch_def catchp_run split: outcome.split)
  show "so_far (\<lambda>es _. Q es) h (snd (reconcile_branch E s))"
    using keepsD [OF get s] ends_of_stay [OF get s] gone tripleD [OF ends_owned [OF assms]]
    by (auto simp: reconcile_branch_def bindp_run [of ?get] so_far_def [where P = P] seen
        split: outcome.split sum.split)
qed

end

section \<open>The branch exists before the status says so\<close>

definition preceded :: "('e \<Rightarrow> bool) \<Rightarrow> ('e \<Rightarrow> bool) \<Rightarrow> 'e list \<Rightarrow> bool" where
  "preceded W G es \<longleftrightarrow> (\<forall>i < length es. W (es ! i) \<longrightarrow> (\<exists>j < i. G (es ! j)))"

lemma preceded_Nil [simp]: "preceded W G []"
  by (simp add: preceded_def)

lemma preceded_snoc [simp]:
  "preceded W G (es @ [e]) \<longleftrightarrow> preceded W G es \<and> (W e \<longrightarrow> (\<exists>g \<in> set es. G g))"
proof -
  have "preceded W G (es @ [e]) \<longleftrightarrow>
      (\<forall>i < length es. W ((es @ [e]) ! i) \<longrightarrow> (\<exists>j < i. G ((es @ [e]) ! j))) \<and>
      (W e \<longrightarrow> (\<exists>j < length es. G ((es @ [e]) ! j)))"
    by (auto simp: preceded_def less_Suc_eq)
  also have "\<dots> \<longleftrightarrow> preceded W G es \<and> (W e \<longrightarrow> (\<exists>j < length es. G (es ! j)))"
    unfolding preceded_def by (simp add: nth_append) (blast intro: less_trans)
  also have "(\<exists>j < length es. G (es ! j)) \<longleftrightarrow> (\<exists>g \<in> set es. G g)"
    by (metis in_set_conv_nth)
  finally show ?thesis .
qed

definition says_created :: "event \<Rightarrow> bool" where
  "says_created ev \<longleftrightarrow>
     (case ev of EvWrite VStatusUpdate (ObjBranch b) e \<Rightarrow>
        bt_git (b_status b) = CodebaseBranchGitStatusBranchCreated | _ \<Rightarrow> False)"

definition creates_branch :: "env \<Rightarrow> string \<Rightarrow> event \<Rightarrow> bool" where
  "creates_branch E name ev \<longleftrightarrow>
     (case ev of EvGit cfg (GitCreateBranch url b from) None \<Rightarrow>
        b = name \<and> (\<exists>h. git_do E h cfg (GitCreateBranch url b from) = None) | _ \<Rightarrow> False)"

lemma says_created_simps [simp]:
  "says_created (EvWrite VStatusUpdate (ObjBranch b) e) \<longleftrightarrow>
     bt_git (b_status b) = CodebaseBranchGitStatusBranchCreated"
  "\<not> status_write ev \<Longrightarrow> \<not> says_created ev"
  by (auto simp: says_created_def status_write_def split: event.splits verb.splits kobj.splits)

lemma creates_branch_simps [simp]:
  "git_do E h cfg (GitCreateBranch url n from) = None \<Longrightarrow>
     creates_branch E n (EvGit cfg (GitCreateBranch url n from) None)"
  "\<not> creates_branch E n (EvWrite v x e)"
  by (auto simp: creates_branch_def)

definition announced :: "env \<Rightarrow> string \<Rightarrow> event list \<Rightarrow> branch \<Rightarrow> bool" where
  "announced E n es b \<longleftrightarrow>
     bs_branchName (b_spec b) = n \<and> preceded says_created (creates_branch E n) es \<and>
     (bt_git (b_status b) = CodebaseBranchGitStatusBranchCreated \<longrightarrow> (\<exists>g \<in> set es. creates_branch E n g))"

definition done_created :: "env \<Rightarrow> string \<Rightarrow> event list \<Rightarrow> branch \<Rightarrow> bool" where
  "done_created E n es b \<longleftrightarrow>
     bs_branchName (b_spec b) = n \<and> preceded says_created (creates_branch E n) es \<and>
     (\<exists>g \<in> set es. creates_branch E n g)"

interpretation announced: branch_property "announced E n" "preceded says_created (creates_branch E n)" for E n
  by unfold_locales (auto simp: announced_def core_def core_status_def)

interpretation done_created: branch_property "done_created E n" "preceded says_created (creates_branch E n)" for E n
  by unfold_locales (auto simp: done_created_def core_def core_status_def)

lemma done_announced: "so_far (done_created E n) h s \<Longrightarrow> so_far (announced E n) h s"
  by (auto simp: so_far_def done_created_def announced_def)

lemma announced_git:
  assumes "branch_echoes E"
  shows "announced.stay E n h (bindp (wrapping pre (failing E putGitBranchSetFailedFields
    (git E cfg (GitCreateBranch url n from)))) (\<lambda>_. branch_created E))"
proof (rule keepsI)
  fix s assume s: "so_far (announced E n) h s"
  let ?call = "wrapping pre (failing E putGitBranchSetFailedFields (git E cfg (GitCreateBranch url n from)))"
  have created: "done_created.stay E n h (branch_created E)"
    by (intro done_created.stay_created assms) (simp add: done_created_def set_branch_status_def)
  have call: "announced.stay E n h ?call"
    by (intro keeps_intros announced.stay_failing announced.stay_leaves) simp
  show "so_far (announced E n) h (snd (bindp ?call (\<lambda>_. branch_created E) s))"
  proof (cases "git_do E (log s) cfg (GitCreateBranch url n from)")
    case None
    let ?t = "s\<lparr>log := log s @ [EvGit cfg (GitCreateBranch url n from) None]\<rparr>"
    have "so_far (done_created E n) h ?t"
      using s by (rule so_far_step)
        (use creates_branch_simps(1) [OF None] in \<open>auto simp: announced_def done_created_def\<close>)
    then have "so_far (done_created E n) h (snd (branch_created E ?t))"
      by (rule keepsD [OF created])
    moreover have "?call s = (Ok (), ?t)"
      using None by (simp add: wrapping_run failing_def catchp_run git_def asku_run)
    ultimately show ?thesis by (simp add: bindp_run done_announced)
  next
    case (Some e)
    then have "\<exists>e'. fst (?call s) = Fail e'"
      by (simp add: wrapping_run failing_def catchp_run git_def asku_run stamp_def bindp_run)
    then show ?thesis using keepsD [OF call s] by (auto simp: bindp_run)
  qed
qed

lemma announced_put:
  assumes "branch_echoes E" shows "announced.stay E n h (put_branch E)"
proof (rule keepsI)
  fix s assume s: "so_far (announced E n) h s"
  then have name: "bs_branchName (b_spec (obj s)) = n" by (auto simp: so_far_def announced_def)
  show "so_far (announced E n) h (snd (put_branch E s))"
    unfolding put_branch_def Let_def bindp_gets name
    by (rule keepsD [where P = "so_far (announced E n) h", OF _ s])
       (intro keeps_intros announced.stay_failing announced.stay_leaves announced_git assms; simp)
qed

lemma announced_version:
  assumes "branch_echoes E" shows "announced.stay E n h (processNewVersion E c)"
  unfolding processNewVersion_def
  by (intro keeps_intros announced.stay_set_so announced.stay_save_status announced.stay_leaves assms)
     (simp add: announced_def enter_version_def set_branch_status_def)

lemma Branch_Reconcile_fetched:
  assumes "k_get (api_branch E) (log s) ns name = Inr cb"
  shows "Branch_Reconcile E ns name s =
    reconcile_branch E \<lparr>obj = cb, log = log s @ [EvGet ''CodebaseBranch'' ns name]\<rparr>"
  using assms by (cases s) (simp add: Branch_Reconcile_def attempt_run kget_run bindp_run Branches_def)

lemma so_far_added: "so_far (\<lambda>es _. Q es) (log s) t \<Longrightarrow> Q (added s t)"
  by (auto simp: so_far_def)

text \<open>
  A reconciliation of a branch that is not yet in git stores the status that says it is
  only after the git client has created the branch of that name without an error, whatever
  the cluster, the git server and the other actors answer in between.
\<close>

theorem branch_status_follows_git:
  assumes "branch_echoes E" and "k_get (api_branch E) (log s) ns name = Inr cb"
    and "bt_git (b_status cb) \<noteq> CodebaseBranchGitStatusBranchCreated"
  shows "preceded says_created (creates_branch E (bs_branchName (b_spec cb)))
    (added s (snd (Branch_Reconcile E ns name s)))"
proof (rule so_far_added)
  let ?n = "bs_branchName (b_spec cb)"
  let ?s = "\<lparr>obj = cb, log = log s @ [EvGet ''CodebaseBranch'' ns name]\<rparr>"
  have "so_far (announced E ?n) (log s) ?s"
    using assms(3) by (auto simp: so_far_def announced_def preceded_snoc [of _ _ "[]", simplified])
  moreover have "announced.stay E ?n h (GetChain E)" for h
    by (intro announced.stay_chain assms(1) announced_put announced_version)
  ultimately show "so_far (\<lambda>es _. preceded says_created (creates_branch E ?n) es) (log s)
      (snd (Branch_Reconcile E ns name s))"
    unfolding Branch_Reconcile_fetched [OF assms(2)]
    by (rule tripleD [OF announced.ends_reconcile [OF assms(1)], rotated])
qed

section \<open>The version history\<close>

definition history_ok :: "string list \<Rightarrow> branch \<Rightarrow> bool" where
  "history_ok old b \<longleftrightarrow> distinct (bt_versionHistory (b_status b)) \<and>
     (\<exists>new. bt_versionHistory (b_status b) = old @ new)"

definition stores_history :: "string list \<Rightarrow> event \<Rightarrow> bool" where
  "stores_history old ev \<longleftrightarrow>
     (case ev of EvWrite VStatusUpdate (ObjBranch b) e \<Rightarrow> history_ok old b | _ \<Rightarrow> True)"

lemma stores_history_simps [simp]:
  "stores_history old (EvWrite VStatusUpdate (ObjBranch b) e) = history_ok old b"
  "\<not> status_write ev \<Longrightarrow> stores_history old ev"
  by (auto simp: stores_history_def status_write_def split: event.splits verb.splits kobj.splits)

lemma history_ok_core: "core_status x = core_status b \<Longrightarrow> history_ok old x = history_ok old b"
  by (simp add: history_ok_def core_status_def)

interpretation versions: branch_property
  "\<lambda>es b. list_all (stores_history old) es \<and> history_ok old b" "list_all (stores_history old)" for old
  by unfold_locales (auto simp: core_def dest: history_ok_core)

lemma versions_put: "branch_echoes E \<Longrightarrow> versions.stay old h (put_branch E)"
  by (intro versions.stay_put versions.stay_created) (simp_all add: history_ok_def set_branch_status_def)

lemma history_ok_enter:
  "history_ok old b \<Longrightarrow> HasNewVersion b = Inr True \<Longrightarrow> history_ok old (enter_version b)"
  by (auto simp: history_ok_def HasNewVersion_def enter_version_def set_branch_status_def
      split: option.splits)

lemma versions_version:
  assumes "branch_echoes E" shows "versions.stay old h (processNewVersion E c)"
proof (rule keepsI)
  fix s assume s: "so_far (\<lambda>es b. list_all (stores_history old) es \<and> history_ok old b) h s"
  have stored: "versions.stay old h (wrapping pre (save VStatusUpdate Branches E))" for pre
    by (intro keeps_intros versions.stay_save_status assms)
  have entered: "so_far (\<lambda>es b. list_all (stores_history old) es \<and> history_ok old b) h
      (s\<lparr>obj := enter_version (obj s)\<rparr>)" if "HasNewVersion (obj s) = Inr True"
    using s that by (auto simp: so_far_def history_ok_enter)
  show "so_far (\<lambda>es b. list_all (stores_history old) es \<and> history_ok old b) h
      (snd (processNewVersion E c s))"
    using s keepsD [OF stored entered]
    by (auto simp: processNewVersion_def bindp_run wrapping_run lift_def split: sum.split)
qed

text \<open>
  C18: the version history of a branch is a log: when the fetched branch has no version twice,
  every status a reconciliation stores holds the fetched history, in its order, followed by
  new versions, and still no version twice.
\<close>

theorem version_history_only_grows:
  assumes "branch_echoes E" and "k_get (api_branch E) (log s) ns name = Inr cb"
    and "distinct (bt_versionHistory (b_status cb))"
  shows "list_all (stores_history (bt_versionHistory (b_status cb)))
    (added s (snd (Branch_Reconcile E ns name s)))"
proof (rule so_far_added)
  let ?old = "bt_versionHistory (b_status cb)"
  let ?s = "\<lparr>obj = cb, log = log s @ [EvGet ''CodebaseBranch'' ns name]\<rparr>"
  have "so_far (\<lambda>es b. list_all (stores_history ?old) es \<and> history_ok ?old b) (log s) ?s"
    using assms(3) by (auto simp: so_far_def history_ok_def)
  moreover have "versions.stay ?old h (GetChain E)" for h
    by (intro versions.stay_chain assms(1) versions_put versions_version)
  ultimately show "so_far (\<lambda>es _. list_all (stores_history ?old) es) (log s)
      (snd (Branch_Reconcile E ns name s))"
    unfolding Branch_Reconcile_fetched [OF assms(2)]
    by (rule tripleD [OF versions.ends_reconcile [OF assms(1)], rotated])
qed

section \<open>What a failed image stream leaves\<close>

abbreviation failures :: "branch st \<Rightarrow> int" where
  "failures s \<equiv> bt_failureCount (b_status (obj s))"

lemma failures_save:
  assumes "branch_echoes E" shows "keeps (\<lambda>s. failures s = n) (save v Branches E)"
proof (rule keepsI)
  fix s assume "failures s = n"
  then show "failures (snd (save v Branches E s)) = n"
    using save_branch_state [OF assms, of v s] by auto
qed

lemma failures_of_obj: "(\<And>x. keeps (\<lambda>s. obj s = x) m) \<Longrightarrow> keeps (\<lambda>s. failures s = n) m"
  by (rule keepsI) (simp add: keeps_objD)

lemma failures_leaves:
  "keeps (\<lambda>s. failures s = n) (kget R E ns nm)"
  "keeps (\<lambda>s. failures s = n) (createCodebaseImageStreamIfNotExists E b)"
  by (rule failures_of_obj, rule keeps_obj_kget)
     (rule failures_of_obj, rule quiet_keeps, rule quiet_image_stream)

lemma bindp_stamp:
  "bindp (stamp E f) g s = g () (s\<lparr>obj := set_branch_status (f (clock E (log s))) (obj s)\<rparr>)"
  by (simp add: stamp_def bindp_assoc)

lemma bindp_count:
  "bindp (Branch_setFailureCount E) g s =
     g (GetTimeout E (failures s) (10 * second))
       (s\<lparr>obj := set_branch_status (\<lambda>st. st\<lparr>bt_failureCount := i64 (bt_failureCount st + 1)\<rparr>) (obj s)\<rparr>)"
  by (simp add: Branch_setFailureCount_def Let_def bindp_assoc)

lemma failures_failing:
  "keeps (\<lambda>s. failures s = 0) m \<Longrightarrow>
   keeps (\<lambda>s. failures s = 0) (failing E (\<lambda>t. image_stream_failed t a) m)"
  unfolding failing_def stamp_def
  by (intro keeps_intros) (auto intro!: keepsI simp: set_branch_status_def image_stream_failed_def)

lemma next_state: "snd (NextServeOrNil (Some m) s) = snd (m s)"
  by (simp add: NextServeOrNil_def)

lemma image_stream_count:
  assumes "branch_echoes E"
  shows "failures (snd (PutCodebaseImageStream_ServeRequest E None s)) = 0"
  unfolding PutCodebaseImageStream_ServeRequest_def NextServeOrNil_def option.case
    PutCodebaseImageStream_setIntermediateSuccessFields_def bindp_assoc bindp_stamp
  by (rule keepsD [where P = "\<lambda>s. failures s = 0"])
     (intro keeps_intros failures_save failures_failing failures_leaves assms,
      simp add: set_branch_status_def image_stream_intermediate_def)

text \<open>The chain of a branch in git reaches the image stream, which forgets the failures.\<close>

lemma chain_forgets:
  assumes "branch_echoes E" and "\<And>h ns n. k_get (api_codebase E) h ns n = Inr c"
    and "\<not> IsVersionTypeSemver (c_spec c)"
    and "bt_git (b_status (obj s)) = CodebaseBranchGitStatusBranchCreated"
  shows "failures (snd (GetChain E s)) = 0"
proof -
  let ?t = "s\<lparr>log := log s @ [EvGet ''Codebase'' (m_ns (b_meta (obj s))) (bs_codebaseName (b_spec (obj s)))]\<rparr>"
  have version: "snd (ProcessNewVersion_ServeRequest E (Some m) s) = snd (m ?t)" for m
    using assms(3)
    by (simp add: ProcessNewVersion_ServeRequest_def NextServeOrNil_def processNewVersion_def
        wrapping_branch_def bindp_run catchp_run wrapping_run [of _ "kget R E1 n1 n2" for R E1 n1 n2]
        kget_run Codebases_def assms(2))
  have "snd (GetChain E s) = snd (PutCodebaseImageStream_ServeRequest E None ?t)"
    using assms(4) version
    by (simp add: GetChain_def CheckReferenceExists_ServeRequest_def CheckReferenceExists_next_def
        PutBranchInGit_ServeRequest_def PutBranchInGit_next_def next_state)
  with image_stream_count [OF assms(1)] show ?thesis by simp
qed

lemma wrapping_branch_state [simp]: "snd (wrapping_branch pre post m s) = snd (m s)"
  by (simp add: wrapping_branch_def catchp_run split: outcome.split)

lemma updateStatus_keeps: "obj (snd (Branch_updateStatus E t)) = obj t"
  using updateStatus_state [of E t] by auto

text \<open>The end of a run without semantic versions, by how the chain ended.\<close>

lemma serve_branch_ends:
  assumes "\<not> IsVersionTypeSemver (c_spec c)"
  shows "snd (serve_branch E c s) =
    (let u = snd (GetChain E s) in
     case fst (GetChain E s) of
       Ok _ \<Rightarrow> snd (Branch_updateStatus E
         (u\<lparr>obj := set_branch_status (success_status (clock E (log u)) CIConfiguration) (obj u)\<rparr>))
     | Panic p \<Rightarrow> u
     | Fail err \<Rightarrow>
         if errors_is err KBranchReconcile then u
         else snd (ignoring (Branch_updateStatus E)
           (u\<lparr>obj := set_branch_status (\<lambda>st. st\<lparr>bt_failureCount := i64 (bt_failureCount st + 1)\<rparr>) (obj u)\<rparr>)))"
    and "fst (GetChain E s) = Fail err \<Longrightarrow> errors_is err KBranchReconcile \<Longrightarrow>
      fst (serve_branch E c s) = Ok (requeue_after (5 * second))"
    and "fst (GetChain E s) = Panic p \<Longrightarrow> fst (serve_branch E c s) = Panic p"
proof -
  have same: "set_branch_status (\<lambda>st. if IsVersionTypeSemver (c_spec c) \<and> bt_build st = None
      then st\<lparr>bt_build := Some ''0''\<rparr> else st) b = b" for b
    using assms by (simp add: set_branch_status_def)
  note run = serve_branch_def same bindp_run [of "attempt m" for m] attempt_run
  show "snd (serve_branch E c s) =
    (let u = snd (GetChain E s) in
     case fst (GetChain E s) of
       Ok _ \<Rightarrow> snd (Branch_updateStatus E
         (u\<lparr>obj := set_branch_status (success_status (clock E (log u)) CIConfiguration) (obj u)\<rparr>))
     | Panic p \<Rightarrow> u
     | Fail err \<Rightarrow>
         if errors_is err KBranchReconcile then u
         else snd (ignoring (Branch_updateStatus E)
           (u\<lparr>obj := set_branch_status (\<lambda>st. st\<lparr>bt_failureCount := i64 (bt_failureCount st + 1)\<rparr>) (obj u)\<rparr>)))"
    by (cases "fst (GetChain E s)")
      (simp_all add: run bindp_count Let_def bindp_run [of "wrapping_branch p q m" for p q m] setSuccessStatus_def
        bindp_stamp bindp_run [of "ignoring m" for m] ignoring_run split: outcome.split)
  show "fst (GetChain E s) = Fail err \<Longrightarrow> errors_is err KBranchReconcile \<Longrightarrow>
      fst (serve_branch E c s) = Ok (requeue_after (5 * second))"
    "fst (GetChain E s) = Panic p \<Longrightarrow> fst (serve_branch E c s) = Panic p"
    by (simp_all add: run)
qed

text \<open>
  A branch with other than semantic versions that exists in git, whose Codebase can be read and
  whose image stream cannot be created, never carries more than one failure, however often
  that has happened: the handler forgets the failures before, so the delay between the
  retries does not grow, although the field is documented as the number of failures.
\<close>

theorem image_stream_failures_forgotten:
  assumes "branch_echoes E" and "\<And>h ns n. k_get (api_codebase E) h ns n = Inr c"
    and "\<not> IsVersionTypeSemver (c_spec c)"
    and "bt_git (b_status (obj s)) = CodebaseBranchGitStatusBranchCreated"
    and "fst (serve_branch E c s) = Fail e"
  shows "failures (snd (serve_branch E c s)) \<in> {0, 1}"
proof -
  have zero: "failures (snd (GetChain E s)) = 0" by (rule chain_forgets) (use assms in auto)
  show ?thesis
  proof (cases "fst (GetChain E s)")
    case (Fail err)
    with serve_branch_ends(2) [OF assms(3) Fail] assms(5) have "\<not> errors_is err KBranchReconcile" by auto
    with Fail zero show ?thesis
      by (simp add: serve_branch_ends(1) [OF assms(3)] Let_def ignoring_run updateStatus_keeps set_branch_status_def
          i64_def split: outcome.split)
  next
    case (Ok x)
    then show ?thesis
      by (simp add: serve_branch_ends(1) [OF assms(3)] Let_def updateStatus_keeps set_branch_status_def
          success_status_def)
  qed (use serve_branch_ends(3) [OF assms(3)] assms(5) in simp)
qed

section \<open>Examples\<close>

definition demo_git_server :: git_server where
  "demo_git_server = \<lparr>gs_meta = new_meta ''github'' ''ns'',
     gs_spec = \<lparr>gs_gitHost = ''github.com'', gs_gitUser = ''git'', gs_httpsPort = 443,
       gs_sshPort = 22, gs_nameSshKeySecret = ''key'', gs_gitProvider = ''github'',
       gs_skipWebhookSSLVerification = False, gs_webhookUrl = [], gs_tektonDisabled = False\<rparr>,
     gs_status = \<lparr>gst_error = [], gst_connected = True, gst_status = ''ok''\<rparr>\<rparr>"

definition demo_available :: codebase where
  "demo_available = (demo_codebase ''app'' ''/org/app'')
     \<lparr>c_status := (c_status (demo_codebase ''app'' ''/org/app''))\<lparr>ct_available := True\<rparr>\<rparr>"

definition demo_versioned :: branch where
  "demo_versioned = (demo_branch ''app-main'' ''app'')
     \<lparr>b_spec := (b_spec (demo_branch ''app-main'' ''app''))
        \<lparr>bs_pipelines := Some [(''build'', ''b''), (''review'', ''r'')]\<rparr>,
      b_status := (b_status (demo_branch ''app-main'' ''app''))
        \<lparr>bt_versionHistory := [''1.0'', ''1.1''], bt_failureCount := 7\<rparr>\<rparr>"

definition branch_env :: env where
  "branch_env = null_env\<lparr>api_branch := one_api demo_versioned, api_codebase := one_api demo_available,
     api_git_server := one_api demo_git_server,
     api_secret := one_api \<lparr>s_meta = new_meta ''key'' ''ns'', s_data = []\<rparr>\<rparr>"

lemma branch_env_echoes: "branch_echoes branch_env"
  by (simp add: branch_echoes_def branch_env_def one_api_def)

lemma branch_env_fetch: "k_get (api_branch branch_env) h ns n = Inr demo_versioned"
  by (simp add: branch_env_def one_api_def)

abbreviation start :: "branch \<Rightarrow> branch st" where
  "start b \<equiv> \<lparr>obj = b, log = []\<rparr>"

theorem branch_status_follows_git_witness:
  "preceded says_created (creates_branch branch_env ''main'') (added (start demo_versioned)
     (snd (Branch_Reconcile branch_env ''ns'' ''app-main'' (start demo_versioned))))"
  using branch_status_follows_git [OF branch_env_echoes branch_env_fetch, where s = "start demo_versioned"]
  by (simp add: demo_versioned_def demo_branch_def)

theorem version_history_witness:
  "list_all (stores_history [''1.0'', ''1.1'']) (added (start demo_versioned)
     (snd (Branch_Reconcile branch_env ''ns'' ''app-main'' (start demo_versioned))))"
  using version_history_only_grows [OF branch_env_echoes branch_env_fetch, where s = "start demo_versioned"]
  by (simp add: demo_versioned_def demo_branch_def)

definition pushed_branch :: branch where
  "pushed_branch = demo_versioned\<lparr>b_status := (b_status demo_versioned)\<lparr>bt_git := ''branch-created''\<rparr>\<rparr>"

text \<open>Without a config map there is no registry, and no image stream.\<close>

definition fails :: "('s, 'a) prog \<Rightarrow> bool" where
  "fails m \<longleftrightarrow> (\<forall>s. \<exists>e. fst (m s) = Fail e \<and> \<not> errors_is e KBranchReconcile)"

lemma fails_wrapping: "fails m \<Longrightarrow> fails (wrapping pre m)"
  unfolding fails_def
proof (rule allI)
  fix s assume "\<forall>s. \<exists>e. fst (m s) = Fail e \<and> \<not> errors_is e KBranchReconcile"
  then obtain e where "fst (m s) = Fail e" "\<not> errors_is e KBranchReconcile" by blast
  then show "\<exists>e. fst (wrapping pre m s) = Fail e \<and> \<not> errors_is e KBranchReconcile"
    by (simp add: wrapping_run)
qed

lemma fails_next: "fails m \<Longrightarrow> fails (NextServeOrNil (Some m))"
  by (simp add: NextServeOrNil_def fails_wrapping)

lemma fails_bindp: "(\<And>s. \<exists>x. fst (m s) = Ok x) \<Longrightarrow> (\<And>x. fails (f x)) \<Longrightarrow> fails (bindp m f)"
  unfolding fails_def bindp_run by (metis outcome.simps(10))

lemma fails_after: "(\<And>s. fst (m s) = Ok c) \<Longrightarrow> fails (f c) \<Longrightarrow> fails (bindp m f)"
  by (simp add: fails_def bindp_run)

lemma fails_gets: "(\<And>x. fails (f x)) \<Longrightarrow> fails (bindp (gets g) f)"
  by (simp add: fails_def)

lemma fails_first: "fails m \<Longrightarrow> fails (bindp m f)"
  unfolding fails_def bindp_run by (metis fst_conv outcome.simps(11))

lemma fails_failing: "fails m \<Longrightarrow> fails (failing E f m)"
  unfolding fails_def
proof (rule allI)
  fix s assume "\<forall>s. \<exists>e. fst (m s) = Fail e \<and> \<not> errors_is e KBranchReconcile"
  then obtain e where "fst (m s) = Fail e" "\<not> errors_is e KBranchReconcile" by blast
  then show "\<exists>e. fst (failing E f m s) = Fail e \<and> \<not> errors_is e KBranchReconcile"
    by (simp add: failing_def catchp_run stamp_def bindp_run)
qed

lemma branch_env_saves: "\<exists>x. fst (wrapping pre (save v Branches branch_env) s) = Ok x"
  by (simp add: wrapping_run save_run Branches_def branch_env_def one_api_def)

lemma no_registry: "fails (createCodebaseImageStreamIfNotExists branch_env b)"
  unfolding fails_def
  by (simp add: createCodebaseImageStreamIfNotExists_def getCodebaseImageStream_def
      GetCodebaseImageStreamByCodebaseBaseBranchName_def getDockerRegistryUrl_def GetKrciConfig_def
      getEdpConfig_def branch_env_def example_defs prog_runs klist_run kget_run ImageStreams_def
      ConfigMaps_def)

lemma no_image_stream: "fails (PutCodebaseImageStream_ServeRequest branch_env None)"
proof -
  have "\<exists>x. fst (wrapping p (failing branch_env f (kget Codebases branch_env ns n)) s) = Ok x"
    for p f ns n s
    by (simp add: wrapping_run failing_def catchp_run kget_run Codebases_def branch_env_def one_api_def)
  then show ?thesis
    unfolding PutCodebaseImageStream_ServeRequest_def
      PutCodebaseImageStream_setIntermediateSuccessFields_def bindp_assoc
    by (intro fails_bindp fails_first [OF fails_failing [OF no_registry]] branch_env_saves)
       (simp_all add: stamp_def)
qed

lemma branch_env_chain_fails:
  "\<exists>e. fst (GetChain branch_env (start pushed_branch)) = Fail e \<and> \<not> errors_is e KBranchReconcile"
proof -
  let ?image = "PutCodebaseImageStream_ServeRequest branch_env None"
  have created: "bt_git (b_status pushed_branch) = CodebaseBranchGitStatusBranchCreated"
    by (simp add: pushed_branch_def)
  then have put: "PutBranchInGit_ServeRequest branch_env n (start pushed_branch) =
      PutBranchInGit_next n (start pushed_branch)" for n
    by (simp add: PutBranchInGit_ServeRequest_def)
  have gotten: "fst (wrapping p (kget Codebases branch_env ns n) s) = Ok demo_available"
    for p ns n and s :: "branch st"
    by (simp add: wrapping_run kget_run Codebases_def branch_env_def one_api_def)
  have unversioned: "fst (wrapping_branch p q (processNewVersion branch_env demo_available) s) = Ok ()"
    for p q s
    by (simp add: wrapping_branch_def catchp_run processNewVersion_def demo_available_def demo_defs
        IsVersionTypeSemver_def)
  have "fails (ProcessNewVersion_ServeRequest branch_env (Some ?image))"
    unfolding ProcessNewVersion_ServeRequest_def
    by (intro fails_gets fails_after [where c = demo_available, OF gotten] fails_after [OF unversioned]
        fails_wrapping fails_next no_image_stream)
  then have "fails (PutBranchInGit_next (Some (ProcessNewVersion_ServeRequest branch_env (Some ?image))))"
    unfolding PutBranchInGit_next_def by (intro fails_wrapping fails_next)
  then have "fails (CheckReferenceExists_next (Some (PutBranchInGit_next
      (Some (ProcessNewVersion_ServeRequest branch_env (Some ?image))))))"
    unfolding CheckReferenceExists_next_def by (intro fails_wrapping fails_next)
  moreover have "GetChain branch_env (start pushed_branch) =
      CheckReferenceExists_next (Some (PutBranchInGit_next
        (Some (ProcessNewVersion_ServeRequest branch_env (Some ?image))))) (start pushed_branch)"
    using put by (simp add: GetChain_def CheckReferenceExists_ServeRequest_def created
        CheckReferenceExists_next_def NextServeOrNil_def wrapping_run
        cong: outcome.case_cong)
  ultimately show ?thesis
    by (simp add: fails_def)
qed

lemma serve_fails: "\<exists>e. fst (serve_branch branch_env demo_available (start pushed_branch)) = Fail e"
proof -
  obtain e where e: "fst (GetChain branch_env (start pushed_branch)) = Fail e"
    and "\<not> errors_is e KBranchReconcile" using branch_env_chain_fails by blast
  moreover have "set_branch_status (\<lambda>st. if IsVersionTypeSemver (c_spec demo_available) \<and>
      bt_build st = None then st\<lparr>bt_build := Some ''0''\<rparr> else st) b = b" for b
    by (simp add: set_branch_status_def demo_available_def demo_defs IsVersionTypeSemver_def)
  ultimately show ?thesis
    by (simp add: serve_branch_def bindp_run [of "attempt m" for m] attempt_run bindp_count)
       (simp add: bindp_run ignoring_run Branch_updateStatus_def kget_run kwrite_def ask_run
         wrapping_run Branches_def branch_env_def one_api_def Let_def)
qed

theorem image_stream_failures_witness:
  "failures (snd (serve_branch branch_env demo_available (start pushed_branch))) \<in> {0, 1}"
proof -
  obtain e where "fst (serve_branch branch_env demo_available (start pushed_branch)) = Fail e"
    using serve_fails by blast
  then show ?thesis
    by (rule image_stream_failures_forgotten [OF branch_env_echoes, rotated -1])
       (simp_all add: branch_env_def one_api_def demo_available_def demo_codebase_def demo_spec_def
         IsVersionTypeSemver_def pushed_branch_def)
qed

end
