(* ===== verification/Stale_Check.thy ===== *)
theory Stale_Check
  imports Branch_Invariant Deployment_Usage
begin

text \<open>
  The stale branch checker of \<open>controllers/codebasebranch/stalecheck\<close>: a sweep over the
  branches of a namespace asks each codebase's repository which branches it has, and marks
  the resources whose branch is gone, or deletes them when the codebase asks for that and
  no deployment uses them. \<open>Start\<close> only repeats the sweep on a ticker.
\<close>

section \<open>The verdict and the actions\<close>

abbreviation EventReasonBranchStale :: string where "EventReasonBranchStale \<equiv> ''BranchStale''"
abbreviation EventReasonBranchStaleResolved :: string where
  "EventReasonBranchStaleResolved \<equiv> ''BranchStaleResolved''"
abbreviation EventReasonStaleBranchDeleted :: string where
  "EventReasonStaleBranchDeleted \<equiv> ''StaleBranchDeleted''"
abbreviation EventReasonStaleBranchRetained :: string where
  "EventReasonStaleBranchRetained \<equiv> ''StaleBranchRetained''"

record verdict =
  v_existsInGit :: bool
  v_retainedBy :: string

definition stale_condition :: "verdict \<Rightarrow> branch \<Rightarrow> condition" where
  "stale_condition v b =
     (if v_existsInGit v then
        \<lparr>cond_type = ConditionStale, cond_status = ''False'', cond_reason = ReasonBranchFoundInGit,
         cond_message = ''Branch exists in the git repository'',
         cond_generation = m_generation (b_meta b), cond_transition = 0\<rparr>
      else
        \<lparr>cond_type = ConditionStale, cond_status = ''True'', cond_reason = ReasonBranchNotFoundInGit,
         cond_message =
           (if v_retainedBy v \<noteq> []
            then ''Branch was not found in the git repository; retained because it is used by '' @
                 v_retainedBy v
            else ''Branch was not found in the git repository''),
         cond_generation = m_generation (b_meta b), cond_transition = 0\<rparr>)"

definition updateStatusCondition :: "env \<Rightarrow> verdict \<Rightarrow> (branch st, unit) prog" where
  "updateStatusCondition E v =
     bindp (gets obj) (\<lambda>original.
     bindp (now E) (\<lambda>t.
     case l_setStatusCondition (lib_of E) t (stale_condition v original)
            (bt_conditions (b_status original)) of
       (changed, cs) \<Rightarrow>
         bindp (set_obj (set_branch_status (\<lambda>st. st\<lparr>bt_conditions := cs\<rparr>))) (\<lambda>_.
         if \<not> changed then ret ()
         else wrapping (''failed to patch Stale condition on CodebaseBranch '' @ m_name (b_meta original))
                (save_from VStatusPatch Branches E original))))"

text \<open>A label map that is nil stays nil when the label is deleted from it.\<close>

definition stale_labels :: "bool \<Rightarrow> smap option \<Rightarrow> smap option" where
  "stale_labels existsInGit ls =
     (if existsInGit then map_option (smap_del StaleLabel) ls
      else Some (smap_put StaleLabel ''true'' (case ls of None \<Rightarrow> [] | Some l \<Rightarrow> l)))"

definition stale_label_up_to_date :: "verdict \<Rightarrow> branch \<Rightarrow> bool" where
  "stale_label_up_to_date v b \<longleftrightarrow>
     v_existsInGit v \<and> map_of (labels_of (b_meta b)) StaleLabel = None \<or>
     \<not> v_existsInGit v \<and> smap_get (labels_of (b_meta b)) StaleLabel = ''true''"

definition updateStaleLabel :: "env \<Rightarrow> verdict \<Rightarrow> (branch st, unit) prog" where
  "updateStaleLabel E v =
     bindp (gets obj) (\<lambda>original.
     if stale_label_up_to_date v original then ret ()
     else
       bindp (set_obj (\<lambda>b. b\<lparr>b_meta := (b_meta b)
         \<lparr>m_labels := stale_labels (v_existsInGit v) (m_labels (b_meta b))\<rparr>\<rparr>)) (\<lambda>_.
       wrapping (''failed to patch stale label on CodebaseBranch '' @ m_name (b_meta original))
         (save_from VPatch Branches E original)))"

text \<open>The recorder may be nil; nothing is emitted then.\<close>

definition emitTransitionEvent :: "bool \<Rightarrow> bool \<Rightarrow> verdict \<Rightarrow> (branch st, unit) prog" where
  "emitTransitionEvent recorder wasStale v =
     (if \<not> recorder then ret ()
      else
        bindp (gets obj) (\<lambda>b.
        let name = bs_branchName (b_spec b) in
        if \<not> wasStale \<and> \<not> v_existsInGit v then
          (if v_retainedBy v \<noteq> [] then
             record_event (ObjBranch b) ''Warning'' EventReasonStaleBranchRetained
               (''Branch '' @ name @ '' was not found in the git repository; it is marked as stale but retained because it is used by '' @
                v_retainedBy v)
           else
             record_event (ObjBranch b) ''Warning'' EventReasonBranchStale
               (''Branch '' @ name @ '' was not found in the git repository and is marked as stale''))
        else if wasStale \<and> v_existsInGit v then
          record_event (ObjBranch b) ''Normal'' EventReasonBranchStaleResolved
            (''Branch '' @ name @ '' exists in the git repository again, stale mark removed'')
        else ret ()))"

definition MarkAction_Apply :: "env \<Rightarrow> bool \<Rightarrow> verdict \<Rightarrow> (branch st, unit) prog" where
  "MarkAction_Apply E recorder v =
     bindp (gets obj) (\<lambda>b.
     let wasStale = l_isStatusConditionTrue (lib_of E) (bt_conditions (b_status b)) ConditionStale in
     bindp (updateStatusCondition E v) (\<lambda>_.
     bindp (updateStaleLabel E v) (\<lambda>_.
     emitTransitionEvent recorder wasStale v)))"

definition CleanupAction_Apply :: "env \<Rightarrow> bool \<Rightarrow> verdict \<Rightarrow> (branch st, unit) prog" where
  "CleanupAction_Apply E recorder v =
     (if v_existsInGit v \<or> v_retainedBy v \<noteq> [] then MarkAction_Apply E recorder v
      else
        bindp (gets obj) (\<lambda>b.
        bindp (if recorder then record_event (ObjBranch b) ''Normal'' EventReasonStaleBranchDeleted
                 (''Branch '' @ bs_branchName (b_spec b) @
                  '' was not found in the git repository and is not used by any deployment, deleting'')
               else ret ()) (\<lambda>_.
        bindp (wrapping (''failed to delete stale CodebaseBranch '' @ m_name (b_meta b))
          (kdelete Branches E b)) (\<lambda>_. ret ()))))"

section \<open>The branches of one codebase\<close>

definition eligibleForCheck :: "branch \<Rightarrow> codebase \<Rightarrow> bool" where
  "eligibleForCheck b c \<longleftrightarrow>
     m_deletion (b_meta b) = None \<and>
     bt_git (b_status b) = CodebaseBranchGitStatusBranchCreated \<and>
     bs_branchName (b_spec b) \<noteq> cs_defaultBranch (c_spec c)"

definition auto_cleanup :: "codebase \<Rightarrow> bool" where
  "auto_cleanup c \<longleftrightarrow>
     smap_get (m_annotations (c_meta c)) BranchCleanupStrategyAnnotation = BranchCleanupStrategyAuto"

definition branch_verdict :: "codebase \<Rightarrow> string list \<Rightarrow> branch_usage_index \<Rightarrow> branch \<Rightarrow> verdict" where
  "branch_verdict c remoteBranches usage b =
     (let exists = bs_branchName (b_spec b) \<in> set remoteBranches
      in \<lparr>v_existsInGit = exists,
          v_retainedBy = (if auto_cleanup c \<and> \<not> exists then Join (Find usage b) else [])\<rparr>)"

definition apply_verdicts ::
  "env \<Rightarrow> bool \<Rightarrow> codebase \<Rightarrow> string list \<Rightarrow> branch_usage_index \<Rightarrow> branch list \<Rightarrow> (branch st, unit) prog"
  where
  "apply_verdicts E recorder c remoteBranches usage branches =
     for_each branches (\<lambda>b.
       if \<not> eligibleForCheck b c then ret ()
       else
         bindp (set_obj (\<lambda>_. b)) (\<lambda>_.
         ignoring
           ((if auto_cleanup c then CleanupAction_Apply else MarkAction_Apply) E recorder
             (branch_verdict c remoteBranches usage b))))"

definition checkCodebaseBranches ::
  "env \<Rightarrow> bool \<Rightarrow> string \<Rightarrow> string \<Rightarrow> branch list \<Rightarrow> branch_usage_index \<Rightarrow> (branch st, unit) prog" where
  "checkCodebaseBranches E recorder ns codebaseName branches usage =
     bindp (wrapping (''failed to get codebase '' @ codebaseName)
       (kget Codebases E ns codebaseName)) (\<lambda>c.
     bindp (wrapping (''failed to get git server '' @ cs_gitServer (c_spec c))
       (kget GitServers E ns (cs_gitServer (c_spec c)))) (\<lambda>gs.
     bindp (wrapping (''failed to get secret '' @ gs_nameSshKeySecret (gs_spec gs))
       (kget Secrets E ns (gs_nameSshKeySecret (gs_spec gs)))) (\<lambda>sec.
     let repoURL = GetProjectGitUrl gs sec (GetProjectID (c_spec c)) in
     bindp (wrapping (''failed to list remote branches for '' @ repoURL @ '', skipping staleness check'')
       (git_strings E (NewConfigFromGitServerAndSecret gs sec) (GitListBranches repoURL)))
       (\<lambda>remoteBranches.
     apply_verdicts E recorder c remoteBranches usage branches))))"

section \<open>The sweep\<close>

type_synonym branch_groups = "(string \<times> branch list) list"

definition group_at :: "branch_groups \<Rightarrow> string \<Rightarrow> branch list" where
  "group_at m k = (case map_of m k of None \<Rightarrow> [] | Some bs \<Rightarrow> bs)"

definition group_branches :: "branch list \<Rightarrow> branch_groups" where
  "group_branches bs =
     fold (\<lambda>b m. AList.update (bs_codebaseName (b_spec b))
       (group_at m (bs_codebaseName (b_spec b)) @ [b]) m) bs []"

text \<open>
  Go iterates over a map in any order: \<open>order\<close> is the order the keys are met in. Every
  error is only logged.
\<close>

definition sweep :: "env \<Rightarrow> bool \<Rightarrow> (string list \<Rightarrow> string list) \<Rightarrow> string \<Rightarrow> (branch st, unit) prog" where
  "sweep E recorder order ns =
     ignoring
       (bindp (klist Branches E ns (by_labels [])) (\<lambda>branches.
        bindp (NewBranchUsageIndex E ns) (\<lambda>usage.
        let groups = group_branches branches in
        for_each (order (map fst groups)) (\<lambda>codebaseName.
          ignoring (checkCodebaseBranches E recorder ns codebaseName
            (group_at groups codebaseName) usage)))))"

section \<open>What an action may do\<close>

definition with_condition :: "env \<Rightarrow> int \<Rightarrow> verdict \<Rightarrow> branch \<Rightarrow> branch" where
  "with_condition E t v b =
     set_branch_status (\<lambda>st. st\<lparr>bt_conditions :=
       snd (l_setStatusCondition (lib_of E) t (stale_condition v b) (bt_conditions st))\<rparr>) b"

text \<open>The label mirrors the verdict.\<close>

definition labelled_stale :: "bool \<Rightarrow> branch \<Rightarrow> bool" where
  "labelled_stale stale b \<longleftrightarrow>
     map_of (labels_of (b_meta b)) StaleLabel = (if stale then Some ''true'' else None)"

definition mark_event :: "env \<Rightarrow> verdict \<Rightarrow> branch \<Rightarrow> event \<Rightarrow> bool" where
  "mark_event E v b ev \<longleftrightarrow>
     (case ev of
        EvWrite w (ObjBranch x) _ \<Rightarrow>
          (case w of
             VStatusPatch \<Rightarrow> \<exists>t. x = with_condition E t v b
           | VPatch \<Rightarrow> labelled_stale (\<not> v_existsInGit v) x
           | _ \<Rightarrow> False)
      | EvRecord _ _ _ _ \<Rightarrow> True
      | _ \<Rightarrow> False)"

definition cleanup_event :: "env \<Rightarrow> verdict \<Rightarrow> branch \<Rightarrow> event \<Rightarrow> bool" where
  "cleanup_event E v b ev \<longleftrightarrow>
     (case ev of
        EvWrite VDelete (ObjBranch x) _ \<Rightarrow> x = b \<and> \<not> v_existsInGit v \<and> v_retainedBy v = []
      | _ \<Rightarrow> mark_event E v b ev)"

lemma mark_event_simps [simp]:
  "mark_event E v b (EvWrite VStatusPatch (ObjBranch x) e) \<longleftrightarrow> (\<exists>t. x = with_condition E t v b)"
  "mark_event E v b (EvWrite VPatch (ObjBranch x) e) \<longleftrightarrow> labelled_stale (\<not> v_existsInGit v) x"
  "mark_event E v b (EvRecord ob ty r m)"
  "\<not> mark_event E v b (EvWrite VDelete (ObjBranch x) e)"
  by (simp_all add: mark_event_def)

lemma cleanup_event_simps [simp]:
  "cleanup_event E v b (EvRecord ob ty r m)"
  "cleanup_event E v b (EvWrite VDelete (ObjBranch x) e) \<longleftrightarrow> x = b \<and> \<not> v_existsInGit v \<and> v_retainedBy v = []"
  by (simp_all add: cleanup_event_def)

text \<open>The writes an action may make.\<close>

lemma mark_event_cases:
  assumes "mark_event E v b ev"
  obtains (status) x e where "ev = EvWrite VStatusPatch (ObjBranch x) e" "\<exists>t. x = with_condition E t v b"
    | (label) x e where "ev = EvWrite VPatch (ObjBranch x) e" "labelled_stale (\<not> v_existsInGit v) x"
    | (told) ob ty r m where "ev = EvRecord ob ty r m"
  using assms by (auto simp: mark_event_def split: event.splits kobj.splits verb.splits)

lemma cleanup_event_cases:
  assumes "cleanup_event E v b ev"
  obtains (delete) e where "ev = EvWrite VDelete (ObjBranch b) e" "\<not> v_existsInGit v" "v_retainedBy v = []"
    | (mark) "mark_event E v b ev"
  using assms by (auto simp: cleanup_event_def split: event.splits kobj.splits verb.splits)

lemma stale_labels_get:
  "labelled_stale (\<not> ex) (b\<lparr>b_meta := (b_meta b)\<lparr>m_labels := stale_labels ex (m_labels (b_meta b))\<rparr>\<rparr>)"
  by (simp add: labelled_stale_def labels_of_def stale_labels_def split: option.split)

lemma updateStatusCondition_acts:
  "\<exists>es. log (snd (updateStatusCondition E v s)) = log s @ es \<and> list_all (mark_event E v (obj s)) es"
  by (auto simp: updateStatusCondition_def wrapping_run save_from_run Branches_def with_condition_def
      set_branch_status_def split: prod.split sum.split)
     (metis snd_conv)+

lemma updateStaleLabel_acts: "appends (mark_event E v b) (updateStaleLabel E v)"
proof (rule appendsI)
  fix s
  show "\<exists>es. log (snd (updateStaleLabel E v s)) = log s @ es \<and> list_all (mark_event E v b) es"
    using stale_labels_get [of "v_existsInGit v" "obj s"]
    by (simp add: updateStaleLabel_def wrapping_run save_from_run Branches_def split: sum.split)
qed

lemma emit_acts: "appends (mark_event E v b) (emitTransitionEvent recorder wasStale w)"
  unfolding emitTransitionEvent_def Let_def by (intro appends_intros) simp_all

lemma MarkAction_acts:
  "\<exists>es. log (snd (MarkAction_Apply E recorder v s)) = log s @ es \<and>
     list_all (mark_event E v (obj s)) es"
proof -
  let ?was = "l_isStatusConditionTrue (lib_of E) (bt_conditions (b_status (obj s))) ConditionStale"
  let ?rest = "\<lambda>_ :: unit. bindp (updateStaleLabel E v) (\<lambda>_. emitTransitionEvent recorder ?was v)"
  have rest: "appends (mark_event E v (obj s)) (?rest u)" for u
    by (intro appends_intros updateStaleLabel_acts emit_acts)
  have "MarkAction_Apply E recorder v s = bindp (updateStatusCondition E v) ?rest s"
    by (simp add: MarkAction_Apply_def)
  moreover obtain es where "log (snd (updateStatusCondition E v s)) = log s @ es"
    "list_all (mark_event E v (obj s)) es" using updateStatusCondition_acts by blast
  moreover obtain xs where "log (snd (?rest () (snd (updateStatusCondition E v s)))) =
      log (snd (updateStatusCondition E v s)) @ xs" "list_all (mark_event E v (obj s)) xs"
    using appendsD [OF rest] by blast
  ultimately show ?thesis
    by (cases "fst (updateStatusCondition E v s)") (auto simp: bindp_run)
qed

lemma mark_is_cleanup: "mark_event E v b ev \<Longrightarrow> cleanup_event E v b ev"
  by (erule mark_event_cases) (simp_all add: cleanup_event_def)

lemma CleanupAction_acts:
  "\<exists>es. log (snd (CleanupAction_Apply E recorder v s)) = log s @ es \<and>
     list_all (cleanup_event E v (obj s)) es"
proof (cases "v_existsInGit v \<or> v_retainedBy v \<noteq> []")
  case True
  then show ?thesis
    using MarkAction_acts [of E recorder v s] mark_is_cleanup
    by (auto simp: CleanupAction_Apply_def list_all_iff)
next
  case False
  then show ?thesis
    by (auto simp: CleanupAction_Apply_def bindp_run wrapping_run kwrite_def ask_run Branches_def
        split: sum.split)
qed

text \<open>The interface of the two actions, and the loop over the branches of a codebase.\<close>

locale stale_branch_action =
  fixes act :: "verdict \<Rightarrow> (branch st, unit) prog"
    and may :: "verdict \<Rightarrow> branch \<Rightarrow> event \<Rightarrow> bool"
  assumes acts: "\<exists>es. log (snd (act v s)) = log s @ es \<and> list_all (may v (obj s)) es"
begin

lemma one: "appends (may v b) (bindp (set_obj (\<lambda>_. b)) (\<lambda>_. ignoring (act v)))"
proof (rule appendsI)
  fix s
  show "\<exists>es. log (snd (bindp (set_obj (\<lambda>_. b)) (\<lambda>_. ignoring (act v)) s)) = log s @ es \<and>
      list_all (may v b) es"
    using acts [of v "s\<lparr>obj := b\<rparr>"] by (auto simp: ignoring_run split: outcome.split)
qed

lemma all_branches:
  "appends (\<lambda>ev. \<exists>b \<in> set bs. eligible b \<and> may (verdict_of b) b ev)
     (for_each bs (\<lambda>b. if \<not> eligible b then ret ()
        else bindp (set_obj (\<lambda>_. b)) (\<lambda>_. ignoring (act (verdict_of b)))))"
  by (intro appends_intros appends_mono [OF one]) auto

end

interpretation mark: stale_branch_action "MarkAction_Apply E recorder" "mark_event E" for E recorder
  by unfold_locales (rule MarkAction_acts)

interpretation cleanup: stale_branch_action "CleanupAction_Apply E recorder" "cleanup_event E"
  for E recorder
  by unfold_locales (rule CleanupAction_acts)

section \<open>A codebase is judged by what its repository answered\<close>

definition stale_write ::
  "env \<Rightarrow> codebase \<Rightarrow> string list \<Rightarrow> branch_usage_index \<Rightarrow> branch list \<Rightarrow> event \<Rightarrow> bool" where
  "stale_write E c names usage bs ev \<longleftrightarrow>
     (case ev of
        EvWrite w (ObjBranch x) _ \<Rightarrow>
          (case w of
             VDelete \<Rightarrow> x \<in> set bs \<and> eligibleForCheck x c \<and> auto_cleanup c \<and>
               bs_branchName (b_spec x) \<notin> set names \<and> Find usage x = []
           | VStatusPatch \<Rightarrow> \<exists>b \<in> set bs. eligibleForCheck b c \<and>
               (\<exists>t. x = with_condition E t (branch_verdict c names usage b) b)
           | VPatch \<Rightarrow> \<exists>b \<in> set bs. eligibleForCheck b c \<and>
               labelled_stale (bs_branchName (b_spec b) \<notin> set names) x
           | _ \<Rightarrow> False)
      | EvRecord _ _ _ _ \<Rightarrow> True
      | _ \<Rightarrow> False)"

lemma verdict_simps [simp]:
  "v_existsInGit (branch_verdict c names usage b) \<longleftrightarrow> bs_branchName (b_spec b) \<in> set names"
  "auto_cleanup c \<Longrightarrow> bs_branchName (b_spec b) \<notin> set names \<Longrightarrow>
     v_retainedBy (branch_verdict c names usage b) = [] \<longleftrightarrow> Find usage b = []"
  by (simp_all add: branch_verdict_def Let_def Join_eq_Nil)

lemma mark_event_write:
  "\<exists>b \<in> set bs. eligibleForCheck b c \<and> mark_event E (branch_verdict c names usage b) b ev \<Longrightarrow>
   stale_write E c names usage bs ev"
  by (auto simp: stale_write_def elim!: mark_event_cases) blast

lemma cleanup_event_write:
  "auto_cleanup c \<Longrightarrow>
   \<exists>b \<in> set bs. eligibleForCheck b c \<and> cleanup_event E (branch_verdict c names usage b) b ev \<Longrightarrow>
   stale_write E c names usage bs ev"
  by (auto simp: stale_write_def elim!: mark_event_cases cleanup_event_cases) blast

lemma apply_verdicts_acts:
  "appends (stale_write E c names usage bs) (apply_verdicts E recorder c names usage bs)"
proof (cases "auto_cleanup c")
  case True
  then show ?thesis
    by (simp add: apply_verdicts_def) (rule appends_mono [OF cleanup.all_branches cleanup_event_write])
next
  case False
  then show ?thesis
    by (simp add: apply_verdicts_def) (rule appends_mono [OF mark.all_branches mark_event_write])
qed

definition is_write :: "event \<Rightarrow> bool" where
  "is_write ev \<longleftrightarrow> (case ev of EvWrite _ _ _ \<Rightarrow> True | _ \<Rightarrow> False)"

text \<open>The codebase, and the branches its repository has, as they are answered after \<open>h\<close>.\<close>

definition repository_answers ::
  "env \<Rightarrow> history \<Rightarrow> string \<Rightarrow> string \<Rightarrow> codebase \<Rightarrow> string list \<Rightarrow> bool" where
  "repository_answers E h ns name c names \<longleftrightarrow>
     (\<exists>gs sec h1 h2 h3.
        h1 = h @ [EvGet ''Codebase'' ns name] \<and>
        h2 = h1 @ [EvGet ''GitServer'' ns (cs_gitServer (c_spec c))] \<and>
        h3 = h2 @ [EvGet ''Secret'' ns (gs_nameSshKeySecret (gs_spec gs))] \<and>
        k_get (api_codebase E) h ns name = Inr c \<and>
        k_get (api_git_server E) h1 ns (cs_gitServer (c_spec c)) = Inr gs \<and>
        k_get (api_secret E) h2 ns (gs_nameSshKeySecret (gs_spec gs)) = Inr sec \<and>
        git_list E h3 (NewConfigFromGitServerAndSecret gs sec)
          (GitListBranches (GetProjectGitUrl gs sec (GetProjectID (c_spec c)))) = Inr names)"

text \<open>
  C24: the check of a codebase writes nothing unless its repository was listed. Every write
  is then about one of its branches that was pushed, is not being deleted and is not the
  default branch: a deletion only of a branch the listing lacks, that no deployment uses and
  whose codebase asks for it, a label that says stale exactly when the listing lacks the
  branch, and the condition of the verdict.
\<close>

theorem stale_check_acts_on_listing:
  "let es = added s (snd (checkCodebaseBranches E recorder ns name bs usage s)) in
   filter is_write es = [] \<or>
   (\<exists>c names. repository_answers E (log s) ns name c names \<and>
      list_all (stale_write E c names usage bs) (filter is_write es))"
proof -
  let ?run = "checkCodebaseBranches E recorder ns name bs usage s"
  have "\<exists>es. log (snd ?run) = log s @ es \<and> (filter is_write es = [] \<or>
      (\<exists>c names. repository_answers E (log s) ns name c names \<and>
        list_all (stale_write E c names usage bs) (filter is_write es)))"
  proof (cases "\<exists>c names. repository_answers E (log s) ns name c names")
    case True
    then obtain c names where ans: "repository_answers E (log s) ns name c names" by blast
    then obtain xs u where x: "?run = apply_verdicts E recorder c names usage bs u"
      "log u = log s @ xs" "filter is_write xs = []"
      by (auto simp: repository_answers_def checkCodebaseBranches_def bindp_run wrapping_run
          kget_run git_strings_def ask_run Codebases_def GitServers_def Secrets_def Let_def is_write_def)
    obtain es where es: "log (snd ?run) = log u @ es" "list_all (stale_write E c names usage bs) es"
      using appendsD [OF apply_verdicts_acts, of E recorder c names usage bs u] x(1) by auto
    show ?thesis
      by (rule exI [of _ "xs @ es"]) (use x es ans in \<open>auto simp: list_all_iff\<close>)
  next
    case False
    then show ?thesis
      by (auto simp: repository_answers_def checkCodebaseBranches_def bindp_run wrapping_run
          kget_run git_strings_def ask_run Codebases_def GitServers_def Secrets_def Let_def is_write_def
          split: sum.split)
  qed
  then show ?thesis by (auto simp: Let_def)
qed

section \<open>The sweep deletes dead branches only\<close>

lemma group_at_update:
  "group_at (AList.update k xs m) j = (if j = k then xs else group_at m j)"
  by (simp add: group_at_def update_conv')

lemma group_branches_filter: "group_at (group_branches bs) k = filter (\<lambda>b. bs_codebaseName (b_spec b) = k) bs"
proof -
  have "group_at (fold (\<lambda>b m. AList.update (bs_codebaseName (b_spec b))
       (group_at m (bs_codebaseName (b_spec b)) @ [b]) m) bs m) k =
     group_at m k @ filter (\<lambda>b. bs_codebaseName (b_spec b) = k) bs" for m
    by (induction bs arbitrary: m) (auto simp: group_at_update)
  then show ?thesis by (simp add: group_branches_def group_at_def)
qed

text \<open>
  A cluster and its repositories that answer the same throughout the sweep: the codebases,
  git servers and secrets of the namespace, and the branches a repository lists at an
  address to a client with the given credentials.
\<close>

record cluster =
  cl_codebase :: "string \<Rightarrow> gerr + codebase"
  cl_gitServer :: "string \<Rightarrow> gerr + git_server"
  cl_secret :: "string \<Rightarrow> gerr + secret"
  cl_branches :: "git_config \<Rightarrow> string \<Rightarrow> gerr + string list"

definition steady :: "env \<Rightarrow> string \<Rightarrow> branch list \<Rightarrow> cluster \<Rightarrow> bool" where
  "steady E ns bs K \<longleftrightarrow>
     (\<forall>h. k_list (api_branch E) h ns (by_labels []) = Inr bs) \<and>
     list_all (\<lambda>b. m_ns (b_meta b) = ns) bs \<and>
     (\<forall>h n. k_get (api_codebase E) h ns n = cl_codebase K n) \<and>
     (\<forall>h n. k_get (api_git_server E) h ns n = cl_gitServer K n) \<and>
     (\<forall>h n. k_get (api_secret E) h ns n = cl_secret K n) \<and>
     (\<forall>h cfg url. git_list E h cfg (GitListBranches url) = cl_branches K cfg url)"

text \<open>
  The repository of a codebase has no branch of that name: it was listed, at the address of
  the project on the codebase's own git server and with that server's secret.
\<close>

definition gone_from_repository :: "cluster \<Rightarrow> codebase \<Rightarrow> string \<Rightarrow> bool" where
  "gone_from_repository K c name \<longleftrightarrow> (\<exists>gs sec names.
     cl_gitServer K (cs_gitServer (c_spec c)) = Inr gs \<and>
     cl_secret K (gs_nameSshKeySecret (gs_spec gs)) = Inr sec \<and>
     cl_branches K (NewConfigFromGitServerAndSecret gs sec)
       (GetProjectGitUrl gs sec (GetProjectID (c_spec c))) = Inr names \<and> name \<notin> set names)"

definition dead :: "cd_pipeline list \<Rightarrow> cd_stage list \<Rightarrow> cluster \<Rightarrow> branch \<Rightarrow> bool" where
  "dead ps ss K b \<longleftrightarrow>
     \<not> branch_in_use ps ss b \<and> m_deletion (b_meta b) = None \<and> bt_git (b_status b) = ''branch-created'' \<and>
     (\<exists>c. cl_codebase K (bs_codebaseName (b_spec b)) = Inr c \<and>
        smap_get (m_annotations (c_meta c)) BranchCleanupStrategyAnnotation = ''auto'' \<and>
        bs_branchName (b_spec b) \<noteq> cs_defaultBranch (c_spec c) \<and>
        gone_from_repository K c (bs_branchName (b_spec b)))"

definition deletes_only :: "branch list \<Rightarrow> (branch \<Rightarrow> bool) \<Rightarrow> event \<Rightarrow> bool" where
  "deletes_only bs P ev \<longleftrightarrow>
     (case ev of
        EvWrite w (ObjBranch b) _ \<Rightarrow>
          (case w of VDelete \<Rightarrow> b \<in> set bs \<and> P b | VStatusPatch \<Rightarrow> True | VPatch \<Rightarrow> True | _ \<Rightarrow> False)
      | EvWrite _ _ _ \<Rightarrow> False
      | _ \<Rightarrow> True)"

lemma deletes_only_git [simp]: "deletes_only bs P (EvGit cfg gc e)"
  by (simp add: deletes_only_def)

lemma stale_write_deletes:
  "stale_write E c names usage bs ev \<Longrightarrow>
   (\<And>b. b \<in> set bs \<Longrightarrow> eligibleForCheck b c \<Longrightarrow> auto_cleanup c \<Longrightarrow>
      bs_branchName (b_spec b) \<notin> set names \<Longrightarrow> Find usage b = [] \<Longrightarrow> b \<in> set xs \<and> P b) \<Longrightarrow>
   deletes_only xs P ev"
  by (auto simp: stale_write_def deletes_only_def split: event.splits kobj.splits verb.splits)

lemma deletes_reader: "reader m \<Longrightarrow> appends (deletes_only bs P) m"
  by (erule reader_appends, case_tac e) (simp_all add: is_read_def deletes_only_def)

lemma index_empty:
  fixes t :: "branch st"
  assumes "cluster_lists E ns ps ss bs" "m_ns (b_meta b) = ns"
    and "fst (NewBranchUsageIndex E ns t) = Ok usage"
  shows "Find usage b = [] \<longleftrightarrow> \<not> branch_in_use ps ss b"
proof -
  have "fst (FindBranchUsage E b t) = Ok (Find usage b)"
    using assms(2,3) by (simp add: FindBranchUsage_def bindp_run)
  with FindBranchUsage_empty_iff [of E b ps ss bs t] assms(1,2) show ?thesis by auto
qed

lemma check_deletes:
  fixes t :: "branch st"
  assumes lists: "cluster_lists E ns ps ss bs" and steady: "steady E ns bs K"
    and usage: "fst (NewBranchUsageIndex E ns t) = Ok usage"
  shows "appends (deletes_only bs (dead ps ss K))
    (checkCodebaseBranches E recorder ns name
       (filter (\<lambda>b. bs_codebaseName (b_spec b) = name) bs) usage)"
    (is "appends ?A (checkCodebaseBranches _ _ _ _ ?bs _)")
proof -
  have verdicts: "appends ?A (apply_verdicts E recorder c names usage ?bs)"
    if "cl_codebase K name = Inr c" "cl_gitServer K (cs_gitServer (c_spec c)) = Inr gs"
      "cl_secret K (gs_nameSshKeySecret (gs_spec gs)) = Inr sec"
      "cl_branches K (NewConfigFromGitServerAndSecret gs sec)
         (GetProjectGitUrl gs sec (GetProjectID (c_spec c))) = Inr names" for c gs sec names
  proof (rule appends_mono [OF apply_verdicts_acts], erule stale_write_deletes)
    fix b assume b: "b \<in> set ?bs" "eligibleForCheck b c" "auto_cleanup c"
      "bs_branchName (b_spec b) \<notin> set names" "Find usage b = []"
    moreover have "m_ns (b_meta b) = ns" using steady b(1) by (auto simp: steady_def list_all_iff)
    moreover have "gone_from_repository K c (bs_branchName (b_spec b))"
      unfolding gone_from_repository_def using that b(4) by blast
    ultimately show "b \<in> set bs \<and> dead ps ss K b"
      using that(1) index_empty [OF lists _ usage, of b]
      by (auto simp: dead_def eligibleForCheck_def auto_cleanup_def)
  qed
  have c: "cl_codebase K n = Inr c" if "fst (wrapping p (kget Codebases E ns n) u) = Ok c"
    for p n c and u :: "branch st"
    using that steady by (auto simp: steady_def wrapping_run kget_run Codebases_def split: sum.splits)
  have gs: "cl_gitServer K n = Inr gs" if "fst (wrapping p (kget GitServers E ns n) u) = Ok gs"
    for p n gs and u :: "branch st"
    using that steady by (auto simp: steady_def wrapping_run kget_run GitServers_def split: sum.splits)
  have sec: "cl_secret K n = Inr sec" if "fst (wrapping p (kget Secrets E ns n) u) = Ok sec"
    for p n sec and u :: "branch st"
    using that steady by (auto simp: steady_def wrapping_run kget_run Secrets_def split: sum.splits)
  have r: "cl_branches K cfg url = Inr names"
    if "fst (wrapping p (git_strings E cfg (GitListBranches url)) u) = Ok names"
    for p cfg url names and u :: "branch st"
    using that steady by (auto simp: steady_def wrapping_run git_strings_def ask_run split: sum.splits)
  have readers: "appends ?A (wrapping p (kget Codebases E ns n))" "appends ?A (wrapping p (kget GitServers E ns n))"
    "appends ?A (wrapping p (kget Secrets E ns n))" for p n
    by (intro deletes_reader reader_intros)+
  have listing: "appends ?A (wrapping p (git_strings E cfg g))" for p cfg g
    by (intro appends_wrapping appends_git_strings) simp_all
  show ?thesis
    unfolding checkCodebaseBranches_def Let_def
    by (intro appends_bindp_result readers listing) (rule verdicts [OF c gs sec r]; assumption)
qed

text \<open>
  C25: in a cluster whose answers do not change during the sweep, whatever order the
  codebases are met in, a sweep creates and updates nothing, and deletes only branches that
  no active pipeline or stage uses, that were pushed, are not being deleted and are not the
  default branch, whose codebase asks for the deletion, and that the listing of the
  codebase's own repository lacks.
\<close>

theorem sweep_deletes_only_dead_branches:
  assumes lists: "cluster_lists E ns ps ss bs" and steady: "steady E ns bs K"
  shows "list_all (deletes_only bs (dead ps ss K)) (added s (snd (sweep E recorder order ns s)))"
proof (rule appends_added)
  let ?A = "deletes_only bs (dead ps ss K)"
  have groups: "appends ?A (for_each ks (\<lambda>name. ignoring
      (checkCodebaseBranches E recorder ns name (group_at (group_branches bs) name) usage)))"
    if "fst (NewBranchUsageIndex E ns t) = Ok usage" for ks usage and t :: "branch st"
    unfolding group_branches_filter
    by (intro appends_for_each appends_ignoring check_deletes [OF lists steady that])
  have bs: "xs = bs" if "fst (klist Branches E ns (by_labels []) t) = Ok xs" for xs and t :: "branch st"
    using that steady by (simp add: steady_def klist_run Branches_def)
  show "appends ?A (sweep E recorder order ns)"
    unfolding sweep_def Let_def
  proof (intro appends_ignoring appends_bindp_result)
    show "appends ?A (klist Branches E ns (by_labels []) :: (branch st, branch list) prog)"
      by (intro deletes_reader reader_intros)
    show "appends ?A (NewBranchUsageIndex E ns :: (branch st, branch_usage_index) prog)"
      by (rule deletes_reader [OF reader_NewBranchUsageIndex])
    fix t u :: "branch st" and xs usage
    assume "fst (klist Branches E ns (by_labels []) t) = Ok xs"
      and usage: "fst (NewBranchUsageIndex E ns u) = Ok usage"
    from groups [OF usage] bs [OF this(1)]
    show "appends ?A (for_each (order (map fst (group_branches xs))) (\<lambda>name. ignoring
        (checkCodebaseBranches E recorder ns name (group_at (group_branches xs) name) usage)))"
      by simp
  qed
qed

section \<open>A mark settles\<close>

text \<open>
  \<open>meta.SetStatusCondition\<close> reports a change only when it makes one: a condition that was
  just set is not changed by setting it again, at whatever time.
\<close>

definition conditions_settle :: "lib \<Rightarrow> bool" where
  "conditions_settle l \<longleftrightarrow>
     (\<forall>t t' c cs. \<not> fst (l_setStatusCondition l t' c (snd (l_setStatusCondition l t c cs))))"

lemma updateStatusCondition_ends:
  assumes "branch_echoes E" and "fst (updateStatusCondition E v s) = Ok ()"
  shows "\<exists>t. obj (snd (updateStatusCondition E v s)) = with_condition E t v (obj s)"
proof -
  obtain changed cs where cs: "l_setStatusCondition (lib_of E) (clock E (log s)) (stale_condition v (obj s))
      (bt_conditions (b_status (obj s))) = (changed, cs)" by force
  then have "with_condition E (clock E (log s)) v (obj s) =
      set_branch_status (\<lambda>st. st\<lparr>bt_conditions := cs\<rparr>) (obj s)"
    by (simp add: with_condition_def set_branch_status_def)
  moreover have "obj (snd (updateStatusCondition E v s)) =
      set_branch_status (\<lambda>st. st\<lparr>bt_conditions := cs\<rparr>) (obj s)"
    using assms(2) branch_echoesD [OF assms(1)]
    by (cases changed) (auto simp: updateStatusCondition_def cs wrapping_run save_from_run Branches_def
        split: sum.splits)
  ultimately show ?thesis by metis
qed

lemma updateStaleLabel_ends:
  assumes "branch_echoes E" and "fst (updateStaleLabel E v s) = Ok ()"
  shows "stale_label_up_to_date v (obj (snd (updateStaleLabel E v s))) \<and>
    b_status (obj (snd (updateStaleLabel E v s))) = b_status (obj s) \<and>
    m_generation (b_meta (obj (snd (updateStaleLabel E v s)))) = m_generation (b_meta (obj s))"
proof (cases "stale_label_up_to_date v (obj s)")
  case True
  then show ?thesis by (simp add: updateStaleLabel_def)
next
  case False
  let ?b = "(obj s)\<lparr>b_meta := (b_meta (obj s))
    \<lparr>m_labels := stale_labels (v_existsInGit v) (m_labels (b_meta (obj s)))\<rparr>\<rparr>"
  have "obj (snd (updateStaleLabel E v s)) = ?b"
    using False assms
    by (auto simp: updateStaleLabel_def wrapping_run save_from_run Branches_def
        dest: branch_echoesD split: sum.splits)
  moreover have "stale_label_up_to_date v ?b"
    using stale_labels_get [of "v_existsInGit v" "obj s"]
    by (auto simp: stale_label_up_to_date_def labelled_stale_def smap_get_def)
  ultimately show ?thesis by simp
qed

lemma emit_state [simp]:
  "obj (snd (emitTransitionEvent recorder was v s)) = obj s"
  by (simp add: emitTransitionEvent_def Let_def)

lemma MarkAction_ends:
  assumes "branch_echoes E" and "fst (MarkAction_Apply E recorder v s) = Ok ()"
  defines "b \<equiv> obj (snd (MarkAction_Apply E recorder v s))"
  shows "stale_label_up_to_date v b \<and> m_generation (b_meta b) = m_generation (b_meta (obj s)) \<and>
    (\<exists>t. bt_conditions (b_status b) = snd (l_setStatusCondition (lib_of E) t (stale_condition v (obj s))
      (bt_conditions (b_status (obj s)))))"
proof -
  let ?u = "snd (updateStatusCondition E v s)"
  have ok: "fst (updateStatusCondition E v s) = Ok ()" "fst (updateStaleLabel E v ?u) = Ok ()"
    and b: "b = obj (snd (updateStaleLabel E v ?u))"
    using assms(2) by (auto simp: MarkAction_Apply_def bindp_run b_def split: outcome.splits)
  from updateStatusCondition_ends [OF assms(1) ok(1)] updateStaleLabel_ends [OF assms(1) ok(2)] b
  show ?thesis by (auto simp: with_condition_def set_branch_status_def)
qed

lemma stale_condition_cong:
  "m_generation (b_meta b) = m_generation (b_meta b') \<Longrightarrow> stale_condition v b = stale_condition v b'"
  by (simp add: stale_condition_def)

text \<open>
  Marking is idempotent: when a verdict was applied and nobody else changes the branch,
  applying it again, as the next sweep does, writes nothing.
\<close>

theorem stale_mark_settles:
  assumes "branch_echoes E" and "conditions_settle (lib_of E)"
    and "fst (MarkAction_Apply E recorder v s) = Ok ()"
  defines "t \<equiv> snd (MarkAction_Apply E recorder v s)"
  shows "fst (MarkAction_Apply E recorder v t) = Ok () \<and>
    filter is_write (added t (snd (MarkAction_Apply E recorder v t))) = []"
proof -
  from MarkAction_ends [OF assms(1,3)] obtain time where
    label: "stale_label_up_to_date v (obj t)" and
    same: "stale_condition v (obj t) = stale_condition v (obj s)" and
    conds: "bt_conditions (b_status (obj t)) = snd (l_setStatusCondition (lib_of E) time
      (stale_condition v (obj s)) (bt_conditions (b_status (obj s))))"
    using stale_condition_cong [of "obj t" "obj s" v] by (auto simp: t_def)
  obtain cs where unchanged: "l_setStatusCondition (lib_of E) (clock E (log t)) (stale_condition v (obj t))
      (bt_conditions (b_status (obj t))) = (False, cs)"
    using assms(2) unfolding same conds conditions_settle_def by (metis prod.collapse)
  have "stale_label_up_to_date v (set_branch_status f (obj t))" for f
    using label by (simp add: stale_label_up_to_date_def set_branch_status_def)
  with unchanged show ?thesis
    by (simp add: MarkAction_Apply_def updateStatusCondition_def updateStaleLabel_def Let_def
        bindp_run emitTransitionEvent_def added_def is_write_def)
qed

section \<open>Examples\<close>

lemma find_replaced: "find P cs = Some d \<Longrightarrow> P e \<Longrightarrow> find P (map (\<lambda>x. if P x then e else x) cs) = Some e"
  by (induction cs) (auto split: if_splits)

lemma find_added: "find P cs = None \<Longrightarrow> P e \<Longrightarrow> find P (cs @ [e]) = Some e"
  by (induction cs) (auto split: if_splits)

lemma set_condition_settles: "\<not> fst (set_condition t' c (snd (set_condition t c cs)))"
proof (cases "find (\<lambda>d. cond_type d = cond_type c) cs")
  case None
  then show ?thesis by (simp add: set_condition_def find_added Let_def)
next
  case (Some d)
  then show ?thesis by (simp add: set_condition_def find_replaced [OF Some] Let_def)
qed

definition dead_branch :: branch where
  "dead_branch = (demo_branch ''app-old'' ''app'')
     \<lparr>b_spec := (b_spec (demo_branch ''app-old'' ''app''))\<lparr>bs_branchName := ''old''\<rparr>,
      b_status := (b_status (demo_branch ''app-old'' ''app''))\<lparr>bt_git := ''branch-created''\<rparr>\<rparr>"

definition auto_codebase :: codebase where
  "auto_codebase = demo_available\<lparr>c_meta := (c_meta demo_available)
     \<lparr>m_annotations := [(BranchCleanupStrategyAnnotation, ''auto'')]\<rparr>\<rparr>"

definition sweep_env :: env where
  "sweep_env = branch_env\<lparr>api_branch := (empty_api :: branch kapi)\<lparr>k_list := \<lambda>h ns sel.
       Inr (filter (\<lambda>b. sel_fields sel = [] \<or> smap_get (sel_fields sel) BranchCodebaseNameIndex
              \<in> set (IndexBranchByCodebaseName (ObjBranch b))) [dead_branch])\<rparr>,
     api_codebase := one_api auto_codebase,
     api_cd_pipeline := one_api demo_pipeline, git_list := \<lambda>h c g. Inr [''main'']\<rparr>"

lemma branch_env_marks: "fst (MarkAction_Apply branch_env recorder v s) = Ok ()"
proof -
  have writes: "k_write (api_branch branch_env) h w b x = Inr x" for h w b x
    by (simp add: branch_env_def one_api_def)
  have "fst (updateStatusCondition branch_env v u) = Ok ()" for u
    by (auto simp: updateStatusCondition_def wrapping_run save_from_run Branches_def writes split: prod.split)
  moreover have "fst (updateStaleLabel branch_env v u) = Ok ()" for u
    by (simp add: updateStaleLabel_def wrapping_run save_from_run Branches_def writes)
  moreover have "fst (emitTransitionEvent recorder w v u) = Ok ()" for w u
    by (simp add: emitTransitionEvent_def Let_def)
  ultimately show ?thesis
    by (simp add: MarkAction_Apply_def bindp_run Let_def)
qed

definition gone :: verdict where
  "gone = \<lparr>v_existsInGit = False, v_retainedBy = ''pipe''\<rparr>"

theorem stale_mark_settles_witness:
  "filter is_write (added (snd (MarkAction_Apply branch_env True gone (start demo_versioned)))
     (snd (MarkAction_Apply branch_env True gone
        (snd (MarkAction_Apply branch_env True gone (start demo_versioned)))))) = []"
proof -
  have "conditions_settle (lib_of branch_env)"
    by (simp add: conditions_settle_def branch_env_def null_env_def null_lib_def set_condition_settles)
  from stale_mark_settles [OF branch_env_echoes this branch_env_marks] show ?thesis by blast
qed

text \<open>A repository that has lost the branch: the sweep deletes it.\<close>

definition sweep_cluster :: cluster where
  "sweep_cluster = \<lparr>cl_codebase = \<lambda>_. Inr auto_codebase,
     cl_gitServer = k_get (api_git_server sweep_env) [] ''ns'',
     cl_secret = k_get (api_secret sweep_env) [] ''ns'', cl_branches = \<lambda>_ _. Inr [''main'']\<rparr>"

theorem sweep_deletes_witness:
  "list_all (deletes_only [dead_branch] (dead [demo_pipeline] [] sweep_cluster))
     (added (start demo_versioned) (snd (sweep sweep_env True id ''ns'' (start demo_versioned)))) \<and>
   dead [demo_pipeline] [] sweep_cluster dead_branch"
proof
  have "cluster_lists sweep_env ''ns'' [demo_pipeline] [] [dead_branch]"
    by (simp add: cluster_lists_def sweep_env_def branch_env_def example_defs by_labels_def smap_get_def)
  moreover have "steady sweep_env ''ns'' [dead_branch] sweep_cluster"
    by (simp add: steady_def sweep_cluster_def sweep_env_def branch_env_def one_api_def by_labels_def
        dead_branch_def demo_branch_def new_meta_def)
  ultimately show "list_all (deletes_only [dead_branch] (dead [demo_pipeline] [] sweep_cluster))
     (added (start demo_versioned) (snd (sweep sweep_env True id ''ns'' (start demo_versioned))))"
    by (rule sweep_deletes_only_dead_branches)
qed (simp add: dead_def gone_from_repository_def sweep_cluster_def sweep_env_def branch_env_def one_api_def
    branch_in_use_def demo_pipeline_def dead_branch_def demo_branch_def new_meta_def
    auto_codebase_def smap_get_def demo_available_def demo_codebase_def demo_spec_def)

end
