(* ===== verification/Webhooks.thy ===== *)
theory Webhooks
  imports Deployment_Usage Url_Util Git_Path_Label Example_Env
begin

text \<open>
  The admission webhooks of \<open>pkg/webhook\<close> and the event filter of \<open>pkg/predicate\<close>. A
  validator answers a request for an object: no error allows it. The request taken from
  the context is an error, when there is none, or the namespace it is for.
\<close>

section \<open>Edit protection\<close>

abbreviation protectedLabel :: string where "protectedLabel \<equiv> ''app.edp.epam.com/edit-protection''"
abbreviation deleteOperation :: string where "deleteOperation \<equiv> ''delete''"
abbreviation updateOperation :: string where "updateOperation \<equiv> ''update''"

definition GetLabels :: "kobj \<Rightarrow> smap" where
  "GetLabels ob =
     (case ob of
        ObjCodebase x \<Rightarrow> labels_of (c_meta x) | ObjBranch x \<Rightarrow> labels_of (b_meta x)
      | ObjStageDeploy x \<Rightarrow> labels_of (sd_meta x) | ObjImageStream x \<Rightarrow> labels_of (is_meta x)
      | ObjGitServer x \<Rightarrow> labels_of (gs_meta x) | ObjJiraServer x \<Rightarrow> labels_of (js_meta x)
      | ObjSecret x \<Rightarrow> labels_of (s_meta x) | ObjConfigMap x \<Rightarrow> labels_of (cm_meta x)
      | ObjQuickLink x \<Rightarrow> labels_of (ql_meta x) | ObjPipelineRun x \<Rightarrow> labels_of (pr_meta x)
      | ObjTriggerTemplate x \<Rightarrow> labels_of (tt_meta x) | ObjCDPipeline x \<Rightarrow> labels_of (p_meta x)
      | ObjStage x \<Rightarrow> labels_of (st_meta x)
      | ObjUnstructured x \<Rightarrow> (case u_labels x of None \<Rightarrow> [] | Some l \<Rightarrow> l)
      | ObjIngress x \<Rightarrow> labels_of (ex_meta x) | ObjHTTPRoute x \<Rightarrow> labels_of (ex_meta x)
      | ObjRoute x \<Rightarrow> labels_of (ex_meta x)
      | ObjJiraIssueMetadata x \<Rightarrow> labels_of (jm_meta x)
      | ObjEventListener x \<Rightarrow> labels_of (el_meta x))"

definition hasProtectedLabel :: "kobj \<Rightarrow> string \<Rightarrow> bool" where
  "hasProtectedLabel ob operation \<longleftrightarrow>
     smap_get (GetLabels ob) protectedLabel \<noteq> [] \<and>
     operation \<in> set (split_on CHR ''-'' (smap_get (GetLabels ob) protectedLabel))"

text \<open>Semantic equality of specifications: a nil map and an empty one are equal.\<close>

definition branch_spec_eq :: "branch_spec \<Rightarrow> branch_spec \<Rightarrow> bool" where
  "branch_spec_eq x y \<longleftrightarrow>
     x\<lparr>bs_pipelines := None\<rparr> = y\<lparr>bs_pipelines := None\<rparr> \<and>
     smap_eq (case bs_pipelines x of None \<Rightarrow> [] | Some m \<Rightarrow> m)
             (case bs_pipelines y of None \<Rightarrow> [] | Some m \<Rightarrow> m)"

definition isSpecUpdated :: "kobj \<Rightarrow> kobj \<Rightarrow> bool" where
  "isSpecUpdated oldObj newObj =
     (case (oldObj, newObj) of
        (ObjCodebase x, ObjCodebase y) \<Rightarrow> c_spec x \<noteq> c_spec y
      | (ObjBranch x, ObjBranch y) \<Rightarrow> \<not> branch_spec_eq (b_spec x) (b_spec y)
      | (ObjImageStream x, ObjImageStream y) \<Rightarrow> is_spec x \<noteq> is_spec y
      | (ObjGitServer x, ObjGitServer y) \<Rightarrow> gs_spec x \<noteq> gs_spec y
      | _ \<Rightarrow> False)"

definition checkResourceProtectionFromModificationOnDelete :: "kobj \<Rightarrow> ('s, unit) prog" where
  "checkResourceProtectionFromModificationOnDelete ob =
     (if hasProtectedLabel ob deleteOperation
      then throw (errorf ''resource contains label that protects it from deletion'') else ret ())"

definition checkResourceProtectionFromModificationOnUpdate :: "kobj \<Rightarrow> kobj \<Rightarrow> ('s, unit) prog" where
  "checkResourceProtectionFromModificationOnUpdate oldObj newObj =
     (if hasProtectedLabel newObj updateOperation \<and> isSpecUpdated oldObj newObj
      then throw (errorf ''resource contains label that protects it from modification'') else ret ())"

definition ProtectedLabel_ValidateCreate :: "kobj \<Rightarrow> ('s, unit) prog" where
  "ProtectedLabel_ValidateCreate ob = ret ()"

definition ProtectedLabel_ValidateUpdate :: "kobj \<Rightarrow> kobj \<Rightarrow> ('s, unit) prog" where
  "ProtectedLabel_ValidateUpdate oldObj newObj =
     checkResourceProtectionFromModificationOnUpdate oldObj newObj"

definition ProtectedLabel_ValidateDelete :: "kobj \<Rightarrow> ('s, unit) prog" where
  "ProtectedLabel_ValidateDelete ob = checkResourceProtectionFromModificationOnDelete ob"

section \<open>Settings of a codebase\<close>

definition allowed_strategies :: "string list" where
  "allowed_strategies = [''clone'', ''create'', ''import'']"

definition allowed_languages :: "string list" where
  "allowed_languages = [''c'', ''container'', ''cpp'', ''csharp'', ''dotnet'', ''go'',
     ''groovy-pipeline'', ''hcl'', ''helm'', ''java'', ''javascript'', ''other'', ''python'',
     ''rego'', ''terraform'']"

definition containSettings :: "string list \<Rightarrow> string \<Rightarrow> bool" where
  "containSettings settings value \<longleftrightarrow> list_ex (\<lambda>element. equal_fold element value) settings"

definition IsCodebaseValid :: "codebase \<Rightarrow> gerr option" where
  "IsCodebaseValid c =
     (let sp = c_spec c in
      if \<not> containSettings allowed_strategies (cs_strategy sp)
      then Some (errorf (''provided unsupported repository strategy: '' @ cs_strategy sp))
      else if \<not> containSettings allowed_languages (cs_lang sp)
      then Some (errorf (''provided unsupported language: '' @ cs_lang sp))
      else if cs_versioningType sp \<noteq> VersioningTypDefault \<and>
              (cs_startFrom sp = None \<or> cs_startFrom sp = Some [])
      then Some (errorf ''versioning start from is required when versioning type is not default'')
      else if has_suffix '' '' (cs_gitUrlPath sp)
      then Some (errorf ''gitUrlPath should not end with space'')
      else None)"

definition validateCodBaseName :: "string \<Rightarrow> gerr option" where
  "validateCodBaseName name =
     (if str_contains ''--'' name
      then Some (errorf (''codebase name shouldn'' @ [CHR 0x27] @ ''t contain '' @ in_quotes ''--'' @ '' symbol''))
      else None)"

text \<open>A returned error value that is not nil ends the validation.\<close>

definition throw_some :: "gerr option \<Rightarrow> ('s, unit) prog" where
  "throw_some e = (case e of None \<Rightarrow> ret () | Some e \<Rightarrow> throw e)"

definition invalid_codebase :: "codebase \<Rightarrow> ('s, unit) prog" where
  "invalid_codebase c =
     wrapping (''codebase '' @ m_name (c_meta c) @ '' is invalid'') (throw_some (IsCodebaseValid c))"

section \<open>Codebases\<close>

abbreviation listLimit :: nat where "listLimit \<equiv> 1000"

fun same_repository :: "codebase list \<Rightarrow> string \<Rightarrow> gerr option" where
  "same_repository [] path = None"
| "same_repository (x # xs) path =
     (let gitUrlPath = cs_gitUrlPath (c_spec x)
      in if gitUrlPath = path
         then Some (errorf (''codebase '' @ m_name (c_meta x) @ '' with GitUrlPath '' @ gitUrlPath
                            @ '' already exists''))
         else same_repository xs path)"

definition Codebase_ValidateCreate :: "env \<Rightarrow> gerr + string \<Rightarrow> kobj \<Rightarrow> ('o st, unit) prog" where
  "Codebase_ValidateCreate E req ob =
     (case req of
        Inl e \<Rightarrow> throw (errorf (''expected admission.Request in ctx: '' @ err_msg e))
      | Inr ns \<Rightarrow>
     (case ob of
        ObjCodebase c \<Rightarrow>
          bindp (throw_some (validateCodBaseName (m_name (c_meta c)))) (\<lambda>_.
          bindp (invalid_codebase c) (\<lambda>_.
          let path = TrimGitFromURL (cs_gitUrlPath (c_spec c)) in
          if path = [] then throw (errorf (''gitUrlPath '' @ cs_gitUrlPath (c_spec c) @ '' is invalid''))
          else
          bindp (wrapping ''failed to list codebases''
            (klist Codebases E ns \<lparr>sel_labels = [], sel_fields = [], sel_limit = Some listLimit\<rparr>)) (\<lambda>xs.
          throw_some (same_repository xs path))))
      | _ \<Rightarrow> ret ()))"

definition Codebase_ValidateUpdate :: "gerr + string \<Rightarrow> kobj \<Rightarrow> kobj \<Rightarrow> ('s, unit) prog" where
  "Codebase_ValidateUpdate req oldObj newObj =
     (case req of
        Inl e \<Rightarrow> throw (wrap_err ''expected admission.Request in ctx'' e)
      | Inr ns \<Rightarrow>
     (case newObj of
        ObjCodebase c \<Rightarrow>
          bindp (invalid_codebase c) (\<lambda>_.
          checkResourceProtectionFromModificationOnUpdate oldObj newObj)
      | _ \<Rightarrow> ret ()))"

text \<open>The status error of a blocked deletion: its message, and a cause for each reference.\<close>

definition newBlockedByUsageError :: "string \<Rightarrow> string \<Rightarrow> reference list \<Rightarrow> gerr" where
  "newBlockedByUsageError kind name refs =
     GErr (kind @ '' '' @ name @ '' cannot be deleted because it is used by '' @ Join refs
           @ ''; remove it from the deployment first'')
       [KForbidden (map (\<lambda>r. (ref_field r, Reference_String r)) refs)]"

definition Codebase_ValidateDelete :: "env \<Rightarrow> gerr + string \<Rightarrow> kobj \<Rightarrow> ('o st, unit) prog" where
  "Codebase_ValidateDelete E req ob =
     (case req of
        Inl e \<Rightarrow> throw (wrap_err ''expected admission.Request in ctx'' e)
      | Inr ns \<Rightarrow>
     bindp (checkResourceProtectionFromModificationOnDelete ob) (\<lambda>_.
     case ob of
       ObjCodebase c \<Rightarrow>
         bindp (wrapping ''failed to check Codebase usage'' (FindCodebaseUsage E c)) (\<lambda>refs.
         if refs \<noteq> [] then throw (newBlockedByUsageError ''Codebase'' (m_name (c_meta c)) refs)
         else ret ())
     | _ \<Rightarrow> ret ()))"

section \<open>Branches\<close>

definition CodebaseBranch_ValidateCreate :: "env \<Rightarrow> kobj \<Rightarrow> ('o st, unit) prog" where
  "CodebaseBranch_ValidateCreate E ob =
     (case ob of
        ObjBranch b \<Rightarrow>
          bindp (wrapping ''failed to list CodebaseBranch CRs''
            (klist Branches E (m_ns (b_meta b))
              (by_labels [(CodebaseLabel, bs_codebaseName (b_spec b)),
                          (BranchHashLabel, MakeGitBranchHash E (bs_branchName (b_spec b)))]))) (\<lambda>xs.
          if xs \<noteq> []
          then throw (errorf ''CodebaseBranch CR with the same codebase name and branch name already exists'')
          else ret ())
      | _ \<Rightarrow> ret ())"

definition CodebaseBranch_ValidateUpdate :: "kobj \<Rightarrow> kobj \<Rightarrow> ('s, unit) prog" where
  "CodebaseBranch_ValidateUpdate oldObj newObj =
     checkResourceProtectionFromModificationOnUpdate oldObj newObj"

definition CodebaseBranch_ValidateDelete :: "env \<Rightarrow> kobj \<Rightarrow> ('o st, unit) prog" where
  "CodebaseBranch_ValidateDelete E ob =
     bindp (checkResourceProtectionFromModificationOnDelete ob) (\<lambda>_.
     case ob of
       ObjBranch b \<Rightarrow>
         bindp (attempt (kget Codebases E (m_ns (b_meta b)) (bs_codebaseName (b_spec b)))) (\<lambda>r.
         case r of
           Inl e \<Rightarrow> if errors_is e KNotFound then ret ()
                    else throw (wrap_err (''failed to get codebase '' @ bs_codebaseName (b_spec b)) e)
         | Inr c \<Rightarrow>
             if m_deletion (c_meta c) \<noteq> None then ret ()
             else
             bindp (wrapping ''failed to check CodebaseBranch usage'' (FindBranchUsage E b)) (\<lambda>refs.
             if refs \<noteq> []
             then throw (newBlockedByUsageError ''CodebaseBranch'' (m_name (b_meta b)) refs)
             else ret ()))
     | _ \<Rightarrow> ret ())"

section \<open>The pause filter\<close>

abbreviation pauseAnnotation :: string where "pauseAnnotation \<equiv> ''edp.epam.com/paused''"

definition Pause_run :: "objmeta \<Rightarrow> bool" where
  "Pause_run m =
     (case map_of (m_annotations m) pauseAnnotation of
        None \<Rightarrow> True
      | Some v \<Rightarrow> (case ParseBool v of None \<Rightarrow> True | Some pause \<Rightarrow> \<not> pause))"

text \<open>Create, Delete and Generic events carry one object, which may be nil.\<close>

definition Pause_event :: "objmeta option \<Rightarrow> bool" where
  "Pause_event ob = (case ob of None \<Rightarrow> False | Some m \<Rightarrow> Pause_run m)"

definition Pause_Update :: "objmeta option \<Rightarrow> objmeta option \<Rightarrow> bool" where
  "Pause_Update objectOld objectNew =
     (case objectNew of
        Some m \<Rightarrow> Pause_run m
      | None \<Rightarrow> (case objectOld of Some m \<Rightarrow> Pause_run m | None \<Rightarrow> False))"

definition PauseAnnotationChanged :: "objmeta option \<Rightarrow> objmeta option \<Rightarrow> bool" where
  "PauseAnnotationChanged objOld objNew =
     (case (objOld, objNew) of
        (Some old, Some new) \<Rightarrow>
          (let oldHasAnno = map_of (m_annotations old) pauseAnnotation \<noteq> None;
               newHasAnno = map_of (m_annotations new) pauseAnnotation \<noteq> None
           in if oldHasAnno \<and> \<not> newHasAnno then True
              else if \<not> oldHasAnno \<and> newHasAnno then True
              else smap_get (m_annotations old) pauseAnnotation
                   \<noteq> smap_get (m_annotations new) pauseAnnotation)
      | _ \<Rightarrow> False)"

lemma PauseAnnotationChanged_iff:
  "PauseAnnotationChanged (Some x) (Some y) \<longleftrightarrow>
     map_of (m_annotations x) pauseAnnotation \<noteq> map_of (m_annotations y) pauseAnnotation"
  by (auto simp: PauseAnnotationChanged_def Let_def smap_get_def split: option.splits)

section \<open>What the webhooks allow\<close>

lemma throw_some_Ok [simp]: "fst (throw_some e s) = Ok () \<longleftrightarrow> e = None"
  by (cases e) (simp_all add: throw_some_def)

lemma same_repository_None:
  "same_repository xs path = None \<longleftrightarrow> path \<notin> cs_gitUrlPath ` c_spec ` set xs"
  by (induction xs) (auto simp: Let_def)

lemma bindp_Ok_iff:
  "fst (bindp m f s) = Ok y \<longleftrightarrow> (\<exists>x. fst (m s) = Ok x \<and> fst (f x (snd (m s))) = Ok y)"
  by (simp add: bindp_run split: outcome.split)

text \<open>
  C19: the webhook allows the deletion of a Codebase exactly when its labels do not protect
  it and nothing that is not itself being deleted uses it: no CD pipeline lists it as an
  application or takes the image of one of its branches, no stage runs it as an autotest.
\<close>

theorem codebase_deletion_allowed_iff_unused:
  assumes lists: "cluster_lists E (m_ns (c_meta c)) ps ss bs"
  shows "fst (Codebase_ValidateDelete E (Inr ns) (ObjCodebase c) s) = Ok () \<longleftrightarrow>
    \<not> hasProtectedLabel (ObjCodebase c) ''delete'' \<and>
    \<not> codebase_in_use ps ss
       (filter (\<lambda>b. m_name (c_meta c) \<in> set (IndexBranchByCodebaseName (ObjBranch b))) bs)
       (m_name (c_meta c))"
proof (cases "hasProtectedLabel (ObjCodebase c) deleteOperation")
  case True
  then show ?thesis
    by (simp add: Codebase_ValidateDelete_def checkResourceProtectionFromModificationOnDelete_def
        bindp_Ok_iff)
next
  case False
  obtain refs where refs: "fst (FindCodebaseUsage E c s) = Ok refs"
    and unused: "refs = [] \<longleftrightarrow> \<not> codebase_in_use ps ss
       (filter (\<lambda>b. m_name (c_meta c) \<in> set (IndexBranchByCodebaseName (ObjBranch b))) bs)
       (m_name (c_meta c))"
    using FindCodebaseUsage_empty_iff [OF lists, of s] by blast
  have "fst (Codebase_ValidateDelete E (Inr ns) (ObjCodebase c) s) = Ok () \<longleftrightarrow> refs = []"
    using False refs
    by (simp add: Codebase_ValidateDelete_def checkResourceProtectionFromModificationOnDelete_def
        bindp_Ok_iff wrapping_Ok_iff)
  with False unused show ?thesis by simp
qed

text \<open>
  C20: the webhook allows the deletion of a branch exactly when its labels do not protect it
  and its Codebase is gone, or is being deleted, or nothing uses the branch. So a branch in
  use is let through as soon as its Codebase goes, and a branch whose Codebase cannot be
  read is kept.
\<close>

theorem branch_deletion_allowed_iff:
  assumes lists: "cluster_lists E (m_ns (b_meta b)) ps ss bs"
    and owner: "\<And>h. k_get (api_codebase E) h (m_ns (b_meta b)) (bs_codebaseName (b_spec b)) = r"
  shows "fst (CodebaseBranch_ValidateDelete E (ObjBranch b) s) = Ok () \<longleftrightarrow>
    \<not> hasProtectedLabel (ObjBranch b) ''delete'' \<and>
    (case r of
       Inl e \<Rightarrow> errors_is e KNotFound
     | Inr c \<Rightarrow> m_deletion (c_meta c) \<noteq> None \<or> \<not> branch_in_use ps ss b)"
proof (cases "hasProtectedLabel (ObjBranch b) deleteOperation")
  case True
  then show ?thesis
    by (simp add: CodebaseBranch_ValidateDelete_def
        checkResourceProtectionFromModificationOnDelete_def bindp_Ok_iff)
next
  case False
  note defs = CodebaseBranch_ValidateDelete_def checkResourceProtectionFromModificationOnDelete_def
    bindp_Ok_iff attempt_run kget_run Codebases_def owner
  show ?thesis
  proof (cases r)
    case (Inl e)
    with False show ?thesis by (simp add: defs)
  next
    case (Inr c)
    let ?t = "s\<lparr>log := log s @ [EvGet ''Codebase'' (m_ns (b_meta b)) (bs_codebaseName (b_spec b))]\<rparr>"
    obtain refs where "fst (FindBranchUsage E b ?t) = Ok refs"
      and "refs = [] \<longleftrightarrow> \<not> branch_in_use ps ss b"
      using FindBranchUsage_empty_iff [OF lists, of ?t] by blast
    with False Inr show ?thesis by (auto simp: defs wrapping_Ok_iff)
  qed
qed

lemma fold_case_settings:
  "containSettings allowed_strategies v \<longleftrightarrow> fold_case v \<in> {''clone'', ''create'', ''import''}"
  "containSettings allowed_languages v \<longleftrightarrow> fold_case v \<in> {''c'', ''container'', ''cpp'', ''csharp'',
     ''dotnet'', ''go'', ''groovy-pipeline'', ''hcl'', ''helm'', ''java'', ''javascript'', ''other'', ''python'',
     ''rego'', ''terraform''}"
  by (auto simp: containSettings_def equal_fold_def allowed_strategies_def allowed_languages_def lower_char_def)

text \<open>
  C21: a Codebase is admitted exactly when its name has no double dash, its strategy and
  language are supported in any letter case, as Unicode folds case, its versioning has a
  version to start from unless it is the default, its repository path does not end with a
  space and is more than \<open>.git\<close> suffixes, and none of the at most thousand Codebases listed
  stores as its path, untrimmed, what trimming leaves of the new one.
\<close>

theorem codebase_creation_allowed_iff:
  assumes lists: "\<And>h. k_list (api_codebase E) h ns
    \<lparr>sel_labels = [], sel_fields = [], sel_limit = Some 1000\<rparr> = Inr xs"
  shows "fst (Codebase_ValidateCreate E (Inr ns) (ObjCodebase c) s) = Ok () \<longleftrightarrow>
    \<not> str_contains ''--'' (m_name (c_meta c)) \<and>
    fold_case (cs_strategy (c_spec c)) \<in> {''clone'', ''create'', ''import''} \<and>
    fold_case (cs_lang (c_spec c)) \<in> {''c'', ''container'', ''cpp'', ''csharp'', ''dotnet'', ''go'',
      ''groovy-pipeline'', ''hcl'', ''helm'', ''java'', ''javascript'', ''other'', ''python'', ''rego'', ''terraform''} \<and>
    (cs_versioningType (c_spec c) = ''default'' \<or>
     (\<exists>v. cs_startFrom (c_spec c) = Some v \<and> v \<noteq> [])) \<and>
    \<not> has_suffix '' '' (cs_gitUrlPath (c_spec c)) \<and>
    TrimGitFromURL (cs_gitUrlPath (c_spec c)) \<noteq> [] \<and>
    (\<forall>x \<in> set xs. cs_gitUrlPath (c_spec x) \<noteq> TrimGitFromURL (cs_gitUrlPath (c_spec c)))"
proof -
  have valid: "IsCodebaseValid c = None \<longleftrightarrow>
      containSettings allowed_strategies (cs_strategy (c_spec c)) \<and>
      containSettings allowed_languages (cs_lang (c_spec c)) \<and>
      (cs_versioningType (c_spec c) = VersioningTypDefault \<or>
       (\<exists>v. cs_startFrom (c_spec c) = Some v \<and> v \<noteq> [])) \<and>
      \<not> has_suffix '' '' (cs_gitUrlPath (c_spec c))"
    by (cases "cs_startFrom (c_spec c)") (auto simp: IsCodebaseValid_def Let_def)
  have fresh: "TrimGitFromURL p \<notin> cs_gitUrlPath ` c_spec ` set xs \<longleftrightarrow>
      (\<forall>x \<in> set xs. cs_gitUrlPath (c_spec x) \<noteq> TrimGitFromURL p)" for p
    by (auto simp: image_iff eq_commute)
  show ?thesis
    by (auto simp: Codebase_ValidateCreate_def bindp_Ok_iff wrapping_Ok_iff invalid_codebase_def
        valid fold_case_settings validateCodBaseName_def klist_run Codebases_def lists Let_def
        same_repository_None fresh)
qed

section \<open>Examples\<close>

lemma TrimGit_plain: "TrimGitFromURL ''/org/app'' = ''/org/app''"
  by (rule TrimGitFromURL_id) (simp add: has_suffix_def has_prefix_def)

text \<open>
  The comparison of paths is exact and the stored path is not trimmed: a Codebase is
  admitted whose repository, under the label that identifies it, is one already there.
\<close>

theorem codebase_creation_witness:
  "fst (Codebase_ValidateCreate (null_env\<lparr>api_codebase := one_api (demo_codebase ''a'' ''/Org/App'')\<rparr>)
     (Inr ''ns'') (ObjCodebase (demo_codebase ''b'' ''/org/app'')) \<lparr>obj = (), log = []\<rparr>) = Ok () \<and>
   gitpathlabel_Hash ''/org/app'' = gitpathlabel_Hash ''/Org/App''"
proof
  have "normal_path ''/org/app'' = normal_path ''/Org/App''"
    by code_simp
  then show "gitpathlabel_Hash ''/org/app'' = gitpathlabel_Hash ''/Org/App''"
    by (simp only: gitpathlabel_Hash_def)
qed (subst codebase_creation_allowed_iff [where xs = "[demo_codebase ''a'' ''/Org/App'']"],
    simp_all add: example_defs demo_defs allowed_strategies_def allowed_languages_def
      lower_char_def has_suffix_def has_prefix_def TrimGit_plain)

lemma long_s_is_an_s: "containSettings allowed_languages (''c'' @ [CHR 0xC5, CHR 0xBF] @ ''harp'')"
  by (simp add: fold_case_settings lower_char_def)

text \<open>A cluster with the pipeline and one branch, which answers the index.\<close>

definition deploy_env :: "branch \<Rightarrow> env" where
  "deploy_env b = null_env\<lparr>api_cd_pipeline := one_api demo_pipeline,
     api_branch := (empty_api :: branch kapi)\<lparr>k_list := \<lambda>h ns sel.
       Inr (filter (\<lambda>b. smap_get (sel_fields sel) BranchCodebaseNameIndex
              \<in> set (IndexBranchByCodebaseName (ObjBranch b))) [b])\<rparr>\<rparr>"

lemma deploy_env_lists: "cluster_lists (deploy_env b) ns [demo_pipeline] [] [b]"
  by (simp add: cluster_lists_def deploy_env_def example_defs by_labels_def smap_get_def)

lemmas usage_demo_defs = demo_defs codebase_in_use_def
  branch_in_use_def IndexBranchByCodebaseName_def hasProtectedLabel_def GetLabels_def
  labels_of_def

theorem codebase_deletion_witness:
  "fst (Codebase_ValidateDelete (deploy_env (demo_branch ''app-main'' ''app'')) (Inr ''ns'')
     (ObjCodebase (demo_codebase ''app'' ''/a'')) \<lparr>obj = (), log = []\<rparr>) \<noteq> Ok () \<and>
   fst (Codebase_ValidateDelete (deploy_env (demo_branch ''app-main'' ''app'')) (Inr ''ns'')
     (ObjCodebase (demo_codebase ''lib'' ''/b'')) \<lparr>obj = (), log = []\<rparr>) = Ok ()"
  by (simp add: codebase_deletion_allowed_iff_unused [OF deploy_env_lists] usage_demo_defs)

theorem branch_deletion_witness:
  "fst (CodebaseBranch_ValidateDelete ((deploy_env (demo_branch ''app-main'' ''app''))
       \<lparr>api_codebase := one_api (demo_codebase ''app'' ''/a'')\<rparr>)
     (ObjBranch (demo_branch ''app-main'' ''app'')) \<lparr>obj = (), log = []\<rparr>) \<noteq> Ok () \<and>
   fst (CodebaseBranch_ValidateDelete (deploy_env (demo_branch ''app-main'' ''app''))
     (ObjBranch (demo_branch ''app-main'' ''app'')) \<lparr>obj = (), log = []\<rparr>) = Ok ()"
proof -
  let ?b = "demo_branch ''app-main'' ''app''"
  let ?E = "(deploy_env ?b)\<lparr>api_codebase := one_api (demo_codebase ''app'' ''/a'')\<rparr>"
  have lists: "cluster_lists ?E ns [demo_pipeline] [] [?b]" for ns
    using deploy_env_lists [of ?b ns] by (simp add: cluster_lists_def)
  have there: "k_get (api_codebase ?E) h n1 n2 = Inr (demo_codebase ''app'' ''/a'')" for h n1 n2
    by (simp add: one_api_def)
  have gone: "k_get (api_codebase (deploy_env ?b)) h n1 n2 = Inl not_found" for h n1 n2
    by (simp add: deploy_env_def example_defs)
  have "branch_in_use [demo_pipeline] [] ?b"
    and "m_deletion (c_meta (demo_codebase ''app'' ''/a'')) = None"
    and "\<not> hasProtectedLabel (ObjBranch ?b) ''delete''" and "errors_is not_found KNotFound"
    by (simp_all add: usage_demo_defs not_found_def)
  then show ?thesis
    by (simp add: branch_deletion_allowed_iff [OF lists there]
        branch_deletion_allowed_iff [OF deploy_env_lists gone])
qed

end
