(* ===== verification/Image_Stream_Controller.thy ===== *)
theory Image_Stream_Controller
  imports Image_Stream Webhooks
begin

text \<open>
  The image stream controller of \<open>controllers/codebaseimagestream\<close>: when the tags of an
  image stream change, each of its labels \<open>pipeline/stage\<close> with an empty value makes a stage
  deploy of the newest tag.
\<close>

section \<open>The stage deploys of an image stream\<close>

text \<open>\<open>^[-A-Za-z0-9_.]+/[-A-Za-z0-9_.]+$\<close>: one slash with something on both sides.\<close>

definition env_char :: "char \<Rightarrow> bool" where
  "env_char ch \<longleftrightarrow>
     (let n = (of_char ch :: nat)
      in ch \<in> {CHR ''-'', CHR ''_'', CHR ''.''} \<or> 48 \<le> n \<and> n \<le> 57 \<or> 65 \<le> n \<and> n \<le> 90 \<or> 97 \<le> n \<and> n \<le> 122)"

definition matches_env_label :: "string \<Rightarrow> bool" where
  "matches_env_label l \<longleftrightarrow>
     (case split_on (CHR ''/'') l of
        [p, s] \<Rightarrow> p \<noteq> [] \<and> s \<noteq> [] \<and> list_all env_char p \<and> list_all env_char s
      | _ \<Rightarrow> False)"

definition validateCbis :: "image_stream \<Rightarrow> string list" where
  "validateCbis i =
     (if is_codebase (is_spec i) = [] then [''codebase is not defined in spec ''] else []) @
     (if is_tags (is_spec i) = [] then [''tags are not defined in spec ''] else [])"

definition skipCDStageDeployCreation :: "env \<Rightarrow> string \<Rightarrow> string \<Rightarrow> cd_stage \<Rightarrow> ('o st, bool) prog" where
  "skipCDStageDeployCreation E pipeline ns stage =
     (if \<not> l_isAutoDeployTriggerType (lib_of E) stage then ret False
      else
        bindp (wrapping ''failed to get CDStageDeploys''
          (klist StageDeploys E ns
            (by_labels [(CdPipelineLabel, pipeline), (CdStageLabel, m_name (st_meta stage))]))) (\<lambda>items.
        ret (1 < length items)))"

record cd_stage_deploy_command =
  cm_name :: string
  cm_ns :: string
  cm_pipeline :: string
  cm_stage :: string
  cm_triggerType :: string
  cm_tag :: codebase_tag

definition getCreateCommand ::
  "string \<Rightarrow> string \<Rightarrow> string \<Rightarrow> string \<Rightarrow> string \<Rightarrow> string \<Rightarrow> image_tag list \<Rightarrow>
   ('s, cd_stage_deploy_command) prog" where
  "getCreateCommand pipeline stage name ns cb triggerType tags =
     bindp (wrapping ''failed to get last tag'' (lift (GetLastTag tags))) (\<lambda>lastTag.
     ret \<lparr>cm_name = name, cm_ns = ns, cm_pipeline = pipeline, cm_stage = stage,
          cm_triggerType = triggerType,
          cm_tag = \<lparr>ctag_codebase = cb, ctag_tag = t_name lastTag, ctag_digest = t_digest lastTag\<rparr>\<rparr>)"

definition new_stage_deploy :: "cd_stage_deploy_command \<Rightarrow> cd_stage_deploy" where
  "new_stage_deploy cm =
     (let spec = \<lparr>sd_pipeline = cm_pipeline cm, sd_stage = cm_stage cm, sd_tag = cm_tag cm,
                  sd_tags = [cm_tag cm], sd_triggerType = cm_triggerType cm\<rparr>;
          d = \<lparr>sd_meta = new_meta [] (cm_ns cm), sd_generateName = cm_name cm, sd_spec = spec,
               sd_status = \<lparr>sdt_status = [], sdt_message = []\<rparr>\<rparr>
      in d\<lparr>sd_meta := (sd_meta d)\<lparr>m_labels :=
           Some [(CdPipelineLabel, cm_pipeline cm), (CdStageLabel, GetStageCRName d)]\<rparr>\<rparr>)"

definition create_stage_deploy :: "env \<Rightarrow> cd_stage_deploy_command \<Rightarrow> cd_stage \<Rightarrow> ('o st, unit) prog" where
  "create_stage_deploy E cm stage =
     (let d = new_stage_deploy cm in
      bindp (wrapping ''failed to set controller reference''
        (lift (l_setControllerReference (lib_of E) (ObjStage stage) (sd_meta d)))) (\<lambda>m.
      bindp (wrapping (''failed to create CDStageDeploy resource '' @ quoted (cm_name cm))
        (kcreate StageDeploys E (d\<lparr>sd_meta := m\<rparr>))) (\<lambda>_. ret ())))"

definition putCDStageDeploy :: "env \<Rightarrow> string \<Rightarrow> string \<Rightarrow> image_stream_spec \<Rightarrow> ('o st, unit) prog" where
  "putCDStageDeploy E envLabel ns spec =
     (case split_on (CHR ''/'') envLabel of
        pipeline # stage # _ \<Rightarrow>
          let name = map (\<lambda>ch. if ch = CHR ''/'' then CHR ''-'' else ch) envLabel;
              stageCrName = pipeline @ ''-'' @ stage
          in
          bindp (wrapping (''failed to get CDStage '' @ stageCrName)
            (kget Stages E ns stageCrName)) (\<lambda>stageCr.
          bindp (wrapping ''failed to check if CDStageDeploy exists''
            (skipCDStageDeployCreation E pipeline ns stageCr)) (\<lambda>skip.
          if skip then ret ()
          else
            bindp (wrapping (''failed to construct command to create '' @ name @ '' cd stage deploy'')
              (getCreateCommand pipeline stage name ns (is_codebase spec)
                (st_triggerType stageCr) (is_tags spec))) (\<lambda>cdsd.
            wrapping (''failed to create '' @ name @ '' cd stage deploy'')
              (create_stage_deploy E cdsd stageCr))))
      | _ \<Rightarrow> panic ''index out of range'')"

text \<open>\<open>order\<close> is the order in which Go happens to iterate over the labels.\<close>

definition handleCodebaseImageStreamEnvLabels ::
  "env \<Rightarrow> (smap \<Rightarrow> smap) \<Rightarrow> image_stream \<Rightarrow> ('o st, unit) prog" where
  "handleCodebaseImageStreamEnvLabels E order i =
     (if labels_of (is_meta i) = [] then ret ()
      else if validateCbis i \<noteq> [] then throw (errorf (str_join ''; '' (validateCbis i)))
      else
        for_each (order (labels_of (is_meta i))) (\<lambda>(envLabel, val).
          if matches_env_label envLabel \<and> val = []
          then putCDStageDeploy E envLabel (m_ns (is_meta i)) (is_spec i)
          else ret ()))"

definition PutCDStageDeploy_ServeRequest ::
  "env \<Rightarrow> (smap \<Rightarrow> smap) \<Rightarrow> image_stream \<Rightarrow> ('o st, unit) prog" where
  "PutCDStageDeploy_ServeRequest E order i =
     wrapping (''failed to handle '' @ m_name (is_meta i) @ '' codebase image stream'')
       (handleCodebaseImageStreamEnvLabels E order i)"

section \<open>The controller\<close>

text \<open>What an update must change to be looked at.\<close>

definition image_stream_update_filter :: "kobj \<Rightarrow> kobj \<Rightarrow> bool" where
  "image_stream_update_filter old new =
     (case (old, new) of
        (ObjImageStream oo, ObjImageStream on) \<Rightarrow>
          PauseAnnotationChanged (Some (is_meta oo)) (Some (is_meta on)) \<or>
          is_tags (is_spec oo) \<noteq> is_tags (is_spec on) \<and> m_labels (is_meta on) \<noteq> None
      | _ \<Rightarrow> False)"

definition ImageStream_Reconcile ::
  "env \<Rightarrow> (smap \<Rightarrow> smap) \<Rightarrow> string \<Rightarrow> string \<Rightarrow> ('o st, reconcile_result) prog" where
  "ImageStream_Reconcile E order ns name =
     bindp (attempt (kget ImageStreams E ns name)) (\<lambda>r.
     case r of
       Inl e \<Rightarrow>
         if errors_is e KNotFound then ret no_requeue
         else throw (wrap_err (''failed to fetch CodebaseImageStream '' @ quoted name) e)
     | Inr i \<Rightarrow>
         bindp (wrapping ''fail during CodebaseImageStream default chain''
           (PutCDStageDeploy_ServeRequest E order i)) (\<lambda>_.
         ret no_requeue))"

section \<open>What is deployed\<close>

lemma matches_env_label_iff:
  "matches_env_label l \<longleftrightarrow>
     (\<exists>p s. l = p @ ''/'' @ s \<and> p \<noteq> [] \<and> s \<noteq> [] \<and> list_all env_char p \<and> list_all env_char s)"
proof
  assume "matches_env_label l"
  then obtain p s where ps: "split_on (CHR ''/'') l = [p, s]" "p \<noteq> []" "s \<noteq> []"
    "list_all env_char p" "list_all env_char s"
    by (auto simp: matches_env_label_def split: list.splits)
  moreover have "l = p @ ''/'' @ s"
    using str_join_split_on [of "CHR ''/''" l] ps(1) by simp
  ultimately show "\<exists>p s. l = p @ ''/'' @ s \<and> p \<noteq> [] \<and> s \<noteq> [] \<and> list_all env_char p \<and> list_all env_char s"
    by blast
next
  have "\<not> env_char (CHR ''/'')" by (simp add: env_char_def)
  then have slash: "CHR ''/'' \<notin> set x" if "list_all env_char x" for x
    using that by (metis list_all_iff)
  assume "\<exists>p s. l = p @ ''/'' @ s \<and> p \<noteq> [] \<and> s \<noteq> [] \<and> list_all env_char p \<and> list_all env_char s"
  then obtain p s where l: "l = p @ CHR ''/'' # s" "p \<noteq> []" "s \<noteq> []" "list_all env_char p" "list_all env_char s"
    by auto
  then show "matches_env_label l"
    by (simp add: matches_env_label_def split_on_append split_on_absent slash)
qed

text \<open>
  The deploy a label makes: for the stage the label names, of the newest tag, labelled so
  that the queue of its stage finds it, and only if the stage's queue has room when the
  stage deploys automatically.
\<close>

definition deploy_of_label :: "env \<Rightarrow> image_stream \<Rightarrow> string \<Rightarrow> cd_stage_deploy \<Rightarrow> bool" where
  "deploy_of_label E i l d \<longleftrightarrow>
     (\<exists>p s t stage h. l = p @ ''/'' @ s \<and> newest (is_tags (is_spec i)) t \<and> t_name t \<noteq> [] \<and>
        k_get (api_stage E) h (m_ns (is_meta i)) (p @ ''-'' @ s) = Inr stage \<and>
        (\<not> l_isAutoDeployTriggerType (lib_of E) stage \<or>
         (\<exists>h' ds. k_list (api_stage_deploy E) h' (m_ns (is_meta i))
            (by_labels [(CdPipelineLabel, p), (CdStageLabel, m_name (st_meta stage))]) = Inr ds \<and>
            length ds \<le> 1)) \<and>
        sd_spec d = \<lparr>sd_pipeline = p, sd_stage = s,
          sd_tag = \<lparr>ctag_codebase = is_codebase (is_spec i), ctag_tag = t_name t, ctag_digest = t_digest t\<rparr>,
          sd_tags = [\<lparr>ctag_codebase = is_codebase (is_spec i), ctag_tag = t_name t, ctag_digest = t_digest t\<rparr>],
          sd_triggerType = st_triggerType stage\<rparr>)"

fun deploys_labels :: "env \<Rightarrow> image_stream \<Rightarrow> event \<Rightarrow> bool" where
  "deploys_labels E i (EvWrite VCreate (ObjStageDeploy d) _) \<longleftrightarrow>
     (\<exists>l. (l, []) \<in> set (labels_of (is_meta i)) \<and> deploy_of_label E i l d)"
| "deploys_labels E i (EvWrite _ _ _) \<longleftrightarrow> False"
| "deploys_labels E i _ \<longleftrightarrow> True"

lemma deploys_reader: "reader m \<Longrightarrow> appends (deploys_labels E i) m"
  by (erule reader_appends, case_tac e) (simp_all add: is_read_def)

lemma reader_skip [reader_intros]: "reader (skipCDStageDeployCreation E p ns sg)"
  unfolding skipCDStageDeployCreation_def by (intro reader_intros)

lemma reader_command [reader_intros]: "reader (getCreateCommand p s n ns cb ty tags)"
  unfolding getCreateCommand_def by (intro reader_intros)

lemma command_Ok:
  "fst (wrapping pre (getCreateCommand p s n ns cb ty tags) u) = Ok cm \<Longrightarrow>
   \<exists>t. newest tags t \<and> t_name t \<noteq> [] \<and>
     cm = \<lparr>cm_name = n, cm_ns = ns, cm_pipeline = p, cm_stage = s, cm_triggerType = ty,
           cm_tag = \<lparr>ctag_codebase = cb, ctag_tag = t_name t, ctag_digest = t_digest t\<rparr>\<rparr>"
  using GetLastTag_newest [of tags]
  by (auto simp: getCreateCommand_def wrapping_Ok_iff bindp_run wrapping_run lift_def
      split: sum.splits outcome.splits)

lemma skip_Ok:
  "fst (wrapping pre (skipCDStageDeployCreation E p ns sg) u) = Ok False \<Longrightarrow>
   \<not> l_isAutoDeployTriggerType (lib_of E) sg \<or>
   (\<exists>h' ds. k_list (api_stage_deploy E) h' ns
      (by_labels [(CdPipelineLabel, p), (CdStageLabel, m_name (st_meta sg))]) = Inr ds \<and> length ds \<le> 1)"
  by (auto simp: skipCDStageDeployCreation_def wrapping_Ok_iff bindp_run wrapping_run klist_run
      StageDeploys_def not_less split: if_splits sum.splits outcome.splits)

lemma putCDStageDeploy_deploys:
  assumes label: "(l, []) \<in> set (labels_of (is_meta i))" "matches_env_label l"
  shows "appends (deploys_labels E i) (putCDStageDeploy E l (m_ns (is_meta i)) (is_spec i))"
proof -
  from label(2) obtain p s where l: "split_on (CHR ''/'') l = [p, s]" "l = p @ ''/'' @ s"
    using str_join_split_on [of "CHR ''/''" l]
    by (auto simp: matches_env_label_def split: list.splits)
  have create: "appends (deploys_labels E i) (create_stage_deploy E cm stage)"
    if "fst (wrapping p1 (kget Stages E (m_ns (is_meta i)) (p @ ''-'' @ s)) u1) = Ok stage"
      and "fst (wrapping p2 (skipCDStageDeployCreation E p (m_ns (is_meta i)) stage) u2) = Ok False"
      and "fst (wrapping p3 (getCreateCommand p s n (m_ns (is_meta i)) (is_codebase (is_spec i))
        (st_triggerType stage) (is_tags (is_spec i))) u3) = Ok cm"
    for p1 p2 p3 n stage cm and u1 u2 u3 :: "'o st"
  proof -
    from that(1) obtain h where h: "k_get (api_stage E) h (m_ns (is_meta i)) (p @ ''-'' @ s) = Inr stage"
      by (auto simp: wrapping_run kget_run Stages_def split: sum.splits)
    from command_Ok [OF that(3)] obtain t where t: "newest (is_tags (is_spec i)) t" "t_name t \<noteq> []"
      and cm: "cm = \<lparr>cm_name = n, cm_ns = m_ns (is_meta i), cm_pipeline = p, cm_stage = s,
        cm_triggerType = st_triggerType stage, cm_tag = \<lparr>ctag_codebase = is_codebase (is_spec i),
        ctag_tag = t_name t, ctag_digest = t_digest t\<rparr>\<rparr>" by blast
    have "deploy_of_label E i l (new_stage_deploy cm\<lparr>sd_meta := m\<rparr>)" for m
      unfolding deploy_of_label_def
      by (rule exI [of _ p], rule exI [of _ s], rule exI [of _ t], rule exI [of _ stage], rule exI [of _ h])
         (use l(2) t h skip_Ok [OF that(2)] in \<open>simp add: cm new_stage_deploy_def Let_def\<close>)
    with label(1) show ?thesis
      unfolding create_stage_deploy_def Let_def
      by (intro appends_intros) (auto simp: StageDeploys_def)
  qed
  show ?thesis
    unfolding putCDStageDeploy_def l(1) Let_def list.case
    by (intro appends_bindp_result appends_if appends_wrapping create deploys_reader reader_intros)
      (assumption | simp)+
qed

text \<open>
  C26: an image stream only makes deploys of its newest tag, for the stages its labels name
  with an empty value; a stage that deploys automatically gets one only when at most one
  is waiting for it. A reconciliation writes nothing else, in whatever order it meets the
  labels.
\<close>

theorem image_stream_deploys_newest_tag:
  assumes "k_get (api_image_stream E) (log s) ns name = Inr i"
    and "set (order (labels_of (is_meta i))) = set (labels_of (is_meta i))"
  shows "list_all (deploys_labels E i) (added s (snd (ImageStream_Reconcile E order ns name s)))"
proof -
  have serve: "appends (deploys_labels E i) (bindp (wrapping ''fail during CodebaseImageStream default chain''
      (PutCDStageDeploy_ServeRequest E order i)) (\<lambda>_. ret no_requeue))"
    unfolding PutCDStageDeploy_ServeRequest_def handleCodebaseImageStreamEnvLabels_def assms(2)
    by (intro appends_intros putCDStageDeploy_deploys) (use assms(2) in auto)
  obtain es where "log (snd (ImageStream_Reconcile E order ns name s)) =
      log s @ EvGet ''CodebaseImageStream'' ns name # es" "list_all (deploys_labels E i) es"
    using appendsD [OF serve, of "s\<lparr>log := log s @ [EvGet ''CodebaseImageStream'' ns name]\<rparr>"]
    by (auto simp: ImageStream_Reconcile_def bindp_run attempt_run kget_run ImageStreams_def assms(1))
  then show ?thesis by simp
qed

definition demo_stream :: image_stream where
  "demo_stream = \<lparr>is_meta = (new_meta ''app-main'' ''ns'')\<lparr>m_labels := Some [(''pipe/dev'', [])]\<rparr>,
     is_spec = \<lparr>is_codebase = ''app'', is_imageName = ''registry/app'',
       is_tags = [\<lparr>t_name = ''1.0'', t_created = ''2024-01-02T03:04:05Z'', t_digest = ''sha''\<rparr>]\<rparr>\<rparr>"

theorem image_stream_deploys_witness:
  "list_all (deploys_labels (null_env\<lparr>api_image_stream := one_api demo_stream\<rparr>) demo_stream)
     (added \<lparr>obj = (), log = []\<rparr> (snd (ImageStream_Reconcile
        (null_env\<lparr>api_image_stream := one_api demo_stream\<rparr>) rev ''ns'' ''app-main'' \<lparr>obj = (), log = []\<rparr>)))"
  by (rule image_stream_deploys_newest_tag) (simp_all add: one_api_def)

end
