(* ===== verification/Jira_Client.thy ===== *)
theory Jira_Client
  imports Url_Util Go_Std
begin

text \<open>
  The Jira client of \<open>pkg/client/jira\<close>: an adapter over the go-jira library, which is a
  parameter, like the text of the errors of \<open>encoding/json\<close> and Go's printing of values that
  are not strings.
\<close>

section \<open>The library\<close>

text \<open>\<open>dto.JiraServer\<close>: where the server is and who asks.\<close>

record jira_dto =
  jd_apiUrl :: string
  jd_user :: string
  jd_pwd :: string

definition ConvertSpecToJiraServer :: "string \<Rightarrow> string \<Rightarrow> string \<Rightarrow> jira_dto" where
  "ConvertSpecToJiraServer url user password =
     \<lparr>jd_apiUrl = url, jd_user = user, jd_pwd = password\<rparr>"

record issue_fields =
  jf_typeId :: string
  jf_typeName :: string
  jf_projectId :: string

text \<open>
  \<open>gj_issue\<close> answers with the fields of the issue, a pointer that may be nil, or an error,
  and with the HTTP status when there was a response at all. \<open>gj_order\<close> is the order in
  which Go happens to iterate over a payload.
\<close>

record gojira =
  gj_new :: "jira_dto \<Rightarrow> gerr option"
  gj_self :: "history \<Rightarrow> jira_dto \<Rightarrow> gerr + bool"
  gj_issue :: "history \<Rightarrow> jira_dto \<Rightarrow> string \<Rightarrow> (gerr + issue_fields option) \<times> nat option"
  gj_project :: "history \<Rightarrow> jira_dto \<Rightarrow> string \<Rightarrow> gerr + string"
  gj_do :: "history \<Rightarrow> jira_dto \<Rightarrow> jira_call \<Rightarrow> gerr option"
  gj_request :: "string \<Rightarrow> gerr option"
  gj_meta :: "history \<Rightarrow> jira_dto \<Rightarrow> string \<Rightarrow> gerr + (string \<times> string list) list"
  gj_order :: "(string \<times> json) list \<Rightarrow> (string \<times> json) list"
  gj_jsonError :: "string \<Rightarrow> string"
  gj_print :: "json \<Rightarrow> string"

definition jira_do :: "gojira \<Rightarrow> jira_dto \<Rightarrow> jira_call \<Rightarrow> ('o st, unit) prog" where
  "jira_do J js c = asku (\<lambda>h. gj_do J h js c) (\<lambda>e. EvJira (jd_apiUrl js) c e)"

definition jira_issue ::
  "gojira \<Rightarrow> jira_dto \<Rightarrow> string \<Rightarrow> ('o st, (gerr + issue_fields option) \<times> nat option) prog" where
  "jira_issue J js issueId =
     bindp (gets (\<lambda>s. gj_issue J (log s) js issueId)) (\<lambda>r.
     bindp (modify (\<lambda>s. s\<lparr>log := log s @ [EvJira (jd_apiUrl js) (JiraGetIssue issueId)
       (case fst r of Inl e \<Rightarrow> Some e | Inr _ \<Rightarrow> None)]\<rparr>)) (\<lambda>_.
     ret r))"

abbreviation nil_pointer :: string where
  "nil_pointer \<equiv> ''invalid memory address or nil pointer dereference''"

section \<open>The adapter\<close>

definition initClient :: "gojira \<Rightarrow> jira_dto \<Rightarrow> gerr + jira_dto" where
  "initClient J js =
     (case gj_new J js of
        Some e \<Rightarrow> Inl (wrap_err ''failed to create new jira client'' e)
      | None \<Rightarrow> Inr js)"

definition Connected :: "gojira \<Rightarrow> jira_dto \<Rightarrow> ('o st, bool) prog" where
  "Connected J js =
     wrapping ''failed to fetch jira user''
       (ask (\<lambda>h. gj_self J h js) (\<lambda>e. EvJira (jd_apiUrl js) JiraGetSelf e))"

definition GetIssue :: "gojira \<Rightarrow> jira_dto \<Rightarrow> string \<Rightarrow> ('o st, issue_fields option) prog" where
  "GetIssue J js issueId =
     wrapping ''failed to fetch jira issue''
       (bindp (jira_issue J js issueId) (\<lambda>(r, _). lift r))"

definition GetProjectInfo :: "gojira \<Rightarrow> jira_dto \<Rightarrow> string \<Rightarrow> ('o st, string) prog" where
  "GetProjectInfo J js issueId =
     bindp (jira_issue J js issueId) (\<lambda>(r, status).
     let not_found = GErr ''404'' [KJiraNotFound] in
     if status = Some 404 then throw not_found
     else
       case r of
         Inl e \<Rightarrow>
           if str_contains ''404'' (err_msg e) then throw not_found
           else throw (wrap_err ''failed to fetch jira issue'' e)
       | Inr None \<Rightarrow> panic nil_pointer
       | Inr (Some f) \<Rightarrow> ret (jf_projectId f))"

definition CreateFixVersionValue :: "gojira \<Rightarrow> jira_dto \<Rightarrow> int \<Rightarrow> string \<Rightarrow> ('o st, unit) prog" where
  "CreateFixVersionValue J js projectId versionName =
     wrapping ''failed to create jira version component''
       (jira_do J js (JiraCreateVersion versionName projectId))"

definition CreateComponentValue :: "gojira \<Rightarrow> jira_dto \<Rightarrow> int \<Rightarrow> string \<Rightarrow> ('o st, unit) prog" where
  "CreateComponentValue J js projectId componentName =
     bindp (wrapping ''failed to fetch jira project''
       (ask (\<lambda>h. gj_project J h js (itoa projectId))
         (\<lambda>e. EvJira (jd_apiUrl js) (JiraGetProject (itoa projectId)) e))) (\<lambda>key.
     wrapping ''failed to create jira component''
       (jira_do J js (JiraCreateComponent componentName key projectId)))"

definition ApplyTagsToIssue :: "gojira \<Rightarrow> jira_dto \<Rightarrow> string \<Rightarrow> json \<Rightarrow> ('o st, unit) prog" where
  "ApplyTagsToIssue J js issue tags =
     wrapping ''failed to update jira issue'' (jira_do J js (JiraUpdateIssue issue tags))"

definition remote_link :: "string \<Rightarrow> string \<Rightarrow> json" where
  "remote_link title link =
     JObj [(''relationship'', JStr ''links to''),
       (''object'', JObj [(''title'', JStr title), (''url'', JStr link),
         (''icon'', JObj [(''url16x16'', JStr
           ''https://raw.githubusercontent.com/KubeRocketCI/docs/main/static/img/kuberocketci.png'')])])]"

definition CreateIssueLink ::
  "gojira \<Rightarrow> jira_dto \<Rightarrow> string \<Rightarrow> string \<Rightarrow> string \<Rightarrow> ('o st, unit) prog" where
  "CreateIssueLink J js issueId title link =
     (let path = ''rest/api/2/issue/'' @ issueId @ ''/remotelink'' in
      bindp (wrapping ''failed to create HTTP request to jira''
        (lift (case gj_request J path of Some e \<Rightarrow> Inl e | None \<Rightarrow> Inr ()))) (\<lambda>_.
      wrapping ''failed to perform HTTP request to jira''
        (jira_do J js (JiraRequest ''POST'' path (remote_link title link)))))"

text \<open>
  The fields of an issue type, with the names they allow; the last of two fields with one
  identifier counts. \<open>escaped_path\<close> of the URL is left to the library.
\<close>

definition GetIssueTypeMeta ::
  "gojira \<Rightarrow> jira_dto \<Rightarrow> string \<Rightarrow> string \<Rightarrow> ('o st, (string \<times> string list) list) prog" where
  "GetIssueTypeMeta J js projectID issueTypeID =
     (let path = ''rest/api/2/issue/createmeta/'' @ projectID @ ''/issuetypes/'' @ issueTypeID in
      bindp (wrapping ''failed to create GetIssueTypeMeta HTTP request to jira''
        (lift (case gj_request J path of Some e \<Rightarrow> Inl e | None \<Rightarrow> Inr ()))) (\<lambda>_.
      bindp (wrapping ''failed to perform GetIssueTypeMeta HTTP request to jira''
        (ask (\<lambda>h. gj_meta J h js path) (\<lambda>e. EvJira (jd_apiUrl js) (JiraRequest ''GET'' path JNull) e)))
        (\<lambda>values.
      ret (fold (\<lambda>(k, v) m. AList.update k v m) values []))))"

section \<open>Credentials\<close>

definition initJiraClient :: "env \<Rightarrow> gojira \<Rightarrow> jira_server \<Rightarrow> ('o st, jira_dto) prog" where
  "initJiraClient E J js =
     bindp (wrapping (''failed to get secret '' @ js_credentialName js)
       (wrapping (''failed to get secret '' @ js_credentialName js)
         (kget Secrets E (m_ns (js_meta js)) (js_credentialName js)))) (\<lambda>sec.
     wrapping ''failed to create Jira client''
       (lift (initClient J (ConvertSpecToJiraServer (js_apiUrl js)
         (smap_get (s_data sec) ''username'') (smap_get (s_data sec) ''password'')))))"

text \<open>\<open>defer\<close>: the second program runs however the first one ends.\<close>

definition deferred :: "('s, unit) prog \<Rightarrow> ('s, 'a) prog \<Rightarrow> ('s, 'a) prog" where
  "deferred d m s = (fst (m s), snd (d (snd (m s))))"

end
