(* ===== verification/Jira_Metadata_Chain.thy ===== *)
theory Jira_Metadata_Chain
  imports Jira_Client Example_Env
begin

text \<open>
  The handlers of \<open>controllers/jiraissuemetadata/chain\<close>: the values of the payload are made
  known to the Jira project, put on the tickets and linked, and the resource is deleted
  when all of that worked.
\<close>

type_synonym metadata_handler = "(jira_issue_metadata st, unit) prog"

definition metadata_next :: "metadata_handler option \<Rightarrow> metadata_handler" where
  "metadata_next next =
     (case next of None \<Rightarrow> ret () | Some h \<Rightarrow> wrapping ''failed to process next handler'' h)"

definition add_error :: "string \<Rightarrow> metadata_handler" where
  "add_error msg = set_obj (\<lambda>m. m\<lparr>jmt_errorStrings := jmt_errorStrings m @ [msg]\<rparr>)"

abbreviation issuesLinksKey :: string where "issuesLinksKey \<equiv> ''issuesLinks''"

section \<open>put_tag_value.go\<close>

fun getProjectInfo :: "gojira \<Rightarrow> jira_dto \<Rightarrow> string list \<Rightarrow> ('o st, string \<times> string) prog" where
  "getProjectInfo J js [] = throw (errorf ''jira issue not found'')"
| "getProjectInfo J js (ticket # tickets) =
     bindp (attempt (GetProjectInfo J js ticket)) (\<lambda>r.
     case r of
       Inr projectId \<Rightarrow> ret (projectId, ticket)
     | Inl e \<Rightarrow>
         if errors_is e KJiraNotFound then getProjectInfo J js tickets
         else throw (wrap_err ''failed to get project info'' e))"

text \<open>The two fields whose values can be created; any other entry of the map is a nil function.\<close>

definition create_value :: "gojira \<Rightarrow> jira_dto \<Rightarrow> string \<Rightarrow> int \<Rightarrow> string \<Rightarrow> ('o st, unit) prog" where
  "create_value J js k projectId val =
     (if k = ''fixVersions'' then CreateFixVersionValue J js projectId val
      else if k = ''components'' then CreateComponentValue J js projectId val
      else panic nil_pointer)"

definition put_field ::
  "gojira \<Rightarrow> jira_dto \<Rightarrow> string \<Rightarrow> (string \<times> string list) list \<Rightarrow> string \<times> json \<Rightarrow> ('o st, unit) prog"
  where
  "put_field J js projectId issueTypeMeta kv =
     (case kv of (k, v) \<Rightarrow>
        (case map_of issueTypeMeta k of
           None \<Rightarrow> ret ()
         | Some allowed \<Rightarrow>
             (case v of
                JStr val \<Rightarrow>
                  if val \<in> set allowed then ret ()
                  else
                    bindp (wrapping ''failed to parse to int project ID'' (lift (Atoi projectId))) (\<lambda>id.
                    wrapping (''failed to create value '' @ val @ '' for '' @ k @ '' field'')
                      (create_value J js k id val))
              | _ \<Rightarrow> throw (errorf (''wrong type of payload value, '' @ in_quotes (gj_print J v) @
                       '' is not string'')))))"

definition tryToCreateFieldValues ::
  "gojira \<Rightarrow> jira_dto \<Rightarrow> (string \<times> json) list \<Rightarrow> string list \<Rightarrow> ('o st, unit) prog" where
  "tryToCreateFieldValues J js requestPayload tickets =
     bindp (wrapping ''failed to get project info'' (getProjectInfo J js tickets)) (\<lambda>(projectId, ticket).
     bindp (wrapping (''failed to get issue for '' @ ticket @ '' ticket'') (GetIssue J js ticket)) (\<lambda>issue.
     case issue of
       None \<Rightarrow> panic nil_pointer
     | Some issueFields \<Rightarrow>
         bindp (wrapping ''failed to get issue type meta''
           (GetIssueTypeMeta J js projectId (jf_typeId issueFields))) (\<lambda>issueTypeMeta.
         for_each (gj_order J requestPayload) (put_field J js projectId issueTypeMeta))))"

definition PutTagValue_ServeRequest ::
  "gojira \<Rightarrow> jira_dto \<Rightarrow> metadata_handler option \<Rightarrow> metadata_handler" where
  "PutTagValue_ServeRequest J js next =
     bindp (gets obj) (\<lambda>m.
     bindp (wrapping ''failed to get map with Jira field values''
       (lift (GetFieldsMap (gj_jsonError J) (jm_payload m) [issuesLinksKey, ''labels'']))) (\<lambda>requestPayload.
     if jm_tickets m = [] then throw (errorf (''JiraIssueMetadata is invalid. Tickets field can'' @ [CHR 0x27] @ ''t be empty''))
     else
       bindp (wrapping ''failed to create field values in Jira project''
         (tryToCreateFieldValues J js requestPayload (jm_tickets m))) (\<lambda>_.
       metadata_next next)))"

section \<open>apply_tags_to_issues.go\<close>

definition tag_field :: "string \<times> json \<Rightarrow> (string \<times> json) list" where
  "tag_field kv =
     (case kv of
        (k, JStr v) \<Rightarrow>
          [(k, JArr [JObj [(''add'', if k = ''labels'' then JStr v else JObj [(''name'', JStr v)])]])]
      | _ \<Rightarrow> [])"

definition createRequestBody :: "(string \<times> json) list \<Rightarrow> json" where
  "createRequestBody requestPayload =
     JObj [(''update'', JObj (concat (map tag_field requestPayload)))]"

definition apply_tags :: "gojira \<Rightarrow> jira_dto \<Rightarrow> json \<Rightarrow> string \<Rightarrow> metadata_handler" where
  "apply_tags J js body ticket =
     catchp (ApplyTagsToIssue J js ticket body) (\<lambda>e.
       add_error (''failed to apply tags to issue '' @ ticket @ '', err: '' @ err_msg e))"

definition ApplyTagsToIssues_ServeRequest ::
  "gojira \<Rightarrow> jira_dto \<Rightarrow> metadata_handler option \<Rightarrow> metadata_handler" where
  "ApplyTagsToIssues_ServeRequest J js next =
     bindp (gets obj) (\<lambda>m.
     bindp (wrapping ''failed to get map with Jira field values''
       (lift (GetFieldsMap (gj_jsonError J) (jm_payload m) [issuesLinksKey]))) (\<lambda>requestPayload.
     bindp (for_each (jm_tickets m) (apply_tags J js (createRequestBody requestPayload))) (\<lambda>_.
     metadata_next next)))"

section \<open>put_issue_web_link.go\<close>

record issue_link =
  il_ticket :: string
  il_title :: string
  il_url :: string

definition empty_link :: issue_link where
  "empty_link = \<lparr>il_ticket = [], il_title = [], il_url = []\<rparr>"

text \<open>
  Decoding into a struct: keys are compared without regard to case, keys that name no
  field are skipped, \<open>null\<close> leaves a field as it is, and a value of another type is an error.
  An array that is decoded over another one overwrites its elements field by field.
\<close>

definition decode_string :: "json \<Rightarrow> string \<Rightarrow> string option" where
  "decode_string v old = (case v of JStr s \<Rightarrow> Some s | JNull \<Rightarrow> Some old | _ \<Rightarrow> None)"

definition decode_link_field :: "issue_link \<Rightarrow> string \<times> json \<Rightarrow> issue_link option" where
  "decode_link_field l kv =
     (if equal_fold (fst kv) ''ticket''
      then map_option (\<lambda>x. l\<lparr>il_ticket := x\<rparr>) (decode_string (snd kv) (il_ticket l))
      else if equal_fold (fst kv) ''title''
      then map_option (\<lambda>x. l\<lparr>il_title := x\<rparr>) (decode_string (snd kv) (il_title l))
      else if equal_fold (fst kv) ''url''
      then map_option (\<lambda>x. l\<lparr>il_url := x\<rparr>) (decode_string (snd kv) (il_url l))
      else Some l)"

fun fold_option :: "('b \<Rightarrow> 'a \<Rightarrow> 'b option) \<Rightarrow> 'b \<Rightarrow> 'a list \<Rightarrow> 'b option" where
  "fold_option f b [] = Some b"
| "fold_option f b (x # xs) = Option.bind (f b x) (\<lambda>c. fold_option f c xs)"

definition decode_link :: "issue_link \<Rightarrow> json \<Rightarrow> issue_link option" where
  "decode_link old v =
     (case v of JNull \<Rightarrow> Some old | JObj ms \<Rightarrow> fold_option decode_link_field old ms | _ \<Rightarrow> None)"

fun decode_elements :: "issue_link list \<Rightarrow> json list \<Rightarrow> issue_link list option" where
  "decode_elements old [] = Some []"
| "decode_elements old (v # vs) =
     (let l = (case old of [] \<Rightarrow> empty_link | x # _ \<Rightarrow> x) in
      Option.bind (decode_link l v) (\<lambda>x. map_option (\<lambda>xs. x # xs) (decode_elements (tl old) vs)))"

definition decode_payload_field ::
  "issue_link list option \<Rightarrow> string \<times> json \<Rightarrow> issue_link list option option" where
  "decode_payload_field links kv =
     (if equal_fold (fst kv) issuesLinksKey then
        (case snd kv of
           JNull \<Rightarrow> Some None
         | JArr vs \<Rightarrow> map_option Some (decode_elements (case links of None \<Rightarrow> [] | Some ls \<Rightarrow> ls) vs)
         | _ \<Rightarrow> None)
      else Some links)"

text \<open>\<open>jiraPayload.IssuesLinks\<close>, a slice that may be nil.\<close>

definition decode_payload :: "string \<Rightarrow> issue_link list option option" where
  "decode_payload payload =
     (case json_parse payload of
        Some JNull \<Rightarrow> Some None
      | Some (JObj ms) \<Rightarrow> fold_option decode_payload_field None ms
      | _ \<Rightarrow> None)"

definition create_link :: "gojira \<Rightarrow> jira_dto \<Rightarrow> issue_link \<Rightarrow> metadata_handler" where
  "create_link J js l =
     catchp (CreateIssueLink J js (il_ticket l) (il_title l) (il_url l)) (\<lambda>e.
       add_error (''failed to create remote link. ticket - '' @ il_ticket l @ '', title - '' @ il_title l @
         '', url - '' @ il_url l @ '', err: '' @ err_msg e))"

definition PutIssueWebLink_ServeRequest ::
  "gojira \<Rightarrow> jira_dto \<Rightarrow> metadata_handler option \<Rightarrow> metadata_handler" where
  "PutIssueWebLink_ServeRequest J js next =
     bindp (gets obj) (\<lambda>m.
     case decode_payload (jm_payload m) of
       None \<Rightarrow> throw (wrap_err ''invalid spec payload json'' (errorf (gj_jsonError J (jm_payload m))))
     | Some None \<Rightarrow> throw (errorf ''issuesLinks is a mandatory field in payload'')
     | Some (Some links) \<Rightarrow>
         bindp (for_each links (create_link J js)) (\<lambda>_. metadata_next next))"

section \<open>delete_jira_issue_metadata_cr.go\<close>

definition DeleteJiraIssueMetadataCr_ServeRequest :: "env \<Rightarrow> metadata_handler option \<Rightarrow> metadata_handler" where
  "DeleteJiraIssueMetadataCr_ServeRequest E next =
     bindp (gets obj) (\<lambda>m.
     if jmt_errorStrings m \<noteq> [] then throw (errorf (str_join [CHR 0x0A] (jmt_errorStrings m)))
     else
       bindp (wrapping (''failed to remove fix version cr '' @ m_name (jm_meta m))
         (kdelete JiraIssueMetadatas E m)) (\<lambda>_.
       metadata_next next))"

section \<open>factory.go\<close>

definition createWithoutApplyingTagsChain :: "env \<Rightarrow> gojira \<Rightarrow> jira_dto \<Rightarrow> metadata_handler" where
  "createWithoutApplyingTagsChain E J js =
     PutIssueWebLink_ServeRequest J js (Some (DeleteJiraIssueMetadataCr_ServeRequest E None))"

definition createDefChain :: "env \<Rightarrow> gojira \<Rightarrow> jira_dto \<Rightarrow> metadata_handler" where
  "createDefChain E J js =
     PutTagValue_ServeRequest J js (Some (ApplyTagsToIssues_ServeRequest J js
       (Some (PutIssueWebLink_ServeRequest J js (Some (DeleteJiraIssueMetadataCr_ServeRequest E None))))))"

definition metadata_CreateChain :: "env \<Rightarrow> gojira \<Rightarrow> jira_dto \<Rightarrow> string \<Rightarrow> gerr + metadata_handler" where
  "metadata_CreateChain E J js metadataPayload =
     (case GetFieldsMap (gj_jsonError J) metadataPayload [] of
        Inl e \<Rightarrow> Inl (wrap_err ''failed to parse fields map from payload'' e)
      | Inr payload \<Rightarrow>
          if length payload = 1 \<and> map_of payload issuesLinksKey \<notin> {None, Some JNull}
          then Inr (createWithoutApplyingTagsChain E J js)
          else Inr (createDefChain E J js))"

end
