(* ===== verification/Jira_Server_Controller.thy ===== *)
theory Jira_Server_Controller
  imports Jira_Client Webhooks
begin

text \<open>
  The Jira server controller of \<open>controllers/jiraserver\<close>: it checks the connection and
  stores what it found.
\<close>

definition CheckConnection_ServeRequest :: "gojira \<Rightarrow> jira_dto \<Rightarrow> (jira_server st, unit) prog" where
  "CheckConnection_ServeRequest J client =
     bindp (wrapping ''failed to connect to Jira server'' (Connected J client)) (\<lambda>connected.
     set_obj (\<lambda>js. js\<lparr>jst_available := connected\<rparr>))"

definition JiraServer_updateStatus :: "env \<Rightarrow> (jira_server st, unit) prog" where
  "JiraServer_updateStatus E =
     bindp (now E) (\<lambda>t.
     bindp (set_obj (\<lambda>js. js\<lparr>jst_lastTimeUpdated := t\<rparr>)) (\<lambda>_.
     catchp (save VStatusUpdate JiraServers E) (\<lambda>_. ignoring (save VUpdate JiraServers E))))"

definition serve_jira_server :: "env \<Rightarrow> gojira \<Rightarrow> (jira_server st, reconcile_result) prog" where
  "serve_jira_server E J =
     bindp (gets obj) (\<lambda>js.
     bindp (catchp (initJiraClient E J js) (\<lambda>e.
       bindp (set_obj (\<lambda>i. i\<lparr>jst_available := False\<rparr>)) (\<lambda>_. throw e))) (\<lambda>c.
     bindp (catchp (CheckConnection_ServeRequest J c) (\<lambda>e.
       bindp (set_obj (\<lambda>i. i\<lparr>jst_status := ''error'', jst_detailedMessage := err_msg e\<rparr>)) (\<lambda>_.
       throw (wrap_err ''failed serving default chain'' e)))) (\<lambda>_.
     bindp (set_obj (\<lambda>i. i\<lparr>jst_status := ''finished'', jst_detailedMessage := []\<rparr>)) (\<lambda>_.
     ret no_requeue))))"

definition JiraServer_Reconcile ::
  "env \<Rightarrow> gojira \<Rightarrow> string \<Rightarrow> string \<Rightarrow> (jira_server st, reconcile_result) prog" where
  "JiraServer_Reconcile E J ns name =
     bindp (attempt (kget JiraServers E ns name)) (\<lambda>r.
     case r of
       Inl e \<Rightarrow>
         if errors_is e KNotFound then ret no_requeue
         else throw (wrap_err (''failed to fetch JiraServer resource '' @ quoted (ns @ ''/'' @ name)) e)
     | Inr js \<Rightarrow>
         bindp (set_obj (\<lambda>_. js)) (\<lambda>_.
         deferred (JiraServer_updateStatus E) (serve_jira_server E J)))"

definition jira_server_update_filter :: "kobj \<Rightarrow> kobj \<Rightarrow> bool" where
  "jira_server_update_filter old new =
     (case (old, new) of
        (ObjJiraServer oo, ObjJiraServer on) \<Rightarrow>
          PauseAnnotationChanged (Some (js_meta oo)) (Some (js_meta on)) \<or>
          (jst_available oo = jst_available on \<and> jst_lastTimeUpdated oo = jst_lastTimeUpdated on \<and>
           jst_status oo = jst_status on \<and> jst_detailedMessage oo = jst_detailedMessage on)
      | _ \<Rightarrow> False)"

section \<open>What the status says\<close>

definition no_write :: "event \<Rightarrow> bool" where
  "no_write ev \<longleftrightarrow> (case ev of EvWrite _ _ _ \<Rightarrow> False | _ \<Rightarrow> True)"

text \<open>
  How the check went, and the server as it is stored then: a server that does not answer
  stays as available as it was, and one no client could be made for keeps its status text.
\<close>

datatype connection = NoClient | NoAnswer string | Answered bool

definition reported :: "jira_server \<Rightarrow> connection \<Rightarrow> jira_server" where
  "reported js how =
     (case how of
        NoClient \<Rightarrow> js\<lparr>jst_available := False\<rparr>
      | NoAnswer e \<Rightarrow> js\<lparr>jst_status := ''error'',
          jst_detailedMessage := ''failed to connect to Jira server: failed to fetch jira user: '' @ e\<rparr>
      | Answered b \<Rightarrow> js\<lparr>jst_available := b, jst_status := ''finished'', jst_detailedMessage := []\<rparr>)"

definition connection_of ::
  "env \<Rightarrow> gojira \<Rightarrow> history \<Rightarrow> jira_server \<Rightarrow> connection" where
  "connection_of E J h js =
     (case k_get (api_secret E) h (m_ns (js_meta js)) (js_credentialName js) of
        Inl e \<Rightarrow> NoClient
      | Inr sec \<Rightarrow>
          let c = ConvertSpecToJiraServer (js_apiUrl js) (smap_get (s_data sec) ''username'')
                    (smap_get (s_data sec) ''password'')
          in if gj_new J c \<noteq> None then NoClient
             else case gj_self J (h @ [EvGet ''Secret'' (m_ns (js_meta js)) (js_credentialName js)]) c of
                    Inl e \<Rightarrow> NoAnswer (err_msg e)
                  | Inr b \<Rightarrow> Answered b)"

lemma serve_jira_server_reports:
  "obj (snd (serve_jira_server E J s)) = reported (obj s) (connection_of E J (log s) (obj s)) \<and>
   (\<exists>es. log (snd (serve_jira_server E J s)) = log s @ es \<and> list_all no_write es)"
proof -
  let ?c = "\<lambda>sec. ConvertSpecToJiraServer (js_apiUrl (obj s)) (smap_get (s_data sec) ''username'')
    (smap_get (s_data sec) ''password'')"
  let ?h = "log s @ [EvGet ''Secret'' (m_ns (js_meta (obj s))) (js_credentialName (obj s))]"
  note run = serve_jira_server_def reported_def connection_of_def initJiraClient_def bindp_run catchp_run
      wrapping_run kget_run ask_run Secrets_def lift_def initClient_def CheckConnection_ServeRequest_def
      Connected_def Let_def no_write_def
  show ?thesis
  proof (cases "k_get (api_secret E) (log s) (m_ns (js_meta (obj s))) (js_credentialName (obj s))")
    case (Inl e)
    then show ?thesis by (simp add: run)
  next
    case sec: (Inr sec)
    show ?thesis
    proof (cases "gj_new J (?c sec)")
      case None
      with sec show ?thesis by (cases "gj_self J ?h (?c sec)") (simp_all add: run)
    next
      case (Some e)
      with sec show ?thesis by (simp add: run)
    qed
  qed
qed

text \<open>The status update, and a plain update of the same object when that one is refused.\<close>

definition status_calls :: "jira_server \<Rightarrow> event list \<Rightarrow> bool" where
  "status_calls x es \<longleftrightarrow>
     es = [EvWrite VStatusUpdate (ObjJiraServer x) None] \<or>
     (\<exists>e r. es = [EvWrite VStatusUpdate (ObjJiraServer x) (Some e), EvWrite VUpdate (ObjJiraServer x) r])"

lemma JiraServer_updateStatus_stores:
  "\<exists>es. log (snd (JiraServer_updateStatus E s)) = log s @ es \<and>
     status_calls ((obj s)\<lparr>jst_lastTimeUpdated := clock E (log s)\<rparr>) es"
proof -
  let ?x = "(obj s)\<lparr>jst_lastTimeUpdated := clock E (log s)\<rparr>"
  show ?thesis
    by (cases "k_write (api_jira_server E) (log s) VStatusUpdate ?x ?x")
       (auto simp: JiraServer_updateStatus_def catchp_run ignoring_save save_run [of VStatusUpdate]
         save_run [of VUpdate] JiraServers_def status_calls_def split: sum.split)
qed

text \<open>
  C27: a reconciliation of a Jira server writes nothing before it knows how the check of the
  connection went, and then, whatever happened, asks for the status update of the server as
  it was fetched with just that outcome and the time, and for the plain update of the same
  object when the status update is refused. The answer to the probe sets the availability
  and the status finished; a probe that is not answered sets the status error with the
  reason and leaves the availability as it was; and when no client can be made the server is
  unavailable and its status text stays.
\<close>

theorem jira_status_reports_connection:
  fixes J :: gojira
  assumes "k_get (api_jira_server E) (log s) ns name = Inr js"
  shows "\<exists>xs ys. added s (snd (JiraServer_Reconcile E J ns name s)) =
      EvGet ''JiraServer'' ns name # xs @ ys \<and> list_all no_write xs \<and>
    status_calls ((reported js (connection_of E J (log s @ [EvGet ''JiraServer'' ns name]) js))
      \<lparr>jst_lastTimeUpdated := clock E (log s @ EvGet ''JiraServer'' ns name # xs)\<rparr>) ys"
proof -
  let ?s = "s\<lparr>log := log s @ [EvGet ''JiraServer'' ns name], obj := js\<rparr>"
  let ?t = "snd (serve_jira_server E J ?s)"
  have run: "snd (JiraServer_Reconcile E J ns name s) = snd (JiraServer_updateStatus E ?t)"
    by (simp add: JiraServer_Reconcile_def bindp_run attempt_run kget_run JiraServers_def assms(1)
        deferred_def)
  obtain xs where xs: "log ?t = log s @ EvGet ''JiraServer'' ns name # xs" "list_all no_write xs"
    and rep: "obj ?t = reported js (connection_of E J (log ?s) js)"
    using serve_jira_server_reports [of E J ?s] by auto
  obtain ys where "log (snd (JiraServer_updateStatus E ?t)) = log ?t @ ys"
    "status_calls ((obj ?t)\<lparr>jst_lastTimeUpdated := clock E (log ?t)\<rparr>) ys"
    using JiraServer_updateStatus_stores by blast
  with xs rep show ?thesis
    by (intro exI [of _ xs] exI [of _ ys]) (simp add: run added_def)
qed

section \<open>Examples\<close>

definition demo_jira :: jira_server where
  "demo_jira = \<lparr>js_meta = new_meta ''jira'' ''ns'', js_apiUrl = ''https://jira'', js_credentialName = ''c'',
     jst_available = True, jst_lastTimeUpdated = 0, jst_status = ''finished'', jst_detailedMessage = []\<rparr>"

definition silent_jira :: gojira where
  "silent_jira = \<lparr>gj_new = \<lambda>_. None, gj_self = \<lambda>h js. Inl (errorf ''timeout''),
     gj_issue = \<lambda>h js i. (Inl (errorf ''timeout''), None), gj_project = \<lambda>h js p. Inl (errorf ''timeout''),
     gj_do = \<lambda>h js c. Some (errorf ''timeout''), gj_request = \<lambda>_. None,
     gj_meta = \<lambda>h js p. Inl (errorf ''timeout''), gj_order = id, gj_jsonError = id,
     gj_print = \<lambda>_. []\<rparr>"

definition jira_env :: env where
  "jira_env = null_env\<lparr>api_jira_server := one_api demo_jira,
     api_secret := one_api \<lparr>s_meta = new_meta ''c'' ''ns'', s_data = []\<rparr>\<rparr>"

text \<open>A server that stopped answering is stored as available.\<close>

theorem jira_status_witness:
  "\<exists>xs ys t. added \<lparr>obj = demo_jira, log = []\<rparr>
      (snd (JiraServer_Reconcile jira_env silent_jira ''ns'' ''jira'' \<lparr>obj = demo_jira, log = []\<rparr>)) =
        EvGet ''JiraServer'' ''ns'' ''jira'' # xs @ ys \<and> list_all no_write xs \<and>
      status_calls (demo_jira\<lparr>jst_status := ''error'', jst_detailedMessage :=
        ''failed to connect to Jira server: failed to fetch jira user: timeout'', jst_lastTimeUpdated := t\<rparr>) ys"
proof -
  have "k_get (api_jira_server jira_env) [] ''ns'' ''jira'' = Inr demo_jira"
    by (simp add: jira_env_def one_api_def)
  moreover have "connection_of jira_env silent_jira [EvGet ''JiraServer'' ''ns'' ''jira''] demo_jira =
      NoAnswer ''timeout''"
    by (simp add: connection_of_def jira_env_def one_api_def silent_jira_def Let_def errorf_def)
  ultimately show ?thesis
    using jira_status_reports_connection [of jira_env "\<lparr>obj = demo_jira, log = []\<rparr>" "''ns''" "''jira''"
        demo_jira silent_jira]
    by (simp add: reported_def) metis
qed

end
