(* ===== verification/Jira_Metadata_Controller.thy ===== *)
theory Jira_Metadata_Controller
  imports Jira_Metadata_Chain Jira_Server_Controller
begin

text \<open>
  The controller of \<open>controllers/jiraissuemetadata\<close>, which serves a resource until its
  tickets are tagged and linked, and the safety of the deletion that ends it.
\<close>

section \<open>The controller\<close>

definition metadata_setErrorStatus :: "string \<Rightarrow> jira_issue_metadata \<Rightarrow> jira_issue_metadata" where
  "metadata_setErrorStatus msg m = m\<lparr>jmt_status := ''error'', jmt_detailedMessage := msg\<rparr>"

definition metadata_setFailureCount :: "env \<Rightarrow> (jira_issue_metadata st, int) prog" where
  "metadata_setFailureCount E =
     bindp (gets obj) (\<lambda>m.
     let timeout = GetTimeout E (jmt_failureCount m) 500000000 in
     bindp (set_obj (\<lambda>m. m\<lparr>jmt_failureCount := i64 (jmt_failureCount m + 1)\<rparr>)) (\<lambda>_.
     ret timeout))"

definition metadata_setOwnerRef :: "env \<Rightarrow> metadata_handler" where
  "metadata_setOwnerRef E =
     bindp (gets obj) (\<lambda>m.
     bindp (wrapping (''failed to fetch Codebase resource '' @ quoted (jm_codebaseName m))
       (kget Codebases E (m_ns (jm_meta m)) (jm_codebaseName m))) (\<lambda>c.
     bindp (wrapping ''failed to set owner ref for JiraIssueMetadata CR''
       (lift (l_setControllerReference (lib_of E) (ObjCodebase c) (jm_meta m)))) (\<lambda>meta.
     set_obj (\<lambda>m. m\<lparr>jm_meta := meta\<rparr>))))"

definition getJiraServer :: "env \<Rightarrow> (jira_issue_metadata st, jira_server) prog" where
  "getJiraServer E =
     bindp (gets obj) (\<lambda>m.
     bindp (wrapping ''failed to fetch OwnerReference''
       (lift (GetOwnerReference ''Codebase'' (m_owners (jm_meta m))))) (\<lambda>ref.
     bindp (wrapping (''failed to fetch Codebase resource '' @ quoted (or_name ref))
       (kget Codebases E (m_ns (jm_meta m)) (or_name ref))) (\<lambda>c.
     case cs_jiraServer (c_spec c) of
       None \<Rightarrow> throw (errorf (''codebase '' @ m_name (c_meta c) @
         '' has disabled jira integration. skip JiraIssueMetadata '' @ m_name (jm_meta m) @
         '' reconciliation''))
     | Some server \<Rightarrow>
         wrapping (''failed to fetch JiraServer resource '' @ quoted server)
           (kget JiraServers E (m_ns (jm_meta m)) server))))"

definition metadata_updateStatus :: "env \<Rightarrow> metadata_handler" where
  "metadata_updateStatus E =
     bindp (now E) (\<lambda>t.
     bindp (set_obj (\<lambda>m. m\<lparr>jmt_lastTimeUpdated := t\<rparr>)) (\<lambda>_.
     catchp (save VStatusUpdate JiraIssueMetadatas E)
       (\<lambda>_. ignoring (save VUpdate JiraIssueMetadatas E))))"

definition lookup_period :: "env \<Rightarrow> string" where
  "lookup_period E =
     (case os_env E ''RECONCILIATION_PERIOD'' of None \<Rightarrow> ''360'' | Some v \<Rightarrow> v)"

text \<open>An error that is also entered in the status of the object in hand.\<close>

definition noting :: "(jira_issue_metadata st, 'a) prog \<Rightarrow> (jira_issue_metadata st, 'a) prog" where
  "noting m =
     catchp m (\<lambda>e. bindp (set_obj (metadata_setErrorStatus (err_msg e))) (\<lambda>_. throw e))"

definition run_metadata_chain ::
  "env \<Rightarrow> gojira \<Rightarrow> metadata_handler \<Rightarrow> (jira_issue_metadata st, reconcile_result) prog" where
  "run_metadata_chain E J ch =
     bindp (attempt ch) (\<lambda>r.
     case r of
       Inl e \<Rightarrow>
         bindp (set_obj (metadata_setErrorStatus (err_msg e))) (\<lambda>_.
         bindp (metadata_setFailureCount E) (\<lambda>timeout.
         ret (requeue_after timeout)))
     | Inr _ \<Rightarrow>
         bindp (wrapping ''failed to parse time duration''
           (lift (ParseDuration (lookup_period E @ ''m'')))) (\<lambda>duration.
         ret (requeue_after duration)))"

definition serve_metadata :: "env \<Rightarrow> gojira \<Rightarrow> (jira_issue_metadata st, reconcile_result) prog" where
  "serve_metadata E J =
     bindp (noting (metadata_setOwnerRef E)) (\<lambda>_.
     bindp (noting (getJiraServer E)) (\<lambda>js.
     if \<not> jst_available js then
       bindp (metadata_setFailureCount E) (\<lambda>timeout. ret (requeue_after timeout))
     else
       bindp (noting (initJiraClient E J js)) (\<lambda>jc.
       bindp (gets obj) (\<lambda>m.
       bindp (wrapping ''failed to configure `CreateChain`''
         (noting (lift (metadata_CreateChain E J jc (jm_payload m))))) (\<lambda>ch.
       run_metadata_chain E J ch)))))"

definition Metadata_Reconcile ::
  "env \<Rightarrow> gojira \<Rightarrow> string \<Rightarrow> string \<Rightarrow> (jira_issue_metadata st, reconcile_result) prog" where
  "Metadata_Reconcile E J ns name =
     bindp (attempt (kget JiraIssueMetadatas E ns name)) (\<lambda>r.
     case r of
       Inl e \<Rightarrow>
         if errors_is e KNotFound then ret no_requeue
         else throw (wrap_err (''failed to fetch JiraIssueMetadata resource '' @ quoted (ns @ ''/'' @ name)) e)
     | Inr m \<Rightarrow>
         bindp (set_obj (\<lambda>_. m)) (\<lambda>_.
         deferred (metadata_updateStatus E) (serve_metadata E J)))"

definition metadata_update_filter :: "kobj \<Rightarrow> kobj \<Rightarrow> bool" where
  "metadata_update_filter old new =
     (case (old, new) of
        (ObjJiraIssueMetadata oo, ObjJiraIssueMetadata on) \<Rightarrow>
          PauseAnnotationChanged (Some (jm_meta oo)) (Some (jm_meta on)) \<or>
          jm_codebaseName oo \<noteq> jm_codebaseName on \<or> jm_payload oo \<noteq> jm_payload on \<or>
          jm_commits oo \<noteq> jm_commits on \<or> jm_tickets oo \<noteq> jm_tickets on
      | _ \<Rightarrow> False)"

section \<open>A resource is deleted only when its tickets were served\<close>

text \<open>What changes something in Jira must not have failed.\<close>

fun jira_ok :: "event \<Rightarrow> bool" where
  "jira_ok (EvJira u (JiraCreateVersion _ _) (Some _)) = False"
| "jira_ok (EvJira u (JiraCreateComponent _ _ _) (Some _)) = False"
| "jira_ok (EvJira u (JiraUpdateIssue _ _) (Some _)) = False"
| "jira_ok (EvJira u (JiraRequest meth _ _) (Some _)) = (meth = ''GET'')"
| "jira_ok _ = True"

definition is_delete :: "event \<Rightarrow> bool" where
  "is_delete ev \<longleftrightarrow> (case ev of EvWrite v _ _ \<Rightarrow> v = VDelete | _ \<Rightarrow> False)"

fun clean_delete :: "bool \<Rightarrow> event list \<Rightarrow> bool" where
  "clean_delete ok [] = True"
| "clean_delete ok (e # es) = ((if is_delete e then ok else True) \<and> clean_delete (ok \<and> jira_ok e) es)"

lemma clean_delete_append:
  "clean_delete ok (es @ xs) \<longleftrightarrow> clean_delete ok es \<and> clean_delete (ok \<and> list_all jira_ok es) xs"
  by (induction es arbitrary: ok) (auto simp: conj_assoc)

lemma clean_delete_neutral: "list_all (\<lambda>e. \<not> is_delete e) es \<Longrightarrow> clean_delete ok es"
  by (induction es arbitrary: ok) auto

definition tidy :: "history \<Rightarrow> jira_issue_metadata st \<Rightarrow> bool" where
  "tidy h s \<longleftrightarrow> (\<exists>es. log s = h @ es \<and> clean_delete True es)"

definition unblemished :: "history \<Rightarrow> jira_issue_metadata st \<Rightarrow> bool" where
  "unblemished h s \<longleftrightarrow>
     (\<exists>es. log s = h @ es \<and> (list_all jira_ok es \<or> jmt_errorStrings (obj s) \<noteq> []))"

text \<open>
  A handler that makes progress leaves the history tidy however it ends, and when it
  succeeds, every failure before is noted in the object.
\<close>

definition progress :: "history \<Rightarrow> (jira_issue_metadata st, 'a) prog \<Rightarrow> bool" where
  "progress h m \<longleftrightarrow>
     (\<forall>s. tidy h s \<and> unblemished h s \<longrightarrow>
        tidy h (snd (m s)) \<and> (\<forall>y. fst (m s) = Ok y \<longrightarrow> unblemished h (snd (m s))))"

named_theorems progress_intros \<open>introduction rules of \<open>progress\<close>\<close>

lemma progressD:
  "progress h m \<Longrightarrow> tidy h s \<Longrightarrow> unblemished h s \<Longrightarrow>
   tidy h (snd (m s)) \<and> (\<forall>y. fst (m s) = Ok y \<longrightarrow> unblemished h (snd (m s)))"
  by (simp add: progress_def)

lemma progress_bindp [progress_intros]:
  "progress h m \<Longrightarrow> (\<And>x. progress h (f x)) \<Longrightarrow> progress h (bindp m f)"
  by (auto simp: progress_def bindp_run split: outcome.split)

lemma progress_wrapping [progress_intros]: "progress h m \<Longrightarrow> progress h (wrapping pre m)"
  by (auto simp: progress_def wrapping_run split: outcome.split)

lemma progress_if [progress_intros]:
  "(b \<Longrightarrow> progress h m) \<Longrightarrow> (\<not> b \<Longrightarrow> progress h n) \<Longrightarrow> progress h (if b then m else n)"
  by simp

lemma progress_cases [progress_intros]:
  "(o1 = None \<Longrightarrow> progress h m) \<Longrightarrow> (\<And>y. o1 = Some y \<Longrightarrow> progress h (f y)) \<Longrightarrow>
   progress h (case o1 of None \<Rightarrow> m | Some y \<Rightarrow> f y)"
  by (cases o1) auto

text \<open>A step that only adds to the history, and nothing of note.\<close>

lemma progress_step:
  assumes "\<And>s. \<exists>es. log (snd (m s)) = log s @ es \<and> list_all (\<lambda>e. \<not> is_delete e) es \<and>
    (\<forall>y. fst (m s) = Ok y \<longrightarrow>
       (list_all jira_ok es \<and> jmt_errorStrings (obj (snd (m s))) = jmt_errorStrings (obj s)) \<or>
       jmt_errorStrings (obj (snd (m s))) \<noteq> [])"
  shows "progress h m"
  unfolding progress_def
proof (intro allI impI conjI)
  fix s assume s: "tidy h s \<and> unblemished h s"
  obtain es where es: "log (snd (m s)) = log s @ es" "list_all (\<lambda>e. \<not> is_delete e) es"
    "\<forall>y. fst (m s) = Ok y \<longrightarrow>
       (list_all jira_ok es \<and> jmt_errorStrings (obj (snd (m s))) = jmt_errorStrings (obj s)) \<or>
       jmt_errorStrings (obj (snd (m s))) \<noteq> []"
    using assms by blast
  from s es(1,2) show "tidy h (snd (m s))"
    by (auto simp: tidy_def clean_delete_append clean_delete_neutral)
  show "unblemished h (snd (m s))" if "fst (m s) = Ok y" for y
    using s es that by (auto simp: unblemished_def)
qed

lemma progress_leaves [progress_intros]:
  "progress h (ret x)" "progress h (throw e)" "progress h (panic p)" "progress h (gets g)"
  "progress h (lift r)"
  by (rule progress_step, auto simp: lift_def split: sum.split)+

lemma progress_for_each [progress_intros]:
  "(\<And>x. progress h (f x)) \<Longrightarrow> progress h (for_each xs f)"
  by (induction xs) (simp_all only: for_each.simps progress_bindp progress_leaves)

lemma progress_noting:
  "progress h m \<Longrightarrow> progress h (noting m)"
  by (auto simp: progress_def noting_def catchp_run tidy_def split: outcome.split)

lemma progress_kget [progress_intros]: "progress h (kget R E ns n)"
  by (rule progress_step) (auto simp: kget_run is_delete_def split: sum.split)

lemma jira_issue_step:
  "\<exists>es. log (snd (jira_issue J js t s)) = log s @ es \<and> list_all (\<lambda>e. \<not> is_delete e) es \<and>
     list_all jira_ok es \<and> obj (snd (jira_issue J js t s)) = obj s"
  by (simp add: jira_issue_def bindp_run is_delete_def split: option.split sum.split)

lemma progress_GetProjectInfo: "progress h (attempt (GetProjectInfo J js t))"
proof (rule progress_step)
  fix s :: "jira_issue_metadata st"
  let ?i = "snd (jira_issue J js t s)"
  have "snd (attempt (GetProjectInfo J js t) s) = ?i"
    by (auto simp: attempt_run GetProjectInfo_def bindp_run Let_def
        split: outcome.split prod.split sum.split option.split)
  then show "\<exists>es. log (snd (attempt (GetProjectInfo J js t) s)) = log s @ es \<and>
      list_all (\<lambda>e. \<not> is_delete e) es \<and>
      (\<forall>y. fst (attempt (GetProjectInfo J js t) s) = Ok y \<longrightarrow>
         (list_all jira_ok es \<and>
          jmt_errorStrings (obj (snd (attempt (GetProjectInfo J js t) s))) = jmt_errorStrings (obj s)) \<or>
         jmt_errorStrings (obj (snd (attempt (GetProjectInfo J js t) s))) \<noteq> [])"
    using jira_issue_step [of J js t s] by auto
qed

lemma progress_getProjectInfo [progress_intros]: "progress h (getProjectInfo J js tickets)"
proof (induction tickets)
  case (Cons t ts)
  show ?case unfolding getProjectInfo.simps
  proof (rule progress_bindp [OF progress_GetProjectInfo])
    fix r :: "gerr + string"
    show "progress h (case r of
       Inl e \<Rightarrow> if errors_is e KJiraNotFound then getProjectInfo J js ts
                else throw (wrap_err ''failed to get project info'' e)
     | Inr projectId \<Rightarrow> ret (projectId, t))"
      using Cons by (cases r) (auto intro: progress_intros)
  qed
qed (simp only: getProjectInfo.simps progress_leaves)

lemma progress_GetIssue [progress_intros]: "progress h (GetIssue J js t)"
proof -
  have "progress h (jira_issue J js t)"
    by (rule progress_step) (metis jira_issue_step)
  then have "progress h (bindp (jira_issue J js t) (\<lambda>(r, _). lift r))"
    by (rule progress_bindp) (auto intro: progress_intros split: prod.split)
  then show ?thesis unfolding GetIssue_def by (rule progress_wrapping)
qed

lemma progress_jira_do [progress_intros]: "progress h (jira_do J js c)"
  by (rule progress_step) (auto simp: jira_do_def asku_run is_delete_def split: option.split)

lemma progress_ask_jira: "jira_ok (EvJira u c (Some undefined)) \<Longrightarrow> progress h (ask orc (\<lambda>e. EvJira u c e))"
  by (rule progress_step) (cases c, auto simp: ask_run is_delete_def split: sum.split)

lemma progress_values [progress_intros]: "progress h (put_field J js p meta kv)"
proof -
  have "progress h (create_value J js k i v)" for k i v
    unfolding create_value_def CreateFixVersionValue_def CreateComponentValue_def
    by (intro progress_intros progress_ask_jira) simp
  then have "progress h (case v of JStr val \<Rightarrow>
       if val \<in> set allowed then ret ()
       else bindp (wrapping ''failed to parse to int project ID'' (lift (Atoi p))) (\<lambda>i.
              wrapping (''failed to create value '' @ val @ '' for '' @ k @ '' field'')
                (create_value J js k i val))
     | _ \<Rightarrow> throw (errorf (''wrong type of payload value, '' @ in_quotes (gj_print J v) @
              '' is not string'')))" for v k allowed
    by (cases v) (auto intro!: progress_intros)
  then show ?thesis
    unfolding put_field_def by (cases kv) (auto intro!: progress_intros)
qed

lemma progress_meta [progress_intros]: "progress h (GetIssueTypeMeta J js p i)"
  unfolding GetIssueTypeMeta_def Let_def by (intro progress_intros progress_ask_jira) simp

lemma progress_tags [progress_intros]: "progress h (apply_tags J js body t)"
  by (rule progress_step)
     (auto simp: apply_tags_def ApplyTagsToIssue_def catchp_run wrapping_run jira_do_def asku_run
       add_error_def is_delete_def split: option.split)

lemma progress_link [progress_intros]: "progress h (create_link J js l)"
proof (cases "gj_request J (''rest/api/2/issue/'' @ il_ticket l @ ''/remotelink'')")
  case None
  then show ?thesis
    by (intro progress_step)
       (auto simp: create_link_def CreateIssueLink_def catchp_run wrapping_run bindp_run jira_do_def
         asku_run add_error_def is_delete_def lift_def Let_def split: option.split)
next
  case (Some e)
  then show ?thesis
    by (intro progress_step)
       (auto simp: create_link_def CreateIssueLink_def catchp_run wrapping_run bindp_run
         add_error_def lift_def Let_def)
qed

lemma progress_delete [progress_intros]: "progress h (DeleteJiraIssueMetadataCr_ServeRequest E None)"
  by (auto simp: progress_def DeleteJiraIssueMetadataCr_ServeRequest_def metadata_next_def bindp_run
      wrapping_run kwrite_def ask_run tidy_def unblemished_def clean_delete_append is_delete_def
      JiraIssueMetadatas_def split: sum.split)

lemma progress_next [progress_intros]: "(\<And>h'. n = Some h' \<Longrightarrow> progress h h') \<Longrightarrow> progress h (metadata_next n)"
  by (cases n) (auto simp: metadata_next_def intro!: progress_intros simp del: ret_run)

lemma progress_handlers [progress_intros]:
  "progress h h1 \<Longrightarrow> progress h (PutTagValue_ServeRequest J js (Some h1))"
  "progress h h1 \<Longrightarrow> progress h (ApplyTagsToIssues_ServeRequest J js (Some h1))"
  "progress h h1 \<Longrightarrow> progress h (PutIssueWebLink_ServeRequest J js (Some h1))"
  unfolding PutTagValue_ServeRequest_def tryToCreateFieldValues_def
    ApplyTagsToIssues_ServeRequest_def PutIssueWebLink_ServeRequest_def
  by (intro progress_intros; (clarsimp simp del: throw_run panic_run)?; intro progress_intros)+

lemma progress_chain:
  "metadata_CreateChain E J js p = Inr ch \<Longrightarrow> progress h ch"
  by (auto simp: metadata_CreateChain_def createWithoutApplyingTagsChain_def createDefChain_def
      intro!: progress_intros split: sum.splits if_splits)

lemma progress_set_obj:
  "(\<And>m. jmt_errorStrings (g m) = jmt_errorStrings m) \<Longrightarrow> progress h (set_obj g)"
  by (rule progress_step) simp

lemma progress_controller [progress_intros]:
  "progress h (metadata_setOwnerRef E)" "progress h (getJiraServer E)" "progress h (initJiraClient E J js)"
  "progress h (metadata_setFailureCount E)"
  unfolding metadata_setOwnerRef_def getJiraServer_def initJiraClient_def metadata_setFailureCount_def Let_def
  by (intro progress_intros progress_set_obj; simp)+

text \<open>What matters in the end is the history.\<close>

definition ends_tidy :: "history \<Rightarrow> (jira_issue_metadata st, 'a) prog \<Rightarrow> bool" where
  "ends_tidy h m \<longleftrightarrow> (\<forall>s. tidy h s \<and> unblemished h s \<longrightarrow> tidy h (snd (m s)))"

lemma ends_tidy_bindp:
  "progress h m \<Longrightarrow> (\<And>x. ends_tidy h (f x)) \<Longrightarrow> ends_tidy h (bindp m f)"
  by (auto simp: progress_def ends_tidy_def bindp_run split: outcome.split)

lemma ends_tidy_progress: "progress h m \<Longrightarrow> ends_tidy h m"
  by (simp add: progress_def ends_tidy_def)

lemma ends_tidy_chain:
  assumes "progress h ch"
  shows "ends_tidy h (run_metadata_chain E J ch)"
proof -
  have "log (snd (run_metadata_chain E J ch s)) = log (snd (ch s))" for s
    by (simp add: run_metadata_chain_def bindp_run attempt_run wrapping_run lift_def
        metadata_setFailureCount_def Let_def split: outcome.split sum.split)
  with assms show ?thesis by (simp add: ends_tidy_def progress_def tidy_def)
qed

lemma ends_tidy_serve: "ends_tidy h (serve_metadata E J)"
proof -
  have chain: "ends_tidy h (bindp (wrapping ''failed to configure `CreateChain`''
      (noting (lift (metadata_CreateChain E J jc p)))) (\<lambda>ch. run_metadata_chain E J ch))" for jc p
  proof (cases "metadata_CreateChain E J jc p")
    case (Inl e)
    then show ?thesis
      by (simp add: ends_tidy_def tidy_def bindp_run wrapping_run noting_def catchp_run lift_def)
  next
    case (Inr ch)
    with ends_tidy_chain [OF progress_chain [OF Inr]] show ?thesis
      by (simp add: ends_tidy_def bindp_run wrapping_run noting_def catchp_run lift_def)
  qed
  show ?thesis
    unfolding serve_metadata_def
  proof (intro ends_tidy_bindp [OF progress_noting [OF progress_controller(1)]]
      ends_tidy_bindp [OF progress_noting [OF progress_controller(2)]])
    fix js
    let ?wait = "bindp (metadata_setFailureCount E) (\<lambda>timeout. ret (requeue_after timeout))"
    have "ends_tidy h ?wait" by (intro ends_tidy_progress progress_intros)
    moreover have "ends_tidy h (bindp (noting (initJiraClient E J js)) (\<lambda>jc. bindp (gets obj) (\<lambda>m.
        bindp (wrapping ''failed to configure `CreateChain`''
          (noting (lift (metadata_CreateChain E J jc (jm_payload m))))) (\<lambda>ch.
        run_metadata_chain E J ch))))"
      by (intro ends_tidy_bindp [OF progress_noting [OF progress_controller(3)]]
          ends_tidy_bindp [OF progress_leaves(4)] chain)
    ultimately show "ends_tidy h (if \<not> jst_available js then ?wait
        else bindp (noting (initJiraClient E J js)) (\<lambda>jc. bindp (gets obj) (\<lambda>m.
          bindp (wrapping ''failed to configure `CreateChain`''
            (noting (lift (metadata_CreateChain E J jc (jm_payload m))))) (\<lambda>ch.
          run_metadata_chain E J ch))))"
      by simp
  qed
qed

lemma metadata_updateStatus_appends: "appends (\<lambda>e. \<not> is_delete e) (metadata_updateStatus E)"
  unfolding metadata_updateStatus_def by (intro appends_intros) (simp_all add: is_delete_def)

text \<open>
  C28: a resource that was fetched without noted errors, as every fetched one is, is deleted
  only when everything the reconciliation changed in Jira before, a value created, a ticket
  tagged or a link made, was accepted.
\<close>

theorem metadata_deleted_only_when_served:
  assumes "k_get (api_jira_issue_metadata E) (log s) ns name = Inr m" and "jmt_errorStrings m = []"
  shows "clean_delete True (added s (snd (Metadata_Reconcile E J ns name s)))"
proof -
  let ?h = "log s @ [EvGet ''JiraIssueMetadata'' ns name]"
  let ?s = "s\<lparr>log := ?h, obj := m\<rparr>"
  have run: "snd (Metadata_Reconcile E J ns name s) =
      snd (metadata_updateStatus E (snd (serve_metadata E J ?s)))"
    by (simp add: Metadata_Reconcile_def bindp_run attempt_run kget_run JiraIssueMetadatas_def assms(1)
        deferred_def)
  have "tidy ?h ?s \<and> unblemished ?h ?s" by (simp add: tidy_def unblemished_def)
  then have "tidy ?h (snd (serve_metadata E J ?s))"
    using ends_tidy_serve [of ?h E J] unfolding ends_tidy_def by blast
  then obtain es where es: "log (snd (serve_metadata E J ?s)) = ?h @ es" "clean_delete True es"
    by (auto simp: tidy_def)
  obtain xs where xs: "log (snd (metadata_updateStatus E (snd (serve_metadata E J ?s)))) =
      log (snd (serve_metadata E J ?s)) @ xs" "list_all (\<lambda>e. \<not> is_delete e) xs"
    using appendsD [OF metadata_updateStatus_appends] by blast
  have "added s (snd (Metadata_Reconcile E J ns name s)) = EvGet ''JiraIssueMetadata'' ns name # es @ xs"
    using es(1) xs(1) by (simp add: run added_def)
  with es(2) xs(2) show ?thesis
    by (simp add: is_delete_def clean_delete_append clean_delete_neutral)
qed

section \<open>Examples\<close>

definition demo_metadata :: jira_issue_metadata where
  "demo_metadata = \<lparr>jm_meta = (new_meta ''m'' ''ns'')\<lparr>m_owners := [\<lparr>or_kind = ''Codebase'', or_name = ''app'',
     or_controller = True\<rparr>]\<rparr>, jm_codebaseName = ''app'', jm_payload = ''{}'', jm_commits = [],
     jm_tickets = [''T-1''], jmt_lastTimeUpdated = 0, jmt_status = [], jmt_detailedMessage = [],
     jmt_failureCount = 0, jmt_errorStrings = []\<rparr>"

definition metadata_env :: env where
  "metadata_env = jira_env\<lparr>api_jira_issue_metadata := one_api demo_metadata\<rparr>"

theorem metadata_deleted_witness:
  "clean_delete True (added \<lparr>obj = demo_metadata, log = []\<rparr>
     (snd (Metadata_Reconcile metadata_env silent_jira ''ns'' ''m'' \<lparr>obj = demo_metadata, log = []\<rparr>)))"
  by (rule metadata_deleted_only_when_served [where m = demo_metadata])
     (simp_all add: metadata_env_def one_api_def demo_metadata_def)

text \<open>
  A payload field of the issue type that is neither \<open>fixVersions\<close> nor \<open>components\<close>, with a
  value the project does not know yet, makes the handler call a nil function.
\<close>

lemma unknown_field_panics:
  assumes "map_of meta k = Some allowed" and "val \<notin> set allowed"
    and "k \<noteq> ''fixVersions''" and "k \<noteq> ''components''" and "Atoi p = Inr i"
  shows "\<exists>msg. fst (put_field J js p meta (k, JStr val) s) = Panic msg"
  using assms
  by (simp add: put_field_def bindp_run wrapping_run lift_def create_value_def)

lemma unknown_field_example:
  "\<exists>msg. fst (put_field silent_jira (ConvertSpecToJiraServer [] [] []) ''100''
     [(''priority'', [''High''])] (''priority'', JStr ''Urgent'') \<lparr>obj = (), log = []\<rparr>) = Panic msg"
proof -
  have "Atoi ''100'' = Inr 100" by code_simp
  then show ?thesis by (intro unknown_field_panics [where allowed = "[''High'']"]) auto
qed

end
