(* ===== verification/Ssh_Host_Key.thy ===== *)
theory Ssh_Host_Key
  imports Templates Example_Env
begin

text \<open>
  Host key verification (\<open>pkg/sshhostkey/hostkey.go\<close>): what a connection is configured
  with, and how a failed verification is reported. \<open>net.JoinHostPort\<close> and
  \<open>net.SplitHostPort\<close> are Go's, on byte strings. The known-hosts database and the
  algorithms it names for a host are parameters, since go-git reads them.
\<close>

section \<open>Addresses\<close>

fun first_index :: "char \<Rightarrow> string \<Rightarrow> nat option" where
  "first_index c [] = None"
| "first_index c (x # xs) = (if x = c then Some 0 else map_option Suc (first_index c xs))"

definition last_index :: "char \<Rightarrow> string \<Rightarrow> nat option" where
  "last_index c s = map_option (\<lambda>i. length s - Suc i) (first_index c (rev s))"

definition JoinHostPort :: "string \<Rightarrow> string \<Rightarrow> string" where
  "JoinHostPort host port =
     (if CHR '':'' \<in> set host then CHR ''['' # host @ '']:'' @ port else host @ CHR '':'' # port)"

definition addr_error :: "string \<Rightarrow> string \<Rightarrow> gerr" where
  "addr_error addr why = errorf ((if addr = [] then [] else ''address '' @ addr @ '': '') @ why)"

definition SplitHostPort :: "string \<Rightarrow> gerr + string \<times> string" where
  "SplitHostPort s =
     (let missingPort = Inl (addr_error s ''missing port in address'');
          tooManyColons = Inl (addr_error s ''too many colons in address'');
          bracket = (\<lambda>what c. Inl (addr_error s (what @ '' '' @ in_quotes [c] @ '' in address'')));
          finish = (\<lambda>i host j k.
            if CHR ''['' \<in> set (drop j s) then bracket ''unexpected'' CHR ''[''
            else if CHR '']'' \<in> set (drop k s) then bracket ''unexpected'' CHR '']''
            else Inr (host, drop (Suc i) s))
      in case last_index CHR '':'' s of
           None \<Rightarrow> missingPort
         | Some i \<Rightarrow>
             if take 1 s = ''['' then
               (case first_index CHR '']'' s of
                  None \<Rightarrow> bracket ''missing'' CHR '']''
                | Some e \<Rightarrow>
                    if Suc e = length s then missingPort
                    else if Suc e = i then finish i (take (e - 1) (drop 1 s)) 1 (Suc e)
                    else if take 1 (drop (Suc e) s) = '':'' then tooManyColons
                    else missingPort)
             else if CHR '':'' \<in> set (take i s) then tooManyColons
             else finish i (take i s) 0 0)"

abbreviation defaultSSHPort :: int where "defaultSSHPort \<equiv> 22"
abbreviation knownHostsEnvVar :: string where "knownHostsEnvVar \<equiv> ''SSH_KNOWN_HOSTS''"

definition HostPort :: "string \<Rightarrow> int \<Rightarrow> string" where
  "HostPort host port = JoinHostPort host (itoa (if port = 0 then defaultSSHPort else port))"

definition hostOf :: "string \<Rightarrow> string" where
  "hostOf hostPort = (case SplitHostPort hostPort of Inr (host, _) \<Rightarrow> host | Inl _ \<Rightarrow> hostPort)"

definition portOf :: "string \<Rightarrow> string" where
  "portOf hostPort =
     (case SplitHostPort hostPort of Inr (_, port) \<Rightarrow> port | Inl _ \<Rightarrow> itoa defaultSSHPort)"

section \<open>Configuration and errors\<close>

definition Source :: "env \<Rightarrow> string" where
  "Source E =
     (if getenv E knownHostsEnvVar \<noteq> [] then getenv E knownHostsEnvVar
      else ''~/.ssh/known_hosts, /etc/ssh/ssh_known_hosts'')"

text \<open>The database behind the callback, and the algorithms.\<close>

definition ClientConfig :: "env \<Rightarrow> string \<Rightarrow> int \<Rightarrow> ('o st, string \<times> string list) prog" where
  "ClientConfig E host port =
     bindp (gets (\<lambda>s. known_hosts E (log s))) (\<lambda>r.
     case r of
       Inl e \<Rightarrow> throw (wrap_err (''failed to load SSH known_hosts ('' @ Source E @ '')'') e)
     | Inr db \<Rightarrow> ret (db, l_hostKeyAlgorithms (lib_of E) db (HostPort host port)))"

text \<open>The first \<open>knownhosts.KeyError\<close> on the chain of an error.\<close>

definition key_error :: "gerr \<Rightarrow> err_kind option" where
  "key_error e = find (\<lambda>k. k = KHostKeyMismatch \<or> k = KHostKeyUnknown) (err_kinds e)"

definition Enrich :: "env \<Rightarrow> gerr \<Rightarrow> string \<Rightarrow> gerr" where
  "Enrich E e hostPort =
     (if errors_is e KHostKeyRevoked then
        wrap_err (''SSH host key for '' @ hostPort @ '' is marked as revoked in known_hosts ('' @
          Source E @ ''), refusing to connect'') e
      else
        (case key_error e of
           None \<Rightarrow> e
         | Some k \<Rightarrow>
             if k = KHostKeyMismatch then
               wrap_err (''SSH host key mismatch for '' @ hostPort @
                 '': the server presented a key that does not match known_hosts ('' @ Source E @ ''). '' @
                 ''This means either the git server'' @ [CHR 0x27] @
                 ''s host key was rotated, or the connection is being intercepted. '' @
                 ''Verify the new key out-of-band before replacing the entry'') e
             else
               wrap_err (''SSH host key for '' @ hostPort @ '' is not present in known_hosts ('' @
                 Source E @ ''). '' @ ''Add it to the operator'' @ [CHR 0x27] @
                 ''s ssh-known-hosts ConfigMap, for example: ssh-keyscan -p '' @ portOf hostPort @
                 '' '' @ hostOf hostPort) e))"

definition IsVerificationError :: "gerr \<Rightarrow> bool" where
  "IsVerificationError e \<longleftrightarrow>
     key_error e \<noteq> None \<or> errors_is e KHostKeyRevoked \<or> str_contains ''known_hosts'' (err_msg e)"

section \<open>Splitting what was joined\<close>

lemma first_index_absent [simp]: "c \<notin> set s \<Longrightarrow> first_index c s = None"
  by (induction s) auto

lemma first_index_append: "c \<notin> set s \<Longrightarrow> first_index c (s @ c # t) = Some (length s)"
  by (induction s) auto

lemma last_index_append: "c \<notin> set t \<Longrightarrow> last_index c (s @ c # t) = Some (length s)"
  by (simp add: last_index_def first_index_append)

lemma split_join_host_port:
  assumes "CHR ''['' \<notin> set host" "CHR '']'' \<notin> set host"
    and "CHR '':'' \<notin> set port" "CHR ''['' \<notin> set port" "CHR '']'' \<notin> set port"
  shows "SplitHostPort (JoinHostPort host port) = Inr (host, port)"
proof (cases "CHR '':'' \<in> set host")
  case True
  let ?s = "CHR ''['' # host @ '']:'' @ port"
  have "last_index CHR '':'' ?s = Some (Suc (Suc (length host)))"
    using last_index_append [OF assms(3), of "CHR ''['' # host @ '']''"] by simp
  moreover have "first_index CHR '']'' ?s = Some (Suc (length host))"
    using first_index_append [of "CHR '']''" "CHR ''['' # host" "'':'' @ port"] assms by simp
  ultimately show ?thesis
    using True assms by (simp add: JoinHostPort_def SplitHostPort_def)
next
  case False
  have "last_index CHR '':'' (host @ CHR '':'' # port) = Some (length host)"
    using last_index_append [OF assms(3)] .
  moreover have "take 1 (host @ CHR '':'' # port) \<noteq> ''[''"
    using assms(1) by (cases host) auto
  ultimately show ?thesis
    using False assms by (simp add: JoinHostPort_def SplitHostPort_def)
qed

lemma digit_char_plain: "digit_char n \<notin> {CHR '':'', CHR ''['', CHR '']''}"
proof -
  have "(of_char (digit_char n) :: nat) = 48 + n mod 10"
    unfolding digit_char_def by simp
  moreover have "n mod 10 < 10" by simp
  ultimately have "(of_char (digit_char n) :: nat) < 58" by simp
  then show ?thesis by auto
qed

lemma nat_digits_plain: "set (nat_digits n) \<inter> {CHR '':'', CHR ''['', CHR '']''} = {}"
proof (induction n rule: nat_digits.induct)
  case (1 n)
  then show ?case using digit_char_plain [of n] by (subst nat_digits.simps) auto
qed

lemma itoa_plain: "CHR '':'' \<notin> set (itoa i)" "CHR ''['' \<notin> set (itoa i)" "CHR '']'' \<notin> set (itoa i)"
  using nat_digits_plain [of "nat i"] nat_digits_plain [of "nat (- i)"]
  by (auto simp: itoa_def)

lemma split_HostPort:
  "CHR ''['' \<notin> set host \<Longrightarrow> CHR '']'' \<notin> set host \<Longrightarrow>
   SplitHostPort (HostPort host port) = Inr (host, itoa (if port = 0 then defaultSSHPort else port))"
  unfolding HostPort_def by (rule split_join_host_port) (simp_all add: itoa_plain)

section \<open>Properties\<close>

text \<open>
  The command that the message about an unknown host key tells to run names the
  host and the port of the connection: both are read back from the joined address, for
  every host name, IPv4 and IPv6 address, with the port the connection uses when none is
  configured.
\<close>

theorem remediation_names_the_server:
  assumes "CHR ''['' \<notin> set host" "CHR '']'' \<notin> set host"
  shows "hostOf (HostPort host port) = host \<and>
    portOf (HostPort host port) = itoa (if port = 0 then 22 else port)"
  using split_HostPort [OF assms] by (simp add: hostOf_def portOf_def)

theorem remediation_names_the_server_witness:
  "hostOf (HostPort ''2001:db8::1'' 0) = ''2001:db8::1'' \<and> portOf (HostPort ''2001:db8::1'' 0) = itoa 22"
  using remediation_names_the_server [of "''2001:db8::1''" 0] by simp

text \<open>
  Enriching an error keeps its cause. The error found on the chain stays on it and
  the message ends with the old one; an error that is not about a host key is unchanged,
  so it is safe on every error; and what was a verification error is
  still one, as nothing else is.
\<close>

theorem enrich_keeps_the_cause:
  "errors_is (Enrich E e hp) k = errors_is e k \<and>
   (\<exists>pre. err_msg (Enrich E e hp) = pre @ err_msg e) \<and>
   (Enrich E e hp = e \<longleftrightarrow> key_error e = None \<and> \<not> errors_is e KHostKeyRevoked) \<and>
   IsVerificationError (Enrich E e hp) = IsVerificationError e"
proof -
  have kinds: "err_kinds (Enrich E e hp) = err_kinds e"
    by (simp add: Enrich_def wrap_err_def split: option.split)
  have same: "Enrich E e hp = e \<longleftrightarrow> key_error e = None \<and> \<not> errors_is e KHostKeyRevoked"
  proof -
    have "wrap_err pre e \<noteq> e" for pre
      by (metis err_msg_wrap append_assoc append_self_conv2 append_is_Nil_conv list.distinct(1))
    then show ?thesis by (auto simp: Enrich_def split: option.split)
  qed
  have "IsVerificationError (Enrich E e hp) = IsVerificationError e"
    using kinds same by (cases "Enrich E e hp = e") (auto simp: IsVerificationError_def key_error_def errors_is_def)
  moreover have "\<exists>pre. err_msg (Enrich E e hp) = pre @ err_msg e"
    by (simp add: Enrich_def split: option.split)
  ultimately show ?thesis
    using kinds same by (simp add: errors_is_def)
qed

end
