(* ===== verification/Gerrit_Client.thy ===== *)
theory Gerrit_Client
  imports Ssh_Host_Key Go_Std
begin

text \<open>
  The Gerrit client over SSH (\<open>pkg/gerrit/gerrit.go\<close>). A call parses the key, loads the
  known hosts, dials, opens a session and runs one command; closing them afterwards
  cannot change its result. The SSH library and its server are parameters.
\<close>

section \<open>Sessions\<close>

record ssh_client =
  sk_config :: ssh_config
  sk_host :: string
  sk_port :: int

definition NewSession :: "env \<Rightarrow> ssh_client \<Rightarrow> ('o st, unit) prog" where
  "NewSession E c =
     (let hostPort = HostPort (sk_host c) (sk_port c) in
     bindp (catchp (ssh E (sk_config c) (SshDial hostPort))
              (\<lambda>e. throw (wrap_err ''failed to dial'' (Enrich E e hostPort)))) (\<lambda>_.
     wrapping ''failed to create session'' (ssh E (sk_config c) (SshSession hostPort))))"

definition RunCommand :: "env \<Rightarrow> ssh_client \<Rightarrow> string \<Rightarrow> ('o st, string) prog" where
  "RunCommand E c path =
     bindp (NewSession E c) (\<lambda>_.
     wrapping ''failed to get ssh STD out''
       (ssh_string E (sk_config c) (SshOutput (HostPort (sk_host c) (sk_port c)) path)))"

definition SshInit :: "env \<Rightarrow> int \<Rightarrow> string \<Rightarrow> string \<Rightarrow> string \<Rightarrow> ('o st, ssh_client) prog" where
  "SshInit E port sshPrivateKey host user =
     (case l_parsePrivateKey (lib_of E) sshPrivateKey of
        Some e \<Rightarrow> throw (wrap_err ''failed to get Public Key from Private one'' e)
      | None \<Rightarrow>
     bindp (ClientConfig E host port) (\<lambda>(hostKeyCallback, hostKeyAlgorithms).
     ret \<lparr>sk_config = \<lparr>sc_user = user, sc_key = sshPrivateKey, sc_knownHosts = hostKeyCallback,
            sc_algorithms = hostKeyAlgorithms\<rparr>, sk_host = host, sk_port = port\<rparr>))"

section \<open>Projects\<close>

text \<open>
  The listing decodes into a map, which stays nil for the word \<open>null\<close>; storing into a
  nil map panics. The text of a decoding error is Go's: \<open>describe\<close>.
\<close>

definition project_listed :: "(string \<Rightarrow> string) \<Rightarrow> string \<Rightarrow> string \<Rightarrow> ('s, bool) prog" where
  "project_listed describe appName outputCmd =
     (let failed = throw (wrap_err ''failed to decode json'' (errorf (describe outputCmd))) in
      case json_parse outputCmd of
        Some JNull \<Rightarrow> panic ''assignment to entry in nil map''
      | Some (JObj ms) \<Rightarrow>
          if floats_fit (JObj ms)
          then ret (map_of (AList.update ''count'' (JNum ''1'') (json_map ms)) appName \<noteq> None)
          else failed
      | _ \<Rightarrow> failed)"

definition CheckProjectExist ::
  "env \<Rightarrow> (string \<Rightarrow> string) \<Rightarrow> int \<Rightarrow> string \<Rightarrow> string \<Rightarrow> string \<Rightarrow> string \<Rightarrow> ('o st, bool) prog" where
  "CheckProjectExist E describe port sshPrivateKey host user appName =
     bindp (wrapping ''failed to init ssh'' (SshInit E port sshPrivateKey host user)) (\<lambda>cl.
     bindp (wrapping ''failed to run ssh command''
              (RunCommand E cl ''gerrit ls-projects --format json'')) (\<lambda>outputCmd.
     project_listed describe appName outputCmd))"

definition gerrit_CreateProject ::
  "env \<Rightarrow> int \<Rightarrow> string \<Rightarrow> string \<Rightarrow> string \<Rightarrow> string \<Rightarrow> ('o st, unit) prog" where
  "gerrit_CreateProject E port sshPrivateKey host user appName =
     bindp (SshInit E port sshPrivateKey host user) (\<lambda>cl.
     bindp (RunCommand E cl (''gerrit create-project '' @ appName)) (\<lambda>_.
     ret ()))"

definition gerrit_SetHeadToBranch ::
  "env \<Rightarrow> int \<Rightarrow> string \<Rightarrow> string \<Rightarrow> string \<Rightarrow> string \<Rightarrow> string \<Rightarrow> ('o st, unit) prog" where
  "gerrit_SetHeadToBranch E port sshPrivateKey host user appName branchName =
     bindp (SshInit E port sshPrivateKey host user) (\<lambda>cl.
     bindp (RunCommand E cl (''gerrit set-head '' @ appName @ '' --new-head '' @ branchName)) (\<lambda>_.
     ret ()))"

section \<open>What a session leaves behind\<close>

text \<open>
  The events of one command: it is dialled with the credentials and the known hosts of
  the call, and a step follows only the success of the one before it.
\<close>

definition ssh_trace ::
  "ssh_config \<Rightarrow> string \<Rightarrow> string \<Rightarrow> gerr option \<Rightarrow> gerr option \<Rightarrow> gerr option \<Rightarrow> event list" where
  "ssh_trace cfg hp cmd dialled opened run =
     EvSsh cfg (SshDial hp) dialled #
     (if dialled = None then EvSsh cfg (SshSession hp) opened #
       (if opened = None then [EvSsh cfg (SshOutput hp cmd) run] else []) else [])"

lemmas ssh_runs = RunCommand_def NewSession_def Let_def bindp_run catchp_run wrapping_run
  ssh_def ssh_string_def asku_run ask_run

lemma RunCommand_trace:
  "\<exists>r1 r2 r3. snd (RunCommand E c cmd s) =
     s\<lparr>log := log s @ ssh_trace (sk_config c) (HostPort (sk_host c) (sk_port c)) cmd r1 r2 r3\<rparr> \<and>
     (\<forall>out. fst (RunCommand E c cmd s) = Ok out \<longrightarrow> r1 = None \<and> r2 = None \<and> r3 = None \<and>
        ssh_output E (butlast (log (snd (RunCommand E c cmd s)))) (sk_config c)
          (SshOutput (HostPort (sk_host c) (sk_port c)) cmd) = Inr out)"
proof (cases "ssh_do E (log s) (sk_config c) (SshDial (HostPort (sk_host c) (sk_port c)))")
  case (Some e)
  then show ?thesis
    by (intro exI [of _ "Some e"])
      (simp add: ssh_runs ssh_trace_def)
next
  case dialled: None
  let ?h = "log s @ [EvSsh (sk_config c) (SshDial (HostPort (sk_host c) (sk_port c))) None]"
  show ?thesis
  proof (cases "ssh_do E ?h (sk_config c) (SshSession (HostPort (sk_host c) (sk_port c)))")
    case (Some e)
    with dialled show ?thesis
      by (intro exI [of _ None] exI [of _ "Some e"])
        (simp add: ssh_runs ssh_trace_def)
  next
    case None
    let ?g = "?h @ [EvSsh (sk_config c) (SshSession (HostPort (sk_host c) (sk_port c))) None]"
    show ?thesis
      by (intro exI [of _ None] exI [of _ "case ssh_output E ?g (sk_config c)
          (SshOutput (HostPort (sk_host c) (sk_port c)) cmd) of Inl e \<Rightarrow> Some e | Inr _ \<Rightarrow> None"])
        (simp add: ssh_runs ssh_trace_def dialled None butlast_append split: sum.split)
  qed
qed

lemma SshInit_Ok:
  "fst (SshInit E port key host user s) = Ok cl \<Longrightarrow>
   snd (SshInit E port key host user s) = s \<and> sk_host cl = host \<and> sk_port cl = port \<and>
   sc_user (sk_config cl) = user \<and> sc_key (sk_config cl) = key \<and>
   known_hosts E (log s) = Inr (sc_knownHosts (sk_config cl)) \<and>
   sc_algorithms (sk_config cl) =
     l_hostKeyAlgorithms (lib_of E) (sc_knownHosts (sk_config cl)) (HostPort host port)"
  by (auto simp: SshInit_def ClientConfig_def bindp_run split: option.splits sum.splits)

lemma SshInit_state: "snd (SshInit E port key host user s) = s"
  by (simp add: SshInit_def ClientConfig_def bindp_run split: option.split sum.split)

section \<open>Properties\<close>

lemma json_map_keys: "set (map fst (json_map ms)) = set (map fst ms)"
proof -
  have "set (map fst (fold (\<lambda>(k, v) m. AList.update k v m) ms m)) = set (map fst ms) \<union> set (map fst m)"
    for m :: "(string \<times> json) list"
  proof (induction ms arbitrary: m)
    case (Cons kv ms)
    then show ?case by (cases kv) (auto simp: dom_update)
  qed simp
  then show ?thesis by (simp add: json_map_def)
qed

lemma project_listed_Ok:
  assumes "fst (project_listed describe app out s) = Ok b"
  shows "\<exists>ms. json_parse out = Some (JObj ms) \<and> b = (app \<in> set (map fst ms) \<or> app = ''count'')"
proof -
  have "map_of (json_map ms) app \<noteq> None \<longleftrightarrow> app \<in> set (map fst ms)" for ms
    using json_map_keys [of ms] by (simp add: map_of_eq_None_iff)
  then show ?thesis
    using assms by (auto simp: project_listed_def Let_def update_conv' split: option.splits json.splits if_splits)
qed

text \<open>
  When Gerrit answers whether a project exists, one command has listed the projects,
  over a session opened with the key, the user and the known hosts of the call, and the
  answer is whether the name is a key of the listing, or is \<open>count\<close>: a project of that
  name always exists for the operator.
\<close>

theorem gerrit_lists_projects:
  assumes "CheckProjectExist E describe port key host user app s = (Ok b, t)"
  shows "\<exists>cfg out ms. sc_key cfg = key \<and> sc_user cfg = user \<and>
    known_hosts E (log s) = Inr (sc_knownHosts cfg) \<and>
    t = s\<lparr>log := log s @ ssh_trace cfg (HostPort host port) ''gerrit ls-projects --format json'' None None None\<rparr> \<and>
    ssh_output E (butlast (log t)) cfg
      (SshOutput (HostPort host port) ''gerrit ls-projects --format json'') = Inr out \<and>
    json_parse out = Some (JObj ms) \<and> b = (app \<in> set (map fst ms) \<or> app = ''count'')"
proof -
  obtain cl where cl: "fst (SshInit E port key host user s) = Ok cl"
    using assms by (cases "fst (SshInit E port key host user s)")
      (simp_all add: CheckProjectExist_def bindp_run wrapping_run)
  note init = SshInit_Ok [OF cl]
  let ?run = "RunCommand E cl ''gerrit ls-projects --format json'' s"
  obtain out where out: "fst ?run = Ok out"
    using assms init by (cases "fst ?run") (simp_all add: CheckProjectExist_def bindp_run wrapping_run cl)
  have t: "t = snd ?run" and b: "fst (project_listed describe app out (snd ?run)) = Ok b"
    using assms init out
    by (auto simp: CheckProjectExist_def bindp_run wrapping_run cl project_listed_def Let_def
        split: option.splits json.splits if_splits)
  have "t = s\<lparr>log := log s @ ssh_trace (sk_config cl) (HostPort host port)
      ''gerrit ls-projects --format json'' None None None\<rparr> \<and>
      ssh_output E (butlast (log t)) (sk_config cl)
        (SshOutput (HostPort host port) ''gerrit ls-projects --format json'') = Inr out"
    using RunCommand_trace [of E cl _ s] out init t by auto
  with init project_listed_Ok [OF b] show ?thesis by blast
qed

definition gerrit_env :: env where
  "gerrit_env = null_env\<lparr>ssh_output := \<lambda>h c x.
     Inr [CHR ''{'', CHR 0x22, CHR ''a'', CHR 0x22, CHR '':'', CHR ''1'', CHR ''}'']\<rparr>"

lemma gerrit_env_answer:
  "CheckProjectExist gerrit_env describe 29418 ''key'' ''gerrit'' ''jenkins'' ''a'' \<lparr>obj = (), log = []\<rparr> =
   (Ok True, \<lparr>obj = (), log = ssh_trace \<lparr>sc_user = ''jenkins'', sc_key = ''key'', sc_knownHosts = [],
     sc_algorithms = []\<rparr> (HostPort ''gerrit'' 29418) ''gerrit ls-projects --format json'' None None None\<rparr>)"
proof -
  have parse: "json_parse [CHR ''{'', CHR 0x22, CHR ''a'', CHR 0x22, CHR '':'', CHR ''1'', CHR ''}''] =
      Some (JObj [(''a'', JNum ''1'')])"
    by code_simp
  have fit: "floats_fit (JObj [(''a'', JNum ''1'')])" by code_simp
  show ?thesis
    by (simp add: CheckProjectExist_def SshInit_def ClientConfig_def ssh_runs gerrit_env_def
        example_defs project_listed_def parse fit json_map_def ssh_trace_def del: floats_fit.simps)
qed

theorem gerrit_lists_projects_witness:
  "\<exists>(cfg :: ssh_config) out ms. sc_key cfg = ''key'' \<and>
     known_hosts gerrit_env [] = Inr (sc_knownHosts cfg) \<and>
     json_parse out = Some (JObj ms) \<and> (''a'' \<in> set (map fst ms) \<or> ''a'' = ''count'')"
  using gerrit_lists_projects [OF gerrit_env_answer [of "\<lambda>_. []"]]
  by (simp only: simp_thms st.simps) blast

end
