(* ===== verification/Event_Listener.thy ===== *)
theory Event_Listener
  imports Codebase_Handlers Example_Env "HOL-Library.Sublist"
begin

text \<open>
  The event listener of a GitServer (\<open>controllers/gitserver/create_event_listener.go\<close>): a
  Tekton \<open>EventListener\<close> and the \<open>Ingress\<close>, \<open>HTTPRoute\<close> or OpenShift \<open>Route\<close> that makes it
  reachable. Reading and setting a field of an unstructured object are parameters.
\<close>

section \<open>Names\<close>

definition generateEventListenerHost :: "git_server \<Rightarrow> string \<Rightarrow> string" where
  "generateEventListenerHost gs dnsWildcard =
     ''el-'' @ m_name (gs_meta gs) @ ''-'' @ m_ns (gs_meta gs) @ ''.'' @ dnsWildcard"

definition generateEventListenerName :: "string \<Rightarrow> string" where
  "generateEventListenerName gitServerName = ''edp-'' @ gitServerName"

definition generateServiceName :: "env \<Rightarrow> string \<Rightarrow> string" where
  "generateServiceName E gitServerName =
     l_generatedResourcePrefix (lib_of E) @ ''-'' @ generateEventListenerName gitServerName"

section \<open>The event listener\<close>

definition NewEventListenerUnstructured :: json where
  "NewEventListenerUnstructured = JObj [(''apiVersion'', JStr ''triggers.tekton.dev/v1beta1''),
     (''kind'', JStr ''EventListener'')]"

definition desiredEventListenerLabelSelector :: "git_server \<Rightarrow> json" where
  "desiredEventListenerLabelSelector gs =
     JObj [(''matchLabels'', JObj [(GitServerLabel, JStr (m_name (gs_meta gs)))])]"

definition event_listener_resources :: "string \<Rightarrow> json" where
  "event_listener_resources ns =
     JObj [(''kubernetesResource'', JObj [(''spec'', JObj [(''template'', JObj [(''spec'', JObj
       [(''serviceAccountName'', JStr (''tekton-triggers-sa-'' @ ns)),
        (''containers'', JArr [JObj
          [(''name'', JStr []),
           (''resources'', JObj
             [(''limits'', JObj [(''cpu'', JStr ''500m''), (''memory'', JStr ''128Mi'')]),
              (''requests'', JObj [(''cpu'', JStr ''50m''), (''memory'', JStr ''64Mi'')])])]])])])])])]"

definition event_listener_spec :: "git_server \<Rightarrow> json" where
  "event_listener_spec gs =
     JObj [(''serviceAccountName'', JStr ''default''),
       (''labelSelector'', desiredEventListenerLabelSelector gs),
       (''triggers'', JArr
         [JObj [(''triggerRef'', JStr (gs_gitProvider (gs_spec gs) @ ''-build''))],
          JObj [(''triggerRef'', JStr (gs_gitProvider (gs_spec gs) @ ''-review''))]]),
       (''resources'', event_listener_resources (m_ns (gs_meta gs)))]"

definition new_event_listener :: "git_server \<Rightarrow> event_listener" where
  "new_event_listener gs =
     \<lparr>el_meta = (new_meta (generateEventListenerName (m_name (gs_meta gs))) (m_ns (gs_meta gs)))
        \<lparr>m_labels := Some [(GitServerLabel, m_name (gs_meta gs))]\<rparr>,
      el_object = (case NewEventListenerUnstructured of
          JObj ms \<Rightarrow> JObj (ms @ [(''spec'', event_listener_spec gs)]) | v \<Rightarrow> v)\<rparr>"

abbreviation selector_path :: "string list" where
  "selector_path \<equiv> [''spec'', ''labelSelector'', ''matchLabels'', GitServerLabel]"

definition reconcileEventListenerLabelSelector ::
  "env \<Rightarrow> git_server \<Rightarrow> event_listener \<Rightarrow> ('o st, unit) prog" where
  "reconcileEventListenerLabelSelector E gs el =
     bindp (wrapping ''failed to read EventListener labelSelector''
              (lift (l_nestedString (lib_of E) (el_object el) selector_path))) (\<lambda>current.
     if current = m_name (gs_meta gs) then ret ()
     else
       bindp (wrapping ''failed to set EventListener labelSelector''
                (lift (l_setNestedField (lib_of E) (el_object el) (m_name (gs_meta gs)) selector_path)))
         (\<lambda>updated.
       bindp (wrapping ''failed to patch EventListener labelSelector''
                (kwrite VPatch EventListeners E el (el\<lparr>el_object := updated\<rparr>))) (\<lambda>_.
       ret ())))"

definition createEventListener :: "env \<Rightarrow> git_server \<Rightarrow> ('o st, unit) prog" where
  "createEventListener E gs =
     bindp (attempt (kget EventListeners E (m_ns (gs_meta gs))
              (generateEventListenerName (m_name (gs_meta gs))))) (\<lambda>r.
     case r of
       Inr elCheck \<Rightarrow> reconcileEventListenerLabelSelector E gs elCheck
     | Inl err \<Rightarrow>
         if \<not> errors_is err KNotFound then throw (wrap_err ''failed to get EventListener'' err)
         else
           let el = new_event_listener gs in
           bindp (wrapping ''failed to set controller reference for EventListener''
                    (lift (l_setControllerReference (lib_of E) (ObjGitServer gs) (el_meta el)))) (\<lambda>m.
           bindp (wrapping ''failed to create EventListener''
                    (kcreate EventListeners E (el\<lparr>el_meta := m\<rparr>))) (\<lambda>_.
           ret ())))"

section \<open>What exposes it\<close>

text \<open>
  The three kinds differ in what is created; looking for the object, the configuration,
  the owner and the creation are the same steps, with the kind's name in the errors.
\<close>

definition create_exposure ::
  "exposure resource \<Rightarrow> env \<Rightarrow> git_server \<Rightarrow> (string \<Rightarrow> exposure) \<Rightarrow> ('o st, unit) prog" where
  "create_exposure R E gs new =
     bindp (attempt (kget R E (m_ns (gs_meta gs)) (GenerateIngressName (m_name (gs_meta gs))))) (\<lambda>r.
     case r of
       Inr _ \<Rightarrow> ret ()
     | Inl err \<Rightarrow>
         if \<not> errors_is err KNotFound then throw (wrap_err (''failed to get '' @ r_kind R) err)
         else
           bindp (wrapping ''failed to get dnsWildcard'' (GetKrciConfig E (m_ns (gs_meta gs)))) (\<lambda>config.
           let ex = new (generateEventListenerHost gs (kc_dnsWildcard config)) in
           bindp (wrapping (''failed to set controller reference for '' @ r_kind R)
                    (lift (l_setControllerReference (lib_of E) (ObjGitServer gs) (ex_meta ex)))) (\<lambda>m.
           bindp (wrapping (''failed to create '' @ r_kind R)
                    (kcreate R E (ex\<lparr>ex_meta := m\<rparr>))) (\<lambda>_.
           ret ()))))"

abbreviation elServicePort :: int where "elServicePort \<equiv> 8080"

definition exposure_meta :: "git_server \<Rightarrow> objmeta" where
  "exposure_meta gs = new_meta (GenerateIngressName (m_name (gs_meta gs))) (m_ns (gs_meta gs))"

definition labelled_exposure_meta :: "git_server \<Rightarrow> objmeta" where
  "labelled_exposure_meta gs =
     (exposure_meta gs)\<lparr>m_labels := Some [(GitServerLabel, m_name (gs_meta gs))]\<rparr>"

definition new_ingress :: "env \<Rightarrow> git_server \<Rightarrow> string \<Rightarrow> exposure" where
  "new_ingress E gs host =
     \<lparr>ex_meta = labelled_exposure_meta gs, ex_hosts = [host],
      ex_rule = IngressRule ''/'' ''Prefix'' (generateServiceName E (m_name (gs_meta gs))) elServicePort\<rparr>"

definition createIngress :: "env \<Rightarrow> git_server \<Rightarrow> ('o st, unit) prog" where
  "createIngress E gs = create_exposure Ingresses E gs (new_ingress E gs)"

definition new_http_route :: "env \<Rightarrow> git_server \<Rightarrow> string \<Rightarrow> exposure" where
  "new_http_route E gs host =
     \<lparr>ex_meta = labelled_exposure_meta gs, ex_hosts = [host],
      ex_rule = HTTPRouteRule (GatewayName E) (GatewayNamespace E) ''PathPrefix'' ''/''
        (generateServiceName E (m_name (gs_meta gs))) elServicePort\<rparr>"

definition createHTTPRoute :: "env \<Rightarrow> git_server \<Rightarrow> ('o st, unit) prog" where
  "createHTTPRoute E gs =
     (if GatewayName E = [] \<or> GatewayNamespace E = []
      then throw (errorf
        ''GATEWAY_NAME/GATEWAY_NAMESPACE must be set when INGRESS_CONTROLLER_TYPE=envoy'')
      else create_exposure HTTPRoutes E gs (new_http_route E gs))"

text \<open>A route's hosts are those its status names, and it has none when it is created.\<close>

definition new_route :: "env \<Rightarrow> git_server \<Rightarrow> string \<Rightarrow> exposure" where
  "new_route E gs host =
     \<lparr>ex_meta = exposure_meta gs, ex_hosts = [],
      ex_rule = RouteRule host ''Redirect'' ''edge'' ''Service''
        (generateServiceName E (m_name (gs_meta gs))) 100 ''http-listener'' ''None''\<rparr>"

definition createRoute :: "env \<Rightarrow> git_server \<Rightarrow> ('o st, unit) prog" where
  "createRoute E gs = create_exposure Routes E gs (new_route E gs)"

definition CreateEventListener_ServeRequest :: "env \<Rightarrow> git_server \<Rightarrow> ('o st, unit) prog" where
  "CreateEventListener_ServeRequest E gs =
     (if gs_tektonDisabled (gs_spec gs) then ret ()
      else if gs_webhookUrl (gs_spec gs) \<noteq> [] then ret ()
      else
        bindp (createEventListener E gs) (\<lambda>_.
        if IsOpenshift E then createRoute E gs
        else if IsEnvoy E then createHTTPRoute E gs
        else createIngress E gs))"

section \<open>What is written\<close>

lemma appends_GetKrciConfig: "(\<And>e. is_read e \<Longrightarrow> A e) \<Longrightarrow> appends A (GetKrciConfig E ns)"
  unfolding GetKrciConfig_def getEdpConfig_def by (intro appends_intros) simp_all

text \<open>Only the first step writes event listeners, only the last the object that exposes it.\<close>

definition writes_exposure :: "event \<Rightarrow> bool" where
  "writes_exposure ev \<longleftrightarrow> (case ev of EvWrite _ (ObjIngress _) _ \<Rightarrow> True
     | EvWrite _ (ObjHTTPRoute _) _ \<Rightarrow> True | EvWrite _ (ObjRoute _) _ \<Rightarrow> True | _ \<Rightarrow> is_read ev)"

definition writes_listener :: "event \<Rightarrow> bool" where
  "writes_listener ev \<longleftrightarrow> (case ev of EvWrite _ (ObjEventListener _) _ \<Rightarrow> True | _ \<Rightarrow> is_read ev)"

lemma writes_simps [simp]:
  "writes_exposure (EvWrite v (ObjIngress ex) e)" "writes_exposure (EvWrite v (ObjHTTPRoute ex) e)"
  "writes_exposure (EvWrite v (ObjRoute ex) e)" "\<not> writes_exposure (EvWrite v (ObjEventListener el) e)"
  "writes_listener (EvWrite v (ObjEventListener el) e)" "\<not> writes_listener (EvWrite v (ObjIngress ex) e)"
  by (simp_all add: writes_exposure_def writes_listener_def)

lemma read_writes [simp]: "is_read ev \<Longrightarrow> writes_exposure ev" "is_read ev \<Longrightarrow> writes_listener ev"
  by (cases ev; simp add: writes_exposure_def writes_listener_def)+

lemma appends_exposure [appends_intros]:
  "appends writes_exposure (createRoute E gs)" "appends writes_exposure (createHTTPRoute E gs)"
  "appends writes_exposure (createIngress E gs)"
  unfolding createRoute_def createHTTPRoute_def createIngress_def create_exposure_def Let_def
  by (intro appends_intros appends_GetKrciConfig; simp add: resource_defs)+

lemma appends_createEventListener [appends_intros]: "appends writes_listener (createEventListener E gs)"
  unfolding createEventListener_def reconcileEventListenerLabelSelector_def Let_def
  by (intro appends_intros) (simp_all add: resource_defs)

lemma createEventListener_writes:
  assumes "EvWrite v (ObjEventListener el) e \<in> set (added s (snd (createEventListener E gs s)))"
  shows "case k_get (api_event_listener E) (log s) (m_ns (gs_meta gs))
           (generateEventListenerName (m_name (gs_meta gs))) of
      Inl err \<Rightarrow> v = VCreate \<and> errors_is err KNotFound
    | Inr el0 \<Rightarrow> v = VPatch \<and> el_meta el = el_meta el0 \<and>
        l_nestedString (lib_of E) (el_object el0) selector_path \<noteq> Inr (m_name (gs_meta gs)) \<and>
        l_setNestedField (lib_of E) (el_object el0) (m_name (gs_meta gs)) selector_path = Inr (el_object el)"
  using assms
  by (auto simp: createEventListener_def reconcileEventListenerLabelSelector_def Let_def bindp_run attempt_run
      wrapping_run kget_run kwrite_def ask_run lift_def resource_defs added_def
      split: sum.splits outcome.splits if_splits)

section \<open>Properties\<close>

text \<open>
  C31: an event listener that exists belongs to its users. It is created only when it is
  not found; otherwise it is at most patched, when the label of the GitServer in its
  selector differs, and everything but that label, its metadata included, stays as it
  was: no other field changes, as setting a nested field changes none beside it.
\<close>

theorem event_listener_keeps_user_fields:
  fixes get :: "json \<Rightarrow> string list \<Rightarrow> 'a"
  assumes frame: "\<And>ob x p ob' q. l_setNestedField (lib_of E) ob x p = Inr ob' \<Longrightarrow>
      \<not> prefix p q \<Longrightarrow> \<not> prefix q p \<Longrightarrow> get ob' q = get ob q"
    and "EvWrite v (ObjEventListener el) e \<in>
      set (added s (snd (CreateEventListener_ServeRequest E gs s)))"
  shows "case k_get (api_event_listener E) (log s) (m_ns (gs_meta gs))
           (generateEventListenerName (m_name (gs_meta gs))) of
      Inl err \<Rightarrow> v = VCreate \<and> errors_is err KNotFound
    | Inr el0 \<Rightarrow> v = VPatch \<and> el_meta el = el_meta el0 \<and>
        l_nestedString (lib_of E) (el_object el0) selector_path \<noteq> Inr (m_name (gs_meta gs)) \<and>
        (\<forall>q. \<not> prefix selector_path q \<and> \<not> prefix q selector_path \<longrightarrow>
           get (el_object el) q = get (el_object el0) q)"
proof -
  have "EvWrite v (ObjEventListener el) e \<in> set (added s (snd (createEventListener E gs s)))"
    using assms(2) unfolding CreateEventListener_ServeRequest_def
    by (auto simp: added_def split: if_splits
        elim!: added_bindp [where A = writes_exposure, OF appends_createEventListener, rotated, unfolded added_def]
        intro!: appends_intros)
  from createEventListener_writes [OF this] frame show ?thesis
    by (auto split: sum.split)
qed

lemma json_set_frame:
  "json_set ob v p = Inr ob' \<Longrightarrow> \<not> prefix p q \<Longrightarrow> \<not> prefix q p \<Longrightarrow> json_get ob' q = json_get ob q"
proof (induction ob v p arbitrary: q ob' rule: json_set.induct)
  case (2 ms v k ks)
  let ?w = "case map_of ms k of None \<Rightarrow> JObj [] | Some w \<Rightarrow> w"
  obtain w where w: "json_set ?w v ks = Inr w" and ob': "ob' = JObj (AList.update k w ms)"
    using 2(2) by (auto split: sum.splits)
  obtain k' q' where q: "q = k' # q'" using 2(4) by (cases q) auto
  show ?case
  proof (cases "k' = k")
    case True
    have "json_get w q' = json_get ?w q'" using 2(1) [OF w] 2(3,4) q True by simp
    moreover have "q' \<noteq> []" using 2(4) q True by auto
    ultimately show ?thesis using q ob' True by (cases q') (auto simp: update_conv' split: option.splits)
  qed (use q ob' in \<open>simp add: update_conv'\<close>)
qed simp_all

text \<open>A GitServer whose event listener serves another label, beside its own triggers.\<close>

definition el_server :: git_server where
  "el_server = \<lparr>gs_meta = new_meta ''gh'' ''ns'',
     gs_spec = \<lparr>gs_gitHost = ''github.com'', gs_gitUser = ''git'', gs_httpsPort = 443, gs_sshPort = 22,
       gs_nameSshKeySecret = ''key'', gs_gitProvider = ''github'', gs_skipWebhookSSLVerification = False,
       gs_webhookUrl = [], gs_tektonDisabled = False\<rparr>,
     gs_status = \<lparr>gst_error = [], gst_connected = False, gst_status = []\<rparr>\<rparr>"

definition custom_listener :: "string \<Rightarrow> event_listener" where
  "custom_listener label = \<lparr>el_meta = new_meta ''edp-gh'' ''ns'',
     el_object = JObj [(''spec'', JObj
       [(''labelSelector'', JObj [(''matchLabels'', JObj [(GitServerLabel, JStr label)])]),
        (''triggers'', JArr [JStr ''mine''])])]\<rparr>"

definition el_env :: env where
  "el_env = null_env\<lparr>api_event_listener := one_api (custom_listener ''old''),
     api_config_map := one_api \<lparr>cm_meta = new_meta ''krci-config'' ''ns'', cm_data = [(''dns_wildcard'', ''example.com'')]\<rparr>\<rparr>"

lemma el_env_patch:
  "createEventListener el_env el_server \<lparr>obj = (), log = []\<rparr> = (Ok (), \<lparr>obj = (), log =
     [EvGet ''EventListener'' ''ns'' ''edp-gh'', EvWrite VPatch (ObjEventListener (custom_listener ''gh'')) None]\<rparr>)"
  by (simp add: createEventListener_def reconcileEventListenerLabelSelector_def generateEventListenerName_def
      bindp_run attempt_run wrapping_run kget_run kwrite_def ask_run lift_def resource_defs el_env_def
      custom_listener_def el_server_def example_defs new_meta_def json_string_at_def)

theorem event_listener_keeps_user_fields_witness:
  "json_get (el_object (custom_listener ''gh'')) [''spec'', ''triggers''] =
     json_get (el_object (custom_listener ''old'')) [''spec'', ''triggers'']"
proof -
  have frame: "json_get ob' q = json_get ob q"
    if "l_setNestedField (lib_of el_env) ob x p = Inr ob'" "\<not> prefix p q" "\<not> prefix q p" for ob x p ob' q
    using json_set_frame [of ob "JStr x" p ob' q] that by (simp add: el_env_def example_defs)
  have "EvWrite VPatch (ObjEventListener (custom_listener ''gh'')) None \<in>
      set (added \<lparr>obj = (), log = []\<rparr>
        (snd (CreateEventListener_ServeRequest el_env el_server \<lparr>obj = (), log = []\<rparr>)))"
  proof -
    obtain es where "log (snd (createIngress el_env el_server (snd (createEventListener el_env el_server
        \<lparr>obj = (), log = []\<rparr>)))) = log (snd (createEventListener el_env el_server \<lparr>obj = (), log = []\<rparr>)) @ es"
      using appendsD [OF appends_exposure(3)] by blast
    then show ?thesis
      by (simp add: CreateEventListener_ServeRequest_def bindp_run el_env_patch added_def IsOpenshift_def
          IsEnvoy_def platform_lookup_def getenv_def el_server_def [THEN arg_cong, of gs_spec]) (simp add: el_env_def example_defs)
  qed
  from event_listener_keeps_user_fields [where get = json_get, OF frame this]
  have "\<forall>q. \<not> prefix selector_path q \<and> \<not> prefix q selector_path \<longrightarrow>
      json_get (el_object (custom_listener ''gh'')) q = json_get (el_object (custom_listener ''old'')) q"
    by (simp add: el_env_def one_api_def)
  from this [THEN spec, of "[''spec'', ''triggers'']"] show ?thesis by simp
qed

section \<open>The webhook's address\<close>

lemma create_exposure_writes:
  fixes s :: "'o st"
  assumes "EvWrite v x e \<in> set (added s (snd (create_exposure R E gs new s)))"
  shows "\<exists>config u m. fst (GetKrciConfig E (m_ns (gs_meta gs)) (u :: 'o st)) = Ok config \<and>
    x = r_inj R (new (generateEventListenerHost gs (kc_dnsWildcard config))\<lparr>ex_meta := m\<rparr>)"
proof -
  let ?u = "s\<lparr>log := log s @ [EvGet (r_kind R) (m_ns (gs_meta gs)) (GenerateIngressName (m_name (gs_meta gs)))]\<rparr>"
  let ?g = "GetKrciConfig E (m_ns (gs_meta gs)) ?u"
  obtain es where es: "log (snd ?g) = log ?u @ es" "list_all is_read es"
    using appendsD [OF appends_GetKrciConfig [of is_read]] by blast
  then have "EvWrite v x e \<notin> set es"
    by (auto simp: list_all_iff is_read_def)
  with assms es show ?thesis
    by (auto simp: create_exposure_def Let_def bindp_run attempt_run wrapping_run kget_run kwrite_def ask_run
        lift_def added_def split: sum.splits outcome.splits if_splits)
qed

text \<open>
  The object that was created for the event listener is there when the webhook is made: an
  ingress or an HTTP route as it was sent, an OpenShift route with the host it asks for
  first among those its router admitted it under.
\<close>

definition exposed :: "env \<Rightarrow> history \<Rightarrow> git_server \<Rightarrow> kobj \<Rightarrow> bool" where
  "exposed E h gs x \<longleftrightarrow>
     (let ns = m_ns (gs_meta gs); name = ''event-listener-'' @ m_name (gs_meta gs) in
      case x of
        ObjIngress ex \<Rightarrow> k_get (api_ingress E) h ns name = Inr ex
      | ObjHTTPRoute ex \<Rightarrow> k_get (api_http_route E) h ns name = Inr ex
      | ObjRoute ex \<Rightarrow>
          (case ex_rule ex of
             RouteRule host pol term kind svc w port wild \<Rightarrow>
               \<exists>hs. k_get (api_route E) h ns name = Inr (ex\<lparr>ex_hosts := host # hs\<rparr>)
           | _ \<Rightarrow> False)
      | _ \<Rightarrow> False)"

fun rule_service :: "exposure_rule \<Rightarrow> string" where
  "rule_service (IngressRule path pathType svc port) = svc"
| "rule_service (HTTPRouteRule gw gwns pathType path svc port) = svc"
| "rule_service (RouteRule host pol term kind svc w port wild) = svc"

definition leads_to :: "kobj \<Rightarrow> string \<Rightarrow> bool" where
  "leads_to x svc \<longleftrightarrow> (\<exists>ex. x \<in> {ObjIngress ex, ObjHTTPRoute ex, ObjRoute ex} \<and> rule_service (ex_rule ex) = svc)"

text \<open>
  C32: the webhook that a codebase registers reaches the event listener of its GitServer.
  When serving a GitServer created the object that exposes the listener (an ingress on
  Kubernetes, an HTTP route with the Envoy gateway, a route on OpenShift) and the server
  keeps it, that object leads to the service of the event listener, and the address the
  codebase controller gives to the hosting service is the object's host, made of the
  GitServer's name, its namespace and the configured wildcard domain.
\<close>

theorem webhook_reaches_the_listener:
  fixes s t :: "'o st"
  assumes "CreateEventListener_ServeRequest E gs s = (Ok (), t)"
    and created: "EvWrite VCreate x None \<in> set (added s t)" and kept: "exposed E (log t) gs x"
    and "IsK8S E \<or> IsOpenshift E"
  shows "leads_to x (l_generatedResourcePrefix (lib_of E) @ ''-edp-'' @ m_name (gs_meta gs)) \<and>
    (\<exists>config u. fst (GetKrciConfig E (m_ns (gs_meta gs)) (u :: 'o st)) = Ok config \<and>
     fst (getWebHookUrl E gs t) =
       Ok (''https://el-'' @ m_name (gs_meta gs) @ ''-'' @ m_ns (gs_meta gs) @ ''.'' @ kc_dnsWildcard config))"
proof -
  let ?m = "createEventListener E gs"
  have on: "gs_webhookUrl (gs_spec gs) = []" "\<not> gs_tektonDisabled (gs_spec gs)"
    using assms(1,2) by (auto simp: CreateEventListener_ServeRequest_def added_def split: if_splits)
  have platform: "IsOpenshift E \<longleftrightarrow> \<not> IsK8S E"
    using assms(4) by (auto simp: IsK8S_def IsOpenshift_def)
  obtain es where es: "log (snd (?m s)) = log s @ es" "list_all writes_listener es"
    using appendsD [OF appends_createEventListener] by blast
  let ?n = "if IsOpenshift E then createRoute E gs else if IsEnvoy E then createHTTPRoute E gs else createIngress E gs"
  have run: "?n (snd (?m s)) = (Ok (), t)"
    using assms(1) on by (auto simp: CreateEventListener_ServeRequest_def bindp_run split: outcome.splits)
  have "appends writes_exposure ?n" by (intro appends_intros)
  from appendsD [OF this, of "snd (?m s)"] run es(1) obtain xs where "log t = log s @ es @ xs" by auto
  moreover have "\<not> writes_listener (EvWrite VCreate x None)"
    using kept by (auto simp: exposed_def writes_listener_def Let_def split: kobj.splits)
  ultimately have in_n: "EvWrite VCreate x None \<in> set (added (snd (?m s)) t)"
    using created es by (auto simp: added_def list_all_iff)
  note host = GetHostWithProtocol_def generateEventListenerHost_def has_prefix_def
    generateServiceName_def generateEventListenerName_def GenerateIngressName_def leads_to_def
  note url = getWebHookUrl_def getWebhookIngressUrl_def getWebhookHTTPRouteUrl_def getWebhookRouteUrl_def
    bindp_run wrapping_run kget_run exposed_def resource_defs on
  consider "IsOpenshift E" | "\<not> IsOpenshift E" "IsEnvoy E" | "\<not> IsOpenshift E" "\<not> IsEnvoy E" by blast
  then show ?thesis
  proof cases
    case 1
    with in_n run have "EvWrite VCreate x None \<in>
        set (added (snd (?m s)) (snd (create_exposure Routes E gs (new_route E gs) (snd (?m s)))))"
      by (simp add: createRoute_def)
    from create_exposure_writes [OF this] 1 kept platform show ?thesis
      by (fastforce simp: url host new_route_def)
  next
    case 2
    with in_n run have "EvWrite VCreate x None \<in>
        set (added (snd (?m s)) (snd (create_exposure HTTPRoutes E gs (new_http_route E gs) (snd (?m s)))))"
      by (simp add: createHTTPRoute_def split: if_splits)
    from create_exposure_writes [OF this] 2 kept platform show ?thesis
      by (fastforce simp: url host new_http_route_def)
  next
    case 3
    with in_n run have "EvWrite VCreate x None \<in>
        set (added (snd (?m s)) (snd (create_exposure Ingresses E gs (new_ingress E gs) (snd (?m s)))))"
      by (simp add: createIngress_def)
    from create_exposure_writes [OF this] 3 kept platform show ?thesis
      by (fastforce simp: url host new_ingress_def)
  qed
qed

text \<open>An API server that keeps the ingress it was sent.\<close>

definition keeping_api :: "(kobj \<Rightarrow> exposure option) \<Rightarrow> exposure kapi" where
  "keeping_api f = \<lparr>k_get = \<lambda>h ns n.
       (case List.map_filter (\<lambda>ev. case ev of EvWrite VCreate x None \<Rightarrow> f x | _ \<Rightarrow> None) h of
          [] \<Rightarrow> Inl not_found | ex # _ \<Rightarrow> Inr ex),
     k_list = \<lambda>h ns sel. Inr [], k_write = \<lambda>h v b x. Inr x\<rparr>"

definition hook_env :: env where
  "hook_env = el_env\<lparr>api_event_listener := one_api (custom_listener ''gh''),
     api_ingress := keeping_api (\<lambda>x. case x of ObjIngress ex \<Rightarrow> Some ex | _ \<Rightarrow> None)\<rparr>"

abbreviation hook_ingress :: exposure where
  "hook_ingress \<equiv> new_ingress hook_env el_server ''el-gh-ns.example.com''"

lemma hook_run:
  "CreateEventListener_ServeRequest hook_env el_server \<lparr>obj = (), log = []\<rparr> = (Ok (), \<lparr>obj = (), log =
     [EvGet ''EventListener'' ''ns'' ''edp-gh'', EvGet ''Ingress'' ''ns'' ''event-listener-gh'',
      EvGet ''ConfigMap'' ''ns'' ''krci-config'', EvWrite VCreate (ObjIngress hook_ingress) None]\<rparr>)"
  by (simp add: CreateEventListener_ServeRequest_def createEventListener_def
      reconcileEventListenerLabelSelector_def generateEventListenerName_def createIngress_def create_exposure_def
      Let_def bindp_run attempt_run wrapping_run kget_run kwrite_def ask_run lift_def resource_defs hook_env_def
      el_env_def custom_listener_def el_server_def example_defs new_meta_def json_string_at_def keeping_api_def
      IsOpenshift_def IsEnvoy_def platform_lookup_def getenv_def GenerateIngressName_def GetKrciConfig_def
      mapConfigToKrciConfig_def smap_get_def generateEventListenerHost_def new_ingress_def
      labelled_exposure_meta_def exposure_meta_def generateServiceName_def map_filter_simps)

theorem webhook_reaches_the_listener_witness:
  "leads_to (ObjIngress hook_ingress) (l_generatedResourcePrefix (lib_of hook_env) @ ''-edp-gh'') \<and>
   (\<exists>config :: krci_config. fst (getWebHookUrl hook_env el_server (snd (CreateEventListener_ServeRequest hook_env
      el_server \<lparr>obj = (), log = []\<rparr>))) = Ok (''https://el-gh-ns.'' @ kc_dnsWildcard config))"
proof -
  have "exposed hook_env (log (snd (CreateEventListener_ServeRequest hook_env el_server
      \<lparr>obj = (), log = []\<rparr>))) el_server (ObjIngress hook_ingress)"
    unfolding hook_run by (simp add: exposed_def hook_env_def keeping_api_def map_filter_simps)
  moreover have "IsK8S hook_env"
    by (simp add: IsK8S_def platform_lookup_def hook_env_def el_env_def example_defs)
  moreover have "EvWrite VCreate (ObjIngress hook_ingress) None \<in>
      set (added \<lparr>obj = (), log = []\<rparr> (snd (CreateEventListener_ServeRequest hook_env el_server
        \<lparr>obj = (), log = []\<rparr>)))"
    by (simp add: hook_run added_def)
  moreover have "m_name (gs_meta el_server) = ''gh''" "m_ns (gs_meta el_server) = ''ns''"
    by (simp_all add: el_server_def new_meta_def)
  ultimately show ?thesis
    using webhook_reaches_the_listener [OF hook_run, of "ObjIngress hook_ingress"] unfolding hook_run by auto
qed

end
