(* ===== verification/Git_Server_Controller.thy ===== *)
theory Git_Server_Controller
  imports Gerrit_Client Event_Listener
begin

text \<open>
  The GitServer controller (\<open>controllers/gitserver\<close>, \<open>pkg/model/git-server.go\<close>): the
  ownership of the credentials, the connection over SSH, the event listener, and the
  status that reports them.
\<close>

section \<open>The model of a Git server\<close>

text \<open>\<open>ActionLog\<close> is left out: nothing sets it and nothing reads it.\<close>

record model_git_server =
  mg_gitHost :: string
  mg_gitUser :: string
  mg_httpsPort :: int
  mg_sshPort :: int
  mg_nameSshKeySecret :: string
  mg_namespace :: string
  mg_name :: string

definition ConvertToGitServer :: "git_server \<Rightarrow> model_git_server" where
  "ConvertToGitServer k8sObj =
     (let spec = gs_spec k8sObj in
      \<lparr>mg_gitHost = gs_gitHost spec, mg_gitUser = gs_gitUser spec,
       mg_httpsPort = gs_httpsPort spec, mg_sshPort = gs_sshPort spec,
       mg_nameSshKeySecret = gs_nameSshKeySecret spec, mg_namespace = m_ns (gs_meta k8sObj),
       mg_name = m_name (gs_meta k8sObj)\<rparr>)"

section \<open>The connection\<close>

record git_ssh_data =
  gsd_host :: string
  gsd_user :: string
  gsd_key :: string
  gsd_port :: int

definition extractSshData :: "model_git_server \<Rightarrow> secret \<Rightarrow> git_ssh_data" where
  "extractSshData gs sec =
     \<lparr>gsd_host = mg_gitHost gs, gsd_user = mg_gitUser gs,
      gsd_key = smap_get (s_data sec) PrivateSShKeyName, gsd_port = mg_sshPort gs\<rparr>"

definition publicKey :: "env \<Rightarrow> string \<Rightarrow> gerr + string" where
  "publicKey E key =
     (case l_parsePrivateKey (lib_of E) key of
        Some e \<Rightarrow> Inl (wrap_err ''failed to parse private key'' e) | None \<Rightarrow> Inr key)"

definition sshInitFromSecret :: "env \<Rightarrow> git_ssh_data \<Rightarrow> ('o st, ssh_client) prog" where
  "sshInitFromSecret E data =
     bindp (lift (publicKey E (gsd_key data))) (\<lambda>sshAuth.
     bindp (ClientConfig E (gsd_host data) (gsd_port data)) (\<lambda>(hostKeyCallback, hostKeyAlgorithms).
     ret \<lparr>sk_config = \<lparr>sc_user = gsd_user data, sc_key = sshAuth, sc_knownHosts = hostKeyCallback,
            sc_algorithms = hostKeyAlgorithms\<rparr>,
          sk_host = gsd_host data, sk_port = gsd_port data\<rparr>))"

definition checkGitServerConnection :: "env \<Rightarrow> git_ssh_data \<Rightarrow> ('o st, unit) prog" where
  "checkGitServerConnection E data =
     bindp (wrapping ''failed to initialize ssh client'' (sshInitFromSecret E data)) (\<lambda>sshClient.
     wrapping ''failed to create ssh session'' (NewSession E sshClient))"

definition checkConnectionToGitServer :: "env \<Rightarrow> model_git_server \<Rightarrow> ('o st, unit) prog" where
  "checkConnectionToGitServer E gs =
     bindp (wrapping (''failed to get secret '' @ mg_nameSshKeySecret gs)
              (kget Secrets E (mg_namespace gs) (mg_nameSshKeySecret gs))) (\<lambda>sshSecret.
     let sshData = extractSshData gs sshSecret in
     if gsd_key sshData = [] then ret ()
     else wrapping (''failed to establish connection to Git Server '' @ gsd_host sshData)
            (checkGitServerConnection E sshData))"

section \<open>The owner of the credentials\<close>

text \<open>
  The documented answer of the API machinery's \<open>GetControllerOf\<close>: the owner reference that
  is marked as the managing controller.
\<close>

definition GetControllerOf :: "objmeta \<Rightarrow> owner_ref option" where
  "GetControllerOf m = find or_controller (m_owners m)"

definition shares_secret :: "git_server \<Rightarrow> git_server \<Rightarrow> bool" where
  "shares_secret gs other \<longleftrightarrow>
     m_name (gs_meta other) \<noteq> m_name (gs_meta gs) \<and>
     gs_nameSshKeySecret (gs_spec other) = gs_nameSshKeySecret (gs_spec gs)"

definition ensureSecretOwnership :: "env \<Rightarrow> git_server \<Rightarrow> ('o st, unit) prog" where
  "ensureSecretOwnership E gs =
     (let ns = m_ns (gs_meta gs); secretName = gs_nameSshKeySecret (gs_spec gs) in
     bindp (attempt (kget Secrets E ns secretName)) (\<lambda>r.
     case r of
       Inl e \<Rightarrow>
         if errors_is e KNotFound then ret ()
         else throw (wrap_err (''failed to get secret '' @ secretName) e)
     | Inr sec \<Rightarrow>
         if GetControllerOf (s_meta sec) \<noteq> None then ret ()
         else
           bindp (wrapping (''failed to list GitServers in namespace '' @ ns)
                    (klist GitServers E ns (by_labels []))) (\<lambda>gitServers.
           if list_ex (shares_secret gs) gitServers then ret ()
           else
             bindp (wrapping (''failed to set owner reference on secret '' @ m_name (s_meta sec))
                      (lift (l_setControllerReference (lib_of E) (ObjGitServer gs) (s_meta sec)))) (\<lambda>m.
             bindp (wrapping (''failed to update secret '' @ m_name (s_meta sec) @ '' with owner reference'')
                      (kwrite VUpdate Secrets E sec (sec\<lparr>s_meta := m\<rparr>))) (\<lambda>_.
             ret ())))))"

section \<open>Reconcile\<close>

abbreviation defaultRequeueTime :: int where "defaultRequeueTime \<equiv> 30 * second"
abbreviation successRequeueTime :: int where "successRequeueTime \<equiv> 1800 * second"

definition updateGitServerStatus :: "env \<Rightarrow> git_server_status \<Rightarrow> (git_server st, unit) prog" where
  "updateGitServerStatus E oldStatus =
     bindp (gets obj) (\<lambda>gs.
     if gs_status gs = oldStatus then ret ()
     else wrapping ''failed to update GitServer status'' (save VStatusUpdate GitServers E))"

definition on_status :: "(git_server_status \<Rightarrow> git_server_status) \<Rightarrow> git_server \<Rightarrow> git_server" where
  "on_status f gs = gs\<lparr>gs_status := f (gs_status gs)\<rparr>"

text \<open>The new status is stored, and the object is tried again after a time.\<close>

definition report ::
  "env \<Rightarrow> git_server_status \<Rightarrow> (git_server_status \<Rightarrow> git_server_status) \<Rightarrow> int \<Rightarrow>
   (git_server st, reconcile_result) prog" where
  "report E oldStatus f d =
     bindp (set_obj (on_status f)) (\<lambda>_.
     bindp (updateGitServerStatus E oldStatus) (\<lambda>_.
     ret (requeue_after d)))"

definition disconnected :: "gerr \<Rightarrow> git_server_status \<Rightarrow> git_server_status" where
  "disconnected e st = (gs_SetFailed (err_msg e) st)\<lparr>gst_connected := False\<rparr>"

text \<open>Reconcile from the event listener on, from the connection on, and from the start.\<close>

definition serve_connected :: "env \<Rightarrow> git_server_status \<Rightarrow> (git_server st, reconcile_result) prog" where
  "serve_connected E oldStatus =
     bindp (set_obj (on_status (\<lambda>st. st\<lparr>gst_connected := True\<rparr>))) (\<lambda>_.
     bindp (gets obj) (\<lambda>inst.
     bindp (attempt (CreateEventListener_ServeRequest E inst)) (\<lambda>served.
     case served of
       Inl e \<Rightarrow> report E oldStatus (gs_SetFailed (err_msg e)) defaultRequeueTime
     | Inr _ \<Rightarrow> report E oldStatus gs_SetSuccess successRequeueTime)))"

definition serve_owned ::
  "env \<Rightarrow> git_server_status \<Rightarrow> model_git_server \<Rightarrow> (git_server st, reconcile_result) prog" where
  "serve_owned E oldStatus gitServer =
     bindp (attempt (checkConnectionToGitServer E gitServer)) (\<lambda>checked.
     case checked of
       Inl e \<Rightarrow> report E oldStatus (disconnected e) defaultRequeueTime
     | Inr _ \<Rightarrow> serve_connected E oldStatus)"

definition serve_git_server :: "env \<Rightarrow> git_server \<Rightarrow> (git_server st, reconcile_result) prog" where
  "serve_git_server E inst =
     (let oldStatus = gs_status inst; gitServer = ConvertToGitServer inst in
     bindp (attempt (ensureSecretOwnership E inst)) (\<lambda>owned.
     case owned of
       Inl e \<Rightarrow> report E oldStatus (disconnected e) defaultRequeueTime
     | Inr _ \<Rightarrow> serve_owned E oldStatus gitServer))"

definition GitServer_Reconcile :: "env \<Rightarrow> string \<Rightarrow> string \<Rightarrow> (git_server st, reconcile_result) prog" where
  "GitServer_Reconcile E ns name =
     bindp (attempt (kget GitServers E ns name)) (\<lambda>r.
     case r of
       Inl e \<Rightarrow>
         if errors_is e KNotFound then ret no_requeue
         else throw (wrap_err (''failed to fetch resource '' @ quoted (ns @ ''/'' @ name)) e)
     | Inr gs \<Rightarrow> bindp (set_obj (\<lambda>_. gs)) (\<lambda>_. serve_git_server E gs))"

section \<open>What the phases leave alone\<close>

text \<open>An event that is no write of a GitServer.\<close>

definition no_git_server_write :: "event \<Rightarrow> bool" where
  "no_git_server_write ev \<longleftrightarrow> (case ev of EvWrite _ (ObjGitServer _) _ \<Rightarrow> False | _ \<Rightarrow> True)"

lemma no_git_server_write_simps [simp]:
  "no_git_server_write (EvGet k ns n)" "no_git_server_write (EvList k ns sel)"
  "no_git_server_write (EvSsh cfg c e)" "\<not> no_git_server_write (EvWrite v (ObjGitServer gs) e)"
  "no_git_server_write (EvWrite v (ObjSecret x) e)" "no_git_server_write (EvWrite v (ObjEventListener l) e)"
  "no_git_server_write (EvWrite v (ObjIngress x1) e)" "no_git_server_write (EvWrite v (ObjHTTPRoute x1) e)"
  "no_git_server_write (EvWrite v (ObjRoute x1) e)"
  by (simp_all add: no_git_server_write_def)

lemma read_no_write [simp]: "is_read ev \<Longrightarrow> no_git_server_write ev"
  by (cases ev) simp_all

lemma appends_ensure: "appends no_git_server_write (ensureSecretOwnership E gs)"
  unfolding ensureSecretOwnership_def Let_def
  by (intro appends_intros) (simp_all add: resource_defs)

lemma appends_check: "appends no_git_server_write (checkConnectionToGitServer E mg)"
  unfolding checkConnectionToGitServer_def checkGitServerConnection_def sshInitFromSecret_def
    ClientConfig_def NewSession_def Let_def
  by (intro appends_intros) (simp_all add: resource_defs)

lemma appends_listener: "appends no_git_server_write (CreateEventListener_ServeRequest E gs)"
  unfolding CreateEventListener_ServeRequest_def createEventListener_def createRoute_def
    createHTTPRoute_def createIngress_def create_exposure_def Let_def
    reconcileEventListenerLabelSelector_def
  by (intro appends_intros appends_GetKrciConfig) (simp_all add: resource_defs)

lemma keeps_phases [keeps_intros]:
  "keeps (\<lambda>s. obj s = x) (ensureSecretOwnership E gs)"
  "keeps (\<lambda>s. obj s = x) (checkConnectionToGitServer E mg)"
  "keeps (\<lambda>s. obj s = x) (CreateEventListener_ServeRequest E gs)"
  unfolding ensureSecretOwnership_def checkConnectionToGitServer_def checkGitServerConnection_def
    sshInitFromSecret_def ClientConfig_def NewSession_def CreateEventListener_ServeRequest_def
    createEventListener_def createRoute_def createHTTPRoute_def createIngress_def create_exposure_def
    reconcileEventListenerLabelSelector_def GetKrciConfig_def getEdpConfig_def Let_def
  by (intro keeps_intros)+

section \<open>Whose secret it is\<close>

text \<open>What makes a secret one of the GitServer alone, when the history was \<open>h\<close>.\<close>

definition may_own :: "env \<Rightarrow> history \<Rightarrow> git_server \<Rightarrow> secret \<Rightarrow> bool" where
  "may_own E h gs sec \<longleftrightarrow>
     (let ns = m_ns (gs_meta gs); secretName = gs_nameSshKeySecret (gs_spec gs) in
      k_get (api_secret E) h ns secretName = Inr sec \<and> GetControllerOf (s_meta sec) = None \<and>
      (\<exists>gitServers. k_list (api_git_server E) (h @ [EvGet ''Secret'' ns secretName]) ns (by_labels []) = Inr gitServers \<and>
        \<not> list_ex (shares_secret gs) gitServers))"

lemma ensure_writes:
  assumes "EvWrite v (ObjSecret x) e \<in> set (added s (snd (ensureSecretOwnership E gs s)))"
  shows "v = VUpdate \<and> (\<exists>sec. may_own E (log s) gs sec \<and> s_data x = s_data sec \<and>
    l_setControllerReference (lib_of E) (ObjGitServer gs) (s_meta sec) = Inr (s_meta x))"
  using assms
  by (auto simp: ensureSecretOwnership_def may_own_def Let_def bindp_run attempt_run wrapping_run kget_run
      klist_run kwrite_def ask_run lift_def resource_defs added_def
      split: sum.splits outcome.splits if_splits)

definition no_secret_write :: "event \<Rightarrow> bool" where
  "no_secret_write ev \<longleftrightarrow> (case ev of EvWrite _ (ObjSecret _) _ \<Rightarrow> False | _ \<Rightarrow> True)"

lemma no_secret_write_simps [simp]:
  "no_secret_write (EvGet k ns n)" "no_secret_write (EvList k ns sel)"
  "no_secret_write (EvSsh cfg c e)" "no_secret_write (EvWrite v (ObjGitServer gs) e)"
  "\<not> no_secret_write (EvWrite v (ObjSecret x) e)" "no_secret_write (EvWrite v (ObjEventListener l) e)"
  "no_secret_write (EvWrite v (ObjIngress x1) e)" "no_secret_write (EvWrite v (ObjHTTPRoute x1) e)"
  "no_secret_write (EvWrite v (ObjRoute x1) e)"
  by (simp_all add: no_secret_write_def)

lemma read_no_secret_write [simp]: "is_read ev \<Longrightarrow> no_secret_write ev"
  by (cases ev) simp_all

lemma secret_phases [appends_intros]:
  "appends no_secret_write (checkConnectionToGitServer E mg)"
  "appends no_secret_write (CreateEventListener_ServeRequest E gs)"
  "appends no_secret_write (report E old f d)"
  unfolding checkConnectionToGitServer_def checkGitServerConnection_def sshInitFromSecret_def
    ClientConfig_def NewSession_def Let_def CreateEventListener_ServeRequest_def createEventListener_def
    createRoute_def createHTTPRoute_def createIngress_def create_exposure_def
    reconcileEventListenerLabelSelector_def report_def updateGitServerStatus_def
  by (intro appends_intros appends_GetKrciConfig; simp add: resource_defs)+

lemma secret_serve_owned: "appends no_secret_write (serve_owned E old mg)"
  unfolding serve_owned_def serve_connected_def
  by (intro appends_intros)

lemma appends_serve: "appends (\<lambda>_. True) (serve_git_server E gs)"
  unfolding serve_git_server_def serve_owned_def serve_connected_def report_def
    updateGitServerStatus_def Let_def
  by (intro appends_intros appends_mono [OF appends_ensure] appends_mono [OF appends_check]
      appends_mono [OF appends_listener]) simp_all

text \<open>
  C29: a GitServer takes the ownership of its secret only when nothing else controls it
  and no other GitServer of the namespace uses it, so that deleting the GitServer never
  takes the credentials of another away; and the only write to a secret is that one: an
  update that sets the owner and leaves the data.
\<close>

theorem shared_secret_is_never_owned:
  assumes "EvWrite v (ObjSecret x) e \<in> set (added s (snd (GitServer_Reconcile E ns name s)))"
  shows "v = VUpdate \<and> (\<exists>gs sec. k_get (api_git_server E) (log s) ns name = Inr gs \<and>
    may_own E (log s @ [EvGet ''GitServer'' ns name]) gs sec \<and> s_data x = s_data sec \<and>
    l_setControllerReference (lib_of E) (ObjGitServer gs) (s_meta sec) = Inr (s_meta x))"
proof (cases "k_get (api_git_server E) (log s) ns name")
  case (Inl err)
  with assms show ?thesis
    by (simp add: GitServer_Reconcile_def bindp_run attempt_run kget_run resource_defs added_def
        split: if_splits)
next
  case (Inr gs)
  let ?s = "s\<lparr>log := log s @ [EvGet ''GitServer'' ns name], obj := gs\<rparr>"
  obtain es where es: "log (snd (serve_git_server E gs ?s)) = log ?s @ es"
    using appendsD [OF appends_serve] by blast
  have "EvWrite v (ObjSecret x) e \<in> set (added ?s (snd (serve_git_server E gs ?s)))"
    using assms es by (simp add: GitServer_Reconcile_def bindp_run attempt_run kget_run resource_defs
        Inr added_def)
  then have "EvWrite v (ObjSecret x) e \<in> set (added ?s (snd (attempt (ensureSecretOwnership E gs) ?s)))"
    unfolding serve_git_server_def Let_def
    by (rule added_bindp [where A = no_secret_write, OF appends_attempt [OF appends_ensure], rotated])
      (auto intro!: appends_intros secret_serve_owned)
  then have "EvWrite v (ObjSecret x) e \<in> set (added ?s (snd (ensureSecretOwnership E gs ?s)))"
    by (simp add: attempt_run split: outcome.splits)
  from ensure_writes [OF this] Inr show ?thesis by auto
qed

section \<open>What the status says\<close>

text \<open>
  The connection was checked: a session was opened with the user and at the address of
  the server, or the secret held no key.
\<close>

definition connection_checked :: "env \<Rightarrow> git_server \<Rightarrow> event list \<Rightarrow> bool" where
  "connection_checked E gs es \<longleftrightarrow>
     (\<exists>cfg. sc_user cfg = gs_gitUser (gs_spec gs) \<and>
        EvSsh cfg (SshSession (HostPort (gs_gitHost (gs_spec gs)) (gs_sshPort (gs_spec gs)))) None \<in> set es) \<or>
     (\<exists>h sec. k_get (api_secret E) h (m_ns (gs_meta gs)) (gs_nameSshKeySecret (gs_spec gs)) = Inr sec \<and>
        smap_get (s_data sec) PrivateSShKeyName = [])"

text \<open>How the status \<open>st\<close> came to be known: nothing was written since, or it was, last.\<close>

definition told :: "git_server \<Rightarrow> git_server_status \<Rightarrow> event list \<Rightarrow> bool" where
  "told gs st es \<longleftrightarrow>
     list_all no_git_server_write es \<and> st = gs_status gs \<or>
     (\<exists>xs. es = xs @ [EvWrite VStatusUpdate (ObjGitServer (gs\<lparr>gs_status := st\<rparr>)) None] \<and>
        list_all no_git_server_write xs)"

lemma told_prepend:
  "told gs st es \<Longrightarrow> list_all no_git_server_write xs \<Longrightarrow> told gs st (xs @ es)"
  unfolding told_def by (metis append_assoc list_all_append)

lemma report_told:
  assumes "fst (report E (gs_status gs) f d s) = Ok res" and "obj s = gs\<lparr>gs_status := st\<rparr>"
  shows "res = requeue_after d \<and> (\<exists>es. log (snd (report E (gs_status gs) f d s)) = log s @ es \<and> told gs (f st) es)"
  using assms
  by (auto simp: report_def updateGitServerStatus_def on_status_def bindp_run wrapping_run save_run
      told_def GitServers_def split: if_splits sum.splits)

lemma check_Ok:
  assumes "fst (checkConnectionToGitServer E (ConvertToGitServer gs) s) = Ok ()"
  shows "connection_checked E gs (added s (snd (checkConnectionToGitServer E (ConvertToGitServer gs) s)))"
  using assms
  by (auto simp: checkConnectionToGitServer_def checkGitServerConnection_def sshInitFromSecret_def publicKey_def
      ClientConfig_def NewSession_def Let_def bindp_run wrapping_run catchp_run kget_run ssh_def asku_run
      lift_def connection_checked_def ConvertToGitServer_def extractSshData_def added_def resource_defs
      split: sum.splits option.splits outcome.splits if_splits)

lemma connection_checked_append:
  "connection_checked E gs es \<Longrightarrow> connection_checked E gs (xs @ es @ ys)"
  unfolding connection_checked_def by auto

text \<open>
  The status and the time to the next run that the results of the three phases call for: the
  ownership of the secret, the connection, and the event listener.
\<close>

fun status_for :: "unit outcome \<Rightarrow> unit outcome \<Rightarrow> unit outcome \<Rightarrow> (git_server_status \<times> int) option" where
  "status_for (Fail e) checked served =
     Some (\<lparr>gst_error = err_msg e, gst_connected = False, gst_status = ''failed''\<rparr>, 30 * second)"
| "status_for (Ok _) (Fail e) served =
     Some (\<lparr>gst_error = err_msg e, gst_connected = False, gst_status = ''failed''\<rparr>, 30 * second)"
| "status_for (Ok _) (Ok _) (Fail e) =
     Some (\<lparr>gst_error = err_msg e, gst_connected = True, gst_status = ''failed''\<rparr>, 30 * second)"
| "status_for (Ok _) (Ok _) (Ok _) =
     Some (\<lparr>gst_error = [], gst_connected = True, gst_status = ''ok''\<rparr>, 1800 * second)"
| "status_for _ _ _ = None"

lemma phase_log:
  assumes "appends no_git_server_write m" "\<And>x. keeps (\<lambda>s. obj s = x) m"
  obtains es where "log (snd (m s)) = log s @ es" "list_all no_git_server_write es"
    "obj (snd (m s)) = obj s" "added s (snd (m s)) = es"
  using appendsD [OF assms(1), of s] keeps_objD [of m s, OF assms(2)] by auto

text \<open>The phase of the event listener runs on the server that is marked connected.\<close>

definition listener_phase :: "env \<Rightarrow> git_server \<Rightarrow> git_server st \<Rightarrow> unit outcome \<times> git_server st" where
  "listener_phase E gs s =
     (let c = gs\<lparr>gs_status := (gs_status gs)\<lparr>gst_connected := True\<rparr>\<rparr>
      in CreateEventListener_ServeRequest E c (s\<lparr>obj := c\<rparr>))"

lemma serve_connected_told:
  assumes "fst (serve_connected E (gs_status gs) s) = Ok res" and "obj s = gs"
  shows "\<exists>st d es. status_for (Ok ()) (Ok ()) (fst (listener_phase E gs s)) = Some (st, d) \<and>
    res = requeue_after d \<and> log (snd (serve_connected E (gs_status gs) s)) = log s @ es \<and> told gs st es"
proof -
  let ?gs = "on_status (\<lambda>st. st\<lparr>gst_connected := True\<rparr>) gs"
  let ?s = "s\<lparr>obj := ?gs\<rparr>"
  let ?m = "CreateEventListener_ServeRequest E ?gs"
  let ?t = "snd (?m ?s)"
  have phase: "listener_phase E gs s = ?m ?s" by (simp add: listener_phase_def on_status_def Let_def)
  obtain es where es: "log ?t = log s @ es" "list_all no_git_server_write es" "obj ?t = ?gs"
    by (rule phase_log [OF appends_listener keeps_phases(3), of E ?gs ?s]) simp
  have finish: "?thesis"
    if run: "serve_connected E (gs_status gs) s = report E (gs_status gs) f d ?t"
      and st: "status_for (Ok ()) (Ok ()) (fst (?m ?s)) = Some (f ((gs_status gs)\<lparr>gst_connected := True\<rparr>), d)" for f d
  proof -
    have "fst (report E (gs_status gs) f d ?t) = Ok res"
      using assms(1) run by simp
    from report_told [OF this, of "(gs_status gs)\<lparr>gst_connected := True\<rparr>"] es(3)
    obtain ys where "res = requeue_after d" "log (snd (report E (gs_status gs) f d ?t)) = log ?t @ ys"
      and ys: "told gs (f ((gs_status gs)\<lparr>gst_connected := True\<rparr>)) ys"
      by (auto simp: on_status_def)
    with es run st told_prepend [OF ys es(2)] show ?thesis by (auto simp: phase)
  qed
  have run: "serve_connected E (gs_status gs) s = (case fst (?m ?s) of
      Ok x \<Rightarrow> report E (gs_status gs) gs_SetSuccess successRequeueTime ?t
    | Fail e \<Rightarrow> report E (gs_status gs) (gs_SetFailed (err_msg e)) defaultRequeueTime ?t
    | Panic p \<Rightarrow> (Panic p, ?t))"
    unfolding serve_connected_def bindp_set_obj bindp_gets assms(2) bindp_attempt_run
    by (simp split: outcome.split)
  show ?thesis
  proof (cases "fst (?m ?s)")
    case (Ok u)
    with run show ?thesis
      by (intro finish [of gs_SetSuccess successRequeueTime]) (simp_all add: gs_SetSuccess_def)
  next
    case (Fail e)
    with run show ?thesis
      by (intro finish [of "gs_SetFailed (err_msg e)" defaultRequeueTime]) (simp_all add: gs_SetFailed_def)
  qed (use assms(1) run in simp)
qed

lemma disconnected_told:
  assumes "fst (report E (gs_status gs) (disconnected e) defaultRequeueTime s) = Ok res" and "obj s = gs"
  shows "res = requeue_after (30 * second) \<and> (\<exists>es.
    log (snd (report E (gs_status gs) (disconnected e) defaultRequeueTime s)) = log s @ es \<and>
    told gs \<lparr>gst_error = err_msg e, gst_connected = False, gst_status = ''failed''\<rparr> es)"
proof -
  have "disconnected e (gs_status gs) = \<lparr>gst_error = err_msg e, gst_connected = False, gst_status = ''failed''\<rparr>"
    by (simp add: disconnected_def gs_SetFailed_def)
  moreover have "obj s = gs\<lparr>gs_status := gs_status gs\<rparr>" using assms(2) by simp
  ultimately show ?thesis using report_told [OF assms(1)] by metis
qed

lemma serve_owned_told:
  assumes "fst (serve_owned E (gs_status gs) (ConvertToGitServer gs) s) = Ok res" and "obj s = gs"
  shows "\<exists>st d es. (let checked = checkConnectionToGitServer E (ConvertToGitServer gs) s in
      status_for (Ok ()) (fst checked) (fst (listener_phase E gs (snd checked))) = Some (st, d)) \<and>
    res = requeue_after d \<and> log (snd (serve_owned E (gs_status gs) (ConvertToGitServer gs) s)) = log s @ es \<and>
    told gs st es \<and> (gst_connected st \<longrightarrow> connection_checked E gs es)"
proof -
  let ?m = "checkConnectionToGitServer E (ConvertToGitServer gs)"
  let ?t = "snd (?m s)"
  obtain xs where xs: "log ?t = log s @ xs" "list_all no_git_server_write xs" "obj ?t = obj s"
    "added s ?t = xs"
    by (rule phase_log [OF appends_check keeps_phases(2), of E "ConvertToGitServer gs" s])
  have run: "serve_owned E (gs_status gs) (ConvertToGitServer gs) s = (case fst (?m s) of
      Ok x \<Rightarrow> serve_connected E (gs_status gs) ?t
    | Fail e \<Rightarrow> report E (gs_status gs) (disconnected e) defaultRequeueTime ?t
    | Panic p \<Rightarrow> (Panic p, ?t))"
    unfolding serve_owned_def bindp_attempt_run by (simp split: outcome.split)
  show ?thesis
  proof (cases "fst (?m s)")
    case (Ok u)
    then have ck: "connection_checked E gs xs" using check_Ok [of E gs s] xs(4) by simp
    obtain st d es where "status_for (Ok ()) (Ok ()) (fst (listener_phase E gs ?t)) = Some (st, d)"
      "res = requeue_after d" "log (snd (serve_connected E (gs_status gs) ?t)) = log ?t @ es" "told gs st es"
      using serve_connected_told [of E gs ?t res] assms run Ok xs(3) by auto
    with Ok run xs connection_checked_append [OF ck, of "[]" es] show ?thesis
      by (intro exI [of _ st] exI [of _ d] exI [of _ "xs @ es"]) (simp add: told_prepend Let_def)
  next
    case (Fail e)
    then obtain es where "res = requeue_after (30 * second)"
      "log (snd (report E (gs_status gs) (disconnected e) defaultRequeueTime ?t)) = log ?t @ es"
      "told gs \<lparr>gst_error = err_msg e, gst_connected = False, gst_status = ''failed''\<rparr> es"
      using disconnected_told [of E gs e ?t res] assms run xs(3) by auto
    with Fail run xs show ?thesis
      by (intro exI [of _ "\<lparr>gst_error = err_msg e, gst_connected = False, gst_status = ''failed''\<rparr>"]
          exI [of _ "30 * second"] exI [of _ "xs @ es"]) (simp add: told_prepend Let_def)
  qed (use assms(1) run in simp)
qed

text \<open>
  C30: a reconciliation of a GitServer that ends without an error has told how its phases
  went. When the ownership of the secret or the connection failed, the status is failed,
  not connected and has the phase's error; when the event listener failed, it is failed and
  connected and has that error; both are tried again after thirty seconds. When all three
  went well it is ok, connected and without an error, and checked again after half an hour.
  The status is stored by the last event, the only write of the GitServer, or it is the one
  the server had and the GitServer is not written. It says connected only when this run
  opened a session with the server's user and address, or the secret held no key.
\<close>

theorem git_server_status_tells_the_outcome:
  assumes "k_get (api_git_server E) (log s) ns name = Inr gs"
    and "GitServer_Reconcile E ns name s = (Ok res, t)"
  shows "let owned = ensureSecretOwnership E gs \<lparr>obj = gs, log = log s @ [EvGet ''GitServer'' ns name]\<rparr>;
      checked = checkConnectionToGitServer E (ConvertToGitServer gs) (snd owned);
      served = listener_phase E gs (snd checked)
    in \<exists>st d es. status_for (fst owned) (fst checked) (fst served) = Some (st, d) \<and> res = requeue_after d \<and>
      log t = log s @ EvGet ''GitServer'' ns name # es \<and> told gs st es \<and>
      (gst_connected st \<longrightarrow> connection_checked E gs es)"
proof -
  let ?s = "\<lparr>obj = gs, log = log s @ [EvGet ''GitServer'' ns name]\<rparr>"
  let ?m = "ensureSecretOwnership E gs"
  let ?t = "snd (?m ?s)"
  obtain xs where xs: "log ?t = log ?s @ xs" "list_all no_git_server_write xs" "obj ?t = obj ?s"
    by (rule phase_log [OF appends_ensure keeps_phases(1), of E gs ?s])
  have "serve_git_server E gs ?s = (Ok res, t)"
    using assms by (cases s) (simp add: GitServer_Reconcile_def bindp_attempt_run kget_run GitServers_def)
  moreover have "serve_git_server E gs ?s = (case fst (?m ?s) of
      Ok x \<Rightarrow> serve_owned E (gs_status gs) (ConvertToGitServer gs) ?t
    | Fail e \<Rightarrow> report E (gs_status gs) (disconnected e) defaultRequeueTime ?t
    | Panic p \<Rightarrow> (Panic p, ?t))"
    unfolding serve_git_server_def Let_def bindp_attempt_run by (simp split: outcome.split)
  ultimately have run: "(case fst (?m ?s) of
      Ok x \<Rightarrow> serve_owned E (gs_status gs) (ConvertToGitServer gs) ?t
    | Fail e \<Rightarrow> report E (gs_status gs) (disconnected e) defaultRequeueTime ?t
    | Panic p \<Rightarrow> (Panic p, ?t)) = (Ok res, t)" by simp
  show ?thesis
  proof (cases "fst (?m ?s)")
    case (Ok u)
    with run have owned: "serve_owned E (gs_status gs) (ConvertToGitServer gs) ?t = (Ok res, t)" by simp
    obtain st d es where "(let checked = checkConnectionToGitServer E (ConvertToGitServer gs) ?t in
        status_for (Ok ()) (fst checked) (fst (listener_phase E gs (snd checked))) = Some (st, d))"
      "res = requeue_after d" "log t = log ?t @ es" "told gs st es" "gst_connected st \<longrightarrow> connection_checked E gs es"
      using serve_owned_told [of E gs ?t res] owned xs(3) by auto
    with Ok xs show ?thesis unfolding Let_def
      by (intro exI [of _ st] exI [of _ d] exI [of _ "xs @ es"])
        (auto simp: told_prepend connection_checked_append [of E gs es xs "[]", simplified])
  next
    case (Fail e)
    with run have failed: "report E (gs_status gs) (disconnected e) defaultRequeueTime ?t = (Ok res, t)" by simp
    then obtain es where "res = requeue_after (30 * second)" "log t = log ?t @ es"
      "told gs \<lparr>gst_error = err_msg e, gst_connected = False, gst_status = ''failed''\<rparr> es"
      using disconnected_told [of E gs e ?t res] xs(3) by auto
    with Fail xs show ?thesis unfolding Let_def
      by (intro exI [of _ "\<lparr>gst_error = err_msg e, gst_connected = False, gst_status = ''failed''\<rparr>"]
          exI [of _ "30 * second"] exI [of _ "xs @ es"]) (simp add: told_prepend)
  qed (use run in simp)
qed

section \<open>Examples\<close>

text \<open>A GitServer whose secret is there, holds no key and belongs to nobody.\<close>

definition lone_server :: git_server where
  "lone_server = \<lparr>gs_meta = new_meta ''gh'' ''ns'',
     gs_spec = \<lparr>gs_gitHost = ''github.com'', gs_gitUser = ''git'', gs_httpsPort = 443, gs_sshPort = 22,
       gs_nameSshKeySecret = ''key'', gs_gitProvider = ''github'', gs_skipWebhookSSLVerification = False,
       gs_webhookUrl = [], gs_tektonDisabled = True\<rparr>,
     gs_status = \<lparr>gst_error = [], gst_connected = False, gst_status = []\<rparr>\<rparr>"

definition lone_secret :: secret where
  "lone_secret = \<lparr>s_meta = new_meta ''key'' ''ns'', s_data = [(''token'', ''t'')]\<rparr>"

definition lone_env :: env where
  "lone_env = null_env\<lparr>api_git_server := one_api lone_server, api_secret := one_api lone_secret\<rparr>"

abbreviation lone_state :: "git_server st" where
  "lone_state \<equiv> \<lparr>obj = lone_server, log = []\<rparr>"

lemma lone_run:
  "GitServer_Reconcile lone_env ''ns'' ''gh'' lone_state =
   (Ok (requeue_after successRequeueTime),
    let gs = lone_server\<lparr>gs_status := \<lparr>gst_error = [], gst_connected = True, gst_status = ''ok''\<rparr>\<rparr>
    in \<lparr>obj = gs, log = [EvGet ''GitServer'' ''ns'' ''gh'', EvGet ''Secret'' ''ns'' ''key'',
         EvList ''GitServer'' ''ns'' (by_labels []), EvWrite VUpdate (ObjSecret lone_secret) None,
         EvGet ''Secret'' ''ns'' ''key'', EvWrite VStatusUpdate (ObjGitServer gs) None]\<rparr>)"
  by (simp add: GitServer_Reconcile_def serve_git_server_def serve_owned_def serve_connected_def report_def
      Let_def attempt_run bindp_run wrapping_run kget_run klist_run kwrite_def ask_run save_run lift_def
      ensureSecretOwnership_def checkConnectionToGitServer_def extractSshData_def ConvertToGitServer_def
      CreateEventListener_ServeRequest_def updateGitServerStatus_def on_status_def gs_SetSuccess_def
      resource_defs lone_env_def lone_server_def lone_secret_def example_defs new_meta_def GetControllerOf_def
      shares_secret_def smap_get_def)

theorem shared_secret_is_never_owned_witness:
  "\<exists>sec. may_own lone_env [EvGet ''GitServer'' ''ns'' ''gh''] lone_server sec \<and> s_data lone_secret = s_data sec"
proof -
  have "EvWrite VUpdate (ObjSecret lone_secret) None \<in>
      set (added lone_state (snd (GitServer_Reconcile lone_env ''ns'' ''gh'' lone_state)))"
    unfolding lone_run by (simp add: added_def Let_def)
  from shared_secret_is_never_owned [OF this]
  show ?thesis by (auto simp: lone_env_def one_api_def)
qed

theorem git_server_status_witness:
  "\<exists>es. told lone_server \<lparr>gst_error = [], gst_connected = True, gst_status = ''ok''\<rparr> es \<and>
     connection_checked lone_env lone_server es"
proof -
  have "k_get (api_git_server lone_env) (log lone_state) ''ns'' ''gh'' = Inr lone_server"
    by (simp add: lone_env_def one_api_def)
  from git_server_status_tells_the_outcome [OF this lone_run] obtain r1 r2 r3 st d es where
    "status_for r1 r2 r3 = Some (st, d)" "requeue_after (1800 * second) = requeue_after d"
    "told lone_server st es" "gst_connected st \<longrightarrow> connection_checked lone_env lone_server es"
    unfolding Let_def by blast
  moreover have "st = \<lparr>gst_error = [], gst_connected = True, gst_status = ''ok''\<rparr>"
    if "status_for r1 r2 r3 = Some (st, 1800 * second)"
    using that by (cases "(r1, r2, r3)" rule: status_for.cases) auto
  ultimately show ?thesis by (auto simp: requeue_after_def)
qed

end
