(* ===== verification/Rest_Client.thy ===== *)
theory Rest_Client
  imports Go_Std Git_Providers Example_Env
begin

text \<open>
  What the REST clients share: decoding a JSON value into a Go type as \<open>encoding/json\<close>
  does, a request with a result, and the interface of a client for web hooks with the
  one thing its callers rely on.
\<close>

section \<open>Decoding\<close>

text \<open>
  A field matches a key without regard to case. A decoder takes the value and what the
  variable held; \<open>null\<close> leaves it.
\<close>

type_synonym 'a decoder = "json \<Rightarrow> 'a \<Rightarrow> 'a option"

definition dec_int :: "int decoder" where
  "dec_int v x = (case v of JNull \<Rightarrow> Some x
     | JNum n \<Rightarrow> (case Atoi n of Inr i \<Rightarrow> Some i | Inl _ \<Rightarrow> None) | _ \<Rightarrow> None)"

definition dec_string :: "string decoder" where
  "dec_string v x = (case v of JNull \<Rightarrow> Some x | JStr s \<Rightarrow> Some s | _ \<Rightarrow> None)"

fun dec_members :: "(string \<times> 'a decoder) list \<Rightarrow> (string \<times> json) list \<Rightarrow> 'a \<Rightarrow> 'a option" where
  "dec_members ds [] x = Some x"
| "dec_members ds ((k, v) # ms) x =
     (case map_of ds (fold_case k) of
        None \<Rightarrow> dec_members ds ms x
      | Some d \<Rightarrow> (case d v x of None \<Rightarrow> None | Some y \<Rightarrow> dec_members ds ms y))"

definition dec_struct :: "(string \<times> 'a decoder) list \<Rightarrow> 'a decoder" where
  "dec_struct ds v x =
     (case v of JNull \<Rightarrow> Some x | JObj ms \<Rightarrow> dec_members ds ms x | _ \<Rightarrow> None)"

definition dec_slice :: "(json \<Rightarrow> 'a option) \<Rightarrow> json \<Rightarrow> 'a list option" where
  "dec_slice d v = (case v of JNull \<Rightarrow> Some [] | JArr vs \<Rightarrow> those (map d vs) | _ \<Rightarrow> None)"

text \<open>A pointer to a fresh value, which \<open>null\<close> leaves nil.\<close>

definition dec_pointer :: "'a decoder \<Rightarrow> 'a \<Rightarrow> json \<Rightarrow> 'a option option" where
  "dec_pointer d zero v = (if v = JNull then Some None else map_option Some (d v zero))"

section \<open>Requests\<close>

definition rest ::
  "env \<Rightarrow> http_request \<Rightarrow> (json \<Rightarrow> 'r option) \<Rightarrow> 'r \<Rightarrow> ('o st, http_response \<times> 'r) prog" where
  "rest E q dec zero =
     bindp (http E q) (\<lambda>resp.
     case hr_result resp of
       None \<Rightarrow> ret (resp, zero)
     | Some v \<Rightarrow>
         (case dec v of None \<Rightarrow> throw (l_decodeError (lib_of E) v) | Some x \<Rightarrow> ret (resp, x)))"

definition IsError :: "env \<Rightarrow> http_response \<Rightarrow> bool" where
  "IsError E resp \<longleftrightarrow> l_isError (lib_of E) (hr_code resp)"

definition IsSuccess :: "env \<Rightarrow> http_response \<Rightarrow> bool" where
  "IsSuccess E resp \<longleftrightarrow> l_isSuccess (lib_of E) (hr_code resp)"

definition rest_error :: "string \<Rightarrow> string \<Rightarrow> ('s, 'a) prog" where
  "rest_error what why = throw (errorf (what @ '': '' @ why))"

abbreviation StatusOK :: int where "StatusOK \<equiv> 200"
abbreviation StatusCreated :: int where "StatusCreated \<equiv> 201"
abbreviation StatusNoContent :: int where "StatusNoContent \<equiv> 204"
abbreviation StatusNotFound :: int where "StatusNotFound \<equiv> 404"

section \<open>Web hooks\<close>

record web_hook =
  wh_id :: string
  wh_url :: string

definition ErrWebHookNotFound :: gerr where
  "ErrWebHookNotFound = GErr ''webhook not found'' [KWebHookNotFound]"

definition ErrApiNotSupported :: gerr where
  "ErrApiNotSupported = GErr ''api is not supported'' [KApiNotSupported]"

text \<open>The loop that looks for the address: a nil hook before it is dereferenced.\<close>

fun find_hook :: "string \<Rightarrow> web_hook option list \<Rightarrow> ('s, web_hook option) prog" where
  "find_hook url [] = ret None"
| "find_hook url (None # hs) = panic ''invalid memory address or nil pointer dereference''"
| "find_hook url (Some h # hs) = (if wh_url h = url then ret (Some h) else find_hook url hs)"

text \<open>
  The interface: listing the hooks of a project, creating one, and creating one unless it
  is listed. The law says what the last is in terms of the others.
\<close>

locale web_hook_client =
  fixes list_hooks :: "('o st, web_hook option list) prog"
    and create :: "string \<Rightarrow> ('o st, web_hook) prog"
    and ensure :: "string \<Rightarrow> ('o st, web_hook) prog"
  assumes ensure_listed:
      "list_hooks s = (Ok hs, t) \<Longrightarrow> find_hook url hs t = (Ok (Some h), t) \<Longrightarrow> ensure url s = (Ok h, t)"
    and ensure_missing:
      "list_hooks s = (Ok hs, t) \<Longrightarrow> find_hook url hs t = (Ok None, t) \<Longrightarrow> ensure url s = create url t"
begin

text \<open>With every hook there, what happens depends on the addresses alone.\<close>

lemma find_hook_all:
  "find_hook url (map Some hs) t = (Ok (find (\<lambda>h. wh_url h = url) hs), t)"
  by (induction hs) (simp_all add: ret_run)

lemma known_hook:
  assumes "list_hooks s = (Ok (map Some hs), t)" and "h \<in> set hs" and "wh_url h = url"
  shows "\<exists>h'. ensure url s = (Ok h', t) \<and> h' \<in> set hs \<and> wh_url h' = url"
proof -
  obtain h' where h': "find (\<lambda>h. wh_url h = url) hs = Some h'"
    using assms(2,3) by (cases "find (\<lambda>h. wh_url h = url) hs") (auto simp: find_None_iff)
  then have "h' \<in> set hs \<and> wh_url h' = url" by (auto simp: find_Some_iff)
  with h' show ?thesis using ensure_listed [OF assms(1)] find_hook_all by metis
qed

lemma new_hook:
  assumes "list_hooks s = (Ok (map Some hs), t)" and "url \<notin> wh_url ` set hs"
  shows "ensure url s = create url t"
proof -
  have "find (\<lambda>h. wh_url h = url) hs = None" using assms(2) by (auto simp: find_None_iff)
  then show ?thesis using ensure_missing [OF assms(1)] find_hook_all by metis
qed

end

section \<open>Running a request\<close>

lemma http_run:
  "http E q s = (case http_do E (log s) q of
     Inl e \<Rightarrow> (Fail e, s\<lparr>log := log s @ [EvHttp q (Some e)]\<rparr>)
   | Inr r \<Rightarrow> (Ok r, s\<lparr>log := log s @ [EvHttp q None]\<rparr>))"
  by (simp add: http_def ask_run)

lemma rest_run:
  "rest E q dec zero s = (case http_do E (log s) q of
     Inl e \<Rightarrow> (Fail e, s\<lparr>log := log s @ [EvHttp q (Some e)]\<rparr>)
   | Inr r \<Rightarrow> ((case hr_result r of None \<Rightarrow> Ok (r, zero)
         | Some v \<Rightarrow> (case dec v of None \<Rightarrow> Fail (l_decodeError (lib_of E) v) | Some x \<Rightarrow> Ok (r, x))),
       s\<lparr>log := log s @ [EvHttp q None]\<rparr>))"
  by (auto simp: rest_def bindp_run http_run split: sum.split option.split)

lemma appends_rest [appends_intros]:
  "(\<And>e. A (EvHttp q e)) \<Longrightarrow> appends A (rest E q dec zero)"
  unfolding rest_def by (intro appends_intros)

lemma appends_find_hook [appends_intros]: "appends A (find_hook url hs)"
  by (induction url hs rule: find_hook.induct) (simp_all only: find_hook.simps, (intro appends_intros; simp)+)

lemma find_hook_state [simp]: "snd (find_hook url hs s) = s"
  by (induction url hs rule: find_hook.induct) (auto simp: ret_run panic_run)

text \<open>How the three clients create a hook that is not listed.\<close>

lemma ensure_run:
  assumes "list_hooks s = (Ok hs, t)"
  shows "bindp list_hooks (\<lambda>hs. bindp (find_hook url hs) (\<lambda>known.
      case known of Some h \<Rightarrow> ret h | None \<Rightarrow> create)) s =
    (case find_hook url hs t of (Ok (Some h), t') \<Rightarrow> (Ok h, t') | (Ok None, t') \<Rightarrow> create t'
       | (Fail e, t') \<Rightarrow> (Fail e, t') | (Panic m, t') \<Rightarrow> (Panic m, t'))"
  using assms by (cases "find_hook url hs t") (auto simp: bindp_run split: outcome.split option.split)

end
