(* ===== verification/Github_Client.thy ===== *)
theory Github_Client
  imports Rest_Client Url_Util
begin

text \<open>
  The GitHub client (\<open>pkg/gitprovider/github.go\<close>) over the REST library: the requests it
  makes, what it takes from the answers and its errors.
\<close>

record github_hook =
  ghk_id :: int
  ghk_url :: string

definition zero_github_hook :: github_hook where
  "zero_github_hook = \<lparr>ghk_id = 0, ghk_url = []\<rparr>"

definition dec_github_hook :: "github_hook decoder" where
  "dec_github_hook = dec_struct
     [(''id'', \<lambda>v x. map_option (\<lambda>i. x\<lparr>ghk_id := i\<rparr>) (dec_int v (ghk_id x))),
      (''config'', dec_struct
        [(''url'', \<lambda>v x. map_option (\<lambda>u. x\<lparr>ghk_url := u\<rparr>) (dec_string v (ghk_url x)))])]"

definition convertWebhook :: "github_hook \<Rightarrow> web_hook" where
  "convertWebhook h = \<lparr>wh_id = itoa (ghk_id h), wh_url = ghk_url h\<rparr>"

abbreviation retryCount :: nat where "retryCount \<equiv> 3"

text \<open>A request of the client: \<open>NewGitHubClient\<close> retries what answers with an error.\<close>

definition github_request ::
  "string \<Rightarrow> string \<Rightarrow> string \<Rightarrow> string \<Rightarrow> smap \<Rightarrow> json option \<Rightarrow> http_request" where
  "github_request githubURL tok meth path params body =
     \<lparr>hq_method = meth, hq_base = githubURL, hq_path = path, hq_params = params, hq_query = [],
      hq_auth = BearerToken tok, hq_headers = [], hq_body = body, hq_retries = retryCount\<rparr>"

definition github_params :: "string \<Rightarrow> string \<Rightarrow> smap" where
  "github_params owner repo = [(''owner'', owner), (''repo'', repo)]"

definition github_hook_body :: "string \<Rightarrow> string \<Rightarrow> bool \<Rightarrow> json" where
  "github_hook_body webHookSecret webHookURL skipTLS =
     JObj [(''name'', JStr ''web''), (''active'', JBool True),
       (''events'', JArr [JStr ''pull_request'', JStr ''push'', JStr ''issue_comment'']),
       (''config'', JObj [(''url'', JStr webHookURL), (''content_type'', JStr ''json''),
          (''insecure_ssl'', JStr (itoa (if skipTLS then 1 else 0))), (''secret'', JStr webHookSecret)])]"

definition github_CreateWebHook ::
  "env \<Rightarrow> string \<Rightarrow> string \<Rightarrow> string \<Rightarrow> string \<Rightarrow> string \<Rightarrow> bool \<Rightarrow> ('o st, web_hook) prog" where
  "github_CreateWebHook E githubURL tok projectID webHookSecret webHookURL skipTLS =
     bindp (lift (parseProjectID projectID)) (\<lambda>(owner, repo).
     bindp (wrapping ''failed to create GitHub web hook''
       (rest E (github_request githubURL tok ''POST'' ''/repos/{owner}/{repo}/hooks''
                  (github_params owner repo) (Some (github_hook_body webHookSecret webHookURL skipTLS)))
          (\<lambda>v. dec_github_hook v zero_github_hook) zero_github_hook)) (\<lambda>(resp, webHook).
     if IsError E resp then rest_error ''failed to create GitHub web hook'' (hr_body resp)
     else ret (convertWebhook webHook)))"

definition github_GetWebHook ::
  "env \<Rightarrow> string \<Rightarrow> string \<Rightarrow> string \<Rightarrow> string \<Rightarrow> ('o st, web_hook) prog" where
  "github_GetWebHook E githubURL tok projectID webHookRef =
     bindp (lift (parseProjectID projectID)) (\<lambda>(owner, repo).
     bindp (wrapping ''failed to get GitHub web hook''
       (rest E (github_request githubURL tok ''GET'' ''/repos/{owner}/{repo}/hooks/{hook-id}''
                  (github_params owner repo @ [(''hook-id'', webHookRef)]) None)
          (\<lambda>v. dec_github_hook v zero_github_hook) zero_github_hook)) (\<lambda>(resp, webHook).
     if hr_code resp = StatusNotFound
     then throw (wrap_err ''failed to get GitHub web hook'' ErrWebHookNotFound)
     else if IsError E resp then rest_error ''failed to get GitHub web hook'' (hr_body resp)
     else ret (convertWebhook webHook)))"

definition github_GetWebHooks ::
  "env \<Rightarrow> string \<Rightarrow> string \<Rightarrow> string \<Rightarrow> ('o st, web_hook option list) prog" where
  "github_GetWebHooks E githubURL tok projectID =
     bindp (lift (parseProjectID projectID)) (\<lambda>(owner, repo).
     bindp (wrapping ''failed to get GitHub web hooks''
       (rest E (github_request githubURL tok ''GET'' ''/repos/{owner}/{repo}/hooks''
                  (github_params owner repo) None)
          (dec_slice (dec_pointer dec_github_hook zero_github_hook)) [])) (\<lambda>(resp, gitHubWebHooks).
     if IsError E resp then rest_error ''failed to get GitHub web hooks'' (hr_body resp)
     else ret (map (map_option convertWebhook) gitHubWebHooks)))"

definition github_CreateWebHookIfNotExists ::
  "env \<Rightarrow> string \<Rightarrow> string \<Rightarrow> string \<Rightarrow> string \<Rightarrow> string \<Rightarrow> bool \<Rightarrow> ('o st, web_hook) prog" where
  "github_CreateWebHookIfNotExists E githubURL tok projectID webHookSecret webHookURL skipTLS =
     bindp (github_GetWebHooks E githubURL tok projectID) (\<lambda>webHooks.
     bindp (find_hook webHookURL webHooks) (\<lambda>known.
     case known of
       Some webHook \<Rightarrow> ret webHook
     | None \<Rightarrow> github_CreateWebHook E githubURL tok projectID webHookSecret webHookURL skipTLS))"

definition github_DeleteWebHook ::
  "env \<Rightarrow> string \<Rightarrow> string \<Rightarrow> string \<Rightarrow> string \<Rightarrow> ('o st, unit) prog" where
  "github_DeleteWebHook E githubURL tok projectID webHookRef =
     bindp (lift (parseProjectID projectID)) (\<lambda>(owner, repo).
     bindp (wrapping ''failed to delete GitHub web hook''
       (http E (github_request githubURL tok ''DELETE'' ''/repos/{owner}/{repo}/hooks/{hook-id}''
                  (github_params owner repo @ [(''hook-id'', webHookRef)]) None))) (\<lambda>resp.
     if hr_code resp = StatusNotFound
     then throw (wrap_err ''failed to delete GitHub web hook'' ErrWebHookNotFound)
     else if IsError E resp then rest_error ''failed to delete GitHub web hook'' (hr_body resp)
     else ret ()))"

section \<open>Projects\<close>

definition isOwnerOrg :: "env \<Rightarrow> string \<Rightarrow> string \<Rightarrow> string \<Rightarrow> ('o st, bool) prog" where
  "isOwnerOrg E githubURL tok owner =
     bindp (wrapping ''failed to get GitHub organizations''
       (rest E ((github_request githubURL tok ''GET'' ''/user/orgs'' [] None)
                  \<lparr>hq_query := [(''per_page'', ''1000'')]\<rparr>)
          (dec_slice (\<lambda>v. dec_struct [(''login'', dec_string)] v [])) [])) (\<lambda>(resp, orgs).
     if IsError E resp then rest_error ''failed to get GitHub organizations'' (hr_body resp)
     else ret (list_ex (\<lambda>login. equal_fold login owner) orgs))"

definition github_CreateProject ::
  "env \<Rightarrow> string \<Rightarrow> string \<Rightarrow> string \<Rightarrow> bool \<Rightarrow> ('o st, unit) prog" where
  "github_CreateProject E githubURL tok projectID isPrivate =
     bindp (lift (parseProjectID projectID)) (\<lambda>(owner, repo).
     bindp (isOwnerOrg E githubURL tok owner) (\<lambda>isOrg.
     let path = (if isOrg then ''orgs/'' @ owner @ ''/repos'' else ''user/repos'') in
     bindp (wrapping ''failed to create GitHub repository''
       (http E (github_request githubURL tok ''POST'' path []
                  (Some (JObj [(''name'', JStr repo), (''private'', JBool isPrivate)]))))) (\<lambda>resp.
     if IsError E resp then rest_error ''failed to create GitHub repository'' (hr_body resp)
     else ret ())))"

definition github_ProjectExists :: "env \<Rightarrow> string \<Rightarrow> string \<Rightarrow> string \<Rightarrow> ('o st, bool) prog" where
  "github_ProjectExists E githubURL tok projectID =
     bindp (lift (parseProjectID projectID)) (\<lambda>(owner, repo).
     bindp (wrapping ''failed to get GitHub repository''
       (http E (github_request githubURL tok ''GET'' ''/repos/{owner}/{repo}''
                  (github_params owner repo) None))) (\<lambda>resp.
     if IsError E resp then
       (if hr_code resp = StatusNotFound then ret False
        else rest_error ''failed to get GitHub repository'' (hr_body resp))
     else ret True))"

definition github_SetDefaultBranch ::
  "env \<Rightarrow> string \<Rightarrow> string \<Rightarrow> string \<Rightarrow> string \<Rightarrow> ('o st, unit) prog" where
  "github_SetDefaultBranch E githubURL tok projectID branch =
     bindp (lift (parseProjectID projectID)) (\<lambda>(owner, repo).
     bindp (wrapping ''failed to set GitHub default branch''
       (http E (github_request githubURL tok ''PATCH'' ''/repos/{owner}/{repo}''
                  (github_params owner repo) (Some (JObj [(''default_branch'', JStr branch)]))))) (\<lambda>resp.
     if IsError E resp then rest_error ''failed to set GitHub default branch'' (hr_body resp)
     else ret ()))"

section \<open>The interface\<close>

interpretation github_hooks: web_hook_client
  "github_GetWebHooks E u tok p" "\<lambda>url. github_CreateWebHook E u tok p sec url tls"
  "\<lambda>url. github_CreateWebHookIfNotExists E u tok p sec url tls"
  for E u tok p sec tls
  by unfold_locales (simp_all add: github_CreateWebHookIfNotExists_def ensure_run)

end
