(* ===== verification/Gitlab_Client.thy ===== *)
theory Gitlab_Client
  imports Rest_Client Ssh_Host_Key
begin

text \<open>
  The GitLab client (\<open>pkg/gitprovider/gitlab.go\<close>) over the REST library.
\<close>

record gitlab_hook =
  glk_id :: int
  glk_url :: string

definition zero_gitlab_hook :: gitlab_hook where
  "zero_gitlab_hook = \<lparr>glk_id = 0, glk_url = []\<rparr>"

definition dec_gitlab_hook :: "gitlab_hook decoder" where
  "dec_gitlab_hook = dec_struct
     [(''id'', \<lambda>v x. map_option (\<lambda>i. x\<lparr>glk_id := i\<rparr>) (dec_int v (glk_id x))),
      (''url'', \<lambda>v x. map_option (\<lambda>u. x\<lparr>glk_url := u\<rparr>) (dec_string v (glk_url x)))]"

definition convertGitlabWebhook :: "gitlab_hook \<Rightarrow> web_hook" where
  "convertGitlabWebhook h = \<lparr>wh_id = itoa (glk_id h), wh_url = glk_url h\<rparr>"

abbreviation gitLabTokenHeaderName :: string where "gitLabTokenHeaderName \<equiv> ''PRIVATE-TOKEN''"

text \<open>A request of the client: \<open>NewGitLabClient\<close> retries what answers with an error.\<close>

definition gitlab_request ::
  "string \<Rightarrow> string \<Rightarrow> string \<Rightarrow> string \<Rightarrow> smap \<Rightarrow> json option \<Rightarrow> http_request" where
  "gitlab_request gitlabURL tok meth path params body =
     \<lparr>hq_method = meth, hq_base = gitlabURL, hq_path = path, hq_params = params, hq_query = [],
      hq_auth = NoAuth, hq_headers = [(gitLabTokenHeaderName, tok)], hq_body = body, hq_retries = 3\<rparr>"

definition gitlab_hook_body :: "string \<Rightarrow> string \<Rightarrow> bool \<Rightarrow> json" where
  "gitlab_hook_body webHookSecret webHookURL skipTLS =
     JObj [(''url'', JStr webHookURL), (''merge_requests_events'', JBool True),
       (''note_events'', JBool True), (''push_events'', JBool False),
       (''token'', JStr webHookSecret), (''enable_ssl_verification'', JBool (\<not> skipTLS))]"

definition gitlab_CreateWebHook ::
  "env \<Rightarrow> string \<Rightarrow> string \<Rightarrow> string \<Rightarrow> string \<Rightarrow> string \<Rightarrow> bool \<Rightarrow> ('o st, web_hook) prog" where
  "gitlab_CreateWebHook E gitlabURL tok projectID webHookSecret webHookURL skipTLS =
     bindp (wrapping ''failed to create GitLab web hook''
       (rest E (gitlab_request gitlabURL tok ''POST'' ''/api/v4/projects/{project-id}/hooks''
                  [(''project-id'', projectID)] (Some (gitlab_hook_body webHookSecret webHookURL skipTLS)))
          (\<lambda>v. dec_gitlab_hook v zero_gitlab_hook) zero_gitlab_hook)) (\<lambda>(resp, webHook).
     if IsError E resp then rest_error ''failed to create GitLab web hook'' (hr_body resp)
     else ret (convertGitlabWebhook webHook))"

definition gitlab_GetWebHook ::
  "env \<Rightarrow> string \<Rightarrow> string \<Rightarrow> string \<Rightarrow> string \<Rightarrow> ('o st, web_hook) prog" where
  "gitlab_GetWebHook E gitlabURL tok projectID webHookRef =
     bindp (wrapping ''failed to get GitLab web hook''
       (rest E (gitlab_request gitlabURL tok ''GET'' ''/api/v4/projects/{project-id}/hooks/{hook-id}''
                  [(''project-id'', projectID), (''hook-id'', webHookRef)] None)
          (\<lambda>v. dec_gitlab_hook v zero_gitlab_hook) zero_gitlab_hook)) (\<lambda>(resp, webHook).
     if hr_code resp = StatusNotFound
     then throw (wrap_err ''failed to get GitLab web hook'' ErrWebHookNotFound)
     else if IsError E resp then rest_error ''failed to get GitLab web hook'' (hr_body resp)
     else ret (convertGitlabWebhook webHook))"

definition gitlab_GetWebHooks ::
  "env \<Rightarrow> string \<Rightarrow> string \<Rightarrow> string \<Rightarrow> ('o st, web_hook option list) prog" where
  "gitlab_GetWebHooks E gitlabURL tok projectID =
     bindp (wrapping ''failed to get GitLab web hooks''
       (rest E (gitlab_request gitlabURL tok ''GET'' ''/api/v4/projects/{project-id}/hooks''
                  [(''project-id'', projectID)] None)
          (dec_slice (dec_pointer dec_gitlab_hook zero_gitlab_hook)) [])) (\<lambda>(resp, webHooks).
     if IsError E resp then rest_error ''failed to get GitLab web hooks'' (hr_body resp)
     else ret (map (map_option convertGitlabWebhook) webHooks))"

definition gitlab_CreateWebHookIfNotExists ::
  "env \<Rightarrow> string \<Rightarrow> string \<Rightarrow> string \<Rightarrow> string \<Rightarrow> string \<Rightarrow> bool \<Rightarrow> ('o st, web_hook) prog" where
  "gitlab_CreateWebHookIfNotExists E gitlabURL tok projectID webHookSecret webHookURL skipTLS =
     bindp (gitlab_GetWebHooks E gitlabURL tok projectID) (\<lambda>webHooks.
     bindp (find_hook webHookURL webHooks) (\<lambda>known.
     case known of
       Some webHook \<Rightarrow> ret webHook
     | None \<Rightarrow> gitlab_CreateWebHook E gitlabURL tok projectID webHookSecret webHookURL skipTLS))"

definition gitlab_DeleteWebHook ::
  "env \<Rightarrow> string \<Rightarrow> string \<Rightarrow> string \<Rightarrow> string \<Rightarrow> ('o st, unit) prog" where
  "gitlab_DeleteWebHook E gitlabURL tok projectID webHookRef =
     bindp (wrapping ''failed to delete GitLab web hook''
       (http E (gitlab_request gitlabURL tok ''DELETE'' ''/api/v4/projects/{project-id}/hooks/{hook-id}''
                  [(''project-id'', projectID), (''hook-id'', webHookRef)] None))) (\<lambda>resp.
     if hr_code resp = StatusNotFound
     then throw (wrap_err ''failed to delete GitLab web hook'' ErrWebHookNotFound)
     else if IsError E resp then rest_error ''failed to delete GitLab web hook'' (hr_body resp)
     else ret ())"

section \<open>Projects\<close>

definition decodeProjectID :: "string \<Rightarrow> gerr + string \<times> string" where
  "decodeProjectID projectID =
     (let invalid = Inl (errorf (''invalid project ID: '' @ projectID)) in
      case last_index CHR ''/'' projectID of
        None \<Rightarrow> invalid
      | Some lastSlashIndex \<Rightarrow>
          if lastSlashIndex = length projectID - 1 \<or> lastSlashIndex = 0 then invalid
          else Inr (take lastSlashIndex projectID, drop (Suc lastSlashIndex) projectID))"

text \<open>\<open>gitlabNamespace\<close> holds the identifier alone.\<close>

definition getNamespace :: "env \<Rightarrow> string \<Rightarrow> string \<Rightarrow> string \<Rightarrow> ('o st, int) prog" where
  "getNamespace E gitlabURL tok namespaceFullPath =
     bindp (wrapping ''failed to get GitLab namespace''
       (rest E (gitlab_request gitlabURL tok ''GET'' ''/api/v4/namespaces/{gitlabNamespace}''
                  [(''gitlabNamespace'', namespaceFullPath)] None)
          (\<lambda>v. dec_struct [(''id'', dec_int)] v 0) 0)) (\<lambda>(resp, gitLabNs).
     if IsError E resp then rest_error ''failed to get GitLab namespace'' (hr_body resp)
     else ret gitLabNs)"

definition gitlab_CreateProject ::
  "env \<Rightarrow> string \<Rightarrow> string \<Rightarrow> string \<Rightarrow> bool \<Rightarrow> ('o st, unit) prog" where
  "gitlab_CreateProject E gitlabURL tok projectID isPrivate =
     bindp (lift (decodeProjectID projectID)) (\<lambda>(namespace, path).
     bindp (getNamespace E gitlabURL tok namespace) (\<lambda>gitLabNs.
     bindp (wrapping ''failed to create GitLab project''
       (http E (gitlab_request gitlabURL tok ''POST'' ''/api/v4/projects'' []
                  (Some (JObj [(''path'', JStr path), (''namespace_id'', JNum (itoa gitLabNs)),
                     (''visibility'', JStr (Visibility isPrivate))]))))) (\<lambda>resp.
     if IsError E resp then rest_error ''failed to create GitLab project'' (hr_body resp)
     else ret ())))"

definition gitlab_ProjectExists :: "env \<Rightarrow> string \<Rightarrow> string \<Rightarrow> string \<Rightarrow> ('o st, bool) prog" where
  "gitlab_ProjectExists E gitlabURL tok projectID =
     bindp (wrapping ''failed to check if GitLab project exists''
       (http E (gitlab_request gitlabURL tok ''GET'' ''/api/v4/projects/{projectID}''
                  [(''projectID'', projectID)] None))) (\<lambda>resp.
     if IsError E resp then
       (if hr_code resp = StatusNotFound then ret False
        else rest_error ''failed to get GitLab project'' (hr_body resp))
     else ret True)"

definition gitlab_SetDefaultBranch ::
  "env \<Rightarrow> string \<Rightarrow> string \<Rightarrow> string \<Rightarrow> string \<Rightarrow> ('o st, unit) prog" where
  "gitlab_SetDefaultBranch E gitlabURL tok projectID branch =
     bindp (wrapping ''failed to set GitLab default branch''
       (http E (gitlab_request gitlabURL tok ''PUT'' ''/api/v4/projects/{projectID}''
                  [(''projectID'', projectID)] (Some (JObj [(''default_branch'', JStr branch)]))))) (\<lambda>resp.
     if IsError E resp then rest_error ''failed to set GitLab default branch'' (hr_body resp)
     else ret ())"

section \<open>The interface\<close>

interpretation gitlab_hooks: web_hook_client
  "gitlab_GetWebHooks E u tok p" "\<lambda>url. gitlab_CreateWebHook E u tok p sec url tls"
  "\<lambda>url. gitlab_CreateWebHookIfNotExists E u tok p sec url tls"
  for E u tok p sec tls
  by unfold_locales (simp_all add: gitlab_CreateWebHookIfNotExists_def ensure_run)

section \<open>The namespace of a project\<close>

lemma last_index_Some:
  assumes "last_index c s = Some i"
  shows "i < length s" "s = take i s @ c # drop (Suc i) s" "c \<notin> set (drop (Suc i) s)"
proof -
  have first: "\<exists>a b. s = a @ c # b \<and> length a = j \<and> c \<notin> set a" if "first_index c s = Some j" for s j
    using that
  proof (induction s arbitrary: j)
    case (Cons x xs)
    show ?case
    proof (cases "x = c")
      case False
      with Cons.prems obtain k where "first_index c xs = Some k" "j = Suc k" by auto
      with Cons.IH obtain a b where "xs = a @ c # b \<and> length a = k \<and> c \<notin> set a" by blast
      with False \<open>j = Suc k\<close> show ?thesis by (intro exI [of _ "x # a"] exI [of _ b]) simp
    qed (use Cons.prems in auto)
  qed simp
  obtain j where j: "first_index c (rev s) = Some j" and i: "i = length s - Suc j"
    using assms by (auto simp: last_index_def)
  obtain a b where "rev s = a @ c # b" "length a = j" "c \<notin> set a" using first [OF j] by blast
  then have s: "s = rev b @ c # rev a" and "c \<notin> set (rev a)" "i = length b"
    using i by (auto simp: rev_swap)
  then show "i < length s" "s = take i s @ c # drop (Suc i) s" "c \<notin> set (drop (Suc i) s)"
    by simp_all
qed

text \<open>
  A GitLab project identifier splits at its last slash, so that groups may nest: the
  two parts, with the slash between them, are the identifier, neither is empty and the
  last holds no slash. Every identifier with such a split gives it; every other is
  refused.
\<close>

theorem gitlab_project_splits:
  "decodeProjectID p = Inr (namespace, path) \<longleftrightarrow>
     p = namespace @ ''/'' @ path \<and> namespace \<noteq> [] \<and> path \<noteq> [] \<and> CHR ''/'' \<notin> set path"
proof
  assume "decodeProjectID p = Inr (namespace, path)"
  then obtain i where i: "last_index CHR ''/'' p = Some i" "i \<noteq> length p - 1" "i \<noteq> 0"
    and parts: "namespace = take i p" "path = drop (Suc i) p"
    by (auto simp: decodeProjectID_def Let_def split: option.splits if_splits)
  with last_index_Some [OF i(1)] show "p = namespace @ ''/'' @ path \<and> namespace \<noteq> [] \<and> path \<noteq> [] \<and>
      CHR ''/'' \<notin> set path"
    by (cases p) auto
next
  assume a: "p = namespace @ ''/'' @ path \<and> namespace \<noteq> [] \<and> path \<noteq> [] \<and> CHR ''/'' \<notin> set path"
  then have "last_index CHR ''/'' p = Some (length namespace)"
    using last_index_append [of "CHR ''/''" path namespace] by simp
  with a show "decodeProjectID p = Inr (namespace, path)"
    by (simp add: decodeProjectID_def)
qed

end
