(* ===== verification/Bitbucket_Client.thy ===== *)
theory Bitbucket_Client
  imports Rest_Client Url_Util
begin

text \<open>
  The Bitbucket client (\<open>pkg/gitprovider/bitbucket.go\<close>, \<open>auth_provider.go\<close>) over a
  generated client, which is a parameter: what it decoded of an answer is part of the
  answer. Its URL is fixed; the URL and the token of a call are not used.
\<close>

definition BasicTokenAuthProvider_Intercept :: "string \<Rightarrow> string" where
  "BasicTokenAuthProvider_Intercept tok = ''Basic '' @ tok"

definition BearerTokenAuthProvider_Intercept :: "string \<Rightarrow> string" where
  "BearerTokenAuthProvider_Intercept tok = ''Bearer '' @ tok"

text \<open>\<open>NewBitbucketClient\<close> without options: the address and the header every request gets.\<close>

record bitbucket_client =
  bb_url :: string
  bb_authorization :: string

definition NewBitbucketClient :: "string \<Rightarrow> bitbucket_client" where
  "NewBitbucketClient tok =
     \<lparr>bb_url = ''https://api.bitbucket.org/2.0'',
      bb_authorization = BasicTokenAuthProvider_Intercept tok\<rparr>"

definition bb_call ::
  "env \<Rightarrow> bitbucket_client \<Rightarrow> string \<Rightarrow> bitbucket_call \<Rightarrow> ('o st, bitbucket_response) prog" where
  "bb_call E b what c = wrapping what (bitbucket E (bb_url b) (bb_authorization b) c)"

definition bb_error :: "string \<Rightarrow> bitbucket_response \<Rightarrow> ('s, 'a) prog" where
  "bb_error what r = throw (errorf (what @ '': '' @ br_status r @ '' '' @ br_body r))"

definition bb_invalid :: "string \<Rightarrow> bitbucket_response \<Rightarrow> ('s, 'a) prog" where
  "bb_invalid what r = throw (errorf (what @ '': invalid response '' @ br_body r))"

definition createObjectStatusOk :: "int \<Rightarrow> bool" where
  "createObjectStatusOk statusCode \<longleftrightarrow> statusCode = StatusOK \<or> statusCode = StatusCreated"

definition bitbucket_hook_body :: "string \<Rightarrow> string \<Rightarrow> string \<Rightarrow> bool \<Rightarrow> json" where
  "bitbucket_hook_body uuid webHookSecret webHookURL skipTLS =
     JObj [(''description'', JStr (''Automatically created '' @ uuid)), (''url'', JStr webHookURL),
       (''active'', JBool True), (''secret'', JStr webHookSecret),
       (''skip_cert_verification'', JBool skipTLS), (''history_enabled'', JBool True),
       (''events'', JArr [JStr ''pullrequest:created'', JStr ''pullrequest:updated'',
          JStr ''pullrequest:fulfilled'', JStr ''pullrequest:comment_created'',
          JStr ''pullrequest:comment_updated''])]"

text \<open>A hook of an answer is used when both its fields are there.\<close>

definition hook_of :: "bitbucket_hook \<Rightarrow> web_hook option" where
  "hook_of h = (case h of (Some uuid, Some url) \<Rightarrow> Some \<lparr>wh_id = uuid, wh_url = url\<rparr> | _ \<Rightarrow> None)"

definition bitbucket_CreateWebHook ::
  "env \<Rightarrow> bitbucket_client \<Rightarrow> string \<Rightarrow> string \<Rightarrow> string \<Rightarrow> bool \<Rightarrow> ('o st, web_hook) prog" where
  "bitbucket_CreateWebHook E b projectID webHookSecret webHookURL skipTLS =
     (let what = ''failed to create Bitbucket web hook'' in
     bindp (lift (parseProjectID projectID)) (\<lambda>(owner, repo).
     bindp (gets (\<lambda>s. new_uuid E (log s))) (\<lambda>uuid.
     bindp (bb_call E b what (BbPostHook owner repo
              (bitbucket_hook_body uuid webHookSecret webHookURL skipTLS))) (\<lambda>r.
     if \<not> createObjectStatusOk (br_code r) then bb_error what r
     else
       case Option.bind (br_hook r) hook_of of
         None \<Rightarrow> bb_invalid what r
       | Some webHook \<Rightarrow> ret webHook))))"

definition bitbucket_GetWebHook ::
  "env \<Rightarrow> bitbucket_client \<Rightarrow> string \<Rightarrow> string \<Rightarrow> ('o st, web_hook) prog" where
  "bitbucket_GetWebHook E b projectID webHookRef =
     (let what = ''failed to get Bitbucket web hook'' in
     bindp (lift (parseProjectID projectID)) (\<lambda>(owner, repo).
     bindp (bb_call E b what (BbGetHook owner repo webHookRef)) (\<lambda>r.
     if br_code r \<noteq> StatusOK then bb_error what r
     else
       case Option.bind (br_hook r) hook_of of
         None \<Rightarrow> bb_invalid what r
       | Some webHook \<Rightarrow> ret webHook)))"

definition bitbucket_GetWebHooks ::
  "env \<Rightarrow> bitbucket_client \<Rightarrow> string \<Rightarrow> ('o st, web_hook option list) prog" where
  "bitbucket_GetWebHooks E b projectID =
     (let what = ''failed to get Bitbucket web hooks'' in
     bindp (lift (parseProjectID projectID)) (\<lambda>(owner, repo).
     bindp (bb_call E b what (BbGetHooks owner repo)) (\<lambda>r.
     if br_code r \<noteq> StatusOK then bb_error what r
     else
       case br_hooks r of
         None \<Rightarrow> ret []
       | Some hs \<Rightarrow>
           (case those (map hook_of hs) of
              None \<Rightarrow> bb_invalid what r
            | Some webHooks \<Rightarrow> ret (map Some webHooks)))))"

definition bitbucket_CreateWebHookIfNotExists ::
  "env \<Rightarrow> bitbucket_client \<Rightarrow> string \<Rightarrow> string \<Rightarrow> string \<Rightarrow> bool \<Rightarrow> ('o st, web_hook) prog" where
  "bitbucket_CreateWebHookIfNotExists E b projectID webHookSecret webHookURL skipTLS =
     bindp (bitbucket_GetWebHooks E b projectID) (\<lambda>webHooks.
     bindp (find_hook webHookURL webHooks) (\<lambda>known.
     case known of
       Some webHook \<Rightarrow> ret webHook
     | None \<Rightarrow> bitbucket_CreateWebHook E b projectID webHookSecret webHookURL skipTLS))"

definition bitbucket_DeleteWebHook ::
  "env \<Rightarrow> bitbucket_client \<Rightarrow> string \<Rightarrow> string \<Rightarrow> ('o st, unit) prog" where
  "bitbucket_DeleteWebHook E b projectID webHookRef =
     (let what = ''failed to delete Bitbucket web hook'' in
     bindp (lift (parseProjectID projectID)) (\<lambda>(owner, repo).
     bindp (bb_call E b what (BbDeleteHook owner repo webHookRef)) (\<lambda>r.
     if br_code r \<noteq> StatusNoContent then
       (if br_code r = StatusNotFound then throw (wrap_err what ErrWebHookNotFound)
        else bb_error what r)
     else ret ())))"

section \<open>Projects\<close>

definition bitbucket_CreateProject ::
  "env \<Rightarrow> bitbucket_client \<Rightarrow> string \<Rightarrow> bool \<Rightarrow> ('o st, unit) prog" where
  "bitbucket_CreateProject E b projectID isPrivate =
     (let what = ''failed to create Bitbucket repository'' in
     bindp (lift (parseProjectID projectID)) (\<lambda>(owner, repo).
     bindp (bb_call E b what (BbPostRepository owner repo
              (JObj [(''type'', JStr ''repository''), (''is_private'', JBool isPrivate)]))) (\<lambda>r.
     if \<not> createObjectStatusOk (br_code r) then bb_error what r else ret ())))"

definition bitbucket_ProjectExists ::
  "env \<Rightarrow> bitbucket_client \<Rightarrow> string \<Rightarrow> ('o st, bool) prog" where
  "bitbucket_ProjectExists E b projectID =
     (let what = ''failed to get Bitbucket repository'' in
     bindp (lift (parseProjectID projectID)) (\<lambda>(owner, repo).
     bindp (bb_call E b what (BbGetRepositories owner
              (''q=slug='' @ [CHR 0x22] @ repo @ [CHR 0x22]))) (\<lambda>r.
     if br_code r \<noteq> StatusOK then bb_error what r
     else
       case br_repositories r of
         None \<Rightarrow> ret False
       | Some names \<Rightarrow> ret (list_ex (\<lambda>fullName. fullName = Some projectID) names))))"

definition bitbucket_SetDefaultBranch :: "string \<Rightarrow> string \<Rightarrow> ('o st, unit) prog" where
  "bitbucket_SetDefaultBranch projectID branch =
     throw (wrap_err ''setting default branch in Bitbucket repository'' ErrApiNotSupported)"

section \<open>The interface\<close>

interpretation bitbucket_hooks: web_hook_client
  "bitbucket_GetWebHooks E b p" "\<lambda>url. bitbucket_CreateWebHook E b p sec url tls"
  "\<lambda>url. bitbucket_CreateWebHookIfNotExists E b p sec url tls"
  for E b p sec tls
  by unfold_locales (simp_all add: bitbucket_CreateWebHookIfNotExists_def ensure_run)

end
