(* ===== verification/Hosting_Client.thy ===== *)
theory Hosting_Client
  imports Github_Client Gitlab_Client Bitbucket_Client
begin

text \<open>
  The interface \<open>GitProvider\<close> of \<open>pkg/gitprovider/provider.go\<close>: a value of it is one of the
  three clients, and a call goes to the client's method. The codebase and branch chains
  take the interface as a parameter; here are its implementations.
\<close>

datatype git_provider = GitHubClient | GitLabClient | BitbucketClient bitbucket_client

text \<open>The client \<open>NewProvider\<close> makes, when it makes one.\<close>

definition provider_of :: "git_server \<Rightarrow> string \<Rightarrow> git_provider option" where
  "provider_of gs tok =
     (if gs_gitProvider (gs_spec gs) = GitProviderGithub then Some GitHubClient
      else if gs_gitProvider (gs_spec gs) = GitProviderGitlab then Some GitLabClient
      else if gs_gitProvider (gs_spec gs) = GitProviderBitbucket
      then Some (BitbucketClient (NewBitbucketClient tok))
      else None)"



fun GetWebHook ::
  "env \<Rightarrow> git_provider \<Rightarrow> string \<Rightarrow> string \<Rightarrow> string \<Rightarrow> string \<Rightarrow> ('o st, web_hook) prog" where
  "GetWebHook E GitHubClient url tok p ref = github_GetWebHook E url tok p ref"
| "GetWebHook E GitLabClient url tok p ref = gitlab_GetWebHook E url tok p ref"
| "GetWebHook E (BitbucketClient b) url tok p ref = bitbucket_GetWebHook E b p ref"


fun DeleteWebHook ::
  "env \<Rightarrow> git_provider \<Rightarrow> string \<Rightarrow> string \<Rightarrow> string \<Rightarrow> string \<Rightarrow> ('o st, unit) prog" where
  "DeleteWebHook E GitHubClient url tok p ref = github_DeleteWebHook E url tok p ref"
| "DeleteWebHook E GitLabClient url tok p ref = gitlab_DeleteWebHook E url tok p ref"
| "DeleteWebHook E (BitbucketClient b) url tok p ref = bitbucket_DeleteWebHook E b p ref"

fun ProjectExists :: "env \<Rightarrow> git_provider \<Rightarrow> string \<Rightarrow> string \<Rightarrow> string \<Rightarrow> ('o st, bool) prog" where
  "ProjectExists E GitHubClient url tok p = github_ProjectExists E url tok p"
| "ProjectExists E GitLabClient url tok p = gitlab_ProjectExists E url tok p"
| "ProjectExists E (BitbucketClient b) url tok p = bitbucket_ProjectExists E b p"

fun CreateProject ::
  "env \<Rightarrow> git_provider \<Rightarrow> string \<Rightarrow> string \<Rightarrow> string \<Rightarrow> bool \<Rightarrow> ('o st, unit) prog" where
  "CreateProject E GitHubClient url tok p isPrivate = github_CreateProject E url tok p isPrivate"
| "CreateProject E GitLabClient url tok p isPrivate = gitlab_CreateProject E url tok p isPrivate"
| "CreateProject E (BitbucketClient b) url tok p isPrivate = bitbucket_CreateProject E b p isPrivate"

fun SetDefaultBranch ::
  "env \<Rightarrow> git_provider \<Rightarrow> string \<Rightarrow> string \<Rightarrow> string \<Rightarrow> string \<Rightarrow> ('o st, unit) prog" where
  "SetDefaultBranch E GitHubClient url tok p branch = github_SetDefaultBranch E url tok p branch"
| "SetDefaultBranch E GitLabClient url tok p branch = gitlab_SetDefaultBranch E url tok p branch"
| "SetDefaultBranch E (BitbucketClient b) url tok p branch = bitbucket_SetDefaultBranch p branch"


section \<open>Properties\<close>




text \<open>
  The service itself says after the history \<open>h\<close> that there is no project \<open>p\<close>: the request for
  just that repository, by its owner and name, is answered with not found by GitHub and
  GitLab; Bitbucket is asked for the repositories of the owner with that name and lists none
  with the full name of the project, or gives no list.
\<close>

definition says_no_project :: "env \<Rightarrow> git_provider \<Rightarrow> string \<Rightarrow> string \<Rightarrow> history \<Rightarrow> bool" where
  "says_no_project E c u p h \<longleftrightarrow>
     (case c of
        GitHubClient \<Rightarrow> (\<exists>owner repo q r. split_on CHR ''/'' p = [owner, repo] \<and>
          hq_method q = ''GET'' \<and> hq_base q = u \<and> hq_path q = ''/repos/{owner}/{repo}'' \<and>
          hq_params q = [(''owner'', owner), (''repo'', repo)] \<and> hq_query q = [] \<and>
          http_do E h q = Inr r \<and> hr_code r = 404)
      | GitLabClient \<Rightarrow> (\<exists>q r. hq_method q = ''GET'' \<and> hq_base q = u \<and>
          hq_path q = ''/api/v4/projects/{projectID}'' \<and> hq_params q = [(''projectID'', p)] \<and> hq_query q = [] \<and>
          http_do E h q = Inr r \<and> hr_code r = 404)
      | BitbucketClient b \<Rightarrow> (\<exists>owner repo r. split_on CHR ''/'' p = [owner, repo] \<and>
          bitbucket_do E h (bb_url b) (bb_authorization b)
            (BbGetRepositories owner (''q=slug='' @ [CHR 0x22] @ repo @ [CHR 0x22])) = Inr r \<and>
          br_code r = 200 \<and> (\<forall>names. br_repositories r = Some names \<longrightarrow> Some p \<notin> set names)))"

text \<open>
  The operator takes a project for absent only on the service's word; a failed request,
  another status and an identifier that does not parse are errors instead.
\<close>

theorem absence_is_the_services_word:
  assumes "ProjectExists E c u tok p s = (Ok False, t)"
  shows "says_no_project E c u p (log s)"
proof (cases c)
  case GitHubClient
  from assms obtain owner repo where p: "split_on CHR ''/'' p = [owner, repo]"
    by (auto simp: GitHubClient github_ProjectExists_def parseProjectID_def bindp_run wrapping_run lift_def
        split: list.splits outcome.splits)
  let ?q = "github_request u tok ''GET'' ''/repos/{owner}/{repo}'' (github_params owner repo) None"
  from assms p obtain r where "http_do E (log s) ?q = Inr r" "hr_code r = 404"
    by (auto simp: GitHubClient github_ProjectExists_def parseProjectID_def bindp_run wrapping_run http_run lift_def
        rest_error_def split: sum.splits outcome.splits if_splits)
  with p show ?thesis
    unfolding says_no_project_def GitHubClient
    by (auto simp: github_request_def github_params_def intro!: exI [of _ ?q])
next
  case GitLabClient
  let ?q = "gitlab_request u tok ''GET'' ''/api/v4/projects/{projectID}'' [(''projectID'', p)] None"
  from assms obtain r where "http_do E (log s) ?q = Inr r" "hr_code r = 404"
    by (auto simp: GitLabClient gitlab_ProjectExists_def bindp_run wrapping_run http_run rest_error_def
        split: sum.splits outcome.splits if_splits)
  then show ?thesis
    unfolding says_no_project_def GitLabClient
    by (auto simp: gitlab_request_def intro!: exI [of _ ?q])
next
  case (BitbucketClient b)
  with assms show ?thesis
    by (auto simp: says_no_project_def bitbucket_ProjectExists_def bb_call_def bb_error_def Let_def parseProjectID_def
        bindp_run wrapping_run bitbucket_def ask_run lift_def list_ex_iff
        split: sum.splits outcome.splits if_splits prod.splits option.splits list.splits)
qed

definition absent_env :: env where
  "absent_env = null_env\<lparr>http_do := \<lambda>h q. Inr \<lparr>hr_code = 404, hr_status = [], hr_body = [], hr_result = None\<rparr>\<rparr>"

theorem absence_is_the_services_word_witness:
  "says_no_project absent_env GitLabClient ''https://gitlab'' ''a/b'' []"
proof -
  have "\<exists>t. ProjectExists absent_env GitLabClient ''https://gitlab'' [] ''a/b'' \<lparr>obj = (), log = []\<rparr> = (Ok False, t)"
    by (simp add: gitlab_ProjectExists_def bindp_run wrapping_run http_run absent_env_def example_defs IsError_def)
  then obtain t where "ProjectExists absent_env GitLabClient ''https://gitlab'' [] ''a/b''
      \<lparr>obj = (), log = []\<rparr> = (Ok False, t)" by blast
  from absence_is_the_services_word [OF this] show ?thesis by simp
qed

end
