(* ===== verification/Integration_Secret.thy ===== *)
theory Integration_Secret
  imports Rest_Client Random_Token
begin

text \<open>
  The integration secret controller
  (\<open>controllers/integrationsecret/integrationsecret_controller.go\<close>): a request to the
  service a secret is for, and the annotations that report the answer. A secret with
  several registries has only the first one checked that a loop over a map happens to
  visit: the order is a parameter.
\<close>

abbreviation integrationSecretLabel :: string where
  "integrationSecretLabel \<equiv> ''app.edp.epam.com/integration-secret''"
abbreviation integrationSecretTypeLabel :: string where
  "integrationSecretTypeLabel \<equiv> ''app.edp.epam.com/secret-type''"
abbreviation integrationSecretConnectionAnnotation :: string where
  "integrationSecretConnectionAnnotation \<equiv> ''app.edp.epam.com/integration-secret-connected''"
abbreviation integrationSecretErrorAnnotation :: string where
  "integrationSecretErrorAnnotation \<equiv> ''app.edp.epam.com/integration-secret-error''"
abbreviation successConnectionRequeueTime :: int where "successConnectionRequeueTime \<equiv> 1800 * second"
abbreviation failConnectionRequeueTime :: int where "failConnectionRequeueTime \<equiv> 60 * second"

definition hasIntegrationSecretLabelLabel :: "objmeta \<Rightarrow> bool" where
  "hasIntegrationSecretLabelLabel m \<longleftrightarrow> smap_get (labels_of m) integrationSecretLabel = ''true''"

text \<open>The filter of events: creation, deletion, update, generic.\<close>

datatype secret_event = SecretCreated secret | SecretDeleted secret | SecretUpdated secret secret
  | SecretGeneric secret

fun secret_event_filter :: "secret_event \<Rightarrow> bool" where
  "secret_event_filter (SecretCreated x) = hasIntegrationSecretLabelLabel (s_meta x)"
| "secret_event_filter (SecretDeleted x) = False"
| "secret_event_filter (SecretUpdated old new) = hasIntegrationSecretLabelLabel (s_meta new)"
| "secret_event_filter (SecretGeneric x) = hasIntegrationSecretLabelLabel (s_meta x)"

definition EncodeToString :: "string \<Rightarrow> string" where
  "EncodeToString s = encode_string StdEncoding s"

section \<open>Requests\<close>

definition newRequest :: "string \<Rightarrow> string \<Rightarrow> string \<Rightarrow> http_request" where
  "newRequest url meth path =
     \<lparr>hq_method = meth, hq_base = url, hq_path = path, hq_params = [], hq_query = [],
      hq_auth = NoAuth, hq_headers = [], hq_body = None, hq_retries = 0\<rparr>"

definition data_of :: "secret \<Rightarrow> string \<Rightarrow> string" where
  "data_of sec k = smap_get (s_data sec) k"

definition newRequestWithAuth :: "secret \<Rightarrow> string \<Rightarrow> http_request" where
  "newRequestWithAuth sec path =
     (let req = newRequest (data_of sec ''url'') ''GET'' path in
      if map_of (s_data sec) ''username'' \<noteq> None
      then req\<lparr>hq_auth := BasicAuth (data_of sec ''username'') (data_of sec ''password'')\<rparr>
      else req\<lparr>hq_auth := BearerToken (data_of sec ''token'')\<rparr>)"

text \<open>The request of a check, its answer; \<open>%w\<close> of an error alone adds no text.\<close>

definition expect_success :: "env \<Rightarrow> string \<Rightarrow> http_response \<Rightarrow> ('s, unit) prog" where
  "expect_success E what resp =
     (if IsSuccess E resp then ret () else throw (errorf (what @ hr_status resp)))"

definition checkDockerHub :: "env \<Rightarrow> string \<Rightarrow> string \<Rightarrow> ('o st, unit) prog" where
  "checkDockerHub E username password =
     bindp (http E ((newRequest ''https://hub.docker.com'' ''POST'' ''/v2/users/login'')
              \<lparr>hq_headers := [(''Content-Type'', ''application/json'')],
               hq_body := Some (JObj [(''username'', JStr username), (''password'', JStr password)])\<rparr>))
       (expect_success E ''http status code '')"

record registry_auth =
  ra_username :: string
  ra_password :: string

definition checkGitHubRegistry :: "env \<Rightarrow> registry_auth \<Rightarrow> string \<Rightarrow> ('o st, unit) prog" where
  "checkGitHubRegistry E auth url =
     bindp (catchp (http E ((newRequest url ''GET'' ''/v2/_catalog'')
              \<lparr>hq_headers := [(''Content-Type'', ''application/json'')],
               hq_auth := BearerToken (EncodeToString (ra_password auth))\<rparr>))
            (\<lambda>e. throw (GErr (''failed to connect to GitHub registry '' @ err_msg e) (err_kinds e))))
       (expect_success E ''GitHub registry http status code '')"

section \<open>Registries\<close>

definition dec_registry_auth :: "registry_auth decoder" where
  "dec_registry_auth = dec_struct
     [(''username'', \<lambda>v x. map_option (\<lambda>u. x\<lparr>ra_username := u\<rparr>) (dec_string v (ra_username x))),
      (''password'', \<lambda>v x. map_option (\<lambda>p. x\<lparr>ra_password := p\<rparr>) (dec_string v (ra_password x)))]"

text \<open>A map: every value is decoded into a fresh element, which \<open>null\<close> leaves zero.\<close>

definition dec_auths :: "(string \<times> registry_auth) list decoder" where
  "dec_auths v m =
     (case v of
        JNull \<Rightarrow> Some []
      | JObj ms \<Rightarrow>
          map_option (\<lambda>kvs. fold (\<lambda>(k, a). AList.update k a) kvs m)
            (those (map (\<lambda>(k, w). map_option (Pair k)
               (dec_registry_auth w \<lparr>ra_username = [], ra_password = []\<rparr>)) ms))
      | _ \<Rightarrow> None)"

definition dec_registry_config :: "string \<Rightarrow> (string \<times> registry_auth) list option" where
  "dec_registry_config rawConf =
     Option.bind (json_parse rawConf) (\<lambda>v. dec_struct [(''auths'', dec_auths)] v [])"

definition checkRegistryEntry :: "env \<Rightarrow> string \<Rightarrow> registry_auth \<Rightarrow> ('o st, unit) prog" where
  "checkRegistryEntry E url0 auth =
     (if url0 = ''https://index.docker.io/v1/'' then checkDockerHub E (ra_username auth) (ra_password auth)
      else
        let url = (if has_prefix ''https://'' url0 then url0 else ''https://'' @ url0) in
        if has_prefix ''https://ghcr.io'' url then checkGitHubRegistry E auth url
        else
          bindp (http E ((newRequest url ''GET'' ''/v2/'')
                   \<lparr>hq_auth := BasicAuth (ra_username auth) (ra_password auth)\<rparr>))
            (expect_success E ''http status code ''))"

text \<open>
  \<open>range_order\<close> is the order in which a loop visits a map, \<open>describe\<close> Go's text of a
  decoding error. Every path through the loop's body returns.
\<close>

definition checkRegistry ::
  "env \<Rightarrow> ((string \<times> registry_auth) list \<Rightarrow> (string \<times> registry_auth) list) \<Rightarrow>
   (string \<Rightarrow> string) \<Rightarrow> secret \<Rightarrow> ('o st, unit) prog" where
  "checkRegistry E range_order describe sec =
     (let rawConf = data_of sec ''.dockerconfigjson'' in
      if rawConf = [] then throw (errorf (''no .dockerconfigjson key in secret '' @ m_name (s_meta sec)))
      else
        case dec_registry_config rawConf of
          None \<Rightarrow> throw (wrap_err ''failed to unmarshal .dockerconfigjson'' (errorf (describe rawConf)))
        | Some auths \<Rightarrow>
            (case range_order auths of
               [] \<Rightarrow> throw (errorf ''no auths in .dockerconfigjson'')
             | (url, auth) # _ \<Rightarrow> checkRegistryEntry E url auth))"

section \<open>The check and its report\<close>

definition check_request :: "secret \<Rightarrow> http_request option" where
  "check_request sec =
     (let url = data_of sec ''url''; tok = data_of sec ''token'';
          ty = smap_get (labels_of (s_meta sec)) integrationSecretTypeLabel
      in if ty = ''sonar'' then
           Some ((newRequest url ''GET'' ''/api/system/ping'')\<lparr>hq_auth := BasicAuth tok []\<rparr>)
         else if ty = ''nexus'' then Some (newRequestWithAuth sec ''/service/rest/v1/status'')
         else if ty = ''dependency-track'' then
           Some ((newRequest url ''GET'' ''/api/v1/team/self'')\<lparr>hq_headers := [(''X-Api-Key'', tok)]\<rparr>)
         else if ty = ''defectdojo'' then
           Some ((newRequest url ''GET'' ''/api/v2/user_profile'')
             \<lparr>hq_headers := [(''Authorization'', ''Token '' @ tok)]\<rparr>)
         else if ty = ''registry'' then None
         else if ty = ''argocd'' then
           Some ((newRequest url ''GET'' ''/api/v1/projects'')
             \<lparr>hq_headers := [(''Authorization'', ''Bearer '' @ tok)]\<rparr>)
         else Some (newRequest url ''GET'' ''/''))"

definition checkConnection ::
  "env \<Rightarrow> ((string \<times> registry_auth) list \<Rightarrow> (string \<times> registry_auth) list) \<Rightarrow>
   (string \<Rightarrow> string) \<Rightarrow> secret \<Rightarrow> ('o st, unit) prog" where
  "checkConnection E range_order describe sec =
     (case check_request sec of
        None \<Rightarrow> checkRegistry E range_order describe sec
      | Some req \<Rightarrow> bindp (http E req) (expect_success E ''http status code ''))"

definition FormatBool :: "bool \<Rightarrow> string" where
  "FormatBool b = (if b then ''true'' else ''false'')"

definition annotated :: "bool \<Rightarrow> string \<Rightarrow> secret \<Rightarrow> secret" where
  "annotated reachable errMess sec =
     (let a1 = smap_put integrationSecretConnectionAnnotation (FormatBool reachable)
                 (m_annotations (s_meta sec));
          a2 = smap_del integrationSecretErrorAnnotation a1;
          a3 = (if errMess \<noteq> [] then smap_put integrationSecretErrorAnnotation errMess a2 else a2)
      in sec\<lparr>s_meta := (s_meta sec)\<lparr>m_annotations := a3\<rparr>\<rparr>)"

text \<open>The second comparison reads the annotation of the connection, as the source does.\<close>

definition updateConnectionAnnotation :: "env \<Rightarrow> bool \<Rightarrow> string \<Rightarrow> (secret st, unit) prog" where
  "updateConnectionAnnotation E reachable errMess =
     bindp (gets obj) (\<lambda>sec.
     let stored = smap_get (m_annotations (s_meta sec)) integrationSecretConnectionAnnotation in
     if stored \<noteq> FormatBool reachable \<or> stored \<noteq> errMess then
       bindp (set_obj (annotated reachable errMess)) (\<lambda>_.
       wrapping ''failed to update Secret'' (save VUpdate Secrets E))
     else ret ())"

definition report_connection :: "env \<Rightarrow> gerr + unit \<Rightarrow> (secret st, reconcile_result) prog" where
  "report_connection E r =
     (let reachable = (case r of Inl _ \<Rightarrow> False | Inr _ \<Rightarrow> True);
          errMess = (case r of Inl e \<Rightarrow> ''connection failed: '' @ err_msg e | Inr _ \<Rightarrow> [])
      in bindp (updateConnectionAnnotation E reachable errMess) (\<lambda>_.
         ret (requeue_after (if reachable then successConnectionRequeueTime else failConnectionRequeueTime))))"

definition IntegrationSecret_Reconcile ::
  "env \<Rightarrow> ((string \<times> registry_auth) list \<Rightarrow> (string \<times> registry_auth) list) \<Rightarrow>
   (string \<Rightarrow> string) \<Rightarrow> string \<Rightarrow> string \<Rightarrow> (secret st, reconcile_result) prog" where
  "IntegrationSecret_Reconcile E range_order describe ns name =
     bindp (attempt (kget Secrets E ns name)) (\<lambda>r.
     case r of
       Inl e \<Rightarrow>
         if errors_is e KNotFound then ret no_requeue
         else throw (wrap_err ''failed to get Secret'' e)
     | Inr sec \<Rightarrow>
         bindp (set_obj (\<lambda>_. sec)) (\<lambda>_.
         bindp (attempt (checkConnection E range_order describe sec)) (report_connection E)))"

section \<open>Properties\<close>

lemmas check_defs = checkConnection_def checkRegistry_def checkRegistryEntry_def checkDockerHub_def
  checkGitHubRegistry_def expect_success_def Let_def

lemma checkConnection_returns: "returns (checkConnection E ro d sec)"
  unfolding check_defs by (intro returns_intros)

lemma keeps_checkConnection: "keeps (\<lambda>s. obj s = x) (checkConnection E ro d sec)"
  by (auto simp: check_defs intro!: keeps_intros)

lemma IntegrationSecret_run:
  assumes "k_get (api_secret E) (log s) ns name = Inr sec"
  defines "u \<equiv> s\<lparr>log := log s @ [EvGet ''Secret'' ns name], obj := sec\<rparr>"
  obtains r where "fst (checkConnection E ro d sec u) = (case r of Inl e \<Rightarrow> Fail e | Inr _ \<Rightarrow> Ok ())"
    "IntegrationSecret_Reconcile E ro d ns name s = report_connection E r (snd (checkConnection E ro d sec u))"
proof (cases "fst (checkConnection E ro d sec u)")
  case (Ok x)
  then show ?thesis using that [of "Inr ()"] assms
    by (simp add: IntegrationSecret_Reconcile_def bindp_attempt_run kget_run Secrets_def)
next
  case (Fail e)
  then show ?thesis using that [of "Inl e"] assms
    by (simp add: IntegrationSecret_Reconcile_def bindp_attempt_run kget_run Secrets_def)
qed (use checkConnection_returns [unfolded returns_def] in blast)

lemma report_connection_run:
  "report_connection E r s =
     (let msg = (case r of Inl e \<Rightarrow> ''connection failed: '' @ err_msg e | Inr _ \<Rightarrow> []);
          ok = (case r of Inl _ \<Rightarrow> False | Inr _ \<Rightarrow> True);
          u = wrapping ''failed to update Secret'' (save VUpdate Secrets E)
                (s\<lparr>obj := annotated ok msg (obj s)\<rparr>)
      in ((case fst u of Ok _ \<Rightarrow> Ok (requeue_after (if ok then successConnectionRequeueTime
             else failConnectionRequeueTime)) | Fail e \<Rightarrow> Fail e | Panic p \<Rightarrow> Panic p), snd u))"
proof (cases r)
  case (Inl e)
  have "x \<noteq> FormatBool False \<or> x \<noteq> ''connection failed: '' @ err_msg e" for x
    by (auto simp: FormatBool_def)
  with Inl show ?thesis
    by (simp add: report_connection_def updateConnectionAnnotation_def Let_def bindp_run [of "bindp _ _"]
        bindp_run [of "wrapping _ _"] split: outcome.split)
next
  case (Inr u)
  have "x \<noteq> FormatBool True \<or> x \<noteq> []" for x by (auto simp: FormatBool_def)
  with Inr show ?thesis
    by (simp add: report_connection_def updateConnectionAnnotation_def Let_def bindp_run [of "bindp _ _"]
        bindp_run [of "wrapping _ _"] split: outcome.split)
qed

lemma annotated_annotations:
  "s_data (annotated ok msg sec) = s_data sec"
  "map_of (m_annotations (s_meta (annotated ok msg sec))) =
     (map_of (m_annotations (s_meta sec)))(integrationSecretConnectionAnnotation \<mapsto> FormatBool ok,
        integrationSecretErrorAnnotation := (if msg = [] then None else Some msg))"
  by (auto simp: annotated_def Let_def)

text \<open>
  The request that tells whether the service of a secret answers, by the type in the
  secret's label, with the credentials the service takes.
\<close>

definition service_probe :: "secret \<Rightarrow> http_request" where
  "service_probe sec =
     (let tok = smap_get (s_data sec) ''token'';
          get = (\<lambda>path auth hs. \<lparr>hq_method = ''GET'', hq_base = smap_get (s_data sec) ''url'', hq_path = path,
            hq_params = [], hq_query = [], hq_auth = auth, hq_headers = hs, hq_body = None, hq_retries = 0\<rparr>)
      in case map_of
         [(''sonar'', get ''/api/system/ping'' (BasicAuth tok []) []),
          (''nexus'', get ''/service/rest/v1/status''
             (case map_of (s_data sec) ''username'' of
                None \<Rightarrow> BearerToken tok
              | Some u \<Rightarrow> BasicAuth u (smap_get (s_data sec) ''password'')) []),
          (''dependency-track'', get ''/api/v1/team/self'' NoAuth [(''X-Api-Key'', tok)]),
          (''defectdojo'', get ''/api/v2/user_profile'' NoAuth [(''Authorization'', ''Token '' @ tok)]),
          (''argocd'', get ''/api/v1/projects'' NoAuth [(''Authorization'', ''Bearer '' @ tok)])]
         (smap_get (labels_of (s_meta sec)) ''app.edp.epam.com/secret-type'') of
       Some q \<Rightarrow> q | None \<Rightarrow> get ''/'' NoAuth [])"

text \<open>The request for a registry: Docker Hub, the registry of GitHub, and any other.\<close>

definition registry_probe :: "string \<Rightarrow> registry_auth \<Rightarrow> http_request" where
  "registry_probe url auth =
     (let full = (if has_prefix ''https://'' url then url else ''https://'' @ url);
          json = [(''Content-Type'', ''application/json'')]
      in if url = ''https://index.docker.io/v1/'' then
           \<lparr>hq_method = ''POST'', hq_base = ''https://hub.docker.com'', hq_path = ''/v2/users/login'',
            hq_params = [], hq_query = [], hq_auth = NoAuth, hq_headers = json,
            hq_body = Some (JObj [(''username'', JStr (ra_username auth)), (''password'', JStr (ra_password auth))]),
            hq_retries = 0\<rparr>
         else if has_prefix ''https://ghcr.io'' full then
           \<lparr>hq_method = ''GET'', hq_base = full, hq_path = ''/v2/_catalog'', hq_params = [], hq_query = [],
            hq_auth = BearerToken (EncodeToString (ra_password auth)), hq_headers = json, hq_body = None,
            hq_retries = 0\<rparr>
         else
           \<lparr>hq_method = ''GET'', hq_base = full, hq_path = ''/v2/'', hq_params = [], hq_query = [],
            hq_auth = BasicAuth (ra_username auth) (ra_password auth), hq_headers = [], hq_body = None,
            hq_retries = 0\<rparr>)"

text \<open>
  The request a secret calls for, if one can be made: a secret of a registry may hold no
  configuration, one that cannot be read, or one without a registry.
\<close>

definition probe_of ::
  "((string \<times> registry_auth) list \<Rightarrow> (string \<times> registry_auth) list) \<Rightarrow> secret \<Rightarrow> http_request option" where
  "probe_of range_order sec =
     (if smap_get (labels_of (s_meta sec)) ''app.edp.epam.com/secret-type'' \<noteq> ''registry''
      then Some (service_probe sec)
      else if smap_get (s_data sec) ''.dockerconfigjson'' = [] then None
      else
        (case dec_registry_config (smap_get (s_data sec) ''.dockerconfigjson'') of
           None \<Rightarrow> None
         | Some auths \<Rightarrow>
             (case range_order auths of [] \<Rightarrow> None | (url, auth) # _ \<Rightarrow> Some (registry_probe url auth))))"

text \<open>
  How the check went, after the history \<open>h\<close>: the calls it made, and the error to report,
  if any. The texts for GitHub's registry, known by its path, have a prefix of their own.
\<close>

definition checked ::
  "env \<Rightarrow> ((string \<times> registry_auth) list \<Rightarrow> (string \<times> registry_auth) list) \<Rightarrow> history \<Rightarrow> secret \<Rightarrow>
   event list \<Rightarrow> string option \<Rightarrow> bool" where
  "checked E range_order h sec calls err \<longleftrightarrow>
     (case probe_of range_order sec of
        None \<Rightarrow> calls = [] \<and> (\<exists>why. err = Some (''connection failed: '' @ why))
      | Some q \<Rightarrow>
          (case http_do E h q of
             Inl e \<Rightarrow> calls = [EvHttp q (Some e)] \<and> err = Some (''connection failed: '' @
               (if hq_path q = ''/v2/_catalog'' then ''failed to connect to GitHub registry '' else []) @ err_msg e)
           | Inr r \<Rightarrow> calls = [EvHttp q None] \<and> err =
               (if l_isSuccess (lib_of E) (hr_code r) then None
                else Some (''connection failed: '' @
                  (if hq_path q = ''/v2/_catalog'' then ''GitHub registry '' else []) @
                  ''http status code '' @ hr_status r))))"

lemma check_request_probe:
  "check_request sec = (if smap_get (labels_of (s_meta sec)) integrationSecretTypeLabel = ''registry'' then None
     else Some (service_probe sec))"
  by (auto simp: check_request_def service_probe_def newRequest_def newRequestWithAuth_def data_of_def
      smap_get_def Let_def split: option.split)

lemma service_probe_path: "hq_path (service_probe sec) \<noteq> ''/v2/_catalog''"
  by (simp add: service_probe_def Let_def)

lemma registry_entry_run:
  "checkRegistryEntry E url auth =
     (let q = registry_probe url auth; github = hq_path q = ''/v2/_catalog''
      in bindp (if github then catchp (http E q) (\<lambda>e. throw (GErr (''failed to connect to GitHub registry '' @ err_msg e)
             (err_kinds e))) else http E q)
           (expect_success E ((if github then ''GitHub registry '' else []) @ ''http status code '')))"
  by (simp add: checkRegistryEntry_def registry_probe_def checkDockerHub_def checkGitHubRegistry_def
      newRequest_def Let_def)

lemma checkConnection_checked:
  "\<exists>calls err. log (snd (checkConnection E ro d sec s)) = log s @ calls \<and> checked E ro (log s) sec calls err \<and>
     (case err of None \<Rightarrow> fst (checkConnection E ro d sec s) = Ok ()
      | Some m \<Rightarrow> \<exists>e. fst (checkConnection E ro d sec s) = Fail e \<and> m = ''connection failed: '' @ err_msg e)"
proof (cases "smap_get (labels_of (s_meta sec)) integrationSecretTypeLabel = ''registry''")
  case False
  then show ?thesis
    using service_probe_path [of sec]
    by (cases "http_do E (log s) (service_probe sec)")
      (auto simp: checkConnection_def check_request_probe checked_def probe_of_def bindp_run http_run
        expect_success_def IsSuccess_def errorf_def)
next
  case True
  note registry = checkConnection_def check_request_probe checkRegistry_def checked_def probe_of_def
    data_of_def Let_def True
  let ?raw = "smap_get (s_data sec) ''.dockerconfigjson''"
  consider "?raw = []" | "?raw \<noteq> []" "dec_registry_config ?raw = None"
    | auths where "?raw \<noteq> []" "dec_registry_config ?raw = Some auths" "ro auths = []"
    | auths url auth rest where "?raw \<noteq> []" "dec_registry_config ?raw = Some auths" "ro auths = (url, auth) # rest"
    by (metis list.exhaust not_None_eq surj_pair)
  then show ?thesis
  proof cases
    case 4
    let ?q = "registry_probe url auth"
    show ?thesis
      by (cases "http_do E (log s) ?q")
        (auto simp: registry 4 registry_entry_run bindp_run catchp_run http_run expect_success_def IsSuccess_def
          errorf_def)
  qed (auto simp: registry)
qed

text \<open>
  C34: every reconciliation that reads an integration secret makes the one request its type
  and data call for, to the address and with the credentials in the secret, and no request
  only when a registry's configuration names no registry; and it ends with an update of the
  secret that records the answer: the annotation of the connection is true exactly when the
  answer was a success, otherwise the annotation of the error holds the status of the answer
  or the reason there was none, and the data and every other annotation stay. Once that is
  stored the secret is checked again after half an hour, or after a minute when the check
  failed.
\<close>

theorem integration_secret_records_the_check:
  assumes "k_get (api_secret E) (log s) ns name = Inr sec"
    and "IntegrationSecret_Reconcile E ro d ns name s = (res, t)"
  shows "\<exists>calls err x w. checked E ro (log s @ [EvGet ''Secret'' ns name]) sec calls err \<and>
    log t = log s @ EvGet ''Secret'' ns name # calls @ [EvWrite VUpdate (ObjSecret x) w] \<and>
    s_data x = s_data sec \<and>
    map_of (m_annotations (s_meta x)) =
      (map_of (m_annotations (s_meta sec)))
        (''app.edp.epam.com/integration-secret-connected'' \<mapsto> (if err = None then ''true'' else ''false''),
         ''app.edp.epam.com/integration-secret-error'' := err) \<and>
    (w = None \<longrightarrow> res = Ok (requeue_after (if err = None then 1800 * second else 60 * second)))"
proof -
  let ?s = "s\<lparr>log := log s @ [EvGet ''Secret'' ns name], obj := sec\<rparr>"
  let ?m = "checkConnection E ro d sec"
  obtain calls err where calls: "log (snd (?m ?s)) = log ?s @ calls" "checked E ro (log ?s) sec calls err"
    and err: "case err of None \<Rightarrow> fst (?m ?s) = Ok ()
      | Some m \<Rightarrow> \<exists>e. fst (?m ?s) = Fail e \<and> m = ''connection failed: '' @ err_msg e"
    using checkConnection_checked by blast
  have o: "obj (snd (?m ?s)) = sec"
    using keeps_objD [OF keeps_checkConnection, of E ro d sec ?s] by simp
  obtain r where r: "fst (?m ?s) = (case r of Inl e \<Rightarrow> Fail e | Inr _ \<Rightarrow> Ok ())"
    and run: "IntegrationSecret_Reconcile E ro d ns name s = report_connection E r (snd (?m ?s))"
    by (rule IntegrationSecret_run [of E s ns name sec, OF assms(1)])
  have told: "(case r of Inl _ \<Rightarrow> False | Inr _ \<Rightarrow> True) \<longleftrightarrow> err = None"
    "(case r of Inl e \<Rightarrow> ''connection failed: '' @ err_msg e | Inr _ \<Rightarrow> []) = (case err of None \<Rightarrow> [] | Some m \<Rightarrow> m)"
    "err \<noteq> Some []"
    using err r by (auto split: option.splits sum.splits)
  let ?x = "annotated (err = None) (case err of None \<Rightarrow> [] | Some m \<Rightarrow> m) sec"
  let ?w = "case k_write (api_secret E) (log (snd (?m ?s))) VUpdate ?x ?x of Inl e \<Rightarrow> Some e | Inr _ \<Rightarrow> None"
  show ?thesis
  proof (intro exI conjI)
    show "checked E ro (log s @ [EvGet ''Secret'' ns name]) sec calls err" using calls(2) by simp
    show "log t = log s @ EvGet ''Secret'' ns name # calls @ [EvWrite VUpdate (ObjSecret ?x) ?w]"
      using assms(2) run calls(1) o
      by (auto simp: report_connection_run told Let_def save_run Secrets_def split: sum.split sum.splits)
    show "?w = None \<longrightarrow> res = Ok (requeue_after (if err = None then 1800 * second else 60 * second))"
      using assms(2) run calls(1) o
      by (auto simp: report_connection_run told Let_def save_run wrapping_run Secrets_def split: sum.splits)
  qed (use told(3) in \<open>auto simp: annotated_annotations FormatBool_def split: option.splits\<close>)
qed

definition sonar_secret :: secret where
  "sonar_secret = \<lparr>s_meta = (new_meta ''sonar'' ''ns'')\<lparr>m_labels := Some [(integrationSecretTypeLabel, ''sonar'')],
       m_annotations := [(integrationSecretConnectionAnnotation, ''true'')]\<rparr>,
     s_data = [(''url'', ''https://sonar'')]\<rparr>"

definition sonar_env :: env where
  "sonar_env = null_env\<lparr>api_secret := one_api sonar_secret,
     http_do := \<lambda>h q. Inr \<lparr>hr_code = 500, hr_status = ''500'', hr_body = [], hr_result = None\<rparr>\<rparr>"

theorem integration_secret_records_the_check_witness:
  "\<exists>q x w. log (snd (IntegrationSecret_Reconcile sonar_env id id ''ns'' ''sonar'' \<lparr>obj = sonar_secret, log = []\<rparr>)) =
       [EvGet ''Secret'' ''ns'' ''sonar'', EvHttp q None, EvWrite VUpdate (ObjSecret x) w] \<and>
     hq_base q = ''https://sonar'' \<and> hq_path q = ''/api/system/ping'' \<and>
     map_of (m_annotations (s_meta x)) =
       (map_of [(integrationSecretConnectionAnnotation, ''true'')])
         (integrationSecretConnectionAnnotation \<mapsto> ''false'',
          integrationSecretErrorAnnotation \<mapsto> ''connection failed: http status code 500'')"
proof -
  let ?q = "service_probe sonar_secret"
  have get: "k_get (api_secret sonar_env) (log \<lparr>obj = sonar_secret, log = []\<rparr>) ''ns'' ''sonar'' = Inr sonar_secret"
    by (simp add: sonar_env_def one_api_def)
  obtain res t where run: "IntegrationSecret_Reconcile sonar_env id id ''ns'' ''sonar'' \<lparr>obj = sonar_secret, log = []\<rparr> =
      (res, t)" by (cases "IntegrationSecret_Reconcile sonar_env id id ''ns'' ''sonar'' \<lparr>obj = sonar_secret, log = []\<rparr>")
  have q: "probe_of id sonar_secret = Some ?q" "hq_base ?q = ''https://sonar''" "hq_path ?q = ''/api/system/ping''"
    by (simp_all add: probe_of_def service_probe_def sonar_secret_def new_meta_def labels_of_def smap_get_def Let_def)
  then have "checked sonar_env id h sonar_secret calls err \<longleftrightarrow> calls = [EvHttp ?q None] \<and>
      err = Some ''connection failed: http status code 500''" for h calls err
    by (auto simp: checked_def sonar_env_def example_defs)
  with integration_secret_records_the_check [OF get run] run q show ?thesis
    by (fastforce simp: sonar_secret_def new_meta_def)
qed

end
