(* ===== verification/Sha1.thy ===== *)
theory Sha1
  imports Main
begin

unbundle bit_operations_syntax

text \<open>
  SHA-1, which \<open>crypto/sha1\<close> computes: messages are byte strings, the state is five
  32-bit words, kept as integers below \<open>2 ^ 32\<close>, and every addition wraps around.
\<close>

type_synonym word32 = int

record sha1_state =
  h_a :: word32
  h_b :: word32
  h_c :: word32
  h_d :: word32
  h_e :: word32

definition u32 :: "int \<Rightarrow> word32" where
  "u32 x = x mod 4294967296"

text \<open>The low bits move up, and the high ones, which leave the word, come in below.\<close>

definition rotl :: "nat \<Rightarrow> word32 \<Rightarrow> word32" where
  "rotl n x = u32 (x * 2 ^ n) + x div 2 ^ (32 - n)"

text \<open>The function and the constant of a round.\<close>

definition sha1_f :: "nat \<Rightarrow> word32 \<Rightarrow> word32 \<Rightarrow> word32 \<Rightarrow> word32" where
  "sha1_f t b c d =
     (if t < 20 then (b AND c) XOR ((b XOR 0xFFFFFFFF) AND d)
      else if t < 40 then b XOR c XOR d
      else if t < 60 then (b AND c) XOR (b AND d) XOR (c AND d)
      else b XOR c XOR d)"

definition sha1_k :: "nat \<Rightarrow> word32" where
  "sha1_k t = (if t < 20 then 0x5A827999 else if t < 40 then 0x6ED9EBA1
     else if t < 60 then 0x8F1BBCDC else 0xCA62C1D6)"

definition sha1_round :: "nat \<Rightarrow> word32 \<Rightarrow> sha1_state \<Rightarrow> sha1_state" where
  "sha1_round t w s =
     \<lparr>h_a = u32 (rotl 5 (h_a s) + sha1_f t (h_b s) (h_c s) (h_d s) + h_e s + sha1_k t + w),
      h_b = h_a s, h_c = rotl 30 (h_b s), h_d = h_c s, h_e = h_d s\<rparr>"

text \<open>
  The message schedule: the window holds the last sixteen words, the oldest first; a new
  word is made of four of them.
\<close>

fun sha1_rounds :: "nat \<Rightarrow> nat \<Rightarrow> word32 list \<Rightarrow> sha1_state \<Rightarrow> sha1_state" where
  "sha1_rounds 0 t ws s = s"
| "sha1_rounds (Suc n) t ws s =
     (case ws of
        [] \<Rightarrow> s
      | w # r \<Rightarrow>
          let w' = rotl 1 (ws ! 13 XOR ws ! 8 XOR ws ! 2 XOR w)
          in sha1_rounds n (Suc t) (r @ [w']) (sha1_round t w s))"

fun words_of :: "string \<Rightarrow> word32 list" where
  "words_of (a # b # c # d # r) =
     (((of_char a * 256 + of_char b) * 256 + of_char c) * 256 + of_char d) # words_of r"
| "words_of _ = []"

definition bytes_of :: "word32 \<Rightarrow> string" where
  "bytes_of w = [char_of (w div 16777216), char_of (w div 65536), char_of (w div 256), char_of w]"

definition sha1_init :: sha1_state where
  "sha1_init = \<lparr>h_a = 0x67452301, h_b = 0xEFCDAB89, h_c = 0x98BADCFE, h_d = 0x10325476, h_e = 0xC3D2E1F0\<rparr>"

definition sha1_block :: "string \<Rightarrow> sha1_state \<Rightarrow> sha1_state" where
  "sha1_block bs s =
     (let r = sha1_rounds 80 0 (words_of bs) s
      in \<lparr>h_a = u32 (h_a s + h_a r), h_b = u32 (h_b s + h_b r), h_c = u32 (h_c s + h_c r),
          h_d = u32 (h_d s + h_d r), h_e = u32 (h_e s + h_e r)\<rparr>)"

text \<open>Padding: a one bit, zeros, and the length in bits as eight bytes.\<close>

definition sha1_pad :: "string \<Rightarrow> string" where
  "sha1_pad bs =
     (let n = length bs; z = (119 - n mod 64) mod 64
      in bs @ [CHR 0x80] @ replicate z CHR 0x00 @
         map (\<lambda>i. char_of (8 * int n div 2 ^ i)) [56, 48, 40, 32, 24, 16, 8, 0])"

function sha1_blocks :: "string \<Rightarrow> sha1_state \<Rightarrow> sha1_state" where
  "sha1_blocks bs s = (if bs = [] then s else sha1_blocks (drop 64 bs) (sha1_block (take 64 bs) s))"
  by auto
termination by (relation "measure (length \<circ> fst)") auto

declare sha1_blocks.simps [simp del]

definition sha1_Sum :: "string \<Rightarrow> string" where
  "sha1_Sum bs =
     (let s = sha1_blocks (sha1_pad bs) sha1_init
      in concat (map bytes_of [h_a s, h_b s, h_c s, h_d s, h_e s]))"

text \<open>Two known digests: of \<open>abc\<close>, and of the header of a packfile without objects.\<close>

lemma sha1_abc:
  "map of_char (sha1_Sum ''abc'') = [0xA9, 0x99, 0x3E, 0x36, 0x47, 0x06, 0x81, 0x6A, 0xBA, 0x3E,
     0x25, 0x71, 0x78, 0x50, 0xC2, 0x6C, 0x9C, 0xD0, 0xD8, 0x9D :: int]"
  by code_simp

lemma sha1_pack:
  "sha1_Sum (''PACK'' @ [CHR 0x00, CHR 0x00, CHR 0x00, CHR 0x02, CHR 0x00, CHR 0x00, CHR 0x00, CHR 0x00]) =
   [CHR 0x02, CHR 0x9D, CHR 0x08, CHR 0x82, CHR 0x3B, CHR 0xD8, CHR 0xA8, CHR 0xEA, CHR 0xB5, CHR 0x10,
    CHR 0xAD, CHR 0x6A, CHR 0xC7, CHR 0x5C, CHR 0x82, CHR 0x3C, CHR 0xFD, CHR 0x3E, CHR 0xD3, CHR 0x1E]"
  by code_simp

end
