(* ===== verification/Git_Client.thy ===== *)
theory Git_Client
  imports Ssh_Host_Key Sha1
begin

text \<open>
  The git client (\<open>pkg/git/provider.go\<close>, \<open>pkg/git/transport.go\<close>) over go-git, which is a
  parameter: the operations on a working copy, and those on a remote repository that need
  no clone. Closing a session cannot change a result and is left out, as are progress
  reports.
\<close>

abbreviation defaultSSHUser :: string where "defaultSSHUser \<equiv> ''git''"
abbreviation defaultCommitName :: string where "defaultCommitName \<equiv> ''codebase''"
abbreviation defaultCommitEmail :: string where "defaultCommitEmail \<equiv> ''codebase@krci.local''"

definition NewGitProvider :: "git_config \<Rightarrow> git_config" where
  "NewGitProvider cfg =
     (let cfg1 = (if gc_sshUser cfg = [] then cfg\<lparr>gc_sshUser := defaultSSHUser\<rparr> else cfg)
      in if gc_sshPort cfg1 = 0 then cfg1\<lparr>gc_sshPort := defaultSSHPort\<rparr> else cfg1)"

section \<open>Authentication and errors\<close>

definition getTokenAuth :: "git_config \<Rightarrow> git_auth" where
  "getTokenAuth p =
     (if gc_gitProvider p = GitProviderGithub then GitBasicAuth (gc_username p) (gc_token p)
      else if gc_gitProvider p = GitProviderGitlab then GitBasicAuth ''oauth2'' (gc_token p)
      else if gc_gitProvider p = GitProviderBitbucket then GitBasicAuth (gc_username p) (gc_token p)
      else GitBasicAuth (gc_username p) (gc_token p))"

definition getAuth :: "env \<Rightarrow> git_config \<Rightarrow> gerr + git_auth" where
  "getAuth E p =
     (if gc_sshKey p \<noteq> [] then
        (case l_parsePrivateKey (lib_of E) (gc_sshKey p) of
           Some e \<Rightarrow> Inl (wrap_err ''failed to parse SSH private key'' e)
         | None \<Rightarrow> Inr (GitPublicKeys (gc_sshUser p) (gc_sshKey p)))
      else if gc_token p \<noteq> [] then Inr (getTokenAuth p)
      else Inr GitNoAuth)"

definition with_auth :: "env \<Rightarrow> git_config \<Rightarrow> (git_auth \<Rightarrow> ('o st, 'a) prog) \<Rightarrow> ('o st, 'a) prog" where
  "with_auth E p f = bindp (wrapping ''failed to get authentication'' (lift (getAuth E p))) f"

definition sshTarget :: "env \<Rightarrow> string \<Rightarrow> string" where
  "sshTarget E repoURL =
     (case l_endpoint (lib_of E) repoURL of Inl _ \<Rightarrow> repoURL | Inr (host, port) \<Rightarrow> HostPort host port)"

definition remoteErr :: "env \<Rightarrow> gerr \<Rightarrow> string \<Rightarrow> gerr" where
  "remoteErr E e repoURL = Enrich E e (sshTarget E repoURL)"

text \<open>An operation on a remote repository at a known URL, its errors enriched.\<close>

definition remotely :: "env \<Rightarrow> string \<Rightarrow> string \<Rightarrow> ('o st, 'a) prog \<Rightarrow> ('o st, 'a) prog" where
  "remotely E what repoURL m = catchp m (\<lambda>e. throw (wrap_err what (remoteErr E e repoURL)))"

definition originURL :: "env \<Rightarrow> string \<Rightarrow> ('o st, string) prog" where
  "originURL E directory =
     bindp (attempt (gogit_ask E gg_strings (GoRemoteUrls directory ''origin''))) (\<lambda>r.
     case r of Inr (url # _) \<Rightarrow> ret url | _ \<Rightarrow> ret [])"

text \<open>A transfer that finds everything up to date has not failed.\<close>

definition transfer :: "env \<Rightarrow> gogit_call \<Rightarrow> (gerr \<Rightarrow> ('o st, unit) prog) \<Rightarrow> ('o st, unit) prog" where
  "transfer E c failed =
     catchp (gogit_act E c) (\<lambda>e. if errors_is e KAlreadyUpToDate then ret () else failed e)"

definition origin_failed :: "env \<Rightarrow> string \<Rightarrow> string \<Rightarrow> gerr \<Rightarrow> ('o st, unit) prog" where
  "origin_failed E what directory e =
     bindp (originURL E directory) (\<lambda>url. throw (wrap_err what (remoteErr E e url)))"

definition open_repo :: "env \<Rightarrow> string \<Rightarrow> ('o st, unit) prog" where
  "open_repo E directory =
     wrapping (''failed to open repository at '' @ quoted directory) (gogit_act E (GoPlainOpen directory))"

definition open_worktree :: "env \<Rightarrow> string \<Rightarrow> ('o st, unit) prog" where
  "open_worktree E directory = wrapping ''failed to get worktree'' (gogit_act E (GoWorktree directory))"

section \<open>The working copy\<close>

definition Clone :: "env \<Rightarrow> git_config \<Rightarrow> string \<Rightarrow> string \<Rightarrow> ('o st, unit) prog" where
  "Clone E p repoURL destination =
     with_auth E p (\<lambda>auth.
     bindp (remotely E ''failed to clone repository'' repoURL
              (gogit_act E (GoPlainClone repoURL destination auth))) (\<lambda>_.
     transfer E (GoFetch destination ''origin'' auth
         [''+refs/heads/*:refs/heads/*'', ''+refs/tags/*:refs/tags/*''] False)
       (\<lambda>e. throw (wrap_err ''failed to fetch all branches and tags'' (remoteErr E e repoURL)))))"

definition Commit :: "env \<Rightarrow> string \<Rightarrow> string \<Rightarrow> bool \<Rightarrow> ('o st, unit) prog" where
  "Commit E directory message allowEmptyCommit =
     bindp (open_repo E directory) (\<lambda>_.
     bindp (open_worktree E directory) (\<lambda>_.
     bindp (wrapping ''failed to add files to index'' (gogit_act E (GoAddAll directory))) (\<lambda>_.
     bindp (if allowEmptyCommit then ret False
            else wrapping ''failed to get status'' (gogit_ask E gg_bool (GoStatus directory))) (\<lambda>clean.
     if clean then ret ()
     else
       bindp (now E) (\<lambda>t.
       wrapping ''failed to commit'' (gogit_act E
         (GoCommit directory message defaultCommitName defaultCommitEmail t allowEmptyCommit)))))))"

definition Push :: "env \<Rightarrow> git_config \<Rightarrow> string \<Rightarrow> string list \<Rightarrow> ('o st, unit) prog" where
  "Push E p directory refspecs =
     bindp (open_repo E directory) (\<lambda>_.
     with_auth E p (\<lambda>auth.
     transfer E (GoPush directory ''origin'' auth refspecs)
       (origin_failed E ''failed to push'' directory)))"

definition Checkout :: "env \<Rightarrow> git_config \<Rightarrow> string \<Rightarrow> string \<Rightarrow> bool \<Rightarrow> ('o st, unit) prog" where
  "Checkout E p directory branchName remote =
     bindp (open_repo E directory) (\<lambda>_.
     bindp (open_worktree E directory) (\<lambda>_.
     bindp (if \<not> remote then ret True
            else
              with_auth E p (\<lambda>auth.
              bindp (transfer E (GoFetch directory [] auth [''refs/*:refs/*''] True)
                       (origin_failed E ''failed to fetch'' directory)) (\<lambda>_.
              bindp (attempt (gogit_act E (GoReference directory (l_branchRef (lib_of E) branchName)))) (\<lambda>r.
              ret (r \<noteq> Inr ()))))) (\<lambda>createBranch.
     wrapping ''failed to checkout branch''
       (gogit_act E (GoCheckout directory (l_branchRef (lib_of E) branchName) True createBranch)))))"

definition GetCurrentBranchName :: "env \<Rightarrow> string \<Rightarrow> ('o st, string) prog" where
  "GetCurrentBranchName E directory =
     bindp (open_repo E directory) (\<lambda>_.
     wrapping ''failed to get HEAD'' (gogit_ask E gg_string (GoHead directory)))"

definition RemoveBranch :: "env \<Rightarrow> string \<Rightarrow> string \<Rightarrow> ('o st, unit) prog" where
  "RemoveBranch E directory branchName =
     bindp (open_repo E directory) (\<lambda>_.
     wrapping ''failed to remove branch''
       (gogit_act E (GoRemoveReference directory (l_branchRef (lib_of E) branchName))))"

definition CreateChildBranch :: "env \<Rightarrow> string \<Rightarrow> string \<Rightarrow> string \<Rightarrow> ('o st, unit) prog" where
  "CreateChildBranch E directory parentBranch newBranch =
     bindp (open_repo E directory) (\<lambda>_.
     bindp (open_worktree E directory) (\<lambda>_.
     bindp (wrapping ''failed to checkout parent branch''
              (gogit_act E (GoCheckout directory (l_branchRef (lib_of E) parentBranch) True False))) (\<lambda>_.
     wrapping ''failed to create child branch''
       (gogit_act E (GoCheckout directory (l_branchRef (lib_of E) newBranch) False True)))))"

definition git_Init :: "env \<Rightarrow> string \<Rightarrow> ('o st, unit) prog" where
  "git_Init E directory =
     wrapping ''failed to initialize repository'' (gogit_act E (GoPlainInit directory))"

definition AddRemoteLink :: "env \<Rightarrow> string \<Rightarrow> string \<Rightarrow> ('o st, unit) prog" where
  "AddRemoteLink E directory remoteURL =
     bindp (open_repo E directory) (\<lambda>_.
     bindp (catchp (gogit_act E (GoDeleteRemote directory ''origin''))
              (\<lambda>e. if errors_is e KRemoteNotFound then ret ()
                   else throw (wrap_err ''failed to delete existing remote'' e))) (\<lambda>_.
     wrapping ''failed to create remote'' (gogit_act E (GoCreateRemote directory ''origin'' remoteURL))))"

definition CheckoutRemoteBranch :: "env \<Rightarrow> git_config \<Rightarrow> string \<Rightarrow> string \<Rightarrow> ('o st, unit) prog" where
  "CheckoutRemoteBranch E p directory branchName =
     bindp (open_repo E directory) (\<lambda>_.
     with_auth E p (\<lambda>auth.
     bindp (transfer E (GoFetch directory ''origin'' auth [''refs/*:refs/*''] True)
              (\<lambda>e. throw (wrap_err ''failed to fetch'' e))) (\<lambda>_.
     bindp (open_worktree E directory) (\<lambda>_.
     wrapping ''failed to checkout branch''
       (gogit_act E (GoCheckout directory (l_branchRef (lib_of E) branchName) True False))))))"

section \<open>The remote repository\<close>

definition memory_remote :: "env \<Rightarrow> string \<Rightarrow> ('o st, unit) prog" where
  "memory_remote E repoURL =
     wrapping ''failed to create remote'' (gogit_act E (GoMemoryRemote repoURL))"

definition ListRemoteBranches :: "env \<Rightarrow> git_config \<Rightarrow> string \<Rightarrow> ('o st, string list) prog" where
  "ListRemoteBranches E p repoURL =
     with_auth E p (\<lambda>auth.
     bindp (memory_remote E repoURL) (\<lambda>_.
     bindp (attempt (gogit_ask E gg_refs (GoList repoURL auth))) (\<lambda>r.
     case r of
       Inl e \<Rightarrow>
         if errors_is e KEmptyRemoteRepository then ret []
         else throw (wrap_err ''failed to list remote references'' (remoteErr E e repoURL))
     | Inr refs \<Rightarrow> ret (map snd (filter fst refs)))))"

definition CheckPermissions :: "env \<Rightarrow> git_config \<Rightarrow> string \<Rightarrow> ('o st, unit) prog" where
  "CheckPermissions E p repoURL =
     (if gc_sshKey p = [] \<and> gc_token p = [] then ret ()
      else
        with_auth E p (\<lambda>auth.
        bindp (memory_remote E repoURL) (\<lambda>_.
        bindp (attempt (gogit_ask E gg_refs (GoList repoURL auth))) (\<lambda>r.
        case r of
          Inl e \<Rightarrow>
            if errors_is e KEmptyRemoteRepository then ret ()
            else if IsVerificationError e then throw (remoteErr E e repoURL)
            else throw (wrap_err ''permission denied or repository not found'' e)
        | Inr _ \<Rightarrow> ret ()))))"

section \<open>References without a clone\<close>

definition ErrReferenceNotFound :: gerr where
  "ErrReferenceNotFound = GErr ''reference not found in remote repository'' [KReferenceNotFound]"

abbreviation ZeroHash :: string where "ZeroHash \<equiv> replicate 40 CHR ''0''"

definition resolveAdvertisedRef :: "env \<Rightarrow> adv_refs \<Rightarrow> string \<Rightarrow> gerr + string" where
  "resolveAdvertisedRef E advRefs ref =
     (if ref = [] then
        (case ar_head advRefs of
           Some h \<Rightarrow> Inr h
         | None \<Rightarrow> Inl (wrap_err ''remote advertisement has no HEAD'' ErrReferenceNotFound))
      else
        case map_of (ar_references advRefs) (l_branchRef (lib_of E) ref) of
          Some hash \<Rightarrow> Inr hash
        | None \<Rightarrow>
            let tagRef = l_tagRef (lib_of E) ref in
            (case map_of (ar_peeled advRefs) tagRef of
               Some hash \<Rightarrow> Inr hash
             | None \<Rightarrow>
                 (case map_of (ar_references advRefs) tagRef of
                    Some hash \<Rightarrow> Inr hash
                  | None \<Rightarrow>
                      let hash = l_newHash (lib_of E) ref in
                      if hash \<noteq> ZeroHash \<and> equal_fold hash ref then Inr hash
                      else Inl (wrap_err (''failed to resolve '' @ quoted ref) ErrReferenceNotFound))))"

definition newTransportClient :: "env \<Rightarrow> git_config \<Rightarrow> string \<Rightarrow> ('o st, git_auth) prog" where
  "newTransportClient E p repoURL =
     with_auth E p (\<lambda>auth.
     bindp (wrapping (''failed to parse repository URL '' @ quoted repoURL)
              (lift (l_endpoint (lib_of E) repoURL))) (\<lambda>ep.
     bindp (wrapping ''failed to create transport client'' (gogit_act E (GoNewClient repoURL))) (\<lambda>_.
     ret auth)))"

definition advertisedReferences :: "env \<Rightarrow> git_config \<Rightarrow> string \<Rightarrow> ('o st, adv_refs) prog" where
  "advertisedReferences E p repoURL =
     bindp (newTransportClient E p repoURL) (\<lambda>auth.
     bindp (remotely E ''failed to open upload-pack session'' repoURL
              (gogit_act E (GoUploadPackSession repoURL auth))) (\<lambda>_.
     catchp (gogit_ask E gg_advertised (GoAdvertised repoURL False)) (\<lambda>e.
       if errors_is e KEmptyRemoteRepository \<or> errors_is e KRepositoryNotFound
       then throw (wrap_err ''remote repository is empty or missing'' ErrReferenceNotFound)
       else throw (wrap_err ''failed to get advertised references'' (remoteErr E e repoURL)))))"

definition ResolveRemoteReference :: "env \<Rightarrow> git_config \<Rightarrow> string \<Rightarrow> string \<Rightarrow> ('o st, string) prog" where
  "ResolveRemoteReference E p repoURL ref =
     bindp (advertisedReferences E p repoURL) (\<lambda>advRefs.
     lift (resolveAdvertisedRef E advRefs ref))"

text \<open>\<open>AppendUint32\<close> of the version and of the count, and the checksum of the header.\<close>

definition big_endian32 :: "nat \<Rightarrow> string" where
  "big_endian32 n = map (\<lambda>i. char_of (n div 256 ^ i)) [3, 2, 1, 0]"

definition emptyPackfile :: string where
  "emptyPackfile = (let header = ''PACK'' @ big_endian32 2 @ big_endian32 0 in header @ sha1_Sum header)"

text \<open>The session that creates the branch, once the hash is known.\<close>

definition create_branch_at ::
  "env \<Rightarrow> string \<Rightarrow> string \<Rightarrow> string \<Rightarrow> git_auth \<Rightarrow> ('o st, unit) prog" where
  "create_branch_at E repoURL branchName hash auth =
     bindp (remotely E ''failed to open receive-pack session'' repoURL
              (gogit_act E (GoReceivePackSession repoURL auth))) (\<lambda>_.
     bindp (remotely E ''failed to get advertised references'' repoURL
              (gogit_ask E gg_advertised (GoAdvertised repoURL True))) (\<lambda>advRefs.
     let branchRef = l_branchRef (lib_of E) branchName in
     if map_of (ar_references advRefs) branchRef \<noteq> None then ret ()
     else
       bindp (wrapping (''failed to create remote branch '' @ branchName)
                (gogit_ask E gg_report (GoReceivePack repoURL (ar_capabilities advRefs)
                   [(branchRef, ZeroHash, l_newHash (lib_of E) hash)] emptyPackfile))) (\<lambda>reportStatus.
       case reportStatus of
         Some e \<Rightarrow> throw (wrap_err (''remote rejected branch '' @ branchName @ '' creation'') e)
       | None \<Rightarrow> ret ())))"

definition CreateRemoteBranchViaRefUpdate ::
  "env \<Rightarrow> git_config \<Rightarrow> string \<Rightarrow> string \<Rightarrow> string \<Rightarrow> ('o st, unit) prog" where
  "CreateRemoteBranchViaRefUpdate E p repoURL branchName fromRef =
     (if fromRef = [] then throw (wrap_err ''fromRef must not be empty'' ErrReferenceNotFound)
      else
        bindp (ResolveRemoteReference E p repoURL fromRef) (\<lambda>hash.
        bindp (newTransportClient E p repoURL) (\<lambda>auth.
        create_branch_at E repoURL branchName hash auth)))"

section \<open>Properties\<close>

definition option_list :: "'a option \<Rightarrow> 'a list" where
  "option_list x = (case x of None \<Rightarrow> [] | Some y \<Rightarrow> [y])"

text \<open>The hashes a reference may stand for, in the order git prefers them.\<close>

definition ref_candidates :: "env \<Rightarrow> adv_refs \<Rightarrow> string \<Rightarrow> string list" where
  "ref_candidates E adv ref =
     (if ref = [] then option_list (ar_head adv)
      else option_list (map_of (ar_references adv) (l_branchRef (lib_of E) ref)) @
        option_list (map_of (ar_peeled adv) (l_tagRef (lib_of E) ref)) @
        option_list (map_of (ar_references adv) (l_tagRef (lib_of E) ref)) @
        filter (\<lambda>h. h \<noteq> ZeroHash \<and> equal_fold h ref) [l_newHash (lib_of E) ref])"

text \<open>
  A reference resolves as git resolves it: to the first of the branch of that name, the
  commit its tag is peeled to, the tag, and the full hash it is itself; the empty
  reference to the head. When there is none the error is that the reference is not found,
  and it is that error in no other case.
\<close>

theorem reference_resolution_order:
  "resolveAdvertisedRef E adv ref =
     (case ref_candidates E adv ref of
        h # _ \<Rightarrow> Inr h
      | [] \<Rightarrow> Inl (wrap_err (if ref = [] then ''remote advertisement has no HEAD''
                           else ''failed to resolve '' @ quoted ref) ErrReferenceNotFound))"
  by (simp add: resolveAdvertisedRef_def ref_candidates_def option_list_def Let_def split: option.split)

text \<open>The packfile without objects: version 2, no object, and the checksum of that.\<close>

lemma emptyPackfile_bytes:
  "emptyPackfile = ''PACK'' @ [CHR 0x00, CHR 0x00, CHR 0x00, CHR 0x02, CHR 0x00, CHR 0x00, CHR 0x00, CHR 0x00,
     CHR 0x02, CHR 0x9D, CHR 0x08, CHR 0x82, CHR 0x3B, CHR 0xD8, CHR 0xA8, CHR 0xEA, CHR 0xB5, CHR 0x10,
     CHR 0xAD, CHR 0x6A, CHR 0xC7, CHR 0x5C, CHR 0x82, CHR 0x3C, CHR 0xFD, CHR 0x3E, CHR 0xD3, CHR 0x1E]"
proof -
  have "big_endian32 2 = [CHR 0x00, CHR 0x00, CHR 0x00, CHR 0x02]"
    "big_endian32 0 = [CHR 0x00, CHR 0x00, CHR 0x00, CHR 0x00]"
    by (simp_all add: big_endian32_def char_of_def bit_0 bit_Suc_0_iff)
  then show ?thesis using sha1_pack by (simp add: emptyPackfile_def Let_def)
qed

lemma length_emptyPackfile: "length emptyPackfile = 32"
  by (simp add: emptyPackfile_bytes)

text \<open>An event that sends no reference update.\<close>

definition no_update :: "event \<Rightarrow> bool" where
  "no_update ev \<longleftrightarrow> (case ev of EvGoGit (GoReceivePack _ _ _ _) _ \<Rightarrow> False | _ \<Rightarrow> True)"

lemma appends_no_update [appends_intros]:
  "appends no_update (newTransportClient E p url)"
  "appends no_update (ResolveRemoteReference E p url ref)"
  unfolding newTransportClient_def ResolveRemoteReference_def advertisedReferences_def with_auth_def
    remotely_def
  by (intro appends_intros; simp add: no_update_def)+

lemma resolved:
  assumes "fst (ResolveRemoteReference E p url ref s) = Ok hash"
  shows "\<exists>h adv. gg_advertised (gogit_of E) h (GoAdvertised url False) = Inr adv \<and>
    resolveAdvertisedRef E adv ref = Inr hash"
  using assms
  by (auto simp: ResolveRemoteReference_def advertisedReferences_def bindp_run catchp_run gogit_ask_def ask_run
      lift_def split: outcome.splits sum.splits if_splits)

text \<open>The one update a session sends, once the references are advertised.\<close>

definition send_update :: "env \<Rightarrow> string \<Rightarrow> string \<Rightarrow> string \<Rightarrow> adv_refs \<Rightarrow> ('o st, unit) prog" where
  "send_update E url b hash adv =
     (if map_of (ar_references adv) (l_branchRef (lib_of E) b) \<noteq> None then ret ()
      else bindp (wrapping (''failed to create remote branch '' @ b)
                (gogit_ask E gg_report (GoReceivePack url (ar_capabilities adv)
                   [(l_branchRef (lib_of E) b, ZeroHash, l_newHash (lib_of E) hash)] emptyPackfile))) (\<lambda>r.
           case r of Some e \<Rightarrow> throw (wrap_err (''remote rejected branch '' @ b @ '' creation'') e)
           | None \<Rightarrow> ret ()))"

lemma create_branch_at_send:
  "create_branch_at E url b hash auth =
     bindp (remotely E ''failed to open receive-pack session'' url (gogit_act E (GoReceivePackSession url auth))) (\<lambda>_.
     bindp (remotely E ''failed to get advertised references'' url
              (gogit_ask E gg_advertised (GoAdvertised url True))) (send_update E url b hash))"
  by (simp add: create_branch_at_def send_update_def [abs_def] Let_def)

lemma grows_send_update: "appends (\<lambda>_. True) (send_update E url b hash adv)"
  unfolding send_update_def by (intro appends_intros) simp_all

lemma appends_no_update_session:
  "appends no_update (remotely E w url (gogit_act E (GoReceivePackSession url' auth)))"
  "appends no_update (remotely E w url (gogit_ask E gg_advertised (GoAdvertised url' u)))"
  unfolding remotely_def by (intro appends_intros; simp add: no_update_def)+

lemma send_update_sends:
  assumes "EvGoGit (GoReceivePack url' caps cmds pack) e \<in> set (added s (snd (send_update E url b hash adv s)))"
  shows "url' = url \<and> pack = emptyPackfile \<and> caps = ar_capabilities adv \<and>
    cmds = [(l_branchRef (lib_of E) b, ZeroHash, l_newHash (lib_of E) hash)] \<and>
    map_of (ar_references adv) (l_branchRef (lib_of E) b) = None"
proof (cases "map_of (ar_references adv) (l_branchRef (lib_of E) b)")
  case None
  with assms show ?thesis
    by (simp add: send_update_def bindp_run wrapping_run gogit_ask_def ask_run added_def split: sum.splits option.splits)
next
  case (Some h)
  with assms show ?thesis by (simp add: send_update_def added_def)
qed

lemma advertised:
  assumes "fst (remotely E w url (gogit_ask E gg_advertised c) s) = Ok adv"
  shows "\<exists>h. gg_advertised (gogit_of E) h c = Inr adv"
  using assms by (auto simp: remotely_def catchp_run gogit_ask_def ask_run split: sum.splits)

lemma create_branch_at_updates:
  fixes s :: "'o st"
  assumes "EvGoGit (GoReceivePack url' caps cmds pack) e \<in> set (added s (snd (create_branch_at E url b hash auth s)))"
  shows "url' = url \<and> pack = emptyPackfile \<and>
    cmds = [(l_branchRef (lib_of E) b, ZeroHash, l_newHash (lib_of E) hash)] \<and>
    (\<exists>h adv. gg_advertised (gogit_of E) h (GoAdvertised url True) = Inr adv \<and>
       map_of (ar_references adv) (l_branchRef (lib_of E) b) = None \<and> caps = ar_capabilities adv)"
proof -
  let ?ev = "EvGoGit (GoReceivePack url' caps cmds pack) e"
  have bad: "\<not> no_update ?ev" by (simp add: no_update_def)
  have tail: "appends (\<lambda>_. True) (bindp (remotely E ''failed to get advertised references'' url
      (gogit_ask E gg_advertised (GoAdvertised url True))) (send_update E url b hash) :: ('o st, unit) prog)"
    by (intro appends_intros appends_mono [OF appends_no_update_session(2)] grows_send_update) simp
  obtain t :: "'o st" where "?ev \<in> set (added t (snd (bindp (remotely E ''failed to get advertised references'' url
      (gogit_ask E gg_advertised (GoAdvertised url True))) (send_update E url b hash) t)))"
    using added_bindp_later [OF appends_no_update_session(1) assms [unfolded create_branch_at_send] bad tail] by blast
  from added_bindp_later [OF appends_no_update_session(2) this bad grows_send_update]
  obtain adv and t' :: "'o st" where "fst (remotely E ''failed to get advertised references'' url
      (gogit_ask E gg_advertised (GoAdvertised url True)) t) = Ok adv"
    and "?ev \<in> set (added t' (snd (send_update E url b hash adv t')))" by blast
  with send_update_sends advertised show ?thesis by metis
qed

lemma grows_create_branch_at: "appends (\<lambda>_. True) (create_branch_at E url b hash auth)"
  unfolding create_branch_at_send
  by (intro appends_intros appends_mono [OF appends_no_update_session(1)]
      appends_mono [OF appends_no_update_session(2)] grows_send_update) simp_all

text \<open>
  C35: creating a remote branch never moves or deletes one. A reference update is sent only
  when the reference to start from is not empty and resolves in what the remote
  advertises, and when the remote advertises no branch of the new name; it is then one
  command, whose old hash is zero, so that the server creates the branch or refuses, and
  whose new hash is the resolved one; and it carries no object, only the 32 bytes of an
  empty packfile.
\<close>

theorem remote_branch_is_only_created:
  fixes s :: "'o st"
  assumes "EvGoGit (GoReceivePack url' caps cmds pack) e \<in>
    set (added s (snd (CreateRemoteBranchViaRefUpdate E p url b from_ref s)))"
  shows "from_ref \<noteq> [] \<and> url' = url \<and> pack = emptyPackfile \<and> length pack = 32 \<and>
    (\<exists>h1 h2 adv1 adv2 hash. gg_advertised (gogit_of E) h1 (GoAdvertised url False) = Inr adv1 \<and>
       resolveAdvertisedRef E adv1 from_ref = Inr hash \<and>
       gg_advertised (gogit_of E) h2 (GoAdvertised url True) = Inr adv2 \<and>
       map_of (ar_references adv2) (l_branchRef (lib_of E) b) = None \<and>
       cmds = [(l_branchRef (lib_of E) b, replicate 40 CHR ''0'', l_newHash (lib_of E) hash)])"
proof -
  let ?ev = "EvGoGit (GoReceivePack url' caps cmds pack) e"
  have from_ref: "from_ref \<noteq> []"
    using assms by (auto simp: CreateRemoteBranchViaRefUpdate_def added_def)
  have bad: "\<not> no_update ?ev" by (simp add: no_update_def)
  let ?f = "\<lambda>hash. bindp (newTransportClient E p url) (\<lambda>auth. create_branch_at E url b hash auth)"
  have grows: "appends (\<lambda>_. True) (?f hash :: ('o st, unit) prog)" for hash
    by (intro appends_intros appends_mono [OF appends_no_update(1)] grows_create_branch_at) simp
  from assms from_ref
  have "?ev \<in> set (added s (snd (bindp (ResolveRemoteReference E p url from_ref) ?f s)))"
    by (simp add: CreateRemoteBranchViaRefUpdate_def)
  from added_bindp_later [OF appends_no_update(2) this bad grows]
  obtain hash and t :: "'o st" where hash: "fst (ResolveRemoteReference E p url from_ref s) = Ok hash"
    and "?ev \<in> set (added t (snd (?f hash t)))" by blast
  from added_bindp_later [OF appends_no_update(1) this(2) bad grows_create_branch_at]
  obtain auth and t' :: "'o st" where "?ev \<in> set (added t' (snd (create_branch_at E url b hash auth t')))"
    by blast
  from create_branch_at_updates [OF this] resolved [OF hash] from_ref
  show ?thesis using length_emptyPackfile by blast
qed

section \<open>Example\<close>

text \<open>A repository with an annotated tag, which is peeled to a commit, and no branch yet.\<close>

definition tagged_env :: env where
  "tagged_env = null_env\<lparr>gogit_of := null_gogit\<lparr>gg_advertised := \<lambda>h c. Inr
     \<lparr>ar_head = None, ar_references = [(''refs/tags/v1'', replicate 40 CHR ''a'')],
      ar_peeled = [(''refs/tags/v1'', replicate 40 CHR ''b'')], ar_capabilities = []\<rparr>\<rparr>\<rparr>"

theorem remote_branch_is_only_created_witness:
  "\<exists>adv1 hash. resolveAdvertisedRef tagged_env adv1 ''v1'' = Inr hash \<and>
     [(''refs/heads/new'', ZeroHash, replicate 40 CHR ''b'')] =
       [(l_branchRef (lib_of tagged_env) ''new'', ZeroHash, l_newHash (lib_of tagged_env) hash)]"
proof -
  have hash: "l_newHash (lib_of tagged_env) (replicate 40 CHR ''b'') = replicate 40 CHR ''b''"
    by (simp add: tagged_env_def null_env_def null_lib_def, code_simp)
  have "EvGoGit (GoReceivePack ''url'' [] [(''refs/heads/new'', ZeroHash, replicate 40 CHR ''b'')] emptyPackfile) None \<in>
    set (added \<lparr>obj = (), log = []\<rparr> (snd (CreateRemoteBranchViaRefUpdate tagged_env
      \<lparr>gc_sshKey = [], gc_sshUser = [], gc_sshPort = 0, gc_gitProvider = [], gc_token = [], gc_username = []\<rparr>
      ''url'' ''new'' ''v1'' \<lparr>obj = (), log = []\<rparr>)))"
    using hash
    by (simp add: CreateRemoteBranchViaRefUpdate_def ResolveRemoteReference_def advertisedReferences_def
        newTransportClient_def with_auth_def remotely_def create_branch_at_def getAuth_def resolveAdvertisedRef_def
        Let_def bindp_run catchp_run wrapping_run gogit_ask_def gogit_act_def ask_run asku_run lift_def added_def
        tagged_env_def null_env_def null_lib_def null_gogit_def)
  from remote_branch_is_only_created [OF this] show ?thesis by auto
qed

end
