(* ===== verification/Event_Filters.thy ===== *)
theory Event_Filters
  imports Webhooks Codebase_Controller Branch_Controller Image_Stream_Controller Jira_Server_Controller
    Jira_Metadata_Controller
begin

text \<open>
  Which events of the cluster start a reconciliation: the predicates each controller is
  registered with (\<open>SetupWithManager\<close>). The library asks all of them; a predicate of the
  type \<open>Funcs\<close> says yes to the events it has no function for.
\<close>

datatype controller = CodebaseController | BranchController | StageDeployController
  | ImageStreamController | GitServerController | JiraServerController | MetadataController

text \<open>An event names what was created, deleted or updated; its objects are never nil.\<close>

datatype watch_event = Created kobj | Deleted kobj | Updated kobj kobj | Generic kobj

fun object_meta :: "kobj \<Rightarrow> objmeta option" where
  "object_meta (ObjCodebase x) = Some (c_meta x)"
| "object_meta (ObjBranch x) = Some (b_meta x)"
| "object_meta (ObjStageDeploy x) = Some (sd_meta x)"
| "object_meta (ObjImageStream x) = Some (is_meta x)"
| "object_meta (ObjGitServer x) = Some (gs_meta x)"
| "object_meta (ObjJiraServer x) = Some (js_meta x)"
| "object_meta (ObjJiraIssueMetadata x) = Some (jm_meta x)"
| "object_meta _ = None"

section \<open>The filters of the updates\<close>

definition codebase_update_filter :: "kobj \<Rightarrow> kobj \<Rightarrow> bool" where
  "codebase_update_filter old new =
     (case (old, new) of
        (ObjCodebase oo, ObjCodebase no) \<Rightarrow>
          PauseAnnotationChanged (Some (c_meta oo)) (Some (c_meta no)) \<or>
          c_spec oo \<noteq> c_spec no \<or> m_deletion (c_meta no) \<noteq> None
      | _ \<Rightarrow> False)"

definition branch_update_filter :: "kobj \<Rightarrow> kobj \<Rightarrow> bool" where
  "branch_update_filter old new =
     (case (old, new) of
        (ObjBranch oo, ObjBranch no) \<Rightarrow>
          PauseAnnotationChanged (Some (b_meta oo)) (Some (b_meta no)) \<or>
          b_spec oo \<noteq> b_spec no \<or> m_deletion (b_meta no) \<noteq> None
      | _ \<Rightarrow> False)"

definition stage_deploy_update_filter :: "kobj \<Rightarrow> kobj \<Rightarrow> bool" where
  "stage_deploy_update_filter old new =
     (case (old, new) of
        (ObjStageDeploy oo, ObjStageDeploy no) \<Rightarrow>
          PauseAnnotationChanged (Some (sd_meta oo)) (Some (sd_meta no))
      | _ \<Rightarrow> False)"

text \<open>The functions of each controller's own predicate; the image streams also refuse creations.\<close>

fun funcs_predicate :: "controller \<Rightarrow> watch_event \<Rightarrow> bool" where
  "funcs_predicate CodebaseController (Updated old new) = codebase_update_filter old new"
| "funcs_predicate BranchController (Updated old new) = branch_update_filter old new"
| "funcs_predicate StageDeployController (Updated old new) = stage_deploy_update_filter old new"
| "funcs_predicate ImageStreamController (Updated old new) = image_stream_update_filter old new"
| "funcs_predicate ImageStreamController (Created x) = False"
| "funcs_predicate JiraServerController (Updated old new) = jira_server_update_filter old new"
| "funcs_predicate MetadataController (Updated old new) = metadata_update_filter old new"
| "funcs_predicate _ _ = True"

fun pause_predicate :: "watch_event \<Rightarrow> bool" where
  "pause_predicate (Created x) = Pause_event (object_meta x)"
| "pause_predicate (Deleted x) = Pause_event (object_meta x)"
| "pause_predicate (Generic x) = Pause_event (object_meta x)"
| "pause_predicate (Updated old new) = Pause_Update (object_meta old) (object_meta new)"

definition starts_reconcile :: "controller \<Rightarrow> watch_event \<Rightarrow> bool" where
  "starts_reconcile c ev \<longleftrightarrow> pause_predicate ev \<and> funcs_predicate c ev"

section \<open>Pausing and resuming\<close>

fun controller_of :: "kobj \<Rightarrow> controller option" where
  "controller_of (ObjCodebase x) = Some CodebaseController"
| "controller_of (ObjBranch x) = Some BranchController"
| "controller_of (ObjStageDeploy x) = Some StageDeployController"
| "controller_of (ObjImageStream x) = Some ImageStreamController"
| "controller_of (ObjGitServer x) = Some GitServerController"
| "controller_of (ObjJiraServer x) = Some JiraServerController"
| "controller_of (ObjJiraIssueMetadata x) = Some MetadataController"
| "controller_of _ = None"

definition watches :: "controller \<Rightarrow> kobj \<Rightarrow> bool" where
  "watches c x \<longleftrightarrow> controller_of x = Some c"

definition paused :: "kobj \<Rightarrow> bool" where
  "paused x \<longleftrightarrow> (case object_meta x of None \<Rightarrow> False
     | Some m \<Rightarrow> Option.bind (map_of (m_annotations m) pauseAnnotation) ParseBool = Some True)"

lemma watches_iff:
  "watches CodebaseController x \<longleftrightarrow> (\<exists>y. x = ObjCodebase y)"
  "watches BranchController x \<longleftrightarrow> (\<exists>y. x = ObjBranch y)"
  "watches StageDeployController x \<longleftrightarrow> (\<exists>y. x = ObjStageDeploy y)"
  "watches ImageStreamController x \<longleftrightarrow> (\<exists>y. x = ObjImageStream y)"
  "watches GitServerController x \<longleftrightarrow> (\<exists>y. x = ObjGitServer y)"
  "watches JiraServerController x \<longleftrightarrow> (\<exists>y. x = ObjJiraServer y)"
  "watches MetadataController x \<longleftrightarrow> (\<exists>y. x = ObjJiraIssueMetadata y)"
  by (cases x; simp add: watches_def)+

lemma watches_meta: "watches c x \<Longrightarrow> object_meta x \<noteq> None"
  by (cases c) (auto simp: watches_iff)

lemma paused_iff: "object_meta x = Some m \<Longrightarrow> paused x \<longleftrightarrow> \<not> Pause_run m"
  by (auto simp: paused_def Pause_run_def split: option.split)

lemma resumed_changed:
  assumes "\<not> Pause_run m" and "Pause_run m'"
  shows "PauseAnnotationChanged (Some m) (Some m')"
  using assms unfolding PauseAnnotationChanged_iff Pause_run_def by auto

lemma resumed_passes:
  assumes "watches c old" "watches c new" "object_meta old = Some m" "object_meta new = Some m'"
    and "PauseAnnotationChanged (Some m) (Some m')"
  shows "funcs_predicate c (Updated old new)"
  using assms by (cases c) (auto simp: watches_iff codebase_update_filter_def branch_update_filter_def
      stage_deploy_update_filter_def image_stream_update_filter_def jira_server_update_filter_def
      metadata_update_filter_def)

text \<open>
  C37: pausing a resource holds back every reconciliation of it and loses none. While the
  annotation of a resource says so, no creation, update, deletion or other event of it
  starts its controller; and the update that lifts the pause always does, whatever else it
  changes, so that what happened meanwhile is looked at then.
\<close>

theorem pause_delays_but_never_loses:
  assumes "watches c old" and "watches c new"
  shows "(paused new \<longrightarrow> \<not> starts_reconcile c (Created new) \<and> \<not> starts_reconcile c (Deleted new) \<and>
      \<not> starts_reconcile c (Generic new) \<and> \<not> starts_reconcile c (Updated old new)) \<and>
    (paused old \<and> \<not> paused new \<longrightarrow> starts_reconcile c (Updated old new))"
proof -
  obtain m m' where m: "object_meta old = Some m" "object_meta new = Some m'"
    using watches_meta [OF assms(1)] watches_meta [OF assms(2)] by blast
  note p = paused_iff [OF m(1)] paused_iff [OF m(2)]
  show ?thesis
    using resumed_passes [OF assms m] resumed_changed [of m m']
    by (auto simp: p m starts_reconcile_def Pause_event_def Pause_Update_def)
qed

section \<open>What a controller does to itself\<close>

text \<open>A status that is stored starts nothing, so a controller does not keep itself busy.\<close>

lemma status_update_starts_nothing:
  "m_deletion (c_meta c) = None \<Longrightarrow>
     \<not> starts_reconcile CodebaseController (Updated (ObjCodebase c) (ObjCodebase (c\<lparr>c_status := st\<rparr>)))"
  "m_deletion (b_meta b) = None \<Longrightarrow>
     \<not> starts_reconcile BranchController (Updated (ObjBranch b) (ObjBranch (b\<lparr>b_status := bt\<rparr>)))"
  "\<not> starts_reconcile StageDeployController (Updated (ObjStageDeploy d) (ObjStageDeploy (d\<lparr>sd_status := dt\<rparr>)))"
  by (simp_all add: starts_reconcile_def codebase_update_filter_def branch_update_filter_def
      stage_deploy_update_filter_def PauseAnnotationChanged_iff)

text \<open>
  A branch whose default pipelines were entered is stored and the reconciliation ends with
  nothing to repeat it. It is the update itself that starts the next one.
\<close>

lemma default_pipelines_differ:
  assumes "map_of m ''build'' = None \<or> map_of m ''review'' = None"
  shows "default_pipelines sp gs m \<noteq> m"
proof
  assume "default_pipelines sp gs m = m"
  moreover have "map_of (default_pipelines sp gs m) ''build'' \<noteq> None"
    "map_of (default_pipelines sp gs m) ''review'' \<noteq> None"
    by (auto simp: default_pipelines_def Let_def)
  ultimately show False using assms by auto
qed

lemma defaults_start_the_next:
  assumes "fst (setDefaultValues E c s) = Ok True" and "\<not> paused (ObjBranch (obj s))"
  shows "starts_reconcile BranchController
    (Updated (ObjBranch (obj s)) (ObjBranch (obj (snd (setDefaultValues E c s)))))"
proof -
  let ?b = "obj (snd (setDefaultValues E c s))"
  have b: "b_meta ?b = b_meta (obj s) \<and> bs_pipelines (b_spec ?b) \<noteq> bs_pipelines (b_spec (obj s))"
    using assms(1) default_pipelines_differ
    by (auto simp: setDefaultValues_def bindp_run kget_run wrapping_run Let_def throw_run
        split: if_splits outcome.splits sum.splits option.splits)
  then have "b_spec (obj s) \<noteq> b_spec ?b" by auto
  with b assms(2) paused_iff [of "ObjBranch (obj s)" "b_meta (obj s)"] show ?thesis
    by (simp add: starts_reconcile_def branch_update_filter_def Pause_Update_def)
qed

definition paused_codebase :: codebase where
  "paused_codebase = codebase0\<lparr>c_meta := (c_meta codebase0)\<lparr>m_annotations := [(pauseAnnotation, ''true'')]\<rparr>\<rparr>"

theorem pause_delays_but_never_loses_witness:
  "starts_reconcile CodebaseController (Updated (ObjCodebase paused_codebase) (ObjCodebase codebase0))"
proof -
  have "paused (ObjCodebase paused_codebase)"
    by (simp add: paused_def paused_codebase_def ParseBool_def)
  moreover have "\<not> paused (ObjCodebase codebase0)" by (simp add: paused_def codebase0_def new_meta_def)
  ultimately show ?thesis
    using pause_delays_but_never_loses [of CodebaseController "ObjCodebase paused_codebase" "ObjCodebase codebase0"]
    by (simp add: watches_def)
qed

end
