(* ===== verification/Telemetry.thy ===== *)
theory Telemetry
  imports Integration_Secret Templates "HOL-Library.AList"
begin

text \<open>
  The telemetry of the platform (\<open>pkg/telemetry\<close>): what is counted, how it is sent, and the
  two loops that send it, one once after a delay and one again and again.
\<close>

section \<open>The metrics\<close>

record codebase_metrics =
  cbm_lang :: string
  cbm_framework :: string
  cbm_buildTool :: string
  cbm_strategy :: string
  cbm_type :: string
  cbm_versioning :: string

record cd_pipeline_metrics =
  cdm_deploymentType :: string
  cdm_numberOfStages :: int

record platform_metrics =
  pm_codebaseMetrics :: "codebase_metrics list"
  pm_cdPipelineMetrics :: "cd_pipeline_metrics list"
  pm_gitProviders :: "string list"
  pm_jiraEnabled :: bool
  pm_registryType :: string
  pm_version :: string

definition codebase_metrics_of :: "codebase \<Rightarrow> codebase_metrics" where
  "codebase_metrics_of c =
     \<lparr>cbm_lang = cs_lang (c_spec c), cbm_framework = cs_framework (c_spec c),
      cbm_buildTool = cs_buildTool (c_spec c), cbm_strategy = cs_strategy (c_spec c),
      cbm_type = cs_type (c_spec c), cbm_versioning = cs_versioningType (c_spec c)\<rparr>"

text \<open>The maps of the loop over the stages: the deployment type and the number of stages.\<close>

fun count_stages ::
  "cd_stage list \<Rightarrow> smap \<Rightarrow> (string \<times> int) list \<Rightarrow> smap \<times> (string \<times> int) list" where
  "count_stages [] deploymentType stagesCount = (deploymentType, stagesCount)"
| "count_stages (st # sts) deploymentType stagesCount =
     (let p = st_cdPipeline st;
          n = (case map_of stagesCount p of None \<Rightarrow> 0 | Some n \<Rightarrow> n)
      in count_stages sts
           (if st_triggerType st = ''Auto'' then AList.update p ''Auto'' deploymentType else deploymentType)
           (AList.update p (n + 1) stagesCount))"

definition pipeline_metrics_of ::
  "smap \<Rightarrow> (string \<times> int) list \<Rightarrow> cd_pipeline \<Rightarrow> cd_pipeline_metrics" where
  "pipeline_metrics_of deploymentType stagesCount p =
     \<lparr>cdm_deploymentType = (case map_of deploymentType (m_name (p_meta p)) of None \<Rightarrow> ''Manual'' | Some v \<Rightarrow> v),
      cdm_numberOfStages = (case map_of stagesCount (m_name (p_meta p)) of None \<Rightarrow> 0 | Some n \<Rightarrow> n)\<rparr>"

text \<open>A slice nothing was appended to is nil, and \<open>null\<close> in the body.\<close>

definition json_slice :: "('a \<Rightarrow> json) \<Rightarrow> 'a list \<Rightarrow> json" where
  "json_slice f xs = (if xs = [] then JNull else JArr (map f xs))"

definition json_codebase_metrics :: "codebase_metrics \<Rightarrow> json" where
  "json_codebase_metrics m = JObj
     [(''lang'', JStr (cbm_lang m)), (''framework'', JStr (cbm_framework m)),
      (''buildTool'', JStr (cbm_buildTool m)), (''strategy'', JStr (cbm_strategy m)),
      (''type'', JStr (cbm_type m)), (''versioning'', JStr (cbm_versioning m))]"

definition json_cd_pipeline_metrics :: "cd_pipeline_metrics \<Rightarrow> json" where
  "json_cd_pipeline_metrics m = JObj
     [(''deploymentType'', JStr (cdm_deploymentType m)), (''numberOfStages'', JNum (itoa (cdm_numberOfStages m)))]"

definition json_platform_metrics :: "platform_metrics \<Rightarrow> json" where
  "json_platform_metrics m = JObj
     [(''codebaseMetrics'', json_slice json_codebase_metrics (pm_codebaseMetrics m)),
      (''cdPipelineMetrics'', json_slice json_cd_pipeline_metrics (pm_cdPipelineMetrics m)),
      (''gitProviders'', json_slice JStr (pm_gitProviders m)), (''jiraEnabled'', JBool (pm_jiraEnabled m)),
      (''registryType'', JStr (pm_registryType m)), (''version'', JStr (pm_version m))]"

section \<open>Sending them\<close>

definition collect_metrics :: "env \<Rightarrow> string \<Rightarrow> ('o st, platform_metrics) prog" where
  "collect_metrics E ns =
     bindp (wrapping ''failed to get config'' (GetKrciConfig E ns)) (\<lambda>config.
     bindp (wrapping ''failed to get codebases'' (klist Codebases E ns (by_labels []))) (\<lambda>codebases.
     bindp (wrapping ''failed to get git providers'' (klist GitServers E ns (by_labels []))) (\<lambda>gitProviders.
     bindp (wrapping ''failed to get stages'' (klist Stages E ns (by_labels []))) (\<lambda>stages.
     bindp (wrapping ''failed to get cd pipelines'' (klist CDPipelines E ns (by_labels []))) (\<lambda>cdPipelines.
     bindp (wrapping ''failed to get jira servers'' (klist JiraServers E ns (by_labels []))) (\<lambda>jiraServers.
     let (deploymentType, stagesCount) = count_stages stages [] [] in
     ret \<lparr>pm_codebaseMetrics = map codebase_metrics_of codebases,
          pm_cdPipelineMetrics = map (pipeline_metrics_of deploymentType stagesCount) cdPipelines,
          pm_gitProviders = map (\<lambda>gs. gs_gitProvider (gs_spec gs)) (take 1 gitProviders),
          pm_jiraEnabled = (jiraServers \<noteq> []), pm_registryType = kc_registryType config,
          pm_version = kc_edpVersion config\<rparr>))))))"

definition sendTelemetry :: "env \<Rightarrow> string \<Rightarrow> string \<Rightarrow> ('o st, unit) prog" where
  "sendTelemetry E telemetryUrl ns =
     bindp (collect_metrics E ns) (\<lambda>telemetry.
     bindp (wrapping ''failed to send telemetry'' (http E ((newRequest telemetryUrl ''POST'' ''/v1/submit'')
              \<lparr>hq_body := Some (JObj [(''platformMetrics'', json_platform_metrics telemetry)])\<rparr>))) (\<lambda>resp.
     if IsError E resp
     then throw (errorf (''failed to send telemetry: http status code: '' @ hr_status resp @
            '', body: '' @ hr_body resp))
     else ret ()))"

section \<open>When they are sent\<close>

text \<open>What a loop receives: the end of its context, or a tick that carries the time.\<close>

datatype signal = Cancelled | Tick int

text \<open>The goroutine that sends once, as soon as a tick is later than \<open>timeToSend\<close>.\<close>

fun send_delayed :: "env \<Rightarrow> string \<Rightarrow> string \<Rightarrow> int \<Rightarrow> signal list \<Rightarrow> ('o st, unit) prog" where
  "send_delayed E url ns timeToSend [] = ret ()"
| "send_delayed E url ns timeToSend (Cancelled # sgs) = ret ()"
| "send_delayed E url ns timeToSend (Tick t # sgs) =
     (if timeToSend < t then ignoring (sendTelemetry E url ns)
      else send_delayed E url ns timeToSend sgs)"

text \<open>The loop: its \<open>break\<close> leaves the \<open>select\<close>, not the loop, so a failure ends nothing.\<close>

fun send_every :: "env \<Rightarrow> string \<Rightarrow> string \<Rightarrow> signal list \<Rightarrow> ('o st, unit) prog" where
  "send_every E url ns [] = ret ()"
| "send_every E url ns (Cancelled # sgs) = ret ()"
| "send_every E url ns (Tick t # sgs) =
     bindp (ignoring (sendTelemetry E url ns)) (\<lambda>_. send_every E url ns sgs)"

section \<open>What is counted\<close>

lemma count_stages_types:
  "map_of (fst (count_stages sts dt cnt)) p =
     (if \<exists>st \<in> set sts. st_cdPipeline st = p \<and> st_triggerType st = ''Auto'' then Some ''Auto'' else map_of dt p)"
  by (induction sts arbitrary: dt cnt) (auto simp: Let_def update_conv')

lemma count_stages_numbers:
  "(case map_of (snd (count_stages sts dt cnt)) p of None \<Rightarrow> 0 | Some n \<Rightarrow> n) =
     (case map_of cnt p of None \<Rightarrow> 0 | Some n \<Rightarrow> n) + int (length (filter (\<lambda>st. st_cdPipeline st = p) sts))"
  by (induction sts arbitrary: dt cnt) (auto simp: Let_def update_conv')

text \<open>
  The metrics of a pipeline: automatic when one of its stages is, and as many stages as
  name it.
\<close>

lemma pipeline_metrics_counted:
  "(case count_stages sts [] [] of (dt, cnt) \<Rightarrow> pipeline_metrics_of dt cnt p) =
     \<lparr>cdm_deploymentType = (if \<exists>st \<in> set sts. st_cdPipeline st = m_name (p_meta p) \<and> st_triggerType st = ''Auto''
        then ''Auto'' else ''Manual''),
      cdm_numberOfStages = int (length (filter (\<lambda>st. st_cdPipeline st = m_name (p_meta p)) sts))\<rparr>"
  using count_stages_types [of sts "[]" "[]" "m_name (p_meta p)"]
    count_stages_numbers [of sts "[]" "[]" "m_name (p_meta p)"]
  by (auto simp: pipeline_metrics_of_def split: prod.split option.splits if_splits)

text \<open>Telemetry reads the cluster and writes nothing in it.\<close>

definition reads_or_submits :: "event \<Rightarrow> bool" where
  "reads_or_submits ev \<longleftrightarrow> is_read ev \<or> (case ev of EvHttp q e \<Rightarrow> hq_path q = ''/v1/submit'' | _ \<Rightarrow> False)"

lemma appends_collect: "(\<And>e. is_read e \<Longrightarrow> A e) \<Longrightarrow> appends A (collect_metrics E ns)"
  unfolding collect_metrics_def GetKrciConfig_def getEdpConfig_def
  by (intro appends_intros) (auto split: prod.split intro: appends_intros)

lemma appends_sendTelemetry: "appends reads_or_submits (sendTelemetry E url ns)"
  unfolding sendTelemetry_def
  by (intro appends_intros appends_collect) (simp_all add: reads_or_submits_def newRequest_def)

text \<open>It ends with an answer or an error.\<close>

lemma returns_sendTelemetry: "returns (sendTelemetry E url ns)"
  unfolding sendTelemetry_def collect_metrics_def GetKrciConfig_def getEdpConfig_def Let_def
  by (intro returns_intros)

text \<open>
  A failed submission does not end the loop: before its context ends it submits once for
  each tick.
\<close>

lemma send_every_run:
  "send_every E url ns sgs s =
     (Ok (), fold (\<lambda>_ t. snd (sendTelemetry E url ns t)) (takeWhile (\<lambda>sg. sg \<noteq> Cancelled) sgs) s)"
proof (induction E url ns sgs arbitrary: s rule: send_every.induct)
  case (3 E url ns t sgs)
  have "fst (sendTelemetry E url ns s) \<noteq> Panic p" for p
    using returns_sendTelemetry [unfolded returns_def] by blast
  then have "ignoring (sendTelemetry E url ns) s = (Ok (), snd (sendTelemetry E url ns s))"
    by (cases "fst (sendTelemetry E url ns s)") (auto simp: ignoring_run)
  with 3 show ?case by (simp add: bindp_run)
qed simp_all

text \<open>The delayed goroutine submits at most once, and only after its time has come.\<close>

lemma send_delayed_run:
  "snd (send_delayed E url ns timeToSend sgs s) =
     (if \<exists>t. Tick t \<in> set (takeWhile (\<lambda>sg. sg \<noteq> Cancelled) sgs) \<and> timeToSend < t
      then snd (ignoring (sendTelemetry E url ns) s) else s)"
  by (induction E url ns timeToSend sgs rule: send_delayed.induct) auto

end
