(* ===== verification/Startup.thy ===== *)
theory Startup
  imports Telemetry Stale_Check Go_Std
begin

text \<open>
  The start of the process (\<open>cmd/main.go\<close>): the settings it takes from the environment, the
  the flags of its command line, the options of the servers, the order in which it sets
  things up, and the loop of the stale branch checker that it adds to the manager. What a
  step does in the library is a parameter: here it succeeds or fails. The options of the
  log are left out.
\<close>

section \<open>Settings\<close>

text \<open>\<open>strconv.ParseInt\<close> in base 10 with 32 bits: the syntax of \<open>Atoi\<close>, the smaller range.\<close>

definition ParseInt32 :: "string \<Rightarrow> int option" where
  "ParseInt32 s = (case Atoi s of
     Inr n \<Rightarrow> if - (2 ^ 31) \<le> n \<and> n < 2 ^ 31 then Some n else None | Inl _ \<Rightarrow> None)"

definition getMaxConcurrentReconciles :: "env \<Rightarrow> string \<Rightarrow> int" where
  "getMaxConcurrentReconciles E envVar =
     (case os_env E envVar of
        None \<Rightarrow> 1
      | Some val \<Rightarrow> (case ParseInt32 val of None \<Rightarrow> 1 | Some n \<Rightarrow> n))"

abbreviation branchStaleCheckDefaultInterval :: int where
  "branchStaleCheckDefaultInterval \<equiv> 24 * 3600 * second"

definition getBranchStaleCheckInterval :: "env \<Rightarrow> int" where
  "getBranchStaleCheckInterval E =
     (case os_env E ''BRANCH_STALE_CHECK_INTERVAL'' of
        None \<Rightarrow> branchStaleCheckDefaultInterval
      | Some val \<Rightarrow> (case ParseDuration val of Inl _ \<Rightarrow> branchStaleCheckDefaultInterval | Inr d \<Rightarrow> d))"

abbreviation telemetryDefaultDelay :: int where "telemetryDefaultDelay \<equiv> 3600 * second"
abbreviation telemetrySendEvery :: int where "telemetrySendEvery \<equiv> 24 * 3600 * second"
abbreviation telemetryUrl :: string where "telemetryUrl \<equiv> ''https://telemetry.kuberocketci.io''"

definition getTelemetryDelay :: "env \<Rightarrow> int" where
  "getTelemetryDelay E =
     (case os_env E ''TELEMETRY_DELAY'' of
        None \<Rightarrow> telemetryDefaultDelay
      | Some val \<Rightarrow> (case Atoi val of Inl _ \<Rightarrow> telemetryDefaultDelay | Inr d \<Rightarrow> i64 (d * (60 * second))))"

section \<open>Flags\<close>

record flags =
  fl_metricsAddr :: string
  fl_probeAddr :: string
  fl_leaderElect :: bool
  fl_secureMetrics :: bool
  fl_webhookCertPath :: string
  fl_webhookCertName :: string
  fl_webhookCertKey :: string
  fl_metricsCertPath :: string
  fl_metricsCertName :: string
  fl_metricsCertKey :: string
  fl_enableHTTP2 :: bool

definition default_flags :: flags where
  "default_flags = \<lparr>fl_metricsAddr = ''0'', fl_probeAddr = '':8081'', fl_leaderElect = False,
     fl_secureMetrics = True, fl_webhookCertPath = [], fl_webhookCertName = ''tls.crt'',
     fl_webhookCertKey = ''tls.key'', fl_metricsCertPath = [], fl_metricsCertName = ''tls.crt'',
     fl_metricsCertKey = ''tls.key'', fl_enableHTTP2 = False\<rparr>"

text \<open>
  A flag: whether it is boolean, so that it needs no value, and what a value does to the
  flags, when it is one. The flags other packages register (of the log, of the
  configuration of the client) set nothing here: \<open>other\<close> tells whether one is known,
  whether it is boolean and which values it takes.
\<close>

type_synonym flag = "bool \<times> (string \<Rightarrow> flags \<Rightarrow> flags option)"

definition string_flag :: "(string \<Rightarrow> flags \<Rightarrow> flags) \<Rightarrow> flag" where
  "string_flag put = (False, \<lambda>v fl. Some (put v fl))"

definition bool_flag :: "(bool \<Rightarrow> flags \<Rightarrow> flags) \<Rightarrow> flag" where
  "bool_flag put = (True, \<lambda>v fl. map_option (\<lambda>b. put b fl) (ParseBool v))"

definition own_flags :: "(string \<times> flag) list" where
  "own_flags =
     [(''metrics-bind-address'', string_flag (\<lambda>v fl. fl\<lparr>fl_metricsAddr := v\<rparr>)),
      (''health-probe-bind-address'', string_flag (\<lambda>v fl. fl\<lparr>fl_probeAddr := v\<rparr>)),
      (''leader-elect'', bool_flag (\<lambda>b fl. fl\<lparr>fl_leaderElect := b\<rparr>)),
      (''metrics-secure'', bool_flag (\<lambda>b fl. fl\<lparr>fl_secureMetrics := b\<rparr>)),
      (''webhook-cert-path'', string_flag (\<lambda>v fl. fl\<lparr>fl_webhookCertPath := v\<rparr>)),
      (''webhook-cert-name'', string_flag (\<lambda>v fl. fl\<lparr>fl_webhookCertName := v\<rparr>)),
      (''webhook-cert-key'', string_flag (\<lambda>v fl. fl\<lparr>fl_webhookCertKey := v\<rparr>)),
      (''metrics-cert-path'', string_flag (\<lambda>v fl. fl\<lparr>fl_metricsCertPath := v\<rparr>)),
      (''metrics-cert-name'', string_flag (\<lambda>v fl. fl\<lparr>fl_metricsCertName := v\<rparr>)),
      (''metrics-cert-key'', string_flag (\<lambda>v fl. fl\<lparr>fl_metricsCertKey := v\<rparr>)),
      (''enable-http2'', bool_flag (\<lambda>b fl. fl\<lparr>fl_enableHTTP2 := b\<rparr>))]"

definition find_flag :: "(string \<Rightarrow> (bool \<times> (string \<Rightarrow> bool)) option) \<Rightarrow> string \<Rightarrow> flag option" where
  "find_flag other name =
     (case map_of own_flags name of
        Some f \<Rightarrow> Some f
      | None \<Rightarrow> map_option (\<lambda>(isBool, accepts). (isBool, \<lambda>v fl. if accepts v then Some fl else None)) (other name))"

text \<open>
  An argument of the command line: the end of the flags, an error of syntax, or a flag with
  the value behind the first equals sign, which is not the first character of the name.
\<close>

datatype argument = EndOfFlags | BadSyntax | FlagArg string "string option"

definition split_flag :: "string \<Rightarrow> argument" where
  "split_flag name =
     (case name of
        [] \<Rightarrow> BadSyntax
      | c # cs \<Rightarrow>
          if c = CHR ''-'' \<or> c = CHR ''='' then BadSyntax
          else if CHR ''='' \<in> set cs
          then FlagArg (c # takeWhile (\<lambda>x. x \<noteq> CHR ''='') cs) (Some (tl (dropWhile (\<lambda>x. x \<noteq> CHR ''='') cs)))
          else FlagArg name None)"

fun read_argument :: "string \<Rightarrow> argument" where
  "read_argument (d # e # cs) =
     (if d \<noteq> CHR ''-'' then EndOfFlags
      else if e \<noteq> CHR ''-'' then split_flag (e # cs)
      else if cs = [] then EndOfFlags
      else split_flag cs)"
| "read_argument s = EndOfFlags"

text \<open>\<open>flag.Parse\<close>: the flags, or the code the process exits with.\<close>

fun parse_flags ::
  "(string \<Rightarrow> (bool \<times> (string \<Rightarrow> bool)) option) \<Rightarrow> flags \<Rightarrow> string list \<Rightarrow> int + flags" where
  "parse_flags other fl [] = Inr fl"
| "parse_flags other fl (s # args) =
     (case read_argument s of
        EndOfFlags \<Rightarrow> Inr fl
      | BadSyntax \<Rightarrow> Inl 2
      | FlagArg name v \<Rightarrow>
          (case find_flag other name of
             None \<Rightarrow> Inl (if name = ''help'' \<or> name = ''h'' then 0 else 2)
           | Some (isBool, put) \<Rightarrow>
               if isBool then
                 (case put (case v of None \<Rightarrow> ''true'' | Some x \<Rightarrow> x) fl of
                    None \<Rightarrow> Inl 2 | Some fl' \<Rightarrow> parse_flags other fl' args)
               else
                 (case v of
                    Some x \<Rightarrow> (case put x fl of None \<Rightarrow> Inl 2 | Some fl' \<Rightarrow> parse_flags other fl' args)
                  | None \<Rightarrow>
                      (case args of
                         [] \<Rightarrow> Inl 2
                       | x # args' \<Rightarrow> (case put x fl of None \<Rightarrow> Inl 2 | Some fl' \<Rightarrow> parse_flags other fl' args')))))"

section \<open>The servers\<close>

text \<open>
  A function in a list of TLS options changes the configuration of a server: the protocols
  offered, and where the certificate comes from, which is generated when nothing says so.
\<close>

record tls_config =
  tc_nextProtos :: "string list"
  tc_certificate :: "(string \<times> string) option"

datatype tls_option = DisableHTTP2 | GetCertificate string string

primrec apply_tls :: "tls_option \<Rightarrow> tls_config \<Rightarrow> tls_config" where
  "apply_tls DisableHTTP2 c = c\<lparr>tc_nextProtos := [''http/1.1'']\<rparr>"
| "apply_tls (GetCertificate certFile keyFile) c = c\<lparr>tc_certificate := Some (certFile, keyFile)\<rparr>"

definition tlsOpts :: "flags \<Rightarrow> tls_option list" where
  "tlsOpts fl = (if \<not> fl_enableHTTP2 fl then [DisableHTTP2] else [])"

definition webhook_files :: "flags \<Rightarrow> string \<times> string" where
  "webhook_files fl = (path_join [fl_webhookCertPath fl, fl_webhookCertName fl],
     path_join [fl_webhookCertPath fl, fl_webhookCertKey fl])"

definition metrics_files :: "flags \<Rightarrow> string \<times> string" where
  "metrics_files fl = (path_join [fl_metricsCertPath fl, fl_metricsCertName fl],
     path_join [fl_metricsCertPath fl, fl_metricsCertKey fl])"

definition webhookTLSOpts :: "flags \<Rightarrow> tls_option list" where
  "webhookTLSOpts fl = tlsOpts fl @
     (if fl_webhookCertPath fl \<noteq> [] then [GetCertificate (fst (webhook_files fl)) (snd (webhook_files fl))] else [])"

record metrics_options =
  mo_bindAddress :: string
  mo_secureServing :: bool
  mo_authenticated :: bool                   \<comment> \<open>\<open>FilterProvider\<close> is set\<close>
  mo_tlsOpts :: "tls_option list"

definition metricsServerOptions :: "flags \<Rightarrow> metrics_options" where
  "metricsServerOptions fl = \<lparr>mo_bindAddress = fl_metricsAddr fl, mo_secureServing = fl_secureMetrics fl,
     mo_authenticated = fl_secureMetrics fl,
     mo_tlsOpts = tlsOpts fl @
       (if fl_metricsCertPath fl \<noteq> []
        then [GetCertificate (fst (metrics_files fl)) (snd (metrics_files fl))] else [])\<rparr>"

record manager_options =
  mg_namespace :: string
  mg_metrics :: metrics_options
  mg_webhookTLS :: "tls_option list"
  mg_probeAddress :: string
  mg_leaderElection :: bool
  mg_leaderElectionID :: string

definition managerOptions :: "flags \<Rightarrow> string \<Rightarrow> manager_options" where
  "managerOptions fl ns = \<lparr>mg_namespace = ns, mg_metrics = metricsServerOptions fl,
     mg_webhookTLS = webhookTLSOpts fl, mg_probeAddress = fl_probeAddr fl,
     mg_leaderElection = fl_leaderElect fl, mg_leaderElectionID = ''edp-codebase-operator-lock''\<rparr>"

section \<open>The order of the set-up\<close>

datatype step =
    NewCertWatcher string string             \<comment> \<open>certificate and key\<close>
  | AddToScheme string
  | GetConfig
  | NewManager manager_options
  | RegisterFieldIndexes
  | SetupController string "int option"      \<comment> \<open>how many reconciliations at a time, when it is told\<close>
  | RegisterValidationWebHook
  | AddMetricsCertWatcher
  | AddWebhookCertWatcher
  | AddHealthzCheck
  | AddReadyzCheck
  | AddStaleChecker string int
  | StartTelemetry string int int
  | StartManager

definition controllers :: "env \<Rightarrow> step list" where
  "controllers E =
     [SetupController ''cd-stage-deploy'' (Some 1), SetupController ''codebase'' None,
      SetupController ''codebase-branch''
        (Some (getMaxConcurrentReconciles E ''CODEBASE_BRANCH_MAX_CONCURRENT_RECONCILES'')),
      SetupController ''codebase-image-stream'' None, SetupController ''git-server'' None,
      SetupController ''jira-issue-metadata'' None, SetupController ''jira-server'' None,
      SetupController ''integration-secret'' None]"

definition before_namespace :: "flags \<Rightarrow> step list" where
  "before_namespace fl =
     (if fl_webhookCertPath fl \<noteq> [] then [NewCertWatcher (fst (webhook_files fl)) (snd (webhook_files fl))] else []) @
     (if fl_metricsCertPath fl \<noteq> [] then [NewCertWatcher (fst (metrics_files fl)) (snd (metrics_files fl))] else []) @
     map AddToScheme [''client-go'', ''v2.edp.epam.com/v1'', ''cd-pipeline'', ''networking'', ''route'', ''gateway'',
       ''tekton-triggers'', ''tekton-pipeline'']"

definition set_up :: "env \<Rightarrow> flags \<Rightarrow> string \<Rightarrow> step list" where
  "set_up E fl ns =
     [GetConfig, NewManager (managerOptions fl ns), RegisterFieldIndexes] @ controllers E @
     (if getenv E ''ENABLE_WEBHOOKS'' \<noteq> ''false'' then [RegisterValidationWebHook] else []) @
     (if fl_metricsCertPath fl \<noteq> [] then [AddMetricsCertWatcher] else []) @
     (if fl_webhookCertPath fl \<noteq> [] then [AddWebhookCertWatcher] else []) @
     [AddHealthzCheck, AddReadyzCheck] @
     (let interval = getBranchStaleCheckInterval E in
      if interval > 0 then [AddStaleChecker ns interval] else []) @
     (if ParseBool (getenv E ''TELEMETRY_ENABLED'') = Some True
      then [StartTelemetry ns (getTelemetryDelay E) telemetrySendEvery] else [])"

definition after_namespace :: "env \<Rightarrow> flags \<Rightarrow> string \<Rightarrow> step list" where
  "after_namespace E fl ns = set_up E fl ns @ [StartManager]"

text \<open>
  The steps taken up to the first that fails, and whether the process ends with an error:
  by \<open>os.Exit\<close>, or by the panic of \<open>Must\<close> for a type that is not registered.
\<close>

fun run_steps :: "(step \<Rightarrow> bool) \<Rightarrow> step list \<Rightarrow> step list \<times> bool" where
  "run_steps broken [] = ([], False)"
| "run_steps broken (x # xs) =
     (if broken x then ([x], True) else (case run_steps broken xs of (done, bad) \<Rightarrow> (x # done, bad)))"

definition start_process :: "env \<Rightarrow> flags \<Rightarrow> (step \<Rightarrow> bool) \<Rightarrow> step list \<times> bool" where
  "start_process E fl broken =
     (case run_steps broken (before_namespace fl) of (taken, bad) \<Rightarrow>
        if bad then (taken, True)
        else
          case GetWatchNamespace E of
            Inl _ \<Rightarrow> (taken, True)
          | Inr ns \<Rightarrow> (case run_steps broken (after_namespace E fl ns) of (after, bad) \<Rightarrow> (taken @ after, bad)))"

definition main ::
  "env \<Rightarrow> (string \<Rightarrow> (bool \<times> (string \<Rightarrow> bool)) option) \<Rightarrow> string list \<Rightarrow> (step \<Rightarrow> bool) \<Rightarrow> step list \<times> bool" where
  "main E other args broken =
     (case parse_flags other default_flags args of
        Inl code \<Rightarrow> ([], code \<noteq> 0)
      | Inr fl \<Rightarrow> start_process E fl broken)"

section \<open>The loop of the stale branch checker\<close>

text \<open>\<open>order\<close> is the order in which a sweep visits the codebases, which may be another each time.\<close>

fun sweep_on_ticks ::
  "env \<Rightarrow> (int \<Rightarrow> string list \<Rightarrow> string list) \<Rightarrow> string \<Rightarrow> signal list \<Rightarrow> (branch st, unit) prog" where
  "sweep_on_ticks E order ns [] = ret ()"
| "sweep_on_ticks E order ns (Cancelled # sgs) = ret ()"
| "sweep_on_ticks E order ns (Tick t # sgs) =
     bindp (sweep E True (order t) ns) (\<lambda>_. sweep_on_ticks E order ns sgs)"

definition Checker_Start ::
  "env \<Rightarrow> (string list \<Rightarrow> string list) \<Rightarrow> (int \<Rightarrow> string list \<Rightarrow> string list) \<Rightarrow> string \<Rightarrow> signal list \<Rightarrow>
   (branch st, unit) prog" where
  "Checker_Start E order0 order ns sgs =
     bindp (sweep E True order0 ns) (\<lambda>_. sweep_on_ticks E order ns sgs)"

section \<open>What the set-up guarantees\<close>

lemma run_steps_all: "run_steps broken xs = (taken, False) \<Longrightarrow> taken = xs"
  by (induction xs arbitrary: taken) (auto split: if_splits prod.splits)

lemma run_steps_prefix: "\<exists>after. xs = fst (run_steps broken xs) @ after"
  by (induction xs) (auto split: prod.split)

text \<open>
  The manager runs only when everything before it succeeded: the watched namespace is set,
  the indexes the deletion webhooks select on are registered before the controllers and
  the webhooks, and all controllers are set up.
\<close>

lemma manager_starts_last:
  assumes "StartManager \<in> set (fst (start_process E fl broken))"
  shows "\<exists>ns. GetWatchNamespace E = Inr ns \<and> fst (start_process E fl broken) = before_namespace fl @ after_namespace E fl ns"
proof -
  obtain taken bad where pre: "run_steps broken (before_namespace fl) = (taken, bad)" by force
  have "StartManager \<notin> set (before_namespace fl)" by (simp add: before_namespace_def)
  then have no: "StartManager \<notin> set taken"
    using run_steps_prefix [of "before_namespace fl" broken] pre by auto
  with assms pre have "\<not> bad" by (auto simp: start_process_def split: if_splits)
  with pre have taken: "taken = before_namespace fl" using run_steps_all by simp
  from assms no pre \<open>\<not> bad\<close> obtain ns where ns: "GetWatchNamespace E = Inr ns"
    by (auto simp: start_process_def split: sum.splits)
  obtain after bad' where post: "run_steps broken (after_namespace E fl ns) = (after, bad')" by force
  obtain tail where tail: "after_namespace E fl ns = after @ tail"
    using run_steps_prefix [of "after_namespace E fl ns" broken] post by auto
  have once: "StartManager \<notin> set (set_up E fl ns)"
    by (simp add: set_up_def controllers_def Let_def)
  have "StartManager \<in> set after" using assms no pre post ns \<open>\<not> bad\<close> by (simp add: start_process_def)
  then have "tail = []" using tail once unfolding after_namespace_def
    by (cases tail rule: rev_cases) auto
  with tail taken pre post ns \<open>\<not> bad\<close> show ?thesis by (simp add: start_process_def)
qed

text \<open>
  A ticker panics for an interval that is not positive; the checker is never started with
  one, whatever the environment says.
\<close>

lemma stale_checker_ticks:
  "AddStaleChecker ns d \<in> set (fst (start_process E fl broken)) \<Longrightarrow> d > 0"
proof -
  assume "AddStaleChecker ns d \<in> set (fst (start_process E fl broken))"
  then obtain ns' where "AddStaleChecker ns d \<in> set (before_namespace fl) \<union> set (after_namespace E fl ns')"
    using run_steps_prefix [of "before_namespace fl" broken]
      run_steps_prefix [of "after_namespace E fl n" broken for n]
    by (auto simp: start_process_def split: prod.splits sum.splits if_splits) (metis Un_iff fst_conv set_append)+
  then show "d > 0"
    by (auto simp: before_namespace_def after_namespace_def set_up_def controllers_def Let_def split: if_splits)
qed

text \<open>
  Neither server speaks HTTP/2 unless the flag for it is on the command line: without it the
  only protocol both offer is HTTP/1.1, whichever certificates are used.
\<close>

lemma other_flag_keeps_http2:
  assumes "find_flag other name = Some (isBool, put)" and "name \<noteq> ''enable-http2''" and "put v fl = Some fl'"
  shows "fl_enableHTTP2 fl' = fl_enableHTTP2 fl"
  using assms
  by (auto simp: find_flag_def own_flags_def string_flag_def bool_flag_def split: if_splits option.splits)

lemma parse_flags_step:
  assumes "parse_flags other fl (s # args) = Inr fl'"
  obtains "fl' = fl"
  | name v isBool put x fl1 more where "read_argument s = FlagArg name v"
      "find_flag other name = Some (isBool, put)" "put x fl = Some fl1"
      "parse_flags other fl1 more = Inr fl'" "length more \<le> length args" "set more \<subseteq> set args"
proof (cases "read_argument s")
  case (FlagArg name v)
  with assms obtain isBool put where found: "find_flag other name = Some (isBool, put)"
    by (auto split: option.splits)
  show thesis
  proof (cases isBool)
    case True
    with assms FlagArg found show thesis
      by (auto split: option.splits intro!: that(2) [where more = args])
  next
    case False
    show thesis
    proof (cases v)
      case None
      with assms FlagArg found False obtain x more where "args = x # more"
        by (cases args) auto
      with assms FlagArg found False None show thesis
        by (auto split: option.splits intro!: that(2) [where more = more])
    next
      case (Some x)
      with assms FlagArg found False show thesis
        by (auto split: option.splits intro!: that(2) [where more = args])
    qed
  qed
qed (use assms that(1) in auto)

lemma http2_stays_off:
  assumes "parse_flags other fl args = Inr fl'" and "\<not> fl_enableHTTP2 fl"
    and "\<And>s v. s \<in> set args \<Longrightarrow> read_argument s \<noteq> FlagArg ''enable-http2'' v"
  shows "\<not> fl_enableHTTP2 fl'"
  using assms
proof (induction args arbitrary: fl rule: measure_induct_rule [where f = length])
  case (less args)
  show ?case
  proof (cases args)
    case (Cons s rest_args)
    from less.prems(1) [unfolded Cons] show ?thesis
    proof (cases rule: parse_flags_step)
      case (2 name v isBool put x fl1 more)
      with less.prems(3) [of s v] Cons have "name \<noteq> ''enable-http2''" by auto
      with other_flag_keeps_http2 [OF 2(2) _ 2(3)] less.prems(2) have "\<not> fl_enableHTTP2 fl1" by simp
      with less.IH [OF _ 2(4)] 2(5,6) less.prems(3) Cons show ?thesis by auto
    qed (use less.prems(2) in simp)
  qed (use less.prems in simp)
qed

lemma servers_speak_http1:
  assumes "parse_flags other default_flags args = Inr fl"
    and "\<And>s v. s \<in> set args \<Longrightarrow> read_argument s \<noteq> FlagArg ''enable-http2'' v"
  shows "tc_nextProtos (fold apply_tls (webhookTLSOpts fl) c) = [''http/1.1'']"
    and "tc_nextProtos (fold apply_tls (mo_tlsOpts (metricsServerOptions fl)) c) = [''http/1.1'']"
  using http2_stays_off [OF assms(1) _ assms(2)]
  by (simp_all add: webhookTLSOpts_def metricsServerOptions_def tlsOpts_def default_flags_def)

text \<open>Metrics are served without authentication only when the flag says so.\<close>

lemma metrics_authenticated:
  "mo_authenticated (metricsServerOptions fl) \<longleftrightarrow> mo_secureServing (metricsServerOptions fl)"
  by (simp add: metricsServerOptions_def)

text \<open>A value may follow its flag or an equals sign; a boolean flag takes the latter only.\<close>

lemma example_flags:
  "parse_flags (\<lambda>_. None) default_flags [''--leader-elect'', ''-metrics-bind-address'', '':8443'', ''--metrics-secure=false''] =
     Inr (default_flags\<lparr>fl_leaderElect := True, fl_metricsAddr := '':8443'', fl_secureMetrics := False\<rparr>)"
  "parse_flags (\<lambda>_. None) default_flags [''--unknown''] = Inl 2"
  "parse_flags (\<lambda>_. None) default_flags [''--help''] = Inl 0"
  by code_simp+

end
