(* ===== verification/Assembly.thy ===== *)
theory Assembly
  imports Branch_Invariant Put_Project Git_Client Hosting_Client Gerrit_Client
begin

text \<open>
  The components put together. The chains take the git client, the hosting clients and the
  Gerrit client as parameters of the environment; here the parameters are those clients'
  own models, so that a statement on a chain becomes one on what go-git, the hosting
  service and the ssh server answered. Two calls stay parameters because the clients can
  panic in them: the listing of Gerrit projects and the creation of a webhook.
\<close>

section \<open>The clients as answers\<close>

text \<open>
  What a client's method answers after a history. Its own calls go to the libraries after
  that history; the caller's history records the method alone, which with the
  environment determines them.
\<close>

definition answer :: "(unit st, 'a) prog \<Rightarrow> history \<Rightarrow> gerr + 'a" where
  "answer m h = (case fst (m \<lparr>obj = (), log = h\<rparr>) of
     Ok x \<Rightarrow> Inr x | Fail e \<Rightarrow> Inl e | Panic p \<Rightarrow> Inl (errorf p))"

definition outcome_of :: "(unit st, unit) prog \<Rightarrow> history \<Rightarrow> gerr option" where
  "outcome_of m h = (case answer m h of Inl e \<Rightarrow> Some e | Inr _ \<Rightarrow> None)"

text \<open>\<open>DefaultGitProviderFactory\<close> makes a client of the configuration for each use.\<close>

fun git_client_do :: "env \<Rightarrow> history \<Rightarrow> git_config \<Rightarrow> git_call \<Rightarrow> gerr option" where
  "git_client_do E h cfg (GitClone url d) = outcome_of (Clone E (NewGitProvider cfg) url d) h"
| "git_client_do E h cfg (GitCommit d msg allowEmpty) = outcome_of (Commit E d msg allowEmpty) h"
| "git_client_do E h cfg (GitPush d refspecs) = outcome_of (Push E (NewGitProvider cfg) d refspecs) h"
| "git_client_do E h cfg (GitCheckout d b remote) = outcome_of (Checkout E (NewGitProvider cfg) d b remote) h"
| "git_client_do E h cfg (GitCreateBranch url b from_ref) =
     outcome_of (CreateRemoteBranchViaRefUpdate E (NewGitProvider cfg) url b from_ref) h"
| "git_client_do E h cfg (GitRemoveBranch d b) = outcome_of (RemoveBranch E d b) h"
| "git_client_do E h cfg (GitCreateChild d parent new) = outcome_of (CreateChildBranch E d parent new) h"
| "git_client_do E h cfg (GitInit d) = outcome_of (git_Init E d) h"
| "git_client_do E h cfg (GitAddRemote d url) = outcome_of (AddRemoteLink E d url) h"
| "git_client_do E h cfg (GitCheckoutRemote d b) =
     outcome_of (CheckoutRemoteBranch E (NewGitProvider cfg) d b) h"
| "git_client_do E h cfg c = git_do E h cfg c"

fun git_client_str :: "env \<Rightarrow> history \<Rightarrow> git_config \<Rightarrow> git_call \<Rightarrow> gerr + string" where
  "git_client_str E h cfg (GitResolve url ref) = answer (ResolveRemoteReference E (NewGitProvider cfg) url ref) h"
| "git_client_str E h cfg (GitCurrentBranch d) = answer (GetCurrentBranchName E d) h"
| "git_client_str E h cfg c = git_str E h cfg c"

fun git_client_list :: "env \<Rightarrow> history \<Rightarrow> git_config \<Rightarrow> git_call \<Rightarrow> gerr + string list" where
  "git_client_list E h cfg (GitListBranches url) = answer (ListRemoteBranches E (NewGitProvider cfg) url) h"
| "git_client_list E h cfg c = git_list E h cfg c"

text \<open>The hosting client a server gets is called at the server's address.\<close>

definition with_client :: "git_server \<Rightarrow> string \<Rightarrow> (git_provider \<Rightarrow> 'a) \<Rightarrow> 'a \<Rightarrow> 'a" where
  "with_client gs tok f otherwise = (case provider_of gs tok of Some c \<Rightarrow> f c | None \<Rightarrow> otherwise)"

fun hosting_do :: "env \<Rightarrow> history \<Rightarrow> git_server \<Rightarrow> string \<Rightarrow> project_call \<Rightarrow> gerr option" where
  "hosting_do E h gs tok (ProjCreate p isPrivate) =
     with_client gs tok (\<lambda>c. outcome_of (CreateProject E c (GetGitProviderAPIURL gs) tok p isPrivate) h)
       (provider_do E h gs tok (ProjCreate p isPrivate))"
| "hosting_do E h gs tok (ProjSetDefaultBranch p b) =
     with_client gs tok (\<lambda>c. outcome_of (SetDefaultBranch E c (GetGitProviderAPIURL gs) tok p b) h)
       (provider_do E h gs tok (ProjSetDefaultBranch p b))"
| "hosting_do E h gs tok (HookDelete p ref) =
     with_client gs tok (\<lambda>c. outcome_of (DeleteWebHook E c (GetGitProviderAPIURL gs) tok p ref) h)
       (provider_do E h gs tok (HookDelete p ref))"
| "hosting_do E h gs tok c = provider_do E h gs tok c"

fun hosting_bool :: "env \<Rightarrow> history \<Rightarrow> git_server \<Rightarrow> string \<Rightarrow> project_call \<Rightarrow> gerr + bool" where
  "hosting_bool E h gs tok (ProjExists p) =
     with_client gs tok (\<lambda>c. answer (ProjectExists E c (GetGitProviderAPIURL gs) tok p) h)
       (provider_bool E h gs tok (ProjExists p))"
| "hosting_bool E h gs tok c = provider_bool E h gs tok c"

fun gerrit_client_do :: "env \<Rightarrow> history \<Rightarrow> git_server \<Rightarrow> string \<Rightarrow> project_call \<Rightarrow> gerr option" where
  "gerrit_client_do E h gs key (GerritCreate p) =
     outcome_of (gerrit_CreateProject E (gs_sshPort (gs_spec gs)) key (gs_gitHost (gs_spec gs))
       (gs_gitUser (gs_spec gs)) p) h"
| "gerrit_client_do E h gs key (GerritSetHead p b) =
     outcome_of (gerrit_SetHeadToBranch E (gs_sshPort (gs_spec gs)) key (gs_gitHost (gs_spec gs))
       (gs_gitUser (gs_spec gs)) p b) h"
| "gerrit_client_do E h gs key c = gerrit_do E h gs key c"

definition wired :: "env \<Rightarrow> env" where
  "wired E = E\<lparr>git_do := git_client_do E, git_str := git_client_str E, git_list := git_client_list E,
     provider_do := hosting_do E, provider_bool := hosting_bool E, gerrit_do := gerrit_client_do E\<rparr>"

lemma wired_simps [simp]:
  "git_do (wired E) = git_client_do E" "git_str (wired E) = git_client_str E"
  "git_list (wired E) = git_client_list E" "provider_do (wired E) = hosting_do E"
  "provider_bool (wired E) = hosting_bool E" "gerrit_do (wired E) = gerrit_client_do E"
  "provider_new (wired E) = provider_new E" "api_branch (wired E) = api_branch E"
  "api_codebase (wired E) = api_codebase E"
  by (simp_all add: wired_def)


lemma answer_Inr: "answer m h = Inr x \<longleftrightarrow> fst (m \<lparr>obj = (), log = h\<rparr>) = Ok x"
  by (simp add: answer_def split: outcome.split)

lemma answer_Inl:
  "answer m h = Inl e \<longleftrightarrow> fst (m \<lparr>obj = (), log = h\<rparr>) = Fail e \<or>
     (\<exists>p. fst (m \<lparr>obj = (), log = h\<rparr>) = Panic p \<and> e = errorf p)"
  by (auto simp: answer_def split: outcome.split)

section \<open>A branch that is stored exists\<close>







lemma preceded_mono:
  "preceded W G es \<Longrightarrow> (\<And>e. G e \<Longrightarrow> G' e) \<Longrightarrow> preceded W G' es"
  unfolding preceded_def by blast


section \<open>A push overwrites nothing\<close>

text \<open>
  The libraries' errors are not the client's own error that a reference was not found,
  which is a value of this repository.
\<close>

definition foreign_errors :: "env \<Rightarrow> bool" where
  "foreign_errors E \<longleftrightarrow>
     (\<forall>h c e. gg_do (gogit_of E) h c = Some e \<longrightarrow> \<not> errors_is e KReferenceNotFound) \<and>
     (\<forall>h c e. gg_advertised (gogit_of E) h c = Inl e \<longrightarrow> \<not> errors_is e KReferenceNotFound) \<and>
     (\<forall>k e. l_parsePrivateKey (lib_of E) k = Some e \<longrightarrow> \<not> errors_is e KReferenceNotFound) \<and>
     (\<forall>url e. l_endpoint (lib_of E) url = Inl e \<longrightarrow> \<not> errors_is e KReferenceNotFound)"

text \<open>
  The remote repository was found empty or missing, or it advertised nothing the reference
  stands for.
\<close>

definition remote_lacks :: "env \<Rightarrow> string \<Rightarrow> string \<Rightarrow> bool" where
  "remote_lacks E url ref \<longleftrightarrow> (\<exists>h.
     case gg_advertised (gogit_of E) h (GoAdvertised url False) of
       Inl e \<Rightarrow> errors_is e KEmptyRemoteRepository \<or> errors_is e KRepositoryNotFound
     | Inr adv \<Rightarrow> ref_candidates E adv ref = [])"

lemma resolved_absent:
  assumes "resolveAdvertisedRef E adv ref = Inl e"
  shows "ref_candidates E adv ref = []"
  using assms by (simp add: reference_resolution_order split: list.splits)

lemma with_auth_Fail:
  assumes "foreign_errors E" and "fst (with_auth E p f s) = Fail e" and "errors_is e KReferenceNotFound"
  shows "\<exists>auth. fst (f auth s) = Fail e"
  using assms
  by (auto simp: with_auth_def bindp_run wrapping_run lift_def getAuth_def foreign_errors_def
      split: sum.splits if_splits option.splits)

lemma transport_not_absent:
  assumes "foreign_errors E" and "fst (newTransportClient E p url s) = Fail e"
  shows "\<not> errors_is e KReferenceNotFound"
proof
  assume e: "errors_is e KReferenceNotFound"
  from with_auth_Fail [OF assms(1) assms(2) [unfolded newTransportClient_def] e] assms(1) e show False
    by (auto simp: foreign_errors_def bindp_run wrapping_run lift_def gogit_act_def asku_run
        split: sum.splits option.splits)
qed

lemma session_not_absent:
  assumes "foreign_errors E" and "fst (remotely E w url (gogit_act E c) s) = Fail e"
  shows "\<not> errors_is e KReferenceNotFound"
  using assms
  by (auto simp: remotely_def catchp_run gogit_act_def asku_run remoteErr_def enrich_keeps_the_cause
      foreign_errors_def split: option.splits)

lemma ask_advertised_absent:
  assumes "foreign_errors E" and "errors_is e KReferenceNotFound"
    and "fst (catchp (gogit_ask E gg_advertised (GoAdvertised url False)) (\<lambda>e.
       if errors_is e KEmptyRemoteRepository \<or> errors_is e KRepositoryNotFound
       then throw (wrap_err ''remote repository is empty or missing'' ErrReferenceNotFound)
       else throw (wrap_err ''failed to get advertised references'' (remoteErr E e url))) s) = Fail e"
  shows "remote_lacks E url ref"
proof (cases "gg_advertised (gogit_of E) (log s) (GoAdvertised url False)")
  case (Inl e')
  with assms have "errors_is e' KEmptyRemoteRepository \<or> errors_is e' KRepositoryNotFound"
    by (auto simp: catchp_run gogit_ask_def ask_run remoteErr_def enrich_keeps_the_cause foreign_errors_def
        split: if_splits)
  with Inl show ?thesis unfolding remote_lacks_def by (intro exI [of _ "log s"]) simp
next
  case (Inr adv)
  with assms(3) show ?thesis by (simp add: catchp_run gogit_ask_def ask_run)
qed

lemma advertised_absent:
  assumes "foreign_errors E" and "fst (advertisedReferences E p url s) = Fail e"
    and "errors_is e KReferenceNotFound"
  shows "remote_lacks E url ref"
proof -
  obtain auth where "fst (newTransportClient E p url s) = Ok auth"
    using assms transport_not_absent [OF assms(1), of p url s]
    by (cases "fst (newTransportClient E p url s)") (simp_all add: advertisedReferences_def bindp_run)
  with assms session_not_absent [OF assms(1), of "''failed to open upload-pack session''" url
      "GoUploadPackSession url auth" "snd (newTransportClient E p url s)"]
  show ?thesis
    by (auto simp: advertisedReferences_def bindp_run split: outcome.splits
        dest: ask_advertised_absent [OF assms(1) assms(3)])
qed

lemma resolve_absent:
  assumes "foreign_errors E" and "fst (ResolveRemoteReference E p url ref s) = Fail e"
    and "errors_is e KReferenceNotFound"
  shows "remote_lacks E url ref"
proof (cases "fst (advertisedReferences E p url s)")
  case (Ok adv)
  then obtain h where "gg_advertised (gogit_of E) h (GoAdvertised url False) = Inr adv"
    by (auto simp: advertisedReferences_def bindp_run catchp_run gogit_ask_def ask_run
        split: outcome.splits sum.splits if_splits)
  moreover from Ok assms(2) have "resolveAdvertisedRef E adv ref = Inl e"
    by (auto simp: ResolveRemoteReference_def bindp_run lift_def split: sum.splits)
  ultimately show ?thesis using resolved_absent [of E adv ref e] unfolding remote_lacks_def
    by (intro exI [of _ h]) simp
next
  case (Fail e')
  with assms(2) have "e' = e" by (simp add: ResolveRemoteReference_def bindp_run)
  with Fail assms show ?thesis using advertised_absent by blast
qed (use assms(2) in \<open>simp add: ResolveRemoteReference_def bindp_run\<close>)

text \<open>
  At most one push, of the project's own repository, and directly before it that repository
  lacked the default branch of the project and the push was marked.
\<close>

definition overwrites_nothing :: "env \<Rightarrow> codebase \<Rightarrow> event list \<Rightarrow> bool" where
  "overwrites_nothing E cb es \<longleftrightarrow>
     list_all (\<lambda>ev. \<not> is_push ev) es \<or>
     (\<exists>pre post rc e mark r. es = pre @ push_calls cb rc e mark r @ post \<and>
        list_all (\<lambda>ev. \<not> is_push ev) pre \<and> list_all (\<lambda>ev. \<not> is_push ev) post \<and>
        project_context E cb rc \<and> push_mark cb mark \<and>
        remote_lacks E (project_url cb rc) (cs_defaultBranch (c_spec cb)))"

lemma says_absent_wired:
  assumes "foreign_errors E" and "says_absent (wired E) cfg url branch e"
  shows "remote_lacks E url branch"
  using assms(2) resolve_absent [OF assms(1)] by (auto simp: says_absent_def answer_Inl)

lemma project_context_wired: "project_context (wired E) = project_context E"
  by (intro ext) (simp add: project_context_def wired_def GetWorkDir_def)

text \<open>
  C6: putting a project over the git client. In one run of the handler there is at most one
  push, of the branches and tags of the Codebase's working copy to the repository of its
  project on its git server. Directly before it that repository was asked for its references
  and was empty or missing, or advertised no branch, no tag and no object of the name of the
  Codebase's default branch; and between the two the status that says a push is in progress
  was stored, unless the run began with it. Hence no history that the remote shows is
  overwritten.
\<close>

theorem push_overwrites_nothing:
  assumes "foreign_errors E" and "keeps_project E"
  shows "overwrites_nothing E (obj s) (added s (snd (PutProject_ServeRequest (wired E) s)))"
proof -
  have "keeps_project (wired E)" using assms(2) by (simp add: keeps_project_def)
  from push_only_over_absent_branch [OF this, of s] obtain es where
    "log (snd (PutProject_ServeRequest (wired E) s)) = log s @ es" and es: "guarded_push (wired E) (obj s) es"
    by blast
  then have "added s (snd (PutProject_ServeRequest (wired E) s)) = es" by (simp add: added_def)
  moreover from es have "overwrites_nothing E (obj s) es"
    unfolding guarded_push_def
  proof (elim disjE exE conjE)
    fix pre ch post
    assume ch: "es = pre @ ch @ post" "push_chunk (wired E) (obj s) ch"
      and quiet: "list_all (\<lambda>ev. \<not> is_push ev) pre" "list_all (\<lambda>ev. \<not> is_push ev) post"
    from ch(2) obtain rc e mark r where "ch = push_calls (obj s) rc e mark r"
      "project_context E (obj s) rc" "push_mark (obj s) mark"
      "says_absent (wired E) (rc_config rc) (project_url (obj s) rc) (cs_defaultBranch (c_spec (obj s))) e"
      unfolding push_chunk_def project_context_wired by blast
    with ch(1) quiet says_absent_wired [OF assms(1)] show ?thesis
      unfolding overwrites_nothing_def by blast
  qed (simp add: overwrites_nothing_def)
  ultimately show ?thesis by simp
qed

section \<open>A project is created when the service says there is none\<close>

definition is_creation :: "event \<Rightarrow> bool" where
  "is_creation ev \<longleftrightarrow> (case ev of EvProvider gs tok (ProjCreate p isPrivate) e \<Rightarrow> True | _ \<Rightarrow> False)"

lemma is_creation_simps [simp]:
  "is_creation (EvProvider gs tok (ProjCreate p isPrivate) e)" "\<not> is_creation (EvGet k ns n)"
  "\<not> is_creation (EvList k ns sel)" "\<not> is_creation (EvWrite v x e)" "\<not> is_creation (EvGerrit gs key c e)"
  "\<not> is_creation (EvProvider gs tok (ProjExists p) e)"
  "\<not> is_creation (EvProvider gs tok (ProjSetDefaultBranch p b) e)"
  "\<not> is_creation (EvFs f e)" "\<not> is_creation (EvRecord x ty r m)" "\<not> is_creation (EvGit cfg g e)"
  by (simp_all add: is_creation_def)

definition creates_project :: "git_server \<Rightarrow> string \<Rightarrow> string \<Rightarrow> event \<Rightarrow> bool" where
  "creates_project gs tok p ev \<longleftrightarrow> (\<exists>isPrivate e. ev = EvProvider gs tok (ProjCreate p isPrivate) e)"

definition answered_absent :: "env \<Rightarrow> git_server \<Rightarrow> string \<Rightarrow> string \<Rightarrow> event \<Rightarrow> bool" where
  "answered_absent E gs tok p ev \<longleftrightarrow> ev = EvProvider gs tok (ProjExists p) None \<and>
     provider_of gs tok \<noteq> None \<and> (\<exists>h. provider_bool E h gs tok (ProjExists p) = Inr False)"

text \<open>Every creation in the events comes after the answer that there is no such project.\<close>

definition creations_follow :: "env \<Rightarrow> event list \<Rightarrow> bool" where
  "creations_follow E es \<longleftrightarrow>
     (\<forall>gs tok p. preceded (creates_project gs tok p) (answered_absent E gs tok p) es)"

definition orderly :: "env \<Rightarrow> ('o st, 'a) prog \<Rightarrow> bool" where
  "orderly E m \<longleftrightarrow> (\<forall>s. \<exists>es. log (snd (m s)) = log s @ es \<and> creations_follow E es)"

named_theorems orderly_intros \<open>introduction rules of \<open>orderly\<close>\<close>

lemma preceded_append: "preceded W G xs \<Longrightarrow> preceded W G ys \<Longrightarrow> preceded W G (xs @ ys)"
proof (induction ys rule: rev_induct)
  case (snoc y ys)
  then show ?case by (simp flip: append_assoc) blast
qed simp

lemma preceded_two: "preceded W G [x, y] \<longleftrightarrow> \<not> W x \<and> (W y \<longrightarrow> G x)"
  by (auto simp: preceded_def less_Suc_eq nth_Cons')

lemma orderlyD: "orderly E m \<Longrightarrow> \<exists>es. log (snd (m s)) = log s @ es \<and> creations_follow E es"
  by (simp add: orderly_def)

lemma creations_follow_append:
  "creations_follow E xs \<Longrightarrow> creations_follow E ys \<Longrightarrow> creations_follow E (xs @ ys)"
  by (simp add: creations_follow_def preceded_append)

lemma creations_follow_none: "list_all (\<lambda>ev. \<not> is_creation ev) es \<Longrightarrow> creations_follow E es"
  by (auto simp: creations_follow_def preceded_def creates_project_def list_all_length)

lemma orderly_apart: "appends (\<lambda>ev. \<not> is_creation ev) m \<Longrightarrow> orderly E m"
  unfolding orderly_def using appendsD creations_follow_none by blast

lemma orderly_bindp [orderly_intros]:
  assumes "orderly E m" and "\<And>x. orderly E (f x)" shows "orderly E (bindp m f)"
  unfolding orderly_def
proof
  fix s
  obtain es where es: "log (snd (m s)) = log s @ es" "creations_follow E es"
    using orderlyD [OF assms(1)] by blast
  show "\<exists>es. log (snd (bindp m f s)) = log s @ es \<and> creations_follow E es"
  proof (cases "fst (m s)")
    case (Ok x)
    obtain es' where "log (snd (f x (snd (m s)))) = log (snd (m s)) @ es'" "creations_follow E es'"
      using orderlyD [OF assms(2)] by blast
    with es Ok show ?thesis
      by (intro exI [of _ "es @ es'"]) (simp add: bindp_run creations_follow_append)
  qed (use es in \<open>simp_all add: bindp_run\<close>)
qed

lemma orderly_catchp [orderly_intros]:
  assumes "orderly E m" and "\<And>e. orderly E (f e)" shows "orderly E (catchp m f)"
  unfolding orderly_def
proof
  fix s
  obtain es where es: "log (snd (m s)) = log s @ es" "creations_follow E es"
    using orderlyD [OF assms(1)] by blast
  show "\<exists>es. log (snd (catchp m f s)) = log s @ es \<and> creations_follow E es"
  proof (cases "fst (m s)")
    case (Fail e)
    obtain es' where "log (snd (f e (snd (m s)))) = log (snd (m s)) @ es'" "creations_follow E es'"
      using orderlyD [OF assms(2)] by blast
    with es Fail show ?thesis
      by (intro exI [of _ "es @ es'"]) (simp add: catchp_run creations_follow_append)
  qed (use es in \<open>simp_all add: catchp_run\<close>)
qed

lemma orderly_if [orderly_intros]:
  "(b \<Longrightarrow> orderly E m) \<Longrightarrow> (\<not> b \<Longrightarrow> orderly E n) \<Longrightarrow> orderly E (if b then m else n)"
  by simp

lemma orderly_plain [orderly_intros]:
  "orderly E (ret x)" "orderly E (throw e)" "orderly E (gets f)"
  by (intro orderly_apart appends_intros)+

lemma orderly_wrapping [orderly_intros]: "orderly E m \<Longrightarrow> orderly E (wrapping pre m)"
  unfolding wrapping_def by (intro orderly_intros)

lemma provider_made:
  "fst (NewGitProjectProvider E gs tok s) = Ok () \<Longrightarrow> provider_of gs tok \<noteq> None"
  by (auto simp: NewGitProjectProvider_def NewProvider_def provider_of_def split: if_splits)

lemma orderly_third_party [orderly_intros]: "orderly E (createGitThirdPartyProject E gs tok cb)"
  unfolding orderly_def
proof
  fix s :: "'a st"
  let ?p = "GetProjectID (c_spec cb)"
  show "\<exists>es. log (snd (createGitThirdPartyProject E gs tok cb s)) = log s @ es \<and> creations_follow E es"
  proof (cases "fst (NewGitProjectProvider E gs tok s) = Ok () \<and>
      provider_bool E (log s) gs tok (ProjExists ?p) = Inr False")
    case True
    then have made: "fst (NewGitProjectProvider E gs tok s) = Ok ()"
      "snd (NewGitProjectProvider E gs tok s) = s" "provider_of gs tok \<noteq> None"
      using provider_made by (auto simp: NewGitProjectProvider_def)
    define e where "e = provider_do E (log s @ [EvProvider gs tok (ProjExists ?p) None]) gs tok
      (ProjCreate ?p (cs_private (c_spec cb)))"
    have "log (snd (createGitThirdPartyProject E gs tok cb s)) = log s @
        ([EvProvider gs tok (ProjExists ?p) None] @ [EvProvider gs tok (ProjCreate ?p (cs_private (c_spec cb))) e])"
      using True made
      by (simp add: createGitThirdPartyProject_def bindp_run wrapping_run provider_ask_def provider_def ask_run
          asku_run e_def split: option.split)
    moreover have "creations_follow E ([EvProvider gs tok (ProjExists ?p) None] @
        [EvProvider gs tok (ProjCreate ?p (cs_private (c_spec cb))) e])"
      unfolding append_Cons append_Nil using True made(3)
      by (auto simp: preceded_two creations_follow_def creates_project_def answered_absent_def)
    ultimately show ?thesis by blast
  next
    case False
    then obtain es where "log (snd (createGitThirdPartyProject E gs tok cb s)) = log s @ es"
      and "list_all (\<lambda>ev. \<not> is_creation ev) es"
      by (cases "fst (NewGitProjectProvider E gs tok s)"; cases "provider_bool E (log s) gs tok (ProjExists ?p)")
        (auto simp: createGitThirdPartyProject_def bindp_run wrapping_run provider_ask_def ask_run
          NewGitProjectProvider_def)
    with creations_follow_none show ?thesis by blast
  qed
qed

abbreviation apart :: "('o st, 'a) prog \<Rightarrow> bool" where
  "apart m \<equiv> appends (\<lambda>ev. \<not> is_creation ev) m"

lemma apart_reader: "reader m \<Longrightarrow> apart m"
  by (rule reader_appends) (auto simp: is_read_def split: event.splits)

lemma apart_status [appends_intros]:
  "apart (setFailedFields E a msg)"
  "apart (setIntermediateSuccessFields E a)"
  "apart (updateGitStatusWithPatch E a gst)"
  unfolding setFailedFields_def setIntermediateSuccessFields_def updateGitStatusWithPatch_def
  by (auto intro!: appends_intros simp: Codebases_def)

lemma apart_checkout [appends_intros]: "apart (CheckoutBranch E b rc cb)"
  unfolding CheckoutBranch_def
  by (intro appends_intros apart_reader [OF reader_credentials]) simp_all

lemma apart_provider [appends_intros]: "apart (NewGitProjectProvider E gs tok)"
  by (intro apart_reader reader_intros)

lemma apart_remote [appends_intros]:
  "apart (remoteDefaultBranchAbsent E cb rc)"
  "apart (setDefaultBranch E rc cb)"
  "apart (createGerritProject E gs key name)"
  "apart (pushProject E name rc)"
  unfolding remoteDefaultBranchAbsent_def setDefaultBranch_def createGerritProject_def pushProject_def Let_def
  by (auto intro!: appends_intros)

lemma apart_adopt [appends_intros]: "apart (adoptPushedProject E rc)"
  unfolding adoptPushedProject_def by (intro appends_intros)

lemma apart_local [appends_intros]:
  "apart (PutProject_checkoutBranch E cb rc)"
  "apart (squashCommits E wd st)"
  "apart (tryToCloneRepo E url u p rc)"
  "apart (emptyProjectProvisioning E rc)"
  unfolding PutProject_checkoutBranch_def replaceDefaultBranch_def squashCommits_def
    tryToCloneRepo_def emptyProjectProvisioning_def Let_def
  by (auto intro!: appends_intros)

lemma apart_provisioning [appends_intros]: "apart (initialProjectProvisioning E cb rc)"
  unfolding initialProjectProvisioning_def notEmptyProjectProvisioning_def handleError_def
  by (intro appends_intros apart_reader [OF reader_credentials]) simp_all

lemma orderly_handleError [orderly_intros]: "orderly E m \<Longrightarrow> orderly E (handleError E' msg m)"
  unfolding handleError_def by (intro orderly_intros orderly_apart [OF apart_status(1)])

lemma orderly_create [orderly_intros]: "orderly E (createProject E rc)"
  unfolding createProject_def
  by (intro orderly_intros orderly_apart [OF apart_status(3)] orderly_apart [OF apart_remote(1)]
      orderly_apart [OF apart_remote(2)] orderly_apart [OF apart_remote(3)] orderly_apart [OF apart_remote(4)])

lemma orderly_PutProject: "orderly E (PutProject_ServeRequest E)"
  unfolding PutProject_ServeRequest_def putProject_def
  by (intro orderly_intros orderly_apart [OF apart_status(2)] orderly_apart [OF apart_status(3)]
      orderly_apart [OF apart_reader [OF reader_context]] orderly_apart [OF apart_adopt]
      orderly_apart [OF apart_provisioning] orderly_apart [OF apart_local(1)])

text \<open>The client was asked, and what the service itself answered to the request for the project.\<close>

definition service_said_absent :: "env \<Rightarrow> git_server \<Rightarrow> string \<Rightarrow> string \<Rightarrow> bool" where
  "service_said_absent E gs tok p \<longleftrightarrow>
     (\<exists>c h. provider_of gs tok = Some c \<and> says_no_project E c (GetGitProviderAPIURL gs) p h)"

definition absence_answered :: "env \<Rightarrow> git_server \<Rightarrow> string \<Rightarrow> string \<Rightarrow> event \<Rightarrow> bool" where
  "absence_answered E gs tok p ev \<longleftrightarrow>
     ev = EvProvider gs tok (ProjExists p) None \<and> service_said_absent E gs tok p"

lemma answered_absent_wired: "answered_absent (wired E) gs tok p ev \<Longrightarrow> absence_answered E gs tok p ev"
proof -
  assume "answered_absent (wired E) gs tok p ev"
  then obtain c h where ev: "ev = EvProvider gs tok (ProjExists p) None" and c: "provider_of gs tok = Some c"
    and "fst (ProjectExists E c (GetGitProviderAPIURL gs) tok p \<lparr>obj = (), log = h\<rparr>) = Ok False"
    by (auto simp: answered_absent_def with_client_def answer_Inr)
  then have "ProjectExists E c (GetGitProviderAPIURL gs) tok p \<lparr>obj = (), log = h\<rparr> =
      (Ok False, snd (ProjectExists E c (GetGitProviderAPIURL gs) tok p \<lparr>obj = (), log = h\<rparr>))"
    by (simp add: prod_eq_iff)
  from absence_is_the_services_word [OF this] ev c show ?thesis
    unfolding absence_answered_def service_said_absent_def by auto
qed

text \<open>
  C33: putting a project over the hosting clients. A project is created on a hosting service
  only after the client was asked for it and the service itself said that there is none: not
  found to the request for that very repository for GitHub and GitLab, at the address of the
  server; for Bitbucket an answer to the query for its owner and name that does not list its
  full name. A request that fails, another status and an identifier that does not parse never
  lead to a creation.
\<close>

theorem project_created_on_the_services_word:
  "preceded (creates_project gs tok p) (absence_answered E gs tok p)
     (added s (snd (PutProject_ServeRequest (wired E) s)))"
proof -
  obtain es where "log (snd (PutProject_ServeRequest (wired E) s)) = log s @ es"
    and es: "creations_follow (wired E) es"
    using orderlyD [OF orderly_PutProject] by blast
  then have "added s (snd (PutProject_ServeRequest (wired E) s)) = es" by (simp add: added_def)
  with es show ?thesis
    unfolding creations_follow_def using answered_absent_wired by (metis preceded_mono)
qed

section \<open>Examples\<close>


text \<open>A remote repository that is missing, so that the project is pushed.\<close>

definition missing_remote_env :: env where
  "missing_remote_env = git_env\<lparr>gogit_of := null_gogit\<lparr>gg_advertised :=
     \<lambda>h c. Inl (GErr ''repository not found'' [KRepositoryNotFound])\<rparr>\<rparr>"

lemma missing_remote_foreign: "foreign_errors missing_remote_env"
  by (simp add: foreign_errors_def missing_remote_env_def git_env_def example_defs errors_is_def)

lemma missing_remote_pushed:
  "filter is_push (log (snd (PutProject_ServeRequest (wired missing_remote_env) fresh))) \<noteq> []"
  by code_simp

lemma missing_remote_keeps: "keeps_project missing_remote_env"
  by (simp add: keeps_project_def missing_remote_env_def git_env_def null_env_def empty_api_def)

theorem push_overwrites_nothing_witness:
  "filter is_push (added fresh (snd (PutProject_ServeRequest (wired missing_remote_env) fresh))) \<noteq> [] \<and>
   overwrites_nothing missing_remote_env (obj fresh) (added fresh
     (snd (PutProject_ServeRequest (wired missing_remote_env) fresh)))"
  using push_overwrites_nothing [OF missing_remote_foreign missing_remote_keeps, of fresh] missing_remote_pushed
  by (simp add: added_def fresh_def)

end
