(* ===== verification/Push_Once.thy ===== *)
theory Push_Once
  imports Put_Project
begin

text \<open>
  The project of a Codebase over all the runs of the handler that puts it
  (\<open>controllers/codebase/service/chain/put_project.go\<close>) as a transition system. A run may end
  after any of its calls, when the process dies or loses the answer of the last one; the
  next run starts from whatever was stored. A state is what the remote repository went
  through.
\<close>

section \<open>What a call does to the remote repository\<close>

text \<open>
  Where the working copy is linked to, whether the repository of the project has the default
  branch, and how many pushes have reached it.
\<close>

record remote_state =
  rm_origin :: "string option"
  rm_present :: bool
  rm_pushes :: nat

definition links :: "event \<Rightarrow> bool" where
  "links ev \<longleftrightarrow> (case ev of EvGit cfg (GitAddRemote dir u) None \<Rightarrow> True | _ \<Rightarrow> False)"

definition found_absent :: "string \<Rightarrow> string \<Rightarrow> event \<Rightarrow> bool" where
  "found_absent url branch ev \<longleftrightarrow>
     (case ev of EvGit cfg (GitResolve u b) (Some e) \<Rightarrow> u = url \<and> b = branch \<and> errors_is e KReferenceNotFound
      | _ \<Rightarrow> False)"

text \<open>
  Where a refspec \<open>src:dst\<close> sends a reference; a star stands for the rest of its name.
\<close>

definition refspec_sends :: "string \<Rightarrow> string \<Rightarrow> string option" where
  "refspec_sends spec ref =
     (case split_on CHR '':'' spec of
        [src, dst] \<Rightarrow>
          if has_suffix ''*'' src then
            (if has_prefix (butlast src) ref then Some (butlast dst @ drop (length src - 1) ref) else None)
          else if src = ref then Some dst else None
      | _ \<Rightarrow> None)"

definition sends_head :: "string \<Rightarrow> string list \<Rightarrow> bool" where
  "sends_head branch specs \<longleftrightarrow>
     (\<exists>spec \<in> set specs. refspec_sends spec (''refs/heads/'' @ branch) = Some (''refs/heads/'' @ branch))"

text \<open>
  The answer that the default branch does not exist is the truth. A push that reaches the
  repository leaves it with the branch, which is one of the heads of the working copy, when
  one of its refspecs sends that head there; a push that was answered with an error may have
  reached it.
\<close>

inductive effect :: "string \<Rightarrow> string \<Rightarrow> event \<Rightarrow> remote_state \<Rightarrow> remote_state \<Rightarrow> bool" for url branch where
  absent: "found_absent url branch ev \<Longrightarrow> \<not> rm_present w \<Longrightarrow> effect url branch ev w w"
| linked: "effect url branch (EvGit cfg (GitAddRemote dir u) None) w (w\<lparr>rm_origin := Some u\<rparr>)"
| pushed: "rm_origin w = Some url \<Longrightarrow>
     effect url branch (EvGit cfg (GitPush dir specs) r) w 
       (w\<lparr>rm_present := rm_present w \<or> sends_head branch specs, rm_pushes := Suc (rm_pushes w)\<rparr>)"
| refused: "effect url branch (EvGit cfg (GitPush dir specs) (Some e)) w w"
| elsewhere: "rm_origin w \<noteq> Some url \<Longrightarrow> effect url branch (EvGit cfg (GitPush dir specs) r) w w"
| other: "\<not> is_push ev \<Longrightarrow> \<not> links ev \<Longrightarrow> \<not> found_absent url branch ev \<Longrightarrow> effect url branch ev w w"

inductive effects :: "string \<Rightarrow> string \<Rightarrow> event list \<Rightarrow> remote_state \<Rightarrow> remote_state \<Rightarrow> bool" for url branch where
  nothing: "effects url branch [] w w"
| then_do: "effect url branch ev w w1 \<Longrightarrow> effects url branch es w1 w2 \<Longrightarrow> effects url branch (ev # es) w w2"

inductive_cases effects_NilE: "effects url branch [] w w'"
inductive_simps effects_Nil [simp]: "effects url branch [] w w'"

section \<open>The runs\<close>




section \<open>One run\<close>





lemma all_heads_sent [simp]: "sends_head branch (''refs/heads/*:refs/heads/*'' # specs)"
  by (simp add: sends_head_def refspec_sends_def has_prefix_def has_suffix_def)





section \<open>The history of a project is pushed once\<close>


section \<open>Example\<close>










end
