(* ===== verification/Argo_Types.thy ===== *)
theory Argo_Types
  imports Api_Types
begin

text \<open>
  The Argo CD objects of \<open>pkg/argocd/types.go\<close>: an application built from options, each a
  function on the settings, and the source of an application.
\<close>

abbreviation applicationKind :: string where "applicationKind \<equiv> ''Application''"
abbreviation applicationAPIVersion :: string where "applicationAPIVersion \<equiv> ''v1alpha1''"
abbreviation applicationGroup :: string where "applicationGroup \<equiv> ''argoproj.io''"

section \<open>Options\<close>

text \<open>A map of Go is \<open>None\<close> when it is nil.\<close>

record applicationOption =
  ao_name :: string
  ao_namespace :: string
  ao_spec :: "(string \<times> json) list option"
  ao_labels :: "smap option"

definition no_options :: applicationOption where
  "no_options = \<lparr>ao_name = [], ao_namespace = [], ao_spec = None, ao_labels = None\<rparr>"

type_synonym Option = "applicationOption \<Rightarrow> applicationOption"

definition WithName :: "string \<Rightarrow> Option" where
  "WithName name = (\<lambda>opts. opts\<lparr>ao_name := name\<rparr>)"

definition WithNamespace :: "string \<Rightarrow> Option" where
  "WithNamespace namespace = (\<lambda>opts. opts\<lparr>ao_namespace := namespace\<rparr>)"

definition WithLabels :: "smap option \<Rightarrow> Option" where
  "WithLabels labels = (\<lambda>opts. opts\<lparr>ao_labels := labels\<rparr>)"

definition WithSpec :: "(string \<times> json) list option \<Rightarrow> Option" where
  "WithSpec spec = (\<lambda>opts. opts\<lparr>ao_spec := spec\<rparr>)"

section \<open>Applications\<close>

text \<open>An unstructured object: its metadata and the other members.\<close>

record argo_application =
  aa_meta :: objmeta
  aa_object :: "(string \<times> json) list"

text \<open>What \<open>SetGroupVersionKind\<close> writes.\<close>

definition argo_kind :: "(string \<times> json) list" where
  "argo_kind = [(''apiVersion'', JStr (applicationGroup @ ''/'' @ applicationAPIVersion)),
     (''kind'', JStr applicationKind)]"

definition NewArgoCDApplication :: "Option list \<Rightarrow> argo_application" where
  "NewArgoCDApplication opts =
     (let opt = foldl (\<lambda>o1 applyOption. applyOption o1) no_options opts in
      \<lparr>aa_meta = (new_meta (ao_name opt) (ao_namespace opt))\<lparr>m_labels := ao_labels opt\<rparr>,
       aa_object = (case ao_spec opt of
           None \<Rightarrow> argo_kind
         | Some spec \<Rightarrow> argo_kind @ [(''spec'', JObj spec)])\<rparr>)"

definition NewArgoCDApplicationList :: "(string \<times> json) list" where
  "NewArgoCDApplicationList = argo_kind"

section \<open>Sources\<close>

record HelmParameter =
  hp_name :: string
  hp_value :: string
  hp_forceString :: bool

record SourceHelm =
  sh_releaseName :: string
  sh_valueFiles :: "string list"
  sh_parameters :: "HelmParameter list"

record ApplicationSource =
  as_helm :: "SourceHelm option"
  as_targetRevision :: string
  as_repoURL :: string
  as_path :: string
  as_ref :: string

section \<open>The last option of a kind decides\<close>

lemma options_snoc:
  "foldl (\<lambda>o1 applyOption. applyOption o1) o0 (opts @ [f]) =
   f (foldl (\<lambda>o1 applyOption. applyOption o1) o0 opts)"
  by simp

lemma last_name_decides:
  "m_name (aa_meta (NewArgoCDApplication (opts @ [WithName n]))) = n"
  "m_ns (aa_meta (NewArgoCDApplication (opts @ [WithName n]))) =
     m_ns (aa_meta (NewArgoCDApplication opts))"
  by (simp_all add: NewArgoCDApplication_def WithName_def new_meta_def Let_def)

text \<open>No option changes what the object is.\<close>

lemma options_keep_kind:
  "take 2 (aa_object (NewArgoCDApplication opts)) = argo_kind"
  by (simp add: NewArgoCDApplication_def argo_kind_def Let_def split: option.splits)

end
