(* ===== verification/Spec2Isabelle.thy ===== *)
theory Spec2Isabelle
  imports Deploy_Queue Codebase_Deletion Stale_Check Image_Stream_Controller Jira_Metadata_Controller
    Git_Server_Controller Hosting_Client Integration_Secret Git_Client Gerrit_Client Event_Filters Startup
    Assembly Push_Once Argo_Types
begin

text \<open>
  A model of the codebase operator of KubeRocketCI
  (\<open>github.com/epam/edp-codebase-operator\<close>), a Kubernetes operator that provisions git
  repositories, branches, webhooks and image streams, and starts deployments. Paths below are
  those under \<open>src/\<close>.

  \<^bold>\<open>The program.\<close> \<open>cmd/main.go\<close> registers one controller for each kind of resource. A
  controller is woken by an event its predicates let through, fetches the resource, works on
  the copy in hand by a chain of handlers, stores status, specification or metadata, and says
  when it is to be called again. The handlers talk to the Kubernetes API, to git servers (by
  git, by ssh for Gerrit, by REST for GitHub, GitLab and Bitbucket), to Jira and to the file
  system. Admission webhooks guard creation and deletion, and a periodic sweep looks for
  branches that are gone from their repositories.

  \<^bold>\<open>The model.\<close> Go's strings are strings of bytes, structs are records, its \<open>int\<close> is an
  integer that wraps at 64 bits where the code can reach that (\<open>i64\<close>), a nil map or pointer is
  \<open>None\<close>. A Go call ends with a value, an error or a panic (\<open>outcome\<close>); an error is its text and
  the sentinels found on its chain, so that \<open>errors.Is\<close> and \<open>%w\<close> mean what they mean in Go.
  A handler is a state-passing program (\<open>prog\<close>) whose state is the resource in hand, which
  handlers change in place, and the history of everything done so far. All that is not code
  of the repository is a parameter, the record \<open>env\<close>: each call is answered by a function of the
  history, so that a theorem for all environments covers every failure of a call and every
  change others make between two calls. Library functions whose value does not depend on the
  world are the fields of \<open>lib\<close>. A theorem that needs more of them than that says so in a
  hypothesis, which the example environments of the witnesses satisfy: \<open>echoes\<close>, a write that
  is accepted returns what it was sent; \<open>keeps_project\<close>, it returns it at least with the same
  name, specification and provisioning status; \<open>foreign_errors\<close>, go-git and the ssh library do
  not return the git client's own sentinel; \<open>steady\<close>, a cluster that answers the same
  throughout a sweep. Go folds letter case as Unicode does: \<open>equal_fold\<close> is exact for texts of
  which one is ASCII (\<open>fold_case\<close> folds the two other letters that have an ASCII fold), and
  \<open>strings.ToLower\<close> is modelled on the ASCII letters only.

  \<^bold>\<open>Foundations.\<close>
  \<^item> \<open>Prelude\<close>: errors, outcomes, programs, Go's \<open>strings\<close>, string maps; \<open>keeps\<close>, the state
    properties a program leaves alone, with introduction rules for every combinator.
  \<^item> \<open>Api_Types\<close> (\<open>api/v1\<close>): the resources. \<open>Kube\<close>: the environment, the history, the typed
    client, and \<open>appends\<close>, \<open>reader\<close>: which events a program may add. \<open>Go_Std\<close>: JSON, integers and
    durations of Go's standard library. \<open>Sha1\<close>: the hash of the empty packfile.
    \<open>Random_Token\<close> (\<open>pkg/util/rand.go\<close>): base64, injective, and the tokens of webhooks.
  \<^item> \<open>Example_Env\<close>: the environment the witnesses start from.

  \<^bold>\<open>Codebases\<close> (\<open>controllers/codebase\<close>, \<open>pkg/util\<close>, \<open>pkg/objectmodifier\<close>,
  \<open>pkg/gitprovider/provider.go\<close>).
  \<^item> \<open>Url_Util\<close>, \<open>Object_Modifier\<close>, \<open>Codebase_Common\<close>, \<open>Git_Providers\<close>: URLs, directories,
    delays; the defaults; the repository context; the choice of the client.
  \<^item> \<open>Put_Project\<close>, \<open>Templates\<close>, \<open>Codebase_Handlers\<close>, \<open>Codebase_Controller\<close>: the chain,
    handler by handler, and \<open>Reconcile\<close>. \<open>Push_Once\<close>: all the runs of the handler that puts the
    project, each cut off anywhere, as a transition system: the history is pushed at most once,
    when every run sees the same specification and repository address, the remote answers
    truthfully and nobody deletes its default branch. What a push does there is read off its
    refspecs.
  \<^item> \<open>Codebase_Invariant\<close>, \<open>Codebase_Deletion\<close>: locales that carry a property of the Codebase in
    hand through the whole reconciliation, and their interpretations: the provisioning status
    never goes back, a status keeps its type, a Codebase is available only when its project was
    pushed, a failure of any handler is retried after the delay of its count, the finalizer
    goes last.

  \<^bold>\<open>Branches\<close> (\<open>controllers/codebasebranch\<close>, \<open>pkg/codebasebranch\<close>, \<open>pkg/deploymentusage\<close>).
  \<^item> \<open>Branch_Chain\<close>, \<open>Branch_Controller\<close>, \<open>Branch_Invariant\<close>: the chain, \<open>Reconcile\<close>, and what it
    keeps: the status follows git and the version history only grows.
  \<^item> \<open>Deployment_Usage\<close>: who uses a codebase or a branch; the index of a namespace answers as a
    scan does. \<open>Stale_Check\<close>: the sweep deletes only branches that are unused and gone from
    the repository of their own codebase.

  \<^bold>\<open>Deployments\<close> (\<open>controllers/cdstagedeploy\<close>, \<open>controllers/codebaseimagestream\<close>,
  \<open>pkg/autodeploy\<close>, \<open>pkg/tektoncd\<close>, \<open>pkg/codebaseimagestream\<close>).
  \<^item> \<open>Image_Stream\<close>, \<open>Autodeploy\<close>, \<open>Tekton\<close>: newest tags, payloads, pipeline runs made from
    trigger templates; the payload a template is filled with is read back from it by a JSON
    reader. \<open>Image_Stream_Controller\<close>: deploys of the newest tag.
  \<^item> \<open>Stage_Deploy\<close>: the queue of a stage. The inductive relation \<open>deploy_step\<close> is its abstract
    state machine; the reconciliation refines it, starts nothing beside a running deploy, and
    starts exactly the oldest deploy once the runs are complete and all deploys wait.
    \<open>Deploy_Queue\<close>: the deploys of a cluster as a transition system whose steps are whole
    reconciliations; a stage runs one pipeline at a time, but for retries of failed deploys
    and incomplete listings.

  \<^bold>\<open>Git servers and their clients\<close> (\<open>controllers/gitserver\<close>, \<open>pkg/git\<close>, \<open>pkg/gerrit\<close>,
  \<open>pkg/gitprovider\<close>, \<open>pkg/sshhostkey\<close>).
  \<^item> \<open>Git_Server_Controller\<close>, \<open>Event_Listener\<close>: connection, ownership of the credentials, and the
    Tekton listener with the ingress, HTTP route or OpenShift route that exposes it; the
    address the webhooks of codebases get is its. The results of the phases determine the
    status.
  \<^item> \<open>Git_Client\<close>: the operations over go-git, and branches made by a bare reference update.
    \<open>Ssh_Host_Key\<close>, \<open>Gerrit_Client\<close>: the ssh side.
  \<^item> \<open>Rest_Client\<close>, \<open>Github_Client\<close>, \<open>Gitlab_Client\<close>, \<open>Bitbucket_Client\<close>, \<open>Hosting_Client\<close>: the REST
    clients. The locale \<open>web_hook_client\<close> states what callers rely on, and is interpreted on
    each client and on their dispatch.

  \<^bold>\<open>The components together.\<close> \<open>Assembly\<close>: the environment in which git, the hosting services and
  Gerrit answer as the models of their clients do (\<open>wired\<close>). With it the statements on the chains
  reach go-git and the services: a push overwrites nothing the remote shows, a branch that is
  stored exists, a project is created only on the service's word.

  \<^bold>\<open>The rest.\<close> \<open>Webhooks\<close> (\<open>pkg/webhook\<close>, \<open>pkg/predicate\<close>): admission and the pause filter.
  \<open>Git_Path_Label\<close>: the label that identifies a repository, with SHA-256 on words.
  \<open>Jira_Client\<close>, \<open>Jira_Server_Controller\<close>, \<open>Jira_Metadata_Chain\<close>, \<open>Jira_Metadata_Controller\<close>
  (\<open>pkg/client/jira\<close>, \<open>controllers/jiraserver\<close>, \<open>controllers/jiraissuemetadata\<close>);
  \<open>Integration_Secret\<close>; \<open>Telemetry\<close>; \<open>Event_Filters\<close>: what wakes which controller; \<open>Startup\<close>:
  the settings, the flags, the options of the servers and the order of \<open>cmd/main.go\<close>.
  \<open>Argo_Types\<close> (\<open>pkg/argocd\<close>): Argo CD applications built from options.

  \<^bold>\<open>Bounds and fuel.\<close> Loops are structural recursions on the list they visit. Three are
  bounded: \<open>RetryOnConflict\<close> of the Kubernetes client library, of which the model has the
  documented contract with the number of tries as a parameter, and no property rests on that
  number; the JSON reader, which is started with more than twice the length of its input, and any more
  gives the same value (\<open>json_parse_fuel\<close>); and the loops of \<open>Telemetry\<close> and \<open>Startup\<close> that end with their process,
  which are functions of the signals they receive.

  \<^bold>\<open>Not modelled.\<close> Logging and events of tracing; closing of files and sessions, whose
  errors are only logged; generated code (deep copies, the generated Bitbucket client, mocks);
  \<open>api/v1alpha1\<close>, whose types no code uses; options of the log; the concurrency inside the manager: a reconciliation is one sequence of calls, and
  what runs beside it shows in the answers of the environment only. Map iteration orders are
  parameters. The text of errors of the JSON decoder and of libraries is a parameter too.
\<close>

end
